(* ===== verification/Prelude.thy ===== *)
theory Prelude
  imports Main "HOL-Library.Word" "HOL-Library.Monad_Syntax" "HOL-Library.AList"
    "HOL-Library.List_Lexorder" "HOL-Library.Char_ord" "HOL-Library.Multiset"
begin

text \<open>
  Shared vocabulary of the development: the Go values every component uses (32-bit integers,
  maps with string keys, errors with wrapped causes), the collections of simplification rules
  the component theories fill, and the generic lemmas on association lists, prefixes and
  option-valued computations their proofs share.

  A Go \<open>map[string]string\<close> is an association list with distinct keys. The list order is the order
  in which one \<open>range\<close> statement happens to visit the map; results that must not depend on that
  order are proved equal for all permutations. A nil map reads as the empty one, as in Go, where
  lookup and \<open>range\<close> treat the two alike.

  A Go \<open>error\<close> is its text together with the cause wrapped by the verb \<open>%w\<close>; errors of the
  Kubernetes API carry their status reason.
\<close>

named_theorems builder_defs \<open>definitions of the resource builders\<close>
named_theorems trace_simps \<open>how operations extend the trace of external calls\<close>
named_theorems webhook_defs \<open>definitions of the admission webhooks\<close>

type_synonym int32 = "32 word"
type_synonym gomap = "(string \<times> string) list"

datatype error =
    Errorf string
  | Wrapf string error
  | StatusError string string

type_synonym 'a result = "error + 'a"

fun Error :: "error \<Rightarrow> string" where
  "Error (Errorf m) = m"
| "Error (Wrapf p e) = p @ '': '' @ Error e"
| "Error (StatusError r m) = m"

text \<open>\<open>errors.IsNotFound\<close> looks at the status reason of an API error.\<close>

fun IsNotFound :: "error \<Rightarrow> bool" where
  "IsNotFound (StatusError r m) \<longleftrightarrow> r = ''NotFound''"
| "IsNotFound (Wrapf p e) = IsNotFound e"
| "IsNotFound (Errorf m) = False"

section \<open>Go maps\<close>

definition mget :: "gomap \<Rightarrow> string \<Rightarrow> string" where
  "mget m k = (case map_of m k of None \<Rightarrow> [] | Some v \<Rightarrow> v)"

definition moverlay :: "gomap \<Rightarrow> gomap \<Rightarrow> gomap" where
  "moverlay d u = fold (\<lambda>(k, v) m. AList.update k v m) u d"

definition is_gomap :: "gomap \<Rightarrow> bool" where
  "is_gomap m \<longleftrightarrow> distinct (map fst m)"

lemma map_of_moverlay: "is_gomap u \<Longrightarrow> map_of (moverlay d u) = map_of d ++ map_of u"
proof (induction u arbitrary: d)
  case Nil
  then show ?case by (simp add: moverlay_def)
next
  case (Cons a u)
  obtain k v where a: "a = (k, v)" by (cases a)
  from Cons.prems a have u: "is_gomap u" and k: "k \<notin> fst ` set u"
    by (auto simp: is_gomap_def)
  from k have none: "map_of u k = None" by (simp add: map_of_eq_None_iff)
  have "map_of (moverlay d (a # u)) = map_of (moverlay (AList.update k v d) u)"
    by (simp add: moverlay_def a)
  also have "\<dots> = (map_of d)(k \<mapsto> v) ++ map_of u"
    using Cons.IH [OF u, of "AList.update k v d"] by (simp only: update_conv')
  also have "\<dots> = map_of d ++ map_of (a # u)"
    using none by (auto simp: a map_add_def fun_eq_iff split: option.split)
  finally show ?case .
qed

lemma is_gomap_moverlay [simp]: "is_gomap d \<Longrightarrow> is_gomap (moverlay d u)"
proof (induction u arbitrary: d)
  case Nil
  then show ?case by (simp add: moverlay_def)
next
  case (Cons a u)
  obtain k v where a: "a = (k, v)" by (cases a)
  have "is_gomap (AList.update k v d)"
    using Cons.prems by (simp add: is_gomap_def distinct_update)
  then show ?case using Cons.IH by (simp add: moverlay_def a)
qed

lemma mget_eq_map_of: "map_of m = map_of m' \<Longrightarrow> mget m k = mget m' k"
  by (simp add: mget_def)

section \<open>Lists\<close>

lemma mset_distinct_map_fst:
  assumes "mset m = mset m'" and "is_gomap m"
  shows "is_gomap m'"
proof -
  have "mset (map fst m) = mset (map fst m')" using assms(1) by (metis mset_map)
  then show ?thesis using assms(2) by (metis is_gomap_def mset_eq_imp_distinct_iff)
qed

lemma map_of_perm:
  assumes "mset m = mset m'" and "is_gomap m"
  shows "map_of m = map_of m'"
proof -
  have "is_gomap m'" using assms by (rule mset_distinct_map_fst)
  moreover have "set m = set m'" using assms(1) by (rule mset_eq_setD)
  ultimately show ?thesis using assms(2) by (simp add: is_gomap_def map_of_inject_set)
qed

lemma append_eq_split_first:
  assumes "xs @ c # ys = xs' @ c # ys'" and "c \<notin> set xs" and "c \<notin> set xs'"
  shows "xs = xs' \<and> ys = ys'"
  using assms
proof (induction xs arbitrary: xs')
  case Nil
  then show ?case by (cases xs') auto
next
  case (Cons x xs)
  then show ?case by (cases xs') auto
qed

lemma find_Some_in: "find P xs = Some x \<Longrightarrow> x \<in> set xs \<and> P x"
  by (induction xs) (auto split: if_splits)

end
