(* ===== verification/Api_Types.thy ===== *)
theory Api_Types
  imports Prelude
begin

text \<open>
  The custom resources of \<open>api/v1alpha1\<close>: the specs and statuses of \<open>Redis\<close>, \<open>RedisSentinel\<close> and
  \<open>RedisCluster\<close> as records with the fields of the Go structs, and the constants of
  \<open>common_types.go\<close>. Fields that several structs share carry a prefix for the struct (\<open>r_\<close>, \<open>s_\<close>,
  \<open>c_\<close>). Pointers are options. Replica counts keep their 32 bits.

  Types of the Kubernetes API that the operator copies but never looks into (affinities,
  tolerations) are their serialised text. A resource quantity is its exact value in units of
  10^-9, the finest scale the API allows; only its order matters to the code.
\<close>

type_synonym Quantity = int
type_synonym Affinity = string
type_synonym Toleration = string

record ResourceRequirements =
  rr_Limits :: "(string \<times> Quantity) list"
  rr_Requests :: "(string \<times> Quantity) list"

section \<open>Metadata and conditions\<close>

record ObjectMeta =
  om_Name :: string
  om_Namespace :: string
  om_Labels :: gomap
  om_Annotations :: gomap
  om_Finalizers :: "string list"
  om_OwnerReferences :: "string list"
  om_CreationTimestamp :: "int option"
  om_DeletionTimestamp :: "int option"
  om_Generation :: int

definition newMeta :: "string \<Rightarrow> string \<Rightarrow> gomap \<Rightarrow> ObjectMeta" where
  "newMeta name ns labels =
     \<lparr>om_Name = name, om_Namespace = ns, om_Labels = labels, om_Annotations = [], om_Finalizers = [],
      om_OwnerReferences = [], om_CreationTimestamp = None, om_DeletionTimestamp = None,
      om_Generation = 0\<rparr>"

record Condition =
  cd_Type :: string
  cd_Status :: string
  cd_ObservedGeneration :: int
  cd_LastTransitionTime :: int
  cd_Reason :: string
  cd_Message :: string

section \<open>common\_types.go\<close>

record StorageSpec =
  ClassName :: "string option"
  Size :: string
  KeepAfterDeletion :: bool

record AuthSpec =
  auth_SecretName :: string

record TLSSpec =
  tls_SecretName :: string

definition FinalizerName :: string where "FinalizerName = ''redis.example.com/finalizer''"
definition PhaseInitializing :: string where "PhaseInitializing = ''Initializing''"
definition PhaseReady :: string where "PhaseReady = ''Ready''"
definition PhaseFailed :: string where "PhaseFailed = ''Failed''"
definition PhaseScaling :: string where "PhaseScaling = ''Scaling''"
definition PhaseRecovering :: string where "PhaseRecovering = ''Recovering''"
definition DefaultRedisImage :: string where "DefaultRedisImage = ''redis:7.2-alpine''"
definition DefaultExporterImage :: string where
  "DefaultExporterImage = ''oliver006/redis_exporter:latest''"

lemmas phase_defs = PhaseInitializing_def PhaseReady_def PhaseFailed_def PhaseScaling_def
  PhaseRecovering_def

lemma phases_distinct:
  "distinct [[], PhaseInitializing, PhaseReady, PhaseFailed, PhaseScaling, PhaseRecovering]"
  by (simp add: phase_defs)

section \<open>redis\_types.go\<close>

record RedisSpec =
  r_Image :: string
  r_Resources :: ResourceRequirements
  r_Storage :: "StorageSpec option"
  r_RedisConfig :: gomap
  r_Auth :: "AuthSpec option"
  r_TLS :: "TLSSpec option"
  r_EnableExporter :: "bool option"
  r_ExporterImage :: string
  r_Affinity :: "Affinity option"
  r_Tolerations :: "Toleration list"
  r_NodeSelector :: gomap

record RedisStatus =
  r_Phase :: string
  r_Message :: string
  r_Conditions :: "Condition list"
  r_RedisVersion :: string
  r_ReadyReplicas :: int32

record Redis =
  r_Meta :: ObjectMeta
  r_Spec :: RedisSpec
  r_Status :: RedisStatus

section \<open>redissentinel\_types.go\<close>

record RedisSentinelSpec =
  s_Replicas :: int32
  s_SentinelReplicas :: int32
  s_Image :: string
  s_SentinelImage :: string
  s_Resources :: ResourceRequirements
  s_SentinelResources :: ResourceRequirements
  s_Storage :: "StorageSpec option"
  s_RedisConfig :: gomap
  s_SentinelConfig :: gomap
  s_Auth :: "AuthSpec option"
  s_TLS :: "TLSSpec option"
  s_EnableExporter :: "bool option"
  s_ExporterImage :: string
  s_Affinity :: "Affinity option"
  s_Tolerations :: "Toleration list"
  s_NodeSelector :: gomap

record RedisSentinelStatus =
  s_Phase :: string
  s_Message :: string
  s_Conditions :: "Condition list"
  s_MasterNode :: string
  s_ReadyReplicas :: int32
  s_ReadySentinels :: int32

record RedisSentinel =
  s_Meta :: ObjectMeta
  s_Spec :: RedisSentinelSpec
  s_Status :: RedisSentinelStatus

section \<open>rediscluster\_types.go\<close>

record RedisClusterSpec =
  c_Masters :: int32
  c_ReplicasPerMaster :: int32
  c_Image :: string
  c_Resources :: ResourceRequirements
  c_MasterResources :: "ResourceRequirements option"
  c_ReplicaResources :: "ResourceRequirements option"
  c_Storage :: "StorageSpec option"
  c_RedisConfig :: gomap
  c_Auth :: "AuthSpec option"
  c_TLS :: "TLSSpec option"
  c_EnableExporter :: "bool option"
  c_ExporterImage :: string
  c_MasterAffinity :: "Affinity option"
  c_MasterTolerations :: "Toleration list"
  c_MasterNodeSelector :: gomap
  c_ReplicaAffinity :: "Affinity option"
  c_ReplicaTolerations :: "Toleration list"
  c_ReplicaNodeSelector :: gomap

record RedisNodeStatus =
  ns_NodeID :: string
  ns_PodName :: string
  ns_IP :: string
  ns_Role :: string
  ns_Slots :: string
  ns_MasterRef :: string
  ns_Health :: string

record RedisClusterStatus =
  c_Phase :: string
  c_Message :: string
  c_Conditions :: "Condition list"
  c_ReadyMasters :: int32
  c_ReadyReplicas :: int32
  c_AssignedSlots :: int32
  c_ClusterState :: string
  c_Nodes :: "RedisNodeStatus list"

record RedisCluster =
  c_Meta :: ObjectMeta
  c_Spec :: RedisClusterSpec
  c_Status :: RedisClusterStatus

section \<open>Zero values\<close>

text \<open>The zero value Go gives a struct whose fields are not set, under a given name.\<close>

definition zeroResources :: ResourceRequirements where
  "zeroResources = \<lparr>rr_Limits = [], rr_Requests = []\<rparr>"

definition zeroRedis :: "string \<Rightarrow> string \<Rightarrow> Redis" where
  "zeroRedis name ns =
     \<lparr>r_Meta = newMeta name ns [],
      r_Spec = \<lparr>r_Image = [], r_Resources = zeroResources, r_Storage = None, r_RedisConfig = [],
        r_Auth = None, r_TLS = None, r_EnableExporter = None, r_ExporterImage = [],
        r_Affinity = None, r_Tolerations = [], r_NodeSelector = []\<rparr>,
      r_Status = \<lparr>r_Phase = [], r_Message = [], r_Conditions = [], r_RedisVersion = [],
        r_ReadyReplicas = 0\<rparr>\<rparr>"

definition zeroRedisSentinel :: "string \<Rightarrow> string \<Rightarrow> RedisSentinel" where
  "zeroRedisSentinel name ns =
     \<lparr>s_Meta = newMeta name ns [],
      s_Spec = \<lparr>s_Replicas = 0, s_SentinelReplicas = 0, s_Image = [], s_SentinelImage = [],
        s_Resources = zeroResources, s_SentinelResources = zeroResources, s_Storage = None,
        s_RedisConfig = [], s_SentinelConfig = [], s_Auth = None, s_TLS = None,
        s_EnableExporter = None, s_ExporterImage = [], s_Affinity = None, s_Tolerations = [],
        s_NodeSelector = []\<rparr>,
      s_Status = \<lparr>s_Phase = [], s_Message = [], s_Conditions = [], s_MasterNode = [],
        s_ReadyReplicas = 0, s_ReadySentinels = 0\<rparr>\<rparr>"

definition zeroRedisCluster :: "string \<Rightarrow> string \<Rightarrow> RedisCluster" where
  "zeroRedisCluster name ns =
     \<lparr>c_Meta = newMeta name ns [],
      c_Spec = \<lparr>c_Masters = 0, c_ReplicasPerMaster = 0, c_Image = [], c_Resources = zeroResources,
        c_MasterResources = None, c_ReplicaResources = None, c_Storage = None, c_RedisConfig = [],
        c_Auth = None, c_TLS = None, c_EnableExporter = None, c_ExporterImage = [],
        c_MasterAffinity = None, c_MasterTolerations = [], c_MasterNodeSelector = [],
        c_ReplicaAffinity = None, c_ReplicaTolerations = [], c_ReplicaNodeSelector = []\<rparr>,
      c_Status = \<lparr>c_Phase = [], c_Message = [], c_Conditions = [], c_ReadyMasters = 0,
        c_ReadyReplicas = 0, c_AssignedSlots = 0, c_ClusterState = [], c_Nodes = []\<rparr>\<rparr>"

lemmas zero_defs = zeroResources_def zeroRedis_def zeroRedisSentinel_def zeroRedisCluster_def newMeta_def

end
