(* ===== verification/K8s_Types.thy ===== *)
theory K8s_Types
  imports Api_Types
begin

text \<open>
  The Kubernetes objects the operator builds or reads, as far as the operator sets or looks at
  their fields: config maps, workloads with their pod templates, services, disruption budgets,
  service monitors, volume claims and pods. A Go struct of which exactly one pointer is set
  (the source of a variable or of a volume) is a datatype.
\<close>

section \<open>Pods\<close>

datatype EnvVarSource =
    FieldRef string
  | SecretKeyRef string string

record EnvVar =
  ev_Name :: string
  ev_Value :: string
  ev_ValueFrom :: "EnvVarSource option"

record VolumeMount =
  vm_Name :: string
  vm_MountPath :: string
  vm_ReadOnly :: bool

record Probe =
  pr_ExecCommand :: "string list"
  pr_InitialDelaySeconds :: int32
  pr_PeriodSeconds :: int32
  pr_TimeoutSeconds :: int32
  pr_FailureThreshold :: int32

record ContainerPort =
  cp_Name :: string
  cp_ContainerPort :: int32
  cp_Protocol :: string

record Container =
  ct_Name :: string
  ct_Image :: string
  ct_Command :: "string list"
  ct_Resources :: ResourceRequirements
  ct_Env :: "EnvVar list"
  ct_VolumeMounts :: "VolumeMount list"
  ct_LivenessProbe :: "Probe option"
  ct_ReadinessProbe :: "Probe option"
  ct_Ports :: "ContainerPort list"
  ct_PreStopCommand :: "string list option"

datatype VolumeSource =
    ConfigMapVolume string
  | SecretVolume string
  | EmptyDirVolume

record Volume =
  vo_Name :: string
  vo_Source :: VolumeSource

record PodSpec =
  ps_InitContainers :: "Container list"
  ps_Containers :: "Container list"
  ps_Volumes :: "Volume list"
  ps_Affinity :: "Affinity option"
  ps_Tolerations :: "Toleration list"
  ps_NodeSelector :: gomap

record PodTemplateSpec =
  pt_Labels :: gomap
  pt_Annotations :: gomap
  pt_Spec :: PodSpec

record Pod =
  po_Name :: string
  po_Labels :: gomap
  po_PodIP :: string
  po_Conditions :: "(string \<times> string) list"

section \<open>Workloads\<close>

record PersistentVolumeClaim =
  pvc_Name :: string
  pvc_AccessModes :: "string list"
  pvc_StorageRequest :: Quantity
  pvc_StorageClassName :: "string option"

record StatefulSetSpec =
  ss_Replicas :: int32
  ss_ServiceName :: string
  ss_Selector :: gomap
  ss_Template :: PodTemplateSpec
  ss_VolumeClaimTemplates :: "PersistentVolumeClaim list"

record StatefulSet =
  sts_Meta :: ObjectMeta
  sts_Spec :: StatefulSetSpec

record DeploymentSpec =
  ds_Replicas :: int32
  ds_Selector :: gomap
  ds_Template :: PodTemplateSpec

record Deployment =
  dep_Meta :: ObjectMeta
  dep_Spec :: DeploymentSpec

section \<open>Services, budgets, monitors, config maps\<close>

record ServicePort =
  sp_Name :: string
  sp_Port :: int32
  sp_TargetPort :: int32
  sp_Protocol :: string

record ServiceSpec =
  sv_Type :: string
  sv_ClusterIP :: string
  sv_Selector :: gomap
  sv_Ports :: "ServicePort list"
  sv_PublishNotReadyAddresses :: bool

record Service =
  svc_Meta :: ObjectMeta
  svc_Spec :: ServiceSpec

record PodDisruptionBudgetSpec =
  pdb_MaxUnavailable :: "int32 option"
  pdb_Selector :: gomap

record PodDisruptionBudget =
  pdb_Meta :: ObjectMeta
  pdb_Spec :: PodDisruptionBudgetSpec

record Endpoint =
  ep_Port :: string
  ep_Path :: string
  ep_Interval :: string

record ServiceMonitorSpec =
  sm_Selector :: gomap
  sm_Endpoints :: "Endpoint list"

record ServiceMonitor =
  sm_Meta :: ObjectMeta
  sm_Spec :: ServiceMonitorSpec

record ConfigMap =
  cm_Meta :: ObjectMeta
  cm_Data :: gomap

datatype kobj =
    KConfigMap ConfigMap
  | KStatefulSet StatefulSet
  | KDeployment Deployment
  | KService Service
  | KPDB PodDisruptionBudget
  | KServiceMonitor ServiceMonitor

fun kMeta :: "kobj \<Rightarrow> ObjectMeta" where
  "kMeta (KConfigMap x) = cm_Meta x"
| "kMeta (KStatefulSet x) = sts_Meta x"
| "kMeta (KDeployment x) = dep_Meta x"
| "kMeta (KService x) = svc_Meta x"
| "kMeta (KPDB x) = pdb_Meta x"
| "kMeta (KServiceMonitor x) = sm_Meta x"

text \<open>
  Label selectors (\<open>MatchLabels\<close>, a Service's selector, \<open>client.MatchingLabels\<close>): every pair of
  the selector occurs among the labels.
\<close>

definition selects :: "gomap \<Rightarrow> gomap \<Rightarrow> bool" where
  "selects sel labels \<longleftrightarrow> list_all (\<lambda>(k, v). map_of labels k = Some v) sel"

lemma selects_refl: "is_gomap m \<Longrightarrow> selects m m"
  by (auto simp: selects_def list_all_iff is_gomap_def map_of_is_SomeI)

end
