(* ===== verification/Go_Strings.thy ===== *)
theory Go_Strings
  imports Prelude
begin

text \<open>
  The functions of the Go standard library the operator applies to text: \<open>strings.Split\<close>,
  \<open>SplitN\<close>, \<open>Fields\<close>, \<open>TrimSpace\<close>, \<open>Index\<close>, \<open>LastIndex\<close>, \<open>strconv.Atoi\<close>, \<open>Itoa\<close> and
  \<open>fmt.Sscanf\<close> with the verb \<open>%d\<close>, on byte strings. Only the six ASCII characters count as white
  space: Redis replies, addresses and configuration keys are ASCII. The Go type \<open>int\<close> is 64 bits
  wide: the conversions from text reject values outside that range.

  The lemmas are the round trips the parsers rest on: \<open>Atoi\<close> undoes \<open>Itoa\<close>, splitting undoes
  joining, and \<open>Fields\<close> undoes joining with blanks.
\<close>

section \<open>White space and splitting\<close>

definition isSpace :: "char \<Rightarrow> bool" where
  "isSpace c \<longleftrightarrow> of_char c \<in> {9, 10, 11, 12, 13, 32::nat}"

definition TrimSpace :: "string \<Rightarrow> string" where
  "TrimSpace s = rev (dropWhile isSpace (rev (dropWhile isSpace s)))"

fun split_by :: "(char \<Rightarrow> bool) \<Rightarrow> string \<Rightarrow> string list" where
  "split_by P [] = [[]]"
| "split_by P (c # cs) =
     (if P c then [] # split_by P cs
      else (case split_by P cs of [] \<Rightarrow> [[c]] | w # ws \<Rightarrow> (c # w) # ws))"

definition Split :: "string \<Rightarrow> char \<Rightarrow> string list" where
  "Split s d = split_by (\<lambda>c. c = d) s"

definition Fields :: "string \<Rightarrow> string list" where
  "Fields s = filter (\<lambda>w. w \<noteq> []) (split_by isSpace s)"

text \<open>
  \<open>cut_first c s\<close> is \<open>(s[:i], s[i+1:])\<close> for \<open>i = strings.Index(s, c)\<close>, and \<open>None\<close> where that
  index is -1; \<open>cut_last\<close> is the same for \<open>strings.LastIndex\<close>.
\<close>

fun cut_first :: "char \<Rightarrow> string \<Rightarrow> (string \<times> string) option" where
  "cut_first c [] = None"
| "cut_first c (x # xs) =
     (if x = c then Some ([], xs) else map_option (\<lambda>(a, b). (x # a, b)) (cut_first c xs))"

definition cut_last :: "char \<Rightarrow> string \<Rightarrow> (string \<times> string) option" where
  "cut_last c s = map_option (\<lambda>(b, a). (rev a, rev b)) (cut_first c (rev s))"

lemma cut_first_append [simp]: "c \<notin> set xs \<Longrightarrow> cut_first c (xs @ c # ys) = Some (xs, ys)"
  by (induction xs) auto

lemma cut_first_None [simp]: "cut_first c s = None \<longleftrightarrow> c \<notin> set s"
  by (induction s) auto

lemma cut_first_SomeD: "cut_first c s = Some (a, b) \<Longrightarrow> s = a @ c # b \<and> c \<notin> set a"
  by (induction s arbitrary: a b) (auto split: if_splits)

lemma cut_last_append [simp]: "c \<notin> set ys \<Longrightarrow> cut_last c (xs @ c # ys) = Some (xs, ys)"
  by (simp add: cut_last_def)

lemma cut_last_None [simp]: "cut_last c s = None \<longleftrightarrow> c \<notin> set s"
  by (simp add: cut_last_def)

lemma cut_last_SomeD: "cut_last c s = Some (a, b) \<Longrightarrow> s = a @ c # b \<and> c \<notin> set b"
proof -
  assume "cut_last c s = Some (a, b)"
  then have "cut_first c (rev s) = Some (rev b, rev a)"
    by (auto simp: cut_last_def)
  then have "rev s = rev b @ c # rev a \<and> c \<notin> set (rev b)" by (rule cut_first_SomeD)
  then show ?thesis by (metis append.assoc append_Cons append_Nil rev.simps(2) rev_append rev_rev_ident set_rev)
qed

lemma split_by_nonempty [simp]: "split_by P s \<noteq> []"
  by (induction s) (auto split: list.split)

lemma split_by_plain: "\<forall>c \<in> set w. \<not> P c \<Longrightarrow> split_by P w = [w]"
  by (induction w) auto

lemma split_by_append: "\<forall>c \<in> set w. \<not> P c \<Longrightarrow> P d \<Longrightarrow> split_by P (w @ d # s) = w # split_by P s"
  by (induction w) auto

lemma Split_lines:
  assumes "\<forall>l \<in> set ls. d \<notin> set l"
  shows "Split (concat (map (\<lambda>l. l @ [d]) ls)) d = ls @ [[]]"
  using assms
proof (induction ls)
  case Nil
  then show ?case by (simp add: Split_def)
next
  case (Cons l ls)
  then have "\<forall>c \<in> set l. \<not> c = d" by auto
  with Cons show ?case by (simp add: Split_def split_by_append)
qed

text \<open>Words joined by single blanks, as \<open>CLUSTER NODES\<close> prints them.\<close>

fun unwords :: "string list \<Rightarrow> string" where
  "unwords [] = []"
| "unwords [w] = w"
| "unwords (w # ws) = w @ CHR '' '' # unwords ws"

definition word_ok :: "string \<Rightarrow> bool" where
  "word_ok w \<longleftrightarrow> w \<noteq> [] \<and> (\<forall>c \<in> set w. \<not> isSpace c)"

lemma isSpace_blank [simp]: "isSpace CHR '' ''"
  by (simp add: isSpace_def)

lemma isSpace_newline [simp]: "isSpace CHR 0x0A"
  by (simp add: isSpace_def)

lemma split_by_unwords: "\<forall>w \<in> set ws. word_ok w \<Longrightarrow> ws \<noteq> [] \<Longrightarrow> split_by isSpace (unwords ws) = ws"
  by (induction ws rule: unwords.induct) (auto simp: word_ok_def split_by_plain split_by_append)

lemma Fields_unwords: "\<forall>w \<in> set ws. word_ok w \<Longrightarrow> Fields (unwords ws) = ws"
proof (cases "ws = []")
  case True
  then show ?thesis by (simp add: Fields_def)
next
  case False
  moreover assume ok: "\<forall>w \<in> set ws. word_ok w"
  ultimately have "Fields (unwords ws) = filter (\<lambda>w. w \<noteq> []) ws"
    by (simp add: Fields_def split_by_unwords)
  also have "\<dots> = ws" using ok by (auto simp: word_ok_def intro: filter_True)
  finally show ?thesis .
qed

lemma TrimSpace_id:
  assumes "s \<noteq> []" and "\<not> isSpace (hd s)" and "\<not> isSpace (last s)"
  shows "TrimSpace s = s"
proof -
  have "dropWhile isSpace s = s" using assms(1,2) by (cases s) auto
  moreover have "dropWhile isSpace (rev s) = rev s"
    using assms(1,3) by (cases "rev s") (auto simp: hd_rev [symmetric])
  ultimately show ?thesis by (simp add: TrimSpace_def)
qed

lemma TrimSpace_Nil [simp]: "TrimSpace [] = []"
  by (simp add: TrimSpace_def)

lemma unwords_ends:
  "\<forall>w \<in> set ws. word_ok w \<Longrightarrow> ws \<noteq> [] \<Longrightarrow>
     unwords ws \<noteq> [] \<and> \<not> isSpace (hd (unwords ws)) \<and> \<not> isSpace (last (unwords ws))"
  by (induction ws rule: unwords.induct) (auto simp: word_ok_def)

lemma TrimSpace_unwords: "\<forall>w \<in> set ws. word_ok w \<Longrightarrow> TrimSpace (unwords ws) = unwords ws"
  by (cases "ws = []") (auto intro: TrimSpace_id dest: unwords_ends)

section \<open>Numbers\<close>

definition is_digit :: "char \<Rightarrow> bool" where
  "is_digit c \<longleftrightarrow> 48 \<le> (of_char c :: nat) \<and> (of_char c :: nat) \<le> 57"

definition digit_val :: "char \<Rightarrow> nat" where
  "digit_val c = of_char c - 48"

definition digit_char :: "nat \<Rightarrow> char" where
  "digit_char d = char_of (48 + d)"

fun show_nat :: "nat \<Rightarrow> string" where
  "show_nat n = (if n < 10 then [digit_char n] else show_nat (n div 10) @ [digit_char (n mod 10)])"

declare show_nat.simps [simp del]

definition Itoa :: "int \<Rightarrow> string" where
  "Itoa i = (if i < 0 then CHR ''-'' # show_nat (nat (- i)) else show_nat (nat i))"

definition digits_val :: "string \<Rightarrow> nat" where
  "digits_val ds = foldl (\<lambda>acc c. acc * 10 + digit_val c) 0 ds"

definition int64_ok :: "int \<Rightarrow> bool" where
  "int64_ok v \<longleftrightarrow> - (2 ^ 63) \<le> v \<and> v < 2 ^ 63"

fun signed_split :: "string \<Rightarrow> bool \<times> string" where
  "signed_split (c # cs) =
     (if c = CHR ''-'' then (True, cs) else if c = CHR ''+'' then (False, cs) else (False, c # cs))"
| "signed_split [] = (False, [])"

text \<open>\<open>strconv.Atoi\<close> (and \<open>ParseInt(s, 10, 64)\<close>): \<open>None\<close> stands for a non-nil error.\<close>

definition Atoi :: "string \<Rightarrow> int option" where
  "Atoi s =
     (let (neg, ds) = signed_split s;
          v = (if neg then - int (digits_val ds) else int (digits_val ds))
      in if ds \<noteq> [] \<and> list_all is_digit ds \<and> int64_ok v then Some v else None)"

text \<open>
  \<open>fmt.Sscanf(s, "%d", &n)\<close>: leading blanks are skipped, a newline before the number is an
  error, a sign is accepted, and whatever follows the digits is left unread.
\<close>

fun skip_space :: "string \<Rightarrow> string option" where
  "skip_space [] = Some []"
| "skip_space (c # cs) =
     (if c = CHR 0x0A then None
      else if c = CHR 0x0D \<and> (case cs of x # _ \<Rightarrow> x = CHR 0x0A | [] \<Rightarrow> False) then skip_space (tl cs)
      else if isSpace c then skip_space cs else Some (c # cs))"

definition Sscanf_d :: "string \<Rightarrow> int option" where
  "Sscanf_d s =
     (case skip_space s of
        None \<Rightarrow> None
      | Some r \<Rightarrow>
          (let (neg, t) = signed_split r;
               ds = takeWhile is_digit t;
               v = (if neg then - int (digits_val ds) else int (digits_val ds))
           in if ds \<noteq> [] \<and> int64_ok v then Some v else None))"

lemma of_char_digit [simp]: "d < 10 \<Longrightarrow> of_char (digit_char d) = 48 + d"
  by (simp add: digit_char_def)

lemma is_digit_digit_char [simp]: "d < 10 \<Longrightarrow> is_digit (digit_char d)"
  by (simp add: is_digit_def)

lemma digit_val_digit_char [simp]: "d < 10 \<Longrightarrow> digit_val (digit_char d) = d"
  by (simp add: digit_val_def)

lemma show_nat_nonempty [simp]: "show_nat n \<noteq> []"
  by (subst show_nat.simps) simp

lemma show_nat_digits: "list_all is_digit (show_nat n)"
proof (induction n rule: show_nat.induct)
  case (1 n)
  then show ?case by (subst show_nat.simps) simp
qed

lemma digits_val_show_nat [simp]: "digits_val (show_nat n) = n"
proof (induction n rule: show_nat.induct)
  case (1 n)
  show ?case
  proof (cases "n < 10")
    case True
    then show ?thesis by (subst show_nat.simps) (simp add: digits_val_def)
  next
    case False
    then have "digits_val (show_nat n) = digits_val (show_nat (n div 10)) * 10 + n mod 10"
      by (subst show_nat.simps) (simp add: digits_val_def)
    with 1 False show ?thesis by simp
  qed
qed

lemma digit_not_special:
  "is_digit c \<Longrightarrow> c \<noteq> CHR ''-'' \<and> c \<noteq> CHR ''+'' \<and> c \<noteq> CHR '':'' \<and> \<not> isSpace c"
  by (auto simp: is_digit_def isSpace_def)

lemma show_nat_chars: "c \<in> set (show_nat n) \<Longrightarrow> is_digit c"
  using show_nat_digits by (simp add: list_all_iff)

lemma signed_split_show_nat [simp]: "signed_split (show_nat n) = (False, show_nat n)"
  using show_nat_chars [of "hd (show_nat n)" n] digit_not_special
  by (cases "show_nat n") auto

lemma Atoi_Itoa: "int64_ok i \<Longrightarrow> Atoi (Itoa i) = Some i"
  using show_nat_digits by (auto simp: Atoi_def Itoa_def)

lemma skip_space_show_nat [simp]: "skip_space (show_nat n) = Some (show_nat n)"
proof (cases "show_nat n")
  case (Cons c cs)
  then have "is_digit c" using show_nat_chars [of c n] by simp
  then have "\<not> isSpace c" "c \<noteq> CHR 0x0A" "c \<noteq> CHR 0x0D"
    by (auto simp: is_digit_def isSpace_def)
  then show ?thesis by (simp add: Cons)
qed simp

lemma takeWhile_show_nat [simp]: "takeWhile is_digit (show_nat n) = show_nat n"
  using show_nat_chars by (simp add: takeWhile_eq_all_conv)

lemma Sscanf_d_Itoa: "0 \<le> i \<Longrightarrow> int64_ok i \<Longrightarrow> Sscanf_d (Itoa i) = Some i"
  by (simp add: Sscanf_d_def Itoa_def)

lemma Itoa_chars: "0 \<le> i \<Longrightarrow> c \<in> set (Itoa i) \<Longrightarrow> is_digit c"
  by (auto simp: Itoa_def dest: show_nat_chars)

lemma Itoa_inject: "int64_ok i \<Longrightarrow> int64_ok j \<Longrightarrow> Itoa i = Itoa j \<Longrightarrow> i = j"
  by (metis Atoi_Itoa option.inject)

lemma show_nat_inject: "show_nat m = show_nat n \<longleftrightarrow> m = n"
  by (metis digits_val_show_nat)

section \<open>Quoting\<close>

text \<open>The verb \<open>%q\<close> (\<open>strconv.Quote\<close>) on ASCII text.\<close>

definition hex_digit :: "nat \<Rightarrow> char" where
  "hex_digit d = (if d < 10 then char_of (48 + d) else char_of (87 + d))"

definition quote_char :: "char \<Rightarrow> string" where
  "quote_char c =
     (let n = (of_char c :: nat) in
      if n = 34 \<or> n = 92 then [CHR 0x5C, c]
      else if n = 7 then [CHR 0x5C, CHR ''a''] else if n = 8 then [CHR 0x5C, CHR ''b'']
      else if n = 9 then [CHR 0x5C, CHR ''t''] else if n = 10 then [CHR 0x5C, CHR ''n'']
      else if n = 11 then [CHR 0x5C, CHR ''v''] else if n = 12 then [CHR 0x5C, CHR ''f'']
      else if n = 13 then [CHR 0x5C, CHR ''r'']
      else if 32 \<le> n \<and> n < 127 then [c]
      else [CHR 0x5C, CHR ''x'', hex_digit (n div 16), hex_digit (n mod 16)])"

definition Quote :: "string \<Rightarrow> string" where
  "Quote s = [CHR 0x22] @ concat (map quote_char s) @ [CHR 0x22]"

section \<open>Texts of conversion errors\<close>

text \<open>The errors of \<open>strconv.Atoi\<close> and \<open>fmt.Sscanf\<close>, for inputs the conversions reject.\<close>

definition Atoi_err :: "string \<Rightarrow> error" where
  "Atoi_err s =
     (let (neg, ds) = signed_split s in
      Errorf (''strconv.Atoi: parsing '' @ Quote s @ '': '' @
        (if ds \<noteq> [] \<and> list_all is_digit ds then ''value out of range'' else ''invalid syntax'')))"

definition Sscanf_err :: "string \<Rightarrow> error" where
  "Sscanf_err s =
     (case skip_space s of
        None \<Rightarrow> Errorf ''unexpected newline''
      | Some r \<Rightarrow>
          (let (neg, t) = signed_split r; ds = takeWhile is_digit t in
           if t = [] then Errorf ''unexpected EOF''
           else if ds = [] then Errorf ''expected integer''
           else Errorf (''strconv.ParseInt: parsing '' @
             Quote ((if t \<noteq> r then [hd r] else []) @ ds) @ '': value out of range'')))"

text \<open>Two punctuation marks of the messages, in UTF-8: the arrow and the en dash.\<close>

definition arrow :: string where
  "arrow = [CHR 0xE2, CHR 0x86, CHR 0x92]"

definition endash :: string where
  "endash = [CHR 0xE2, CHR 0x80, CHR 0x93]"

section \<open>Durations\<close>

text \<open>
  A \<open>time.Duration\<close> is a number of nanoseconds. The verb \<open>%s\<close> prints it with
  \<open>Duration.String\<close>: the fraction without trailing zeros, minutes and hours only when needed.
\<close>

definition second :: int where "second = 1000000000"

definition pad_left :: "nat \<Rightarrow> string \<Rightarrow> string" where
  "pad_left w s = replicate (w - length s) CHR ''0'' @ s"

definition fmtFrac :: "nat \<Rightarrow> nat \<Rightarrow> string" where
  "fmtFrac v prec =
     (let ds = rev (dropWhile (\<lambda>c. c = CHR ''0'') (rev (pad_left prec (show_nat (v mod 10 ^ prec)))))
      in if ds = [] then [] else CHR ''.'' # ds)"

definition Duration_String :: "int \<Rightarrow> string" where
  "Duration_String d =
     (let u = nat \<bar>d\<bar>; sec = u div 10 ^ 9 in
      if u = 0 then ''0s'' else
      (if d < 0 then ''-'' else []) @
      (if u < 10 ^ 3 then show_nat u @ ''ns''
       else if u < 10 ^ 6 then show_nat (u div 10 ^ 3) @ fmtFrac u 3 @ [CHR 0xC2, CHR 0xB5, CHR ''s'']
       else if u < 10 ^ 9 then show_nat (u div 10 ^ 6) @ fmtFrac u 6 @ ''ms''
       else (if sec < 60 then []
             else (if sec < 3600 then [] else show_nat (sec div 3600) @ ''h'') @
                  show_nat (sec div 60 mod 60) @ ''m'') @
            show_nat (sec mod 60) @ fmtFrac u 9 @ ''s''))"

end
