(* ===== verification/Labels.thy ===== *)
theory Labels
  imports K8s_Types Go_Strings
begin

text \<open>
  \<open>internal/resources/labels.go\<close>: the labels, object names and DNS names the operator gives its
  resources, and the facts every selector rests on: labels select the pods they are put on, and
  the labels of different components or of different resources never select each other's pods.
\<close>

definition labelName :: string where "labelName = ''app.kubernetes.io/name''"
definition labelInstance :: string where "labelInstance = ''app.kubernetes.io/instance''"
definition labelComponent :: string where "labelComponent = ''app.kubernetes.io/component''"
definition labelManagedBy :: string where "labelManagedBy = ''app.kubernetes.io/managed-by''"
definition labelPartOf :: string where "labelPartOf = ''app.kubernetes.io/part-of''"
definition labelCluster :: string where "labelCluster = ''redis.example.com/cluster''"

definition ComponentMaster :: string where "ComponentMaster = ''master''"
definition ComponentReplica :: string where "ComponentReplica = ''replica''"
definition ComponentSentinel :: string where "ComponentSentinel = ''sentinel''"
definition ComponentRedis :: string where "ComponentRedis = ''redis''"

definition RoleLabelKey :: string where "RoleLabelKey = ''redis.example.com/role''"
definition RoleMaster :: string where "RoleMaster = ''master''"
definition RoleReplica :: string where "RoleReplica = ''replica''"

lemmas label_key_defs = labelName_def labelInstance_def labelComponent_def labelManagedBy_def
  labelPartOf_def labelCluster_def RoleLabelKey_def

lemmas component_defs = ComponentMaster_def ComponentReplica_def ComponentSentinel_def
  ComponentRedis_def RoleMaster_def RoleReplica_def

definition CommonLabels :: "string \<Rightarrow> string \<Rightarrow> gomap" where
  "CommonLabels name component =
     [(labelName, ''redis''), (labelInstance, name), (labelComponent, component),
      (labelManagedBy, ''redis-operator''), (labelPartOf, ''redis''), (labelCluster, name)]"

definition PodLabels :: "string \<Rightarrow> string \<Rightarrow> gomap" where
  "PodLabels name component = CommonLabels name component"

definition StatefulSetName :: "string \<Rightarrow> string \<Rightarrow> string" where
  "StatefulSetName crName component =
     (if component = ComponentRedis \<or> component = ComponentMaster then crName
      else crName @ ''-'' @ component)"

definition ClusterMasterStatefulSetName :: "string \<Rightarrow> string" where
  "ClusterMasterStatefulSetName crName = crName @ ''-masters''"

definition ClusterReplicaStatefulSetName :: "string \<Rightarrow> string" where
  "ClusterReplicaStatefulSetName crName = crName @ ''-replicas''"

definition HeadlessServiceName :: "string \<Rightarrow> string \<Rightarrow> string" where
  "HeadlessServiceName crName component = crName @ ''-'' @ component @ ''-headless''"

definition PodFQDN :: "string \<Rightarrow> string \<Rightarrow> string \<Rightarrow> string" where
  "PodFQDN podName headlessSvcName namespace =
     podName @ ''.'' @ headlessSvcName @ ''.'' @ namespace @ ''.svc.cluster.local''"

lemma is_gomap_CommonLabels [simp]: "is_gomap (CommonLabels n c)"
  by (simp add: is_gomap_def CommonLabels_def label_key_defs)

lemma is_gomap_PodLabels [simp]: "is_gomap (PodLabels n c)"
  by (simp add: PodLabels_def)

lemma map_of_CommonLabels:
  "map_of (CommonLabels n c) labelInstance = Some n"
  "map_of (CommonLabels n c) labelComponent = Some c"
  "map_of (CommonLabels n c) labelCluster = Some n"
  "map_of (CommonLabels n c) RoleLabelKey = None"
  by (simp_all add: CommonLabels_def label_key_defs)

lemma selects_PodLabels:
  "selects (PodLabels n c) labels \<Longrightarrow>
     map_of labels labelInstance = Some n \<and> map_of labels labelComponent = Some c"
  by (simp add: selects_def PodLabels_def CommonLabels_def)

lemma selects_PodLabels_iff: "selects (PodLabels n c) (PodLabels n' c') \<longleftrightarrow> n = n' \<and> c = c'"
proof
  assume "selects (PodLabels n c) (PodLabels n' c')"
  from selects_PodLabels [OF this] show "n = n' \<and> c = c'"
    by (simp add: PodLabels_def map_of_CommonLabels)
next
  assume "n = n' \<and> c = c'"
  then show "selects (PodLabels n c) (PodLabels n' c')"
    by (simp add: selects_refl)
qed

end
