(* ===== verification/Config_Maps.thy ===== *)
theory Config_Maps
  imports Labels
begin

text \<open>
  \<open>internal/resources/configmap.go\<close>: the rendered \<open>redis.conf\<close> and \<open>sentinel.conf\<close>. Operator
  defaults are overlaid with the user's entries and printed sorted by key, one \<open>key value\<close> line
  per entry.

  The locale \<open>conf_builder\<close> is the contract of the three builders (standalone and sentinel Redis,
  Sentinel, cluster): a file is the rendering of some defaults overlaid with the user's map. Its
  lemmas: the user's value wins for every key, a default survives where the user says nothing, and
  the text does not depend on the order in which Go visits the user's map.
\<close>

definition ConfigMapNameForRedis :: "string \<Rightarrow> string" where
  "ConfigMapNameForRedis crName = crName @ ''-config''"

definition ConfigMapNameForSentinel :: "string \<Rightarrow> string" where
  "ConfigMapNameForSentinel crName = crName @ ''-sentinel-config''"

definition confLine :: "gomap \<Rightarrow> string \<Rightarrow> string" where
  "confLine m k = k @ '' '' @ mget m k @ [CHR 0x0A]"

definition renderConf :: "gomap \<Rightarrow> string" where
  "renderConf m = concat (map (confLine m) (sort (map fst m)))"

definition redisConfDefaults :: "bool \<Rightarrow> gomap" where
  "redisConfDefaults tlsEnabled =
     [(''bind'', ''0.0.0.0''), (''protected-mode'', ''no''), (''dir'', ''/data''),
      (''appendonly'', ''yes''), (''save'', ''3600 1 900 10 300 100'')] @
     (if tlsEnabled
      then [(''port'', ''0''), (''tls-port'', ''6379''), (''tls-replication'', ''yes''),
            (''tls-cluster'', ''yes'')]
      else [(''port'', ''6379'')])"

definition defaultRedisConf :: "gomap \<Rightarrow> bool \<Rightarrow> string" where
  "defaultRedisConf userConfig tlsEnabled =
     renderConf (moverlay (redisConfDefaults tlsEnabled) userConfig)"

definition mkConfigMap :: "string \<Rightarrow> string \<Rightarrow> gomap \<Rightarrow> gomap \<Rightarrow> ConfigMap" where
  "mkConfigMap name ns labels data = \<lparr>cm_Meta = newMeta name ns labels, cm_Data = data\<rparr>"

definition BuildRedisConfigMap :: "Redis \<Rightarrow> ConfigMap" where
  [builder_defs]: "BuildRedisConfigMap redis =
     (let name = om_Name (r_Meta redis);
          conf = defaultRedisConf (r_RedisConfig (r_Spec redis)) (r_TLS (r_Spec redis) \<noteq> None)
      in mkConfigMap (ConfigMapNameForRedis name) (om_Namespace (r_Meta redis))
           (CommonLabels name ComponentRedis) [(''redis.conf'', conf)])"

definition BuildSentinelRedisConfigMap :: "RedisSentinel \<Rightarrow> ConfigMap" where
  [builder_defs]: "BuildSentinelRedisConfigMap rs =
     (let name = om_Name (s_Meta rs);
          conf = defaultRedisConf (s_RedisConfig (s_Spec rs)) (s_TLS (s_Spec rs) \<noteq> None)
      in mkConfigMap (ConfigMapNameForRedis name) (om_Namespace (s_Meta rs))
           (CommonLabels name ComponentRedis) [(''redis.conf'', conf)])"

text \<open>
  \<open>int(rs.Spec.SentinelReplicas/2) + 1\<close>: Go divides 32-bit integers towards zero.
\<close>

definition sentinelQuorum :: "int32 \<Rightarrow> int" where
  "sentinelQuorum n = (if sint n < 0 then - ((- sint n) div 2) else sint n div 2) + 1"

definition sentinelConfDefaults :: "string \<Rightarrow> int \<Rightarrow> gomap" where
  "sentinelConfDefaults masterIP quorum =
     [(''sentinel monitor mymaster'', masterIP @ '' 6379 '' @ Itoa quorum),
      (''sentinel down-after-milliseconds mymaster'', ''5000''),
      (''sentinel failover-timeout mymaster'', ''10000''),
      (''sentinel parallel-syncs mymaster'', ''1'')]"

definition BuildSentinelConfigMap :: "RedisSentinel \<Rightarrow> string \<Rightarrow> ConfigMap" where
  [builder_defs]: "BuildSentinelConfigMap rs masterIP =
     (let name = om_Name (s_Meta rs);
          quorum = sentinelQuorum (s_SentinelReplicas (s_Spec rs));
          conf = renderConf (moverlay (sentinelConfDefaults masterIP quorum) (s_SentinelConfig (s_Spec rs)))
      in mkConfigMap (ConfigMapNameForSentinel name) (om_Namespace (s_Meta rs))
           (CommonLabels name ComponentSentinel) [(''sentinel.conf'', conf)])"

definition clusterConfDefaults :: gomap where
  "clusterConfDefaults =
     [(''bind'', ''0.0.0.0''), (''protected-mode'', ''no''), (''port'', ''6379''), (''dir'', ''/data''),
      (''appendonly'', ''yes''), (''save'', ''3600 1 900 10 300 100''), (''cluster-enabled'', ''yes''),
      (''cluster-config-file'', ''nodes.conf''), (''cluster-node-timeout'', ''15000''),
      (''cluster-announce-port'', ''6379''), (''cluster-announce-bus-port'', ''16379'')]"

definition BuildClusterConfigMap :: "RedisCluster \<Rightarrow> ConfigMap" where
  [builder_defs]: "BuildClusterConfigMap rc =
     (let name = om_Name (c_Meta rc);
          conf = renderConf (moverlay clusterConfDefaults (c_RedisConfig (c_Spec rc)))
      in mkConfigMap (ConfigMapNameForRedis name) (om_Namespace (c_Meta rc))
           (CommonLabels name ComponentRedis) [(''redis.conf'', conf)])"

section \<open>Rendering\<close>

lemma sort_perm: "mset xs = mset ys \<Longrightarrow> sort xs = sort (ys :: string list)"
  by (metis mset_sort properties_for_sort sorted_sort)

lemma renderConf_map:
  assumes "is_gomap m" and "is_gomap m'" and "map_of m = map_of m'"
  shows "renderConf m = renderConf m'"
proof -
  have "set m = set m'"
    using assms by (simp add: is_gomap_def map_of_inject_set)
  then have "mset (map fst m) = mset (map fst m')"
    using assms(1,2) unfolding is_gomap_def by (metis list.set_map set_eq_iff_mset_eq_distinct)
  then have "sort (map fst m) = sort (map fst m')" by (rule sort_perm)
  moreover have "confLine m = confLine m'"
    using assms(3) by (simp add: fun_eq_iff confLine_def mget_eq_map_of)
  ultimately show ?thesis by (simp add: renderConf_def)
qed

locale conf_builder =
  fixes build :: "gomap \<Rightarrow> string" and defaults :: gomap
  assumes build_eq: "build u = renderConf (moverlay defaults u)"
    and defaults_ok: "is_gomap defaults"
begin

lemma order_irrelevant:
  assumes "mset u = mset u'" and "is_gomap u"
  shows "build u = build u'"
proof -
  have u': "is_gomap u'" using assms by (rule mset_distinct_map_fst)
  have "map_of u = map_of u'" using assms by (rule map_of_perm)
  then show ?thesis
    unfolding build_eq by (intro renderConf_map) (simp_all add: defaults_ok map_of_moverlay assms u')
qed

lemma entry:
  assumes "is_gomap u"
  shows "map_of (moverlay defaults u) k =
     (case map_of u k of Some v \<Rightarrow> Some v | None \<Rightarrow> map_of defaults k)"
  using assms by (simp add: map_of_moverlay map_add_def)

lemma lines:
  assumes "is_gomap u"
  shows "\<exists>ks. sorted ks \<and> distinct ks \<and> set ks = dom (map_of defaults ++ map_of u) \<and>
     build u = concat (map (confLine (moverlay defaults u)) ks)"
proof (intro exI conjI)
  let ?m = "moverlay defaults u"
  have ok: "is_gomap ?m" by (simp add: defaults_ok)
  show "sorted (sort (map fst ?m))" by simp
  show "distinct (sort (map fst ?m))" using ok by (simp add: is_gomap_def)
  show "set (sort (map fst ?m)) = dom (map_of defaults ++ map_of u)"
    using assms by (simp add: dom_map_of_conv_image_fst flip: map_of_moverlay)
  show "build u = concat (map (confLine ?m) (sort (map fst ?m)))"
    by (simp add: build_eq renderConf_def)
qed

end

interpretation redis_conf: conf_builder "\<lambda>u. defaultRedisConf u tls" "redisConfDefaults tls" for tls
  by unfold_locales (simp_all add: defaultRedisConf_def redisConfDefaults_def is_gomap_def)

interpretation sentinel_conf: conf_builder
  "\<lambda>u. mget (cm_Data (BuildSentinelConfigMap (rs\<lparr>s_Spec := (s_Spec rs)\<lparr>s_SentinelConfig := u\<rparr>\<rparr>) ip)) ''sentinel.conf''"
  "sentinelConfDefaults ip (sentinelQuorum (s_SentinelReplicas (s_Spec rs)))" for rs ip
  by unfold_locales
    (simp_all add: BuildSentinelConfigMap_def mkConfigMap_def Let_def mget_def sentinelConfDefaults_def
      is_gomap_def)

interpretation cluster_conf: conf_builder
  "\<lambda>u. mget (cm_Data (BuildClusterConfigMap (rc\<lparr>c_Spec := (c_Spec rc)\<lparr>c_RedisConfig := u\<rparr>\<rparr>))) ''redis.conf''"
  clusterConfDefaults for rc
  by unfold_locales
    (simp_all add: BuildClusterConfigMap_def mkConfigMap_def Let_def mget_def clusterConfDefaults_def
      is_gomap_def)

end
