(* ===== verification/Workloads.thy ===== *)
theory Workloads
  imports Config_Maps
begin

text \<open>
  \<open>internal/resources/statefulset.go\<close> and \<open>deployment.go\<close>: the pod templates and the workloads of
  the three kinds. \<open>resource.ParseQuantity\<close> is the argument \<open>pq\<close>; where the source ignores its error
  the quantity is the zero value, and \<open>resource.MustParse\<close> is only applied to constants.

  The locale \<open>workload\<close> is the contract Kubernetes asks of every workload: its selector selects the
  pods made from its own template, and no other component's.
\<close>

definition RedisPort :: int32 where "RedisPort = 6379"
definition SentinelPort :: int32 where "SentinelPort = 26379"
definition RedisClusterBus :: int32 where "RedisClusterBus = 16379"
definition ExporterPort :: int32 where "ExporterPort = 9121"

definition nl :: string where "nl = [CHR 0x0A]"
definition dq :: string where "dq = [CHR 0x22]"

definition parsedOrZero :: "(string \<Rightarrow> Quantity result) \<Rightarrow> string \<Rightarrow> Quantity" where
  "parsedOrZero pq s = (case pq s of Inl _ \<Rightarrow> 0 | Inr q \<Rightarrow> q)"

definition zeroContainer :: "string \<Rightarrow> string \<Rightarrow> Container" where
  "zeroContainer name img =
     \<lparr>ct_Name = name, ct_Image = img, ct_Command = [], ct_Resources = zeroResources, ct_Env = [],
      ct_VolumeMounts = [], ct_LivenessProbe = None, ct_ReadinessProbe = None, ct_Ports = [],
      ct_PreStopCommand = None\<rparr>"

definition secretEnv :: "string \<Rightarrow> AuthSpec \<Rightarrow> EnvVar" where
  "secretEnv var auth =
     \<lparr>ev_Name = var, ev_Value = [], ev_ValueFrom = Some (SecretKeyRef (auth_SecretName auth) ''password'')\<rparr>"

section \<open>Containers\<close>

definition preStopScript :: string where
  "preStopScript =
     ''redis-cli SAVE || true; '' @
     ''ROLE=$(redis-cli ROLE 2>/dev/null | head -1 || echo unknown); '' @
     ''if [ '' @ dq @ ''$ROLE'' @ dq @ '' = '' @ dq @ ''master'' @ dq @ '' ] && [ -n '' @ dq @ ''$SENTINEL_SVC'' @ dq @ '' ]; then '' @
     ''redis-cli -p 26379 -h '' @ dq @ ''$SENTINEL_SVC'' @ dq @ '' SENTINEL FAILOVER mymaster || true; '' @
     ''sleep 5; fi''"

definition buildRedisContainer ::
  "string \<Rightarrow> ResourceRequirements \<Rightarrow> AuthSpec option \<Rightarrow> TLSSpec option \<Rightarrow> string \<Rightarrow> bool \<Rightarrow> Container" where
  [builder_defs]: "buildRedisContainer img res auth tls configMapName hasStorage =
     (let img = (if img = [] then DefaultRedisImage else img);
          mounts = [\<lparr>vm_Name = ''config'', vm_MountPath = ''/etc/redis'', vm_ReadOnly = False\<rparr>] @
            (if hasStorage then [\<lparr>vm_Name = ''data'', vm_MountPath = ''/data'', vm_ReadOnly = False\<rparr>] else []) @
            (if tls \<noteq> None then [\<lparr>vm_Name = ''tls'', vm_MountPath = ''/tls'', vm_ReadOnly = True\<rparr>] else []);
          env = (case auth of None \<Rightarrow> [] | Some a \<Rightarrow> [secretEnv ''REDISCLI_AUTH'' a]);
          probe = \<lparr>pr_ExecCommand = [''redis-cli'', ''PING''], pr_InitialDelaySeconds = 10,
            pr_PeriodSeconds = 10, pr_TimeoutSeconds = 5, pr_FailureThreshold = 3\<rparr>;
          readinessProbe = probe\<lparr>pr_PeriodSeconds := 5, pr_TimeoutSeconds := 3, pr_InitialDelaySeconds := 5\<rparr>
      in (zeroContainer ''redis'' img)\<lparr>ct_Command := [''redis-server'', ''/etc/redis/redis.conf''],
           ct_Resources := res, ct_Env := env, ct_VolumeMounts := mounts,
           ct_LivenessProbe := Some probe, ct_ReadinessProbe := Some readinessProbe,
           ct_Ports := [\<lparr>cp_Name = ''redis'', cp_ContainerPort = RedisPort, cp_Protocol = ''TCP''\<rparr>],
           ct_PreStopCommand := Some [''sh'', ''-c'', preStopScript]\<rparr>)"

definition buildExporterContainer ::
  "(string \<Rightarrow> Quantity result) \<Rightarrow> string \<Rightarrow> AuthSpec option \<Rightarrow> Container" where
  [builder_defs]: "buildExporterContainer pq exporterImage auth =
     (let img = (if exporterImage = [] then DefaultExporterImage else exporterImage);
          env = [\<lparr>ev_Name = ''REDIS_ADDR'', ev_Value = ''redis://localhost:'' @ Itoa (sint RedisPort),
                  ev_ValueFrom = None\<rparr>] @
                (case auth of None \<Rightarrow> [] | Some a \<Rightarrow> [secretEnv ''REDIS_PASSWORD'' a])
      in (zeroContainer ''redis-exporter'' img)\<lparr>ct_Env := env,
           ct_Resources := \<lparr>rr_Limits = [(''cpu'', parsedOrZero pq ''200m''), (''memory'', parsedOrZero pq ''128Mi'')],
                            rr_Requests = [(''cpu'', parsedOrZero pq ''50m''), (''memory'', parsedOrZero pq ''64Mi'')]\<rparr>,
           ct_Ports := [\<lparr>cp_Name = ''metrics'', cp_ContainerPort = ExporterPort, cp_Protocol = ''TCP''\<rparr>]\<rparr>)"

definition buildSentinelInitContainer :: "RedisSentinel \<Rightarrow> Container" where
  [builder_defs]: "buildSentinelInitContainer rs =
     (let name = om_Name (s_Meta rs);
          headlessSvc = HeadlessServiceName name ComponentRedis;
          script = nl @ ''set -e'' @ nl @
            ''INDEX=$(echo $POD_NAME | rev | cut -d- -f1 | rev)'' @ nl @
            ''if [ '' @ dq @ ''$INDEX'' @ dq @ '' = '' @ dq @ ''0'' @ dq @ '' ]; then'' @ nl @
            ''  echo '' @ dq @ ''This is the master pod, no REPLICAOF needed.'' @ dq @ nl @
            ''else'' @ nl @
            ''  MASTER='' @ dq @ name @ ''-0.'' @ headlessSvc @ ''.'' @ om_Namespace (s_Meta rs) @ ''.svc.cluster.local'' @ dq @ nl @
            ''  echo '' @ dq @ ''Configuring REPLICAOF $MASTER 6379'' @ dq @ nl @
            ''  echo '' @ dq @ ''replicaof $MASTER 6379'' @ dq @ '' >> /etc/redis/redis.conf'' @ nl @
            ''fi'' @ nl
      in (zeroContainer ''init-replication'' (s_Image (s_Spec rs)))\<lparr>
           ct_Command := [''sh'', ''-c'', script],
           ct_Env := [\<lparr>ev_Name = ''POD_NAME'', ev_Value = [], ev_ValueFrom = Some (FieldRef ''metadata.name'')\<rparr>],
           ct_VolumeMounts := [\<lparr>vm_Name = ''config'', vm_MountPath = ''/etc/redis'', vm_ReadOnly = False\<rparr>]\<rparr>)"

section \<open>Pod specs, volumes, claims\<close>

definition buildVolumes :: "string \<Rightarrow> TLSSpec option \<Rightarrow> Volume list" where
  [builder_defs]: "buildVolumes configMapName tls =
     [\<lparr>vo_Name = ''config'', vo_Source = ConfigMapVolume configMapName\<rparr>] @
     (case tls of None \<Rightarrow> [] | Some t \<Rightarrow> [\<lparr>vo_Name = ''tls'', vo_Source = SecretVolume (tls_SecretName t)\<rparr>])"

definition buildPVCTemplates ::
  "(string \<Rightarrow> Quantity result) \<Rightarrow> StorageSpec \<Rightarrow> PersistentVolumeClaim list" where
  [builder_defs]: "buildPVCTemplates pq storage =
     [\<lparr>pvc_Name = ''data'', pvc_AccessModes = [''ReadWriteOnce''],
       pvc_StorageRequest = parsedOrZero pq (Size storage), pvc_StorageClassName = ClassName storage\<rparr>]"

definition exporterOn :: "bool option \<Rightarrow> bool" where
  "exporterOn e \<longleftrightarrow> e = None \<or> e = Some True"

definition buildRedisPodSpec ::
  "(string \<Rightarrow> Quantity result) \<Rightarrow> string \<Rightarrow> string \<Rightarrow> bool option \<Rightarrow> ResourceRequirements \<Rightarrow> AuthSpec option \<Rightarrow>
   TLSSpec option \<Rightarrow> Affinity option \<Rightarrow> Toleration list \<Rightarrow> gomap \<Rightarrow> string \<Rightarrow> bool \<Rightarrow> PodSpec" where
  [builder_defs]: "buildRedisPodSpec pq img exporterImage enableExporter res auth tls affinity tolerations nodeSelector
      configMapName hasStorage =
     \<lparr>ps_InitContainers = [],
      ps_Containers = buildRedisContainer img res auth tls configMapName hasStorage #
        (if exporterOn enableExporter then [buildExporterContainer pq exporterImage auth] else []),
      ps_Volumes = buildVolumes configMapName tls, ps_Affinity = affinity,
      ps_Tolerations = tolerations, ps_NodeSelector = nodeSelector\<rparr>"

definition buildClusterPodSpec ::
  "(string \<Rightarrow> Quantity result) \<Rightarrow> string \<Rightarrow> string \<Rightarrow> bool option \<Rightarrow> ResourceRequirements \<Rightarrow> AuthSpec option \<Rightarrow>
   TLSSpec option \<Rightarrow> Affinity option \<Rightarrow> Toleration list \<Rightarrow> gomap \<Rightarrow> string \<Rightarrow> PodSpec" where
  [builder_defs]: "buildClusterPodSpec pq img exporterImage enableExporter res auth tls affinity tolerations nodeSelector
      configMapName =
     (let c = buildRedisContainer img res auth tls configMapName True;
          c = c\<lparr>ct_Env := ct_Env c @ [\<lparr>ev_Name = ''POD_IP'', ev_Value = [],
                 ev_ValueFrom = Some (FieldRef ''status.podIP'')\<rparr>]\<rparr>;
          c = c\<lparr>ct_Command := [''sh'', ''-c'',
                 ''echo '' @ dq @ ''cluster-announce-ip ${POD_IP}'' @ dq @
                 '' >> /etc/redis/redis.conf && exec redis-server /etc/redis/redis.conf'']\<rparr>
      in \<lparr>ps_InitContainers = [],
          ps_Containers = c # (if exporterOn enableExporter then [buildExporterContainer pq exporterImage auth] else []),
          ps_Volumes = buildVolumes configMapName tls, ps_Affinity = affinity,
          ps_Tolerations = tolerations, ps_NodeSelector = nodeSelector\<rparr>)"

section \<open>StatefulSets\<close>

definition mkStatefulSet ::
  "string \<Rightarrow> string \<Rightarrow> string \<Rightarrow> int32 \<Rightarrow> string \<Rightarrow> string \<Rightarrow> PodSpec \<Rightarrow> PersistentVolumeClaim list \<Rightarrow> StatefulSet" where
  "mkStatefulSet stsName ns crName replicas component service podSpec claims =
     \<lparr>sts_Meta = newMeta stsName ns (CommonLabels crName component),
      sts_Spec = \<lparr>ss_Replicas = replicas, ss_ServiceName = service,
        ss_Selector = PodLabels crName component,
        ss_Template = \<lparr>pt_Labels = PodLabels crName component, pt_Annotations = [], pt_Spec = podSpec\<rparr>,
        ss_VolumeClaimTemplates = claims\<rparr>\<rparr>"

definition claimsFor :: "(string \<Rightarrow> Quantity result) \<Rightarrow> StorageSpec option \<Rightarrow> PersistentVolumeClaim list" where
  "claimsFor pq st = (case st of None \<Rightarrow> [] | Some s \<Rightarrow> buildPVCTemplates pq s)"

definition BuildRedisStatefulSet :: "(string \<Rightarrow> Quantity result) \<Rightarrow> Redis \<Rightarrow> StatefulSet" where
  [builder_defs]: "BuildRedisStatefulSet pq redis =
     (let name = om_Name (r_Meta redis); sp = r_Spec redis;
          podSpec = buildRedisPodSpec pq (r_Image sp) (r_ExporterImage sp) (r_EnableExporter sp)
            (r_Resources sp) (r_Auth sp) (r_TLS sp) (r_Affinity sp) (r_Tolerations sp)
            (r_NodeSelector sp) (ConfigMapNameForRedis name) True
      in mkStatefulSet name (om_Namespace (r_Meta redis)) name 1 ComponentRedis
           (HeadlessServiceName name ComponentRedis) podSpec (claimsFor pq (r_Storage sp)))"

definition addEnvFirst :: "EnvVar \<Rightarrow> Container list \<Rightarrow> Container list" where
  "addEnvFirst e cs = (case cs of [] \<Rightarrow> [] | c # r \<Rightarrow> c\<lparr>ct_Env := ct_Env c @ [e]\<rparr> # r)"

definition BuildSentinelRedisStatefulSet :: "(string \<Rightarrow> Quantity result) \<Rightarrow> RedisSentinel \<Rightarrow> StatefulSet" where
  [builder_defs]: "BuildSentinelRedisStatefulSet pq rs =
     (let name = om_Name (s_Meta rs); ns = om_Namespace (s_Meta rs); sp = s_Spec rs;
          podSpec = buildRedisPodSpec pq (s_Image sp) (s_ExporterImage sp) (s_EnableExporter sp)
            (s_Resources sp) (s_Auth sp) (s_TLS sp) (s_Affinity sp) (s_Tolerations sp)
            (s_NodeSelector sp) (ConfigMapNameForRedis name) (s_Storage sp \<noteq> None);
          sentinelSvcHost = name @ ''-sentinel.'' @ ns @ ''.svc.cluster.local'';
          podSpec = podSpec\<lparr>ps_Containers := addEnvFirst
            \<lparr>ev_Name = ''SENTINEL_SVC'', ev_Value = sentinelSvcHost, ev_ValueFrom = None\<rparr> (ps_Containers podSpec),
            ps_InitContainers := [buildSentinelInitContainer rs]\<rparr>
      in mkStatefulSet name ns name (s_Replicas sp) ComponentRedis
           (HeadlessServiceName name ComponentRedis) podSpec (claimsFor pq (s_Storage sp)))"

definition BuildClusterMasterStatefulSet :: "(string \<Rightarrow> Quantity result) \<Rightarrow> RedisCluster \<Rightarrow> StatefulSet" where
  [builder_defs]: "BuildClusterMasterStatefulSet pq rc =
     (let name = om_Name (c_Meta rc); sp = c_Spec rc;
          res = (case c_MasterResources sp of None \<Rightarrow> c_Resources sp | Some r \<Rightarrow> r);
          podSpec = buildClusterPodSpec pq (c_Image sp) (c_ExporterImage sp) (c_EnableExporter sp) res
            (c_Auth sp) (c_TLS sp) (c_MasterAffinity sp) (c_MasterTolerations sp)
            (c_MasterNodeSelector sp) (ConfigMapNameForRedis name)
      in mkStatefulSet (ClusterMasterStatefulSetName name) (om_Namespace (c_Meta rc)) name (c_Masters sp)
           ComponentMaster (HeadlessServiceName name ComponentMaster) podSpec (claimsFor pq (c_Storage sp)))"

definition BuildClusterReplicaStatefulSet :: "(string \<Rightarrow> Quantity result) \<Rightarrow> RedisCluster \<Rightarrow> StatefulSet" where
  [builder_defs]: "BuildClusterReplicaStatefulSet pq rc =
     (let name = om_Name (c_Meta rc); sp = c_Spec rc;
          res = (case c_ReplicaResources sp of None \<Rightarrow> c_Resources sp | Some r \<Rightarrow> r);
          podSpec = buildClusterPodSpec pq (c_Image sp) (c_ExporterImage sp) (c_EnableExporter sp) res
            (c_Auth sp) (c_TLS sp) (c_ReplicaAffinity sp) (c_ReplicaTolerations sp)
            (c_ReplicaNodeSelector sp) (ConfigMapNameForRedis name)
      in mkStatefulSet (ClusterReplicaStatefulSetName name) (om_Namespace (c_Meta rc)) name
           (c_Masters sp * c_ReplicasPerMaster sp)
           ComponentReplica (HeadlessServiceName name ComponentReplica) podSpec (claimsFor pq (c_Storage sp)))"

section \<open>Deployments\<close>

definition mkDeployment :: "string \<Rightarrow> string \<Rightarrow> string \<Rightarrow> int32 \<Rightarrow> string \<Rightarrow> PodSpec \<Rightarrow> Deployment" where
  "mkDeployment depName ns crName replicas component podSpec =
     \<lparr>dep_Meta = newMeta depName ns (CommonLabels crName component),
      dep_Spec = \<lparr>ds_Replicas = replicas, ds_Selector = PodLabels crName component,
        ds_Template = \<lparr>pt_Labels = PodLabels crName component, pt_Annotations = [], pt_Spec = podSpec\<rparr>\<rparr>\<rparr>"

definition BuildRedisDeployment :: "(string \<Rightarrow> Quantity result) \<Rightarrow> Redis \<Rightarrow> Deployment" where
  [builder_defs]: "BuildRedisDeployment pq redis =
     (let name = om_Name (r_Meta redis); sp = r_Spec redis;
          podSpec = buildRedisPodSpec pq (r_Image sp) (r_ExporterImage sp) (r_EnableExporter sp)
            (r_Resources sp) (r_Auth sp) (r_TLS sp) (r_Affinity sp) (r_Tolerations sp)
            (r_NodeSelector sp) (ConfigMapNameForRedis name) False;
          podSpec = podSpec\<lparr>ps_Volumes := ps_Volumes podSpec @ [\<lparr>vo_Name = ''data'', vo_Source = EmptyDirVolume\<rparr>],
            ps_Containers := map (\<lambda>c. if ct_Name c = ''redis''
              then c\<lparr>ct_VolumeMounts := ct_VolumeMounts c @ [\<lparr>vm_Name = ''data'', vm_MountPath = ''/data'', vm_ReadOnly = False\<rparr>]\<rparr>
              else c) (ps_Containers podSpec)\<rparr>
      in mkDeployment name (om_Namespace (r_Meta redis)) name 1 ComponentRedis podSpec)"

definition BuildSentinelDeployment :: "RedisSentinel \<Rightarrow> Deployment" where
  [builder_defs]: "BuildSentinelDeployment rs =
     (let name = om_Name (s_Meta rs); sp = s_Spec rs;
          sentinelImage = (if s_SentinelImage sp = [] then s_Image sp else s_SentinelImage sp);
          sentinelImage = (if sentinelImage = [] then DefaultRedisImage else sentinelImage);
          env = (case s_Auth sp of None \<Rightarrow> [] | Some a \<Rightarrow> [secretEnv ''REDISCLI_AUTH'' a]);
          volumes = [\<lparr>vo_Name = ''sentinel-config'', vo_Source = ConfigMapVolume (ConfigMapNameForSentinel name)\<rparr>,
                     \<lparr>vo_Name = ''sentinel-data'', vo_Source = EmptyDirVolume\<rparr>];
          probe = \<lparr>pr_ExecCommand = [''redis-cli'', ''-p'', ''26379'', ''PING''], pr_InitialDelaySeconds = 15,
                   pr_PeriodSeconds = 10, pr_TimeoutSeconds = 5, pr_FailureThreshold = 0\<rparr>;
          c = (zeroContainer ''sentinel'' sentinelImage)\<lparr>
                ct_Command := [''redis-server'', ''/etc/sentinel/sentinel.conf'', ''--sentinel''],
                ct_Env := env,
                ct_Ports := [\<lparr>cp_Name = ''sentinel'', cp_ContainerPort = SentinelPort, cp_Protocol = ''TCP''\<rparr>],
                ct_Resources := s_SentinelResources sp,
                ct_VolumeMounts := [\<lparr>vm_Name = ''sentinel-config'', vm_MountPath = ''/etc/sentinel'', vm_ReadOnly = False\<rparr>,
                                    \<lparr>vm_Name = ''sentinel-data'', vm_MountPath = ''/data'', vm_ReadOnly = False\<rparr>],
                ct_LivenessProbe := Some probe, ct_ReadinessProbe := Some probe\<rparr>
      in mkDeployment (name @ ''-sentinel'') (om_Namespace (s_Meta rs)) name (s_SentinelReplicas sp) ComponentSentinel
           \<lparr>ps_InitContainers = [], ps_Containers = [c], ps_Volumes = volumes, ps_Affinity = None,
            ps_Tolerations = [], ps_NodeSelector = []\<rparr>)"

section \<open>The contract of a workload\<close>

definition mounts_backed :: "PodSpec \<Rightarrow> string list \<Rightarrow> bool" where
  "mounts_backed p claims \<longleftrightarrow>
     (\<forall>c \<in> set (ps_InitContainers p @ ps_Containers p). \<forall>v \<in> set (ct_VolumeMounts c).
        vm_Name v \<in> set (map vo_Name (ps_Volumes p)) \<union> set claims)"

locale workload =
  fixes selector template_labels :: gomap and crName component :: string
  assumes selector_eq: "selector = PodLabels crName component"
    and template_eq: "template_labels = PodLabels crName component"
begin

lemma selects_own: "selects selector template_labels"
  by (simp add: selector_eq template_eq selects_refl)

lemma selects_no_other: "selects selector (PodLabels n c) \<longleftrightarrow> n = crName \<and> c = component"
  by (auto simp: selector_eq selects_PodLabels_iff)

end

interpretation master_sts: workload
  "ss_Selector (sts_Spec (BuildClusterMasterStatefulSet pq rc))"
  "pt_Labels (ss_Template (sts_Spec (BuildClusterMasterStatefulSet pq rc)))"
  "om_Name (c_Meta rc)" ComponentMaster for pq rc
  by unfold_locales (simp_all add: BuildClusterMasterStatefulSet_def Let_def mkStatefulSet_def)

interpretation replica_sts: workload
  "ss_Selector (sts_Spec (BuildClusterReplicaStatefulSet pq rc))"
  "pt_Labels (ss_Template (sts_Spec (BuildClusterReplicaStatefulSet pq rc)))"
  "om_Name (c_Meta rc)" ComponentReplica for pq rc
  by unfold_locales (simp_all add: BuildClusterReplicaStatefulSet_def Let_def mkStatefulSet_def)

interpretation redis_sts: workload
  "ss_Selector (sts_Spec (BuildRedisStatefulSet pq r))"
  "pt_Labels (ss_Template (sts_Spec (BuildRedisStatefulSet pq r)))"
  "om_Name (r_Meta r)" ComponentRedis for pq r
  by unfold_locales (simp_all add: BuildRedisStatefulSet_def Let_def mkStatefulSet_def)

interpretation sentinel_sts: workload
  "ss_Selector (sts_Spec (BuildSentinelRedisStatefulSet pq rs))"
  "pt_Labels (ss_Template (sts_Spec (BuildSentinelRedisStatefulSet pq rs)))"
  "om_Name (s_Meta rs)" ComponentRedis for pq rs
  by unfold_locales (simp_all add: BuildSentinelRedisStatefulSet_def Let_def mkStatefulSet_def)

interpretation redis_dep: workload
  "ds_Selector (dep_Spec (BuildRedisDeployment pq r))"
  "pt_Labels (ds_Template (dep_Spec (BuildRedisDeployment pq r)))"
  "om_Name (r_Meta r)" ComponentRedis for pq r
  by unfold_locales (simp_all add: BuildRedisDeployment_def Let_def mkDeployment_def)

interpretation sentinel_dep: workload
  "ds_Selector (dep_Spec (BuildSentinelDeployment rs))"
  "pt_Labels (ds_Template (dep_Spec (BuildSentinelDeployment rs)))"
  "om_Name (s_Meta rs)" ComponentSentinel for rs
  by unfold_locales (simp_all add: BuildSentinelDeployment_def Let_def mkDeployment_def)

end
