(* ===== verification/Services.thy ===== *)
theory Services
  imports Workloads
begin

text \<open>
  \<open>internal/resources/service.go\<close>, \<open>pdb.go\<close> and \<open>servicemonitor.go\<close>: what routes traffic to the
  pods, protects them from disruption and asks Prometheus to scrape them.
\<close>

definition tcpPort :: "string \<Rightarrow> int32 \<Rightarrow> ServicePort" where
  "tcpPort name port = \<lparr>sp_Name = name, sp_Port = port, sp_TargetPort = port, sp_Protocol = ''TCP''\<rparr>"

definition clusterIPSpec :: "gomap \<Rightarrow> ServicePort list \<Rightarrow> ServiceSpec" where
  "clusterIPSpec sel ports = \<lparr>sv_Type = ''ClusterIP'', sv_ClusterIP = [], sv_Selector = sel,
     sv_Ports = ports, sv_PublishNotReadyAddresses = False\<rparr>"

definition BuildRedisService :: "Redis \<Rightarrow> Service" where
  [builder_defs]: "BuildRedisService redis =
     (let name = om_Name (r_Meta redis) in
      \<lparr>svc_Meta = newMeta name (om_Namespace (r_Meta redis)) (CommonLabels name ComponentRedis),
       svc_Spec = clusterIPSpec (PodLabels name ComponentRedis) [tcpPort ''redis'' RedisPort]\<rparr>)"

definition BuildSentinelMasterService :: "RedisSentinel \<Rightarrow> Service" where
  [builder_defs]: "BuildSentinelMasterService rs =
     (let name = om_Name (s_Meta rs) in
      \<lparr>svc_Meta = newMeta (name @ ''-master'') (om_Namespace (s_Meta rs)) (CommonLabels name ComponentMaster),
       svc_Spec = clusterIPSpec [(labelInstance, name), (RoleLabelKey, RoleMaster)] [tcpPort ''redis'' RedisPort]\<rparr>)"

definition BuildSentinelReplicaService :: "RedisSentinel \<Rightarrow> Service" where
  [builder_defs]: "BuildSentinelReplicaService rs =
     (let name = om_Name (s_Meta rs) in
      \<lparr>svc_Meta = newMeta (name @ ''-replica'') (om_Namespace (s_Meta rs)) (CommonLabels name ComponentReplica),
       svc_Spec = clusterIPSpec [(labelInstance, name), (RoleLabelKey, RoleReplica)] [tcpPort ''redis'' RedisPort]\<rparr>)"

definition BuildSentinelService :: "RedisSentinel \<Rightarrow> Service" where
  [builder_defs]: "BuildSentinelService rs =
     (let name = om_Name (s_Meta rs) in
      \<lparr>svc_Meta = newMeta (name @ ''-sentinel'') (om_Namespace (s_Meta rs)) (CommonLabels name ComponentSentinel),
       svc_Spec = clusterIPSpec (PodLabels name ComponentSentinel) [tcpPort ''sentinel'' SentinelPort]\<rparr>)"

definition BuildHeadlessService :: "string \<Rightarrow> string \<Rightarrow> string \<Rightarrow> Service" where
  [builder_defs]: "BuildHeadlessService name namespace component =
     \<lparr>svc_Meta = (newMeta (HeadlessServiceName name component) namespace (CommonLabels name component))
        \<lparr>om_Annotations := [(''service.alpha.kubernetes.io/tolerate-unready-endpoints'', ''true'')]\<rparr>,
      svc_Spec = (clusterIPSpec (PodLabels name component)
        [tcpPort ''redis'' RedisPort, tcpPort ''cluster-bus'' RedisClusterBus])
        \<lparr>sv_ClusterIP := ''None'', sv_PublishNotReadyAddresses := True\<rparr>\<rparr>"

definition BuildClusterClientService :: "RedisCluster \<Rightarrow> Service" where
  [builder_defs]: "BuildClusterClientService rc =
     (let name = om_Name (c_Meta rc) in
      \<lparr>svc_Meta = newMeta name (om_Namespace (c_Meta rc)) (CommonLabels name ComponentRedis),
       svc_Spec = clusterIPSpec [(labelInstance, name)] [tcpPort ''redis'' RedisPort]\<rparr>)"

section \<open>pdb.go\<close>

definition mkPDB :: "string \<Rightarrow> string \<Rightarrow> string \<Rightarrow> string \<Rightarrow> PodDisruptionBudget" where
  "mkPDB pdbName ns crName component =
     \<lparr>pdb_Meta = newMeta pdbName ns (CommonLabels crName component),
      pdb_Spec = \<lparr>pdb_MaxUnavailable = Some 1, pdb_Selector = PodLabels crName component\<rparr>\<rparr>"

definition BuildSentinelRedisPDB :: "RedisSentinel \<Rightarrow> PodDisruptionBudget" where
  [builder_defs]: "BuildSentinelRedisPDB rs = mkPDB (om_Name (s_Meta rs) @ ''-redis-pdb'')
     (om_Namespace (s_Meta rs)) (om_Name (s_Meta rs)) ComponentRedis"

definition BuildSentinelPDB :: "RedisSentinel \<Rightarrow> PodDisruptionBudget" where
  [builder_defs]: "BuildSentinelPDB rs = mkPDB (om_Name (s_Meta rs) @ ''-sentinel-pdb'')
     (om_Namespace (s_Meta rs)) (om_Name (s_Meta rs)) ComponentSentinel"

definition BuildClusterMasterPDB :: "RedisCluster \<Rightarrow> PodDisruptionBudget" where
  [builder_defs]: "BuildClusterMasterPDB rc = mkPDB (om_Name (c_Meta rc) @ ''-masters-pdb'')
     (om_Namespace (c_Meta rc)) (om_Name (c_Meta rc)) ComponentMaster"

definition BuildClusterReplicaPDB :: "RedisCluster \<Rightarrow> PodDisruptionBudget" where
  [builder_defs]: "BuildClusterReplicaPDB rc = mkPDB (om_Name (c_Meta rc) @ ''-replicas-pdb'')
     (om_Namespace (c_Meta rc)) (om_Name (c_Meta rc)) ComponentReplica"

section \<open>servicemonitor.go\<close>

definition exporterPortName :: string where "exporterPortName = ''metrics''"
definition metricsPath :: string where "metricsPath = ''/metrics''"
definition scrapeInterval :: string where "scrapeInterval = ''30s''"

definition buildServiceMonitor :: "string \<Rightarrow> string \<Rightarrow> gomap \<Rightarrow> gomap \<Rightarrow> ServiceMonitor" where
  [builder_defs]: "buildServiceMonitor name namespace labels selector =
     \<lparr>sm_Meta = newMeta name namespace labels,
      sm_Spec = \<lparr>sm_Selector = selector,
        sm_Endpoints = [\<lparr>ep_Port = exporterPortName, ep_Path = metricsPath, ep_Interval = scrapeInterval\<rparr>]\<rparr>\<rparr>"

definition BuildRedisServiceMonitor :: "Redis \<Rightarrow> ServiceMonitor" where
  [builder_defs]: "BuildRedisServiceMonitor redis =
     (let name = om_Name (r_Meta redis) in
      buildServiceMonitor (name @ ''-monitor'') (om_Namespace (r_Meta redis))
        (CommonLabels name ComponentRedis) (PodLabels name ComponentRedis))"

definition BuildSentinelServiceMonitor :: "RedisSentinel \<Rightarrow> ServiceMonitor" where
  [builder_defs]: "BuildSentinelServiceMonitor rs =
     (let name = om_Name (s_Meta rs) in
      buildServiceMonitor (name @ ''-monitor'') (om_Namespace (s_Meta rs))
        (CommonLabels name ComponentRedis) (PodLabels name ComponentRedis))"

definition BuildClusterServiceMonitor :: "RedisCluster \<Rightarrow> ServiceMonitor" where
  [builder_defs]: "BuildClusterServiceMonitor rc =
     (let name = om_Name (c_Meta rc) in
      buildServiceMonitor (name @ ''-monitor'') (om_Namespace (c_Meta rc))
        (CommonLabels name ComponentRedis) [(labelInstance, name)])"

section \<open>The services of each kind\<close>

definition redisServices :: "Redis \<Rightarrow> Service list" where
  "redisServices r = [BuildHeadlessService (om_Name (r_Meta r)) (om_Namespace (r_Meta r)) ComponentRedis,
     BuildRedisService r]"

definition sentinelServices :: "RedisSentinel \<Rightarrow> Service list" where
  "sentinelServices rs = [BuildHeadlessService (om_Name (s_Meta rs)) (om_Namespace (s_Meta rs)) ComponentRedis,
     BuildSentinelMasterService rs, BuildSentinelReplicaService rs, BuildSentinelService rs]"

definition clusterServices :: "RedisCluster \<Rightarrow> Service list" where
  "clusterServices rc = [BuildHeadlessService (om_Name (c_Meta rc)) (om_Namespace (c_Meta rc)) ComponentMaster,
     BuildHeadlessService (om_Name (c_Meta rc)) (om_Namespace (c_Meta rc)) ComponentReplica,
     BuildClusterClientService rc]"

lemmas service_defs = BuildRedisService_def BuildSentinelMasterService_def BuildSentinelReplicaService_def
  BuildSentinelService_def BuildHeadlessService_def BuildClusterClientService_def clusterIPSpec_def
  tcpPort_def redisServices_def sentinelServices_def clusterServices_def

end
