(* ===== verification/Webhooks.thy ===== *)
theory Webhooks
  imports Api_Types Go_Strings
begin

text \<open>
  The admission webhooks of \<open>api/v1alpha1/*_webhook.go\<close>: defaulting and validation of the three
  custom resources. A validator returns the pair of warnings and error the Go method returns; an
  object is admitted when the error is nil. Quantities are parsed by
  \<open>k8s.io/apimachinery/pkg/api/resource\<close>, which is not part of the repository, so \<open>ParseQuantity\<close>
  is the argument \<open>pq\<close> of every validator.

  The locale \<open>storage_guard\<close> states what the three update validators promise about persistent
  storage; its lemmas carry the promise over any chain of admitted updates.
\<close>

type_synonym verdict = "string list \<times> error option"

datatype Object =
    RedisObj Redis
  | SentinelObj RedisSentinel
  | ClusterObj RedisCluster

text \<open>The verb \<open>%T\<close> on the dynamic type of an object.\<close>

fun typeName :: "Object \<Rightarrow> string" where
  "typeName (RedisObj _) = ''*v1alpha1.Redis''"
| "typeName (SentinelObj _) = ''*v1alpha1.RedisSentinel''"
| "typeName (ClusterObj _) = ''*v1alpha1.RedisCluster''"

section \<open>Checks the three webhooks share\<close>

definition checkStorageSpec :: "(string \<Rightarrow> Quantity result) \<Rightarrow> StorageSpec option \<Rightarrow> error option" where
  [webhook_defs]: "checkStorageSpec pq st =
     (case st of
        None \<Rightarrow> None
      | Some s \<Rightarrow>
          if Size s = [] then
            Some (Errorf ''spec.storage.size must not be empty when storage is configured'')
          else (case pq (Size s) of
                  Inl e \<Rightarrow> Some (Wrapf (''spec.storage.size '' @ Quote (Size s) @
                                    '' is not a valid resource.Quantity'') e)
                | Inr _ \<Rightarrow> None))"

definition storageClass :: "StorageSpec \<Rightarrow> string" where
  "storageClass s = (case ClassName s of None \<Rightarrow> [] | Some c \<Rightarrow> c)"

definition checkStorageUpdate ::
  "string \<Rightarrow> string \<Rightarrow> (string \<Rightarrow> Quantity result) \<Rightarrow> StorageSpec option \<Rightarrow> StorageSpec option \<Rightarrow> error option" where
  [webhook_defs]: "checkStorageUpdate addMsg removeMsg pq old new =
     (case (old, new) of
        (None, Some _) \<Rightarrow> Some (Errorf addMsg)
      | (Some _, None) \<Rightarrow> Some (Errorf removeMsg)
      | (None, None) \<Rightarrow> None
      | (Some so, Some sn) \<Rightarrow>
          if storageClass so \<noteq> storageClass sn then
            Some (Errorf ''spec.storage.storageClassName is immutable after creation'')
          else (case (pq (Size so), pq (Size sn)) of
                  (Inr qo, Inr qn) \<Rightarrow>
                    if qn < qo then
                      Some (Errorf (''spec.storage.size cannot be decreased (from '' @ Size so @
                                    '' to '' @ Size sn @ '')''))
                    else None
                | _ \<Rightarrow> None))"

section \<open>redis\_webhook.go\<close>

definition Redis_Default :: "Redis \<Rightarrow> Redis" where
  [webhook_defs]: "Redis_Default r =
     (let sp = r_Spec r;
          sp = (if r_Image sp = [] then sp\<lparr>r_Image := DefaultRedisImage\<rparr> else sp);
          sp = (if r_ExporterImage sp = [] then sp\<lparr>r_ExporterImage := DefaultExporterImage\<rparr> else sp);
          sp = (if r_EnableExporter sp = None then sp\<lparr>r_EnableExporter := Some True\<rparr> else sp)
      in r\<lparr>r_Spec := sp\<rparr>)"

definition Redis_validateSpec :: "(string \<Rightarrow> Quantity result) \<Rightarrow> Redis \<Rightarrow> verdict" where
  [webhook_defs]: "Redis_validateSpec pq r = ([], checkStorageSpec pq (r_Storage (r_Spec r)))"

definition Redis_ValidateCreate :: "(string \<Rightarrow> Quantity result) \<Rightarrow> Redis \<Rightarrow> verdict" where
  [webhook_defs]: "Redis_ValidateCreate pq r = Redis_validateSpec pq r"

definition Redis_ValidateUpdate :: "(string \<Rightarrow> Quantity result) \<Rightarrow> Redis \<Rightarrow> Object \<Rightarrow> verdict" where
  [webhook_defs]: "Redis_ValidateUpdate pq r old =
     (case old of
        RedisObj oldRedis \<Rightarrow>
          (case Redis_validateSpec pq r of
             (_, Some e) \<Rightarrow> ([], Some e)
           | (_, None) \<Rightarrow>
               ([], checkStorageUpdate
                  ''cannot add storage to an existing Redis instance; delete and recreate with storage configured''
                  ''cannot remove storage from an existing Redis instance''
                  pq (r_Storage (r_Spec oldRedis)) (r_Storage (r_Spec r))))
      | _ \<Rightarrow> ([], Some (Errorf (''unexpected type '' @ typeName old))))"

definition Redis_ValidateDelete :: "Redis \<Rightarrow> verdict" where
  [webhook_defs]: "Redis_ValidateDelete r = ([], None)"

section \<open>redissentinel\_webhook.go\<close>

definition RedisSentinel_Default :: "RedisSentinel \<Rightarrow> RedisSentinel" where
  [webhook_defs]: "RedisSentinel_Default r =
     (let sp = s_Spec r;
          sp = (if s_Image sp = [] then sp\<lparr>s_Image := DefaultRedisImage\<rparr> else sp);
          sp = (if s_ExporterImage sp = [] then sp\<lparr>s_ExporterImage := DefaultExporterImage\<rparr> else sp);
          sp = (if s_EnableExporter sp = None then sp\<lparr>s_EnableExporter := Some True\<rparr> else sp);
          sp = (if s_Replicas sp = 0 then sp\<lparr>s_Replicas := 3\<rparr> else sp);
          sp = (if s_SentinelReplicas sp = 0 then sp\<lparr>s_SentinelReplicas := 3\<rparr> else sp);
          sp = (if s_SentinelImage sp = [] then sp\<lparr>s_SentinelImage := s_Image sp\<rparr> else sp)
      in r\<lparr>s_Spec := sp\<rparr>)"

definition validateSentinelSpec :: "(string \<Rightarrow> Quantity result) \<Rightarrow> RedisSentinel \<Rightarrow> verdict" where
  [webhook_defs]: "validateSentinelSpec pq r =
     (let reps = sint (s_Replicas (s_Spec r)); sens = sint (s_SentinelReplicas (s_Spec r)) in
      if reps < 3 then ([], Some (Errorf (''spec.replicas must be at least 3, got '' @ Itoa reps)))
      else if sens < 3 then
        ([], Some (Errorf (''spec.sentinelReplicas must be at least 3, got '' @ Itoa sens)))
      else if sens mod 2 = 0 then
        ([], Some (Errorf (''spec.sentinelReplicas must be odd for quorum, got '' @ Itoa sens)))
      else ([], checkStorageSpec pq (s_Storage (s_Spec r))))"

definition RedisSentinel_ValidateCreate :: "(string \<Rightarrow> Quantity result) \<Rightarrow> RedisSentinel \<Rightarrow> verdict" where
  [webhook_defs]: "RedisSentinel_ValidateCreate pq r = validateSentinelSpec pq r"

definition RedisSentinel_ValidateUpdate ::
  "(string \<Rightarrow> Quantity result) \<Rightarrow> RedisSentinel \<Rightarrow> Object \<Rightarrow> verdict" where
  [webhook_defs]: "RedisSentinel_ValidateUpdate pq r old =
     (case old of
        SentinelObj oldSentinel \<Rightarrow>
          (case validateSentinelSpec pq r of
             (_, Some e) \<Rightarrow> ([], Some e)
           | (_, None) \<Rightarrow>
               (let reps = sint (s_Replicas (s_Spec r)); sens = sint (s_SentinelReplicas (s_Spec r)) in
                if reps < 3 then
                  ([], Some (Errorf (''cannot scale spec.replicas below 3, got '' @ Itoa reps)))
                else if sens < 3 then
                  ([], Some (Errorf (''cannot scale spec.sentinelReplicas below 3, got '' @ Itoa sens)))
                else ([], checkStorageUpdate
                        ''cannot add storage to an existing RedisSentinel instance''
                        ''cannot remove storage from an existing RedisSentinel instance''
                        pq (s_Storage (s_Spec oldSentinel)) (s_Storage (s_Spec r)))))
      | _ \<Rightarrow> ([], Some (Errorf (''unexpected type '' @ typeName old @ '' for old object''))))"

definition RedisSentinel_ValidateDelete :: "RedisSentinel \<Rightarrow> verdict" where
  [webhook_defs]: "RedisSentinel_ValidateDelete r = ([], None)"

section \<open>rediscluster\_webhook.go\<close>

definition setDefault :: "string \<Rightarrow> string \<Rightarrow> gomap \<Rightarrow> gomap" where
  "setDefault k v m = (case map_of m k of Some _ \<Rightarrow> m | None \<Rightarrow> AList.update k v m)"

definition RedisCluster_Default :: "RedisCluster \<Rightarrow> RedisCluster" where
  [webhook_defs]: "RedisCluster_Default r =
     (let sp = c_Spec r;
          sp = (if c_Image sp = [] then sp\<lparr>c_Image := DefaultRedisImage\<rparr> else sp);
          sp = (if c_ExporterImage sp = [] then sp\<lparr>c_ExporterImage := DefaultExporterImage\<rparr> else sp);
          sp = (if c_EnableExporter sp = None then sp\<lparr>c_EnableExporter := Some True\<rparr> else sp);
          sp = (if c_Masters sp = 0 then sp\<lparr>c_Masters := 3\<rparr> else sp);
          sp = sp\<lparr>c_RedisConfig := setDefault ''cluster-node-timeout'' ''15000'' (c_RedisConfig sp)\<rparr>;
          sp = sp\<lparr>c_RedisConfig := setDefault ''appendonly'' ''yes'' (c_RedisConfig sp)\<rparr>
      in r\<lparr>c_Spec := sp\<rparr>)"

definition validateClusterSpec :: "(string \<Rightarrow> Quantity result) \<Rightarrow> RedisCluster \<Rightarrow> verdict" where
  [webhook_defs]: "validateClusterSpec pq r =
     (let m = c_Masters (c_Spec r); rpm = c_ReplicasPerMaster (c_Spec r);
          totalNodes = m + m * rpm in
      if sint m < 3 then ([], Some (Errorf (''spec.masters must be at least 3, got '' @ Itoa (sint m))))
      else if sint rpm < 0 then
        ([], Some (Errorf (''spec.replicasPerMaster must be >= 0, got '' @ Itoa (sint rpm))))
      else if sint totalNodes > 100 then
        ([], Some (Errorf (''total node count '' @ Itoa (sint totalNodes) @ '' exceeds the limit of 100'')))
      else (case checkStorageSpec pq (c_Storage (c_Spec r)) of
              Some e \<Rightarrow> ([], Some e)
            | None \<Rightarrow>
                ((if sint m mod 2 = 0
                  then [''spec.masters='' @ Itoa (sint m) @
                        '' is even; an odd number is recommended for quorum'']
                  else []), None)))"

definition RedisCluster_ValidateCreate :: "(string \<Rightarrow> Quantity result) \<Rightarrow> RedisCluster \<Rightarrow> verdict" where
  [webhook_defs]: "RedisCluster_ValidateCreate pq r = validateClusterSpec pq r"

definition RedisCluster_ValidateUpdate ::
  "(string \<Rightarrow> Quantity result) \<Rightarrow> RedisCluster \<Rightarrow> Object \<Rightarrow> verdict" where
  [webhook_defs]: "RedisCluster_ValidateUpdate pq r old =
     (case old of
        ClusterObj oldCluster \<Rightarrow>
          (case validateClusterSpec pq r of
             (warnings, Some e) \<Rightarrow> (warnings, Some e)
           | (_, None) \<Rightarrow>
               (let m = c_Masters (c_Spec r); om = c_Masters (c_Spec oldCluster) in
                if sint m < 3 then ([], Some (Errorf ''cannot scale spec.masters below 3''))
                else if sint om > sint m \<and> sint (om - m) > 1 then
                  ([], Some (Errorf (''cannot scale masters down by more than 1 at a time (current: '' @
                     Itoa (sint om) @ '', requested: '' @ Itoa (sint m) @ '')'')))
                else if c_Phase (c_Status oldCluster) = PhaseScaling then
                  ([], Some (Errorf (''cannot modify cluster while it is in '' @ PhaseScaling @ '' phase'')))
                else ([], checkStorageUpdate
                        ''cannot add storage to an existing RedisCluster instance''
                        ''cannot remove storage from an existing RedisCluster instance''
                        pq (c_Storage (c_Spec oldCluster)) (c_Storage (c_Spec r)))))
      | _ \<Rightarrow> ([], Some (Errorf ''expected a RedisCluster object for the old resource'')))"

definition RedisCluster_ValidateDelete :: "RedisCluster \<Rightarrow> verdict" where
  [webhook_defs]: "RedisCluster_ValidateDelete r =
     (if c_Phase (c_Status r) = PhaseScaling
      then ([], Some (Errorf (''cannot delete cluster while it is in '' @ PhaseScaling @ '' phase'')))
      else ([], None))"

definition admitted :: "verdict \<Rightarrow> bool" where
  "admitted v \<longleftrightarrow> snd v = None"

section \<open>Storage under update\<close>

text \<open>
  What an admitted update may do to the storage of an object: keep it absent, or keep its class
  and grow its size.
\<close>

definition storage_kept ::
  "(string \<Rightarrow> Quantity result) \<Rightarrow> StorageSpec option \<Rightarrow> StorageSpec option \<Rightarrow> bool" where
  "storage_kept pq old new \<longleftrightarrow>
     (case (old, new) of
        (None, None) \<Rightarrow> True
      | (Some so, Some sn) \<Rightarrow>
          storageClass so = storageClass sn \<and>
          (\<exists>qn. pq (Size sn) = Inr qn \<and> (\<forall>qo. pq (Size so) = Inr qo \<longrightarrow> qo \<le> qn))
      | _ \<Rightarrow> False)"

lemma storage_kept_trans: "storage_kept pq a b \<Longrightarrow> storage_kept pq b c \<Longrightarrow> storage_kept pq a c"
  by (force simp: storage_kept_def split: option.splits)

lemma checks_storage_kept:
  assumes "checkStorageSpec pq new = None" and "checkStorageUpdate am rm pq old new = None"
  shows "storage_kept pq old new"
  using assms
  by (auto simp: webhook_defs storage_kept_def split: option.splits sum.splits if_splits)

locale storage_guard =
  fixes accepts :: "'a \<Rightarrow> 'a \<Rightarrow> bool"
    and storage :: "'a \<Rightarrow> StorageSpec option"
    and pq :: "string \<Rightarrow> Quantity result"
  assumes accepts_keeps: "accepts old new \<Longrightarrow> storage_kept pq (storage old) (storage new)"
begin

lemma chain_keeps: "successively accepts (x # xs) \<Longrightarrow> y \<in> set xs \<Longrightarrow> storage_kept pq (storage x) (storage y)"
proof (induction xs arbitrary: x)
  case Nil
  then show ?case by simp
next
  case (Cons z zs)
  then have xz: "storage_kept pq (storage x) (storage z)"
    by (auto intro: accepts_keeps)
  show ?case
  proof (cases "y = z")
    case True
    with xz show ?thesis by simp
  next
    case False
    with Cons have "storage_kept pq (storage z) (storage y)" by auto
    with xz show ?thesis by (rule storage_kept_trans)
  qed
qed

end

interpretation redis_guard: storage_guard
  "\<lambda>old new. admitted (Redis_ValidateUpdate pq new (RedisObj old))" "\<lambda>r. r_Storage (r_Spec r)" pq
  for pq
proof unfold_locales
  fix old new
  assume "admitted (Redis_ValidateUpdate pq new (RedisObj old))"
  then show "storage_kept pq (r_Storage (r_Spec old)) (r_Storage (r_Spec new))"
    unfolding Redis_ValidateUpdate_def Redis_validateSpec_def admitted_def
    by (auto intro: checks_storage_kept split: option.splits)
qed

interpretation sentinel_guard: storage_guard
  "\<lambda>old new. admitted (RedisSentinel_ValidateUpdate pq new (SentinelObj old))"
  "\<lambda>r. s_Storage (s_Spec r)" pq
  for pq
proof unfold_locales
  fix old new
  assume "admitted (RedisSentinel_ValidateUpdate pq new (SentinelObj old))"
  then show "storage_kept pq (s_Storage (s_Spec old)) (s_Storage (s_Spec new))"
    unfolding RedisSentinel_ValidateUpdate_def validateSentinelSpec_def admitted_def Let_def
    by (auto intro: checks_storage_kept split: option.splits if_splits)
qed

interpretation cluster_guard: storage_guard
  "\<lambda>old new. admitted (RedisCluster_ValidateUpdate pq new (ClusterObj old))"
  "\<lambda>r. c_Storage (c_Spec r)" pq
  for pq
proof unfold_locales
  fix old new
  assume "admitted (RedisCluster_ValidateUpdate pq new (ClusterObj old))"
  then show "storage_kept pq (c_Storage (c_Spec old)) (c_Storage (c_Spec new))"
    unfolding RedisCluster_ValidateUpdate_def validateClusterSpec_def admitted_def Let_def
    by (auto intro: checks_storage_kept split: option.splits if_splits)
qed

section \<open>Node counts\<close>

lemma sint_minus_nonneg:
  fixes a b :: int32
  assumes "0 \<le> sint b" and "sint b \<le> sint a"
  shows "sint (a - b) = sint a - sint b"
proof -
  have "sint a < 2 ^ 31" using sint_lt [of a] by simp
  with assms have "signed_take_bit 31 (sint a - sint b) = sint a - sint b"
    by (intro signed_take_bit_int_eq_self) auto
  then show ?thesis by (simp add: sint_word_ariths)
qed

lemma sint_total_nodes:
  fixes m r :: int32
  assumes "0 \<le> sint m" and "0 \<le> sint r" and "sint m + sint m * sint r < 2 ^ 31"
  shows "sint (m + m * r) = sint m + sint m * sint r"
proof -
  define p where "p = sint m * sint r"
  have p: "0 \<le> p" "sint m + p < 2 ^ 31" using assms by (simp_all add: p_def)
  then have "signed_take_bit 31 p = p"
    using assms(1) by (intro signed_take_bit_int_eq_self) auto
  then have mr: "sint (m * r) = p" by (simp add: sint_word_ariths p_def)
  have "signed_take_bit 31 (sint m + p) = sint m + p"
    using assms(1) p by (intro signed_take_bit_int_eq_self) auto
  then show ?thesis by (simp add: sint_word_ariths(1) mr p_def [symmetric])
qed

lemma cluster_create_admitted_iff:
  "admitted (RedisCluster_ValidateCreate pq r) \<longleftrightarrow>
     3 \<le> sint (c_Masters (c_Spec r)) \<and> 0 \<le> sint (c_ReplicasPerMaster (c_Spec r)) \<and>
     sint (c_Masters (c_Spec r) + c_Masters (c_Spec r) * c_ReplicasPerMaster (c_Spec r)) \<le> 100 \<and>
     checkStorageSpec pq (c_Storage (c_Spec r)) = None"
  by (auto simp: RedisCluster_ValidateCreate_def validateClusterSpec_def admitted_def Let_def
      split: option.splits)

lemma cluster_update_admittedD:
  assumes "admitted (RedisCluster_ValidateUpdate pq new (ClusterObj old))"
  shows "3 \<le> sint (c_Masters (c_Spec new))"
    and "sint (c_Masters (c_Spec old)) - 1 \<le> sint (c_Masters (c_Spec new))"
    and "c_Phase (c_Status old) \<noteq> PhaseScaling"
    and "admitted (RedisCluster_ValidateCreate pq new)"
proof -
  let ?m = "c_Masters (c_Spec new)" and ?o = "c_Masters (c_Spec old)"
  show create: "admitted (RedisCluster_ValidateCreate pq new)"
    using assms unfolding RedisCluster_ValidateUpdate_def RedisCluster_ValidateCreate_def
    by (auto simp: admitted_def split: prod.splits option.splits)
  then show three: "3 \<le> sint ?m" by (simp add: cluster_create_admitted_iff)
  from assms create show "c_Phase (c_Status old) \<noteq> PhaseScaling"
    unfolding RedisCluster_ValidateUpdate_def RedisCluster_ValidateCreate_def
    by (auto simp: admitted_def Let_def split: prod.splits option.splits if_splits)
  from assms create have "\<not> (sint ?o > sint ?m \<and> sint (?o - ?m) > 1)"
    unfolding RedisCluster_ValidateUpdate_def RedisCluster_ValidateCreate_def
    by (auto simp: admitted_def Let_def split: prod.splits option.splits if_splits)
  with three show "sint ?o - 1 \<le> sint ?m"
    using sint_minus_nonneg [of ?m ?o] by linarith
qed

lemma cluster_chain_masters:
  assumes "successively (\<lambda>old new. admitted (RedisCluster_ValidateUpdate pq new (ClusterObj old))) xs"
    and "i < length xs"
  shows "sint (c_Masters (c_Spec (xs ! 0))) - int i \<le> sint (c_Masters (c_Spec (xs ! i)))"
  using assms(2)
proof (induction i)
  case 0
  then show ?case by simp
next
  case (Suc i)
  from assms(1) Suc.prems
  have "admitted (RedisCluster_ValidateUpdate pq (xs ! Suc i) (ClusterObj (xs ! i)))"
    by (auto simp: successively_conv_nth)
  then have "sint (c_Masters (c_Spec (xs ! i))) - 1 \<le> sint (c_Masters (c_Spec (xs ! Suc i)))"
    by (rule cluster_update_admittedD)
  with Suc show ?case by simp
qed

section \<open>Normal forms of defaulting\<close>

text \<open>Each conditional assignment of a \<open>Default\<close> method as an unconditional one.\<close>

lemma Redis_Default_eq:
  "Redis_Default r = r\<lparr>r_Spec := (r_Spec r)\<lparr>
     r_Image := (if r_Image (r_Spec r) = [] then DefaultRedisImage else r_Image (r_Spec r)),
     r_ExporterImage := (if r_ExporterImage (r_Spec r) = [] then DefaultExporterImage
                         else r_ExporterImage (r_Spec r)),
     r_EnableExporter := (if r_EnableExporter (r_Spec r) = None then Some True
                          else r_EnableExporter (r_Spec r))\<rparr>\<rparr>"
proof -
  have f: "(if r_Image sp = [] then sp\<lparr>r_Image := d\<rparr> else sp) =
      sp\<lparr>r_Image := (if r_Image sp = [] then d else r_Image sp)\<rparr>"
    "(if r_ExporterImage sp = [] then sp\<lparr>r_ExporterImage := d\<rparr> else sp) =
      sp\<lparr>r_ExporterImage := (if r_ExporterImage sp = [] then d else r_ExporterImage sp)\<rparr>"
    "(if r_EnableExporter sp = None then sp\<lparr>r_EnableExporter := b\<rparr> else sp) =
      sp\<lparr>r_EnableExporter := (if r_EnableExporter sp = None then b else r_EnableExporter sp)\<rparr>"
    for sp :: RedisSpec and d b by simp_all
  show ?thesis unfolding Redis_Default_def Let_def f by simp
qed

lemma RedisSentinel_Default_eq:
  "RedisSentinel_Default r = r\<lparr>s_Spec := (s_Spec r)\<lparr>
     s_Image := (if s_Image (s_Spec r) = [] then DefaultRedisImage else s_Image (s_Spec r)),
     s_ExporterImage := (if s_ExporterImage (s_Spec r) = [] then DefaultExporterImage
                         else s_ExporterImage (s_Spec r)),
     s_EnableExporter := (if s_EnableExporter (s_Spec r) = None then Some True
                          else s_EnableExporter (s_Spec r)),
     s_Replicas := (if s_Replicas (s_Spec r) = 0 then 3 else s_Replicas (s_Spec r)),
     s_SentinelReplicas := (if s_SentinelReplicas (s_Spec r) = 0 then 3
                            else s_SentinelReplicas (s_Spec r)),
     s_SentinelImage := (if s_SentinelImage (s_Spec r) = []
                         then (if s_Image (s_Spec r) = [] then DefaultRedisImage else s_Image (s_Spec r))
                         else s_SentinelImage (s_Spec r))\<rparr>\<rparr>"
proof -
  have f: "(if s_Image sp = [] then sp\<lparr>s_Image := d\<rparr> else sp) =
      sp\<lparr>s_Image := (if s_Image sp = [] then d else s_Image sp)\<rparr>"
    "(if s_ExporterImage sp = [] then sp\<lparr>s_ExporterImage := d\<rparr> else sp) =
      sp\<lparr>s_ExporterImage := (if s_ExporterImage sp = [] then d else s_ExporterImage sp)\<rparr>"
    "(if s_EnableExporter sp = None then sp\<lparr>s_EnableExporter := b\<rparr> else sp) =
      sp\<lparr>s_EnableExporter := (if s_EnableExporter sp = None then b else s_EnableExporter sp)\<rparr>"
    "(if s_Replicas sp = 0 then sp\<lparr>s_Replicas := n\<rparr> else sp) =
      sp\<lparr>s_Replicas := (if s_Replicas sp = 0 then n else s_Replicas sp)\<rparr>"
    "(if s_SentinelReplicas sp = 0 then sp\<lparr>s_SentinelReplicas := n\<rparr> else sp) =
      sp\<lparr>s_SentinelReplicas := (if s_SentinelReplicas sp = 0 then n else s_SentinelReplicas sp)\<rparr>"
    "(if s_SentinelImage sp = [] then sp\<lparr>s_SentinelImage := d\<rparr> else sp) =
      sp\<lparr>s_SentinelImage := (if s_SentinelImage sp = [] then d else s_SentinelImage sp)\<rparr>"
    for sp :: RedisSentinelSpec and d b n by simp_all
  show ?thesis unfolding RedisSentinel_Default_def Let_def f by simp
qed

lemma RedisCluster_Default_eq:
  "RedisCluster_Default r = r\<lparr>c_Spec := (c_Spec r)\<lparr>
     c_Image := (if c_Image (c_Spec r) = [] then DefaultRedisImage else c_Image (c_Spec r)),
     c_ExporterImage := (if c_ExporterImage (c_Spec r) = [] then DefaultExporterImage
                         else c_ExporterImage (c_Spec r)),
     c_EnableExporter := (if c_EnableExporter (c_Spec r) = None then Some True
                          else c_EnableExporter (c_Spec r)),
     c_Masters := (if c_Masters (c_Spec r) = 0 then 3 else c_Masters (c_Spec r)),
     c_RedisConfig := setDefault ''appendonly'' ''yes''
       (setDefault ''cluster-node-timeout'' ''15000'' (c_RedisConfig (c_Spec r)))\<rparr>\<rparr>"
proof -
  have f: "(if c_Image sp = [] then sp\<lparr>c_Image := d\<rparr> else sp) =
      sp\<lparr>c_Image := (if c_Image sp = [] then d else c_Image sp)\<rparr>"
    "(if c_ExporterImage sp = [] then sp\<lparr>c_ExporterImage := d\<rparr> else sp) =
      sp\<lparr>c_ExporterImage := (if c_ExporterImage sp = [] then d else c_ExporterImage sp)\<rparr>"
    "(if c_EnableExporter sp = None then sp\<lparr>c_EnableExporter := b\<rparr> else sp) =
      sp\<lparr>c_EnableExporter := (if c_EnableExporter sp = None then b else c_EnableExporter sp)\<rparr>"
    "(if c_Masters sp = 0 then sp\<lparr>c_Masters := n\<rparr> else sp) =
      sp\<lparr>c_Masters := (if c_Masters sp = 0 then n else c_Masters sp)\<rparr>"
    for sp :: RedisClusterSpec and d b n by simp_all
  show ?thesis unfolding RedisCluster_Default_def Let_def f by simp
qed

lemma map_of_setDefault:
  "map_of (setDefault k v m) = (case map_of m k of None \<Rightarrow> (map_of m)(k \<mapsto> v) | Some _ \<Rightarrow> map_of m)"
  by (auto simp: setDefault_def update_conv' split: option.split)

lemma setDefault_present: "map_of m k \<noteq> None \<Longrightarrow> setDefault k v m = m"
  by (auto simp: setDefault_def)

lemma setDefaults_idem:
  "setDefault j u (setDefault k v (setDefault j u (setDefault k v m))) = setDefault j u (setDefault k v m)"
  by (simp add: setDefault_present map_of_setDefault split: option.split)

section \<open>Sample objects\<close>

definition sampleQuantity :: "string \<Rightarrow> Quantity result" where
  "sampleQuantity t = (if t = ''1Gi'' then Inr 1073741824000000000
     else if t = ''2Gi'' then Inr 2147483648000000000 else Inl (Errorf ''unable to parse quantity''))"

definition sampleStorage :: "string \<Rightarrow> StorageSpec" where
  "sampleStorage sz = \<lparr>ClassName = Some ''ssd'', Size = sz, KeepAfterDeletion = False\<rparr>"

definition sampleCluster :: "int32 \<Rightarrow> int32 \<Rightarrow> string \<Rightarrow> RedisCluster" where
  "sampleCluster m rpm sz = (zeroRedisCluster ''shard'' ''prod'')\<lparr>c_Spec :=
     (c_Spec (zeroRedisCluster ''shard'' ''prod''))\<lparr>c_Masters := m, c_ReplicasPerMaster := rpm,
        c_Storage := Some (sampleStorage sz)\<rparr>\<rparr>"

definition sampleRedis :: "string \<Rightarrow> Redis" where
  "sampleRedis sz = (zeroRedis ''cache'' ''prod'')\<lparr>r_Spec :=
     (r_Spec (zeroRedis ''cache'' ''prod''))\<lparr>r_Storage := Some (sampleStorage sz)\<rparr>\<rparr>"

definition sampleSentinel :: "string \<Rightarrow> RedisSentinel" where
  "sampleSentinel sz = (zeroRedisSentinel ''ha'' ''prod'')\<lparr>s_Spec :=
     (s_Spec (zeroRedisSentinel ''ha'' ''prod''))\<lparr>s_Replicas := 3, s_SentinelReplicas := 5,
        s_Storage := Some (sampleStorage sz)\<rparr>\<rparr>"

lemmas sample_defs = sampleQuantity_def sampleStorage_def sampleCluster_def sampleRedis_def
  sampleSentinel_def zero_defs

lemma sampleCluster_update:
  "admitted (RedisCluster_ValidateUpdate sampleQuantity (sampleCluster 4 1 ''2Gi'') (ClusterObj (sampleCluster 5 1 ''1Gi'')))"
  by (simp add: webhook_defs sample_defs admitted_def storageClass_def phase_defs)

section \<open>Properties\<close>

text \<open>
  Along any sequence of updates the \<open>RedisCluster\<close> webhook admits, persistent storage is never
  added, removed or moved to another storage class, and its size never shrinks.
\<close>

theorem cluster_storage_immutable:
  assumes "successively (\<lambda>old new. admitted (RedisCluster_ValidateUpdate pq new (ClusterObj old))) (x # xs)"
    and "y \<in> set xs"
  shows "storage_kept pq (c_Storage (c_Spec x)) (c_Storage (c_Spec y))"
  using assms by (rule cluster_guard.chain_keeps)

theorem cluster_storage_immutable_witness:
  "storage_kept sampleQuantity (c_Storage (c_Spec (sampleCluster 5 1 ''1Gi'')))
     (c_Storage (c_Spec (sampleCluster 4 1 ''2Gi'')))"
  by (rule cluster_storage_immutable [where xs = "[sampleCluster 4 1 ''2Gi'']"])
    (simp_all add: sampleCluster_update)

text \<open>
  The same for \<open>Redis\<close>: admitted updates keep the storage class and never shrink the storage,
  so the choice between Deployment and StatefulSet made at creation stays.
\<close>

theorem redis_storage_immutable:
  assumes "successively (\<lambda>old new. admitted (Redis_ValidateUpdate pq new (RedisObj old))) (x # xs)"
    and "y \<in> set xs"
  shows "storage_kept pq (r_Storage (r_Spec x)) (r_Storage (r_Spec y))"
  using assms by (rule redis_guard.chain_keeps)

theorem redis_storage_immutable_witness:
  "storage_kept sampleQuantity (r_Storage (r_Spec (sampleRedis ''1Gi'')))
     (r_Storage (r_Spec (sampleRedis ''2Gi'')))"
  by (rule redis_storage_immutable [where xs = "[sampleRedis ''2Gi'']"])
    (simp_all add: webhook_defs sample_defs admitted_def storageClass_def)

text \<open>The same for \<open>RedisSentinel\<close>.\<close>

theorem sentinel_storage_immutable:
  assumes "successively (\<lambda>old new. admitted (RedisSentinel_ValidateUpdate pq new (SentinelObj old))) (x # xs)"
    and "y \<in> set xs"
  shows "storage_kept pq (s_Storage (s_Spec x)) (s_Storage (s_Spec y))"
  using assms by (rule sentinel_guard.chain_keeps)

theorem sentinel_storage_immutable_witness:
  "storage_kept sampleQuantity (s_Storage (s_Spec (sampleSentinel ''1Gi'')))
     (s_Storage (s_Spec (sampleSentinel ''2Gi'')))"
  by (rule sentinel_storage_immutable [where xs = "[sampleSentinel ''2Gi'']"])
    (simp_all add: webhook_defs sample_defs admitted_def storageClass_def)

text \<open>
  Admitted updates take masters away one at a time: after \<open>i\<close> updates a cluster has lost at most
  \<open>i\<close> masters, and it never has fewer than three.
\<close>

theorem cluster_scales_down_stepwise:
  assumes "successively (\<lambda>old new. admitted (RedisCluster_ValidateUpdate pq new (ClusterObj old))) xs"
    and "i < length xs" and "0 < i"
  shows "max 3 (sint (c_Masters (c_Spec (xs ! 0))) - int i) \<le> sint (c_Masters (c_Spec (xs ! i)))"
proof -
  obtain j where j: "i = Suc j" using assms(3) by (cases i) auto
  from assms(1,2) j have "admitted (RedisCluster_ValidateUpdate pq (xs ! i) (ClusterObj (xs ! j)))"
    by (auto simp: successively_conv_nth)
  then have "3 \<le> sint (c_Masters (c_Spec (xs ! i)))" by (rule cluster_update_admittedD)
  with cluster_chain_masters [OF assms(1,2)] show ?thesis by simp
qed

theorem cluster_scales_down_stepwise_witness:
  "max 3 (sint (c_Masters (c_Spec ([sampleCluster 5 1 ''1Gi'', sampleCluster 4 1 ''2Gi''] ! 0))) - int 1)
     \<le> sint (c_Masters (c_Spec ([sampleCluster 5 1 ''1Gi'', sampleCluster 4 1 ''2Gi''] ! 1)))"
  by (rule cluster_scales_down_stepwise [where pq = sampleQuantity])
    (simp_all add: sampleCluster_update)

text \<open>
  An admitted cluster has at most 100 nodes, as long as the node count fits the 32 bits it is
  computed in.
\<close>

theorem cluster_node_limit:
  assumes "admitted (RedisCluster_ValidateCreate pq r)"
    and "sint (c_Masters (c_Spec r)) + sint (c_Masters (c_Spec r)) * sint (c_ReplicasPerMaster (c_Spec r)) < 2 ^ 31"
  shows "sint (c_Masters (c_Spec r)) + sint (c_Masters (c_Spec r)) * sint (c_ReplicasPerMaster (c_Spec r)) \<le> 100"
  using assms sint_total_nodes [of "c_Masters (c_Spec r)" "c_ReplicasPerMaster (c_Spec r)"]
  by (simp add: cluster_create_admitted_iff)

theorem cluster_node_limit_witness:
  "sint (c_Masters (c_Spec (sampleCluster 4 1 ''2Gi''))) + sint (c_Masters (c_Spec (sampleCluster 4 1 ''2Gi'')))
     * sint (c_ReplicasPerMaster (c_Spec (sampleCluster 4 1 ''2Gi''))) \<le> 100"
  by (rule cluster_node_limit [where pq = sampleQuantity])
    (simp_all add: webhook_defs sample_defs admitted_def)

text \<open>
  The node count wraps around in 32 bits, so the limit can be passed: a cluster of 4 masters with
  \<open>2^30\<close> replicas each is admitted, although it asks for more than 100 nodes.
\<close>

theorem cluster_node_limit_wraps:
  "\<exists>r. admitted (RedisCluster_ValidateCreate pq r) \<and> sint (c_Masters (c_Spec r)) = 4 \<and>
       sint (c_ReplicasPerMaster (c_Spec r)) = 2 ^ 30"
proof
  let ?z = "zeroRedisCluster ''c'' ''ns''"
  let ?r = "?z\<lparr>c_Spec := (c_Spec ?z)\<lparr>c_Masters := 4, c_ReplicasPerMaster := 1073741824\<rparr>\<rparr>"
  show "admitted (RedisCluster_ValidateCreate pq ?r) \<and> sint (c_Masters (c_Spec ?r)) = 4 \<and>
       sint (c_ReplicasPerMaster (c_Spec ?r)) = 2 ^ 30"
    by (simp add: cluster_create_admitted_iff zero_defs checkStorageSpec_def)
qed

text \<open>
  While a cluster is in phase Scaling every update of it and its deletion are refused.
\<close>

theorem cluster_locked_while_scaling:
  assumes "c_Phase (c_Status old) = PhaseScaling"
  shows "\<not> admitted (RedisCluster_ValidateUpdate pq new (ClusterObj old)) \<and>
         \<not> admitted (RedisCluster_ValidateDelete old)"
  using assms cluster_update_admittedD(3) [of pq new old]
  by (auto simp: RedisCluster_ValidateDelete_def admitted_def)

theorem cluster_locked_while_scaling_witness:
  "\<not> admitted (RedisCluster_ValidateUpdate sampleQuantity (sampleCluster 4 1 ''2Gi'')
       (ClusterObj ((sampleCluster 4 1 ''2Gi'')\<lparr>c_Status :=
          (c_Status (sampleCluster 4 1 ''2Gi''))\<lparr>c_Phase := PhaseScaling\<rparr>\<rparr>))) \<and>
   \<not> admitted (RedisCluster_ValidateDelete ((sampleCluster 4 1 ''2Gi'')\<lparr>c_Status :=
          (c_Status (sampleCluster 4 1 ''2Gi''))\<lparr>c_Phase := PhaseScaling\<rparr>\<rparr>))"
  by (rule cluster_locked_while_scaling) simp

text \<open>Defaulting is idempotent for the three kinds, as a mutating webhook has to be.\<close>

theorem defaulting_idempotent:
  "Redis_Default (Redis_Default r) = Redis_Default r \<and>
   RedisSentinel_Default (RedisSentinel_Default s) = RedisSentinel_Default s \<and>
   RedisCluster_Default (RedisCluster_Default c) = RedisCluster_Default c"
  by (simp add: Redis_Default_eq RedisSentinel_Default_eq RedisCluster_Default_eq setDefaults_idem
      DefaultRedisImage_def DefaultExporterImage_def)

end
