(* ===== verification/Resources_Correct.thy ===== *)
theory Resources_Correct
  imports Services Webhooks
begin

text \<open>
  What the resource builders promise, read off the contracts of the component theories: the
  rendered configuration of Redis and of Sentinel with its quorum, the services of a Sentinel set and the
  volumes of the pods.
\<close>

section \<open>Configuration\<close>

text \<open>
  C36: The rendered \<open>redis.conf\<close> of a cluster has one line per key, in sorted order. Its keys are
  those of the defaults and those of the user together, and the line of a key carries the user's
  value wherever the user gives one and the default otherwise.
\<close>

theorem cluster_conf_lines:
  assumes "is_gomap (c_RedisConfig (c_Spec rc))"
  shows "\<exists>ks. sorted ks \<and> distinct ks \<and>
    set ks = dom (map_of clusterConfDefaults) \<union> dom (map_of (c_RedisConfig (c_Spec rc))) \<and>
    mget (cm_Data (BuildClusterConfigMap rc)) ''redis.conf'' =
      concat (map (\<lambda>k. k @ '' '' @ (case map_of (c_RedisConfig (c_Spec rc)) k of
        Some v \<Rightarrow> v | None \<Rightarrow> mget clusterConfDefaults k) @ [CHR 0x0A]) ks)"
proof -
  let ?u = "c_RedisConfig (c_Spec rc)"
  have rc: "rc\<lparr>c_Spec := (c_Spec rc)\<lparr>c_RedisConfig := ?u\<rparr>\<rparr> = rc" by simp
  from cluster_conf.lines [OF assms, of rc, unfolded rc] obtain ks where ks: "sorted ks" "distinct ks"
    "set ks = dom (map_of clusterConfDefaults ++ map_of ?u)"
    and conf: "mget (cm_Data (BuildClusterConfigMap rc)) ''redis.conf'' = concat (map (confLine (moverlay clusterConfDefaults ?u)) ks)"
    by blast
  have "confLine (moverlay clusterConfDefaults ?u) =
      (\<lambda>k. k @ '' '' @ (case map_of ?u k of Some v \<Rightarrow> v | None \<Rightarrow> mget clusterConfDefaults k) @ [CHR 0x0A])"
    using cluster_conf.entry [OF assms] by (auto simp: fun_eq_iff confLine_def mget_def split: option.split)
  with ks conf show ?thesis by (auto simp: Un_commute)
qed

theorem cluster_conf_lines_witness:
  "\<exists>ks. sorted ks \<and> distinct ks \<and>
    set ks = dom (map_of clusterConfDefaults) \<union> dom (map_of (c_RedisConfig (c_Spec (zeroRedisCluster ''c'' ''ns'')))) \<and>
    mget (cm_Data (BuildClusterConfigMap (zeroRedisCluster ''c'' ''ns''))) ''redis.conf'' =
      concat (map (\<lambda>k. k @ '' '' @ (case map_of (c_RedisConfig (c_Spec (zeroRedisCluster ''c'' ''ns''))) k of
        Some v \<Rightarrow> v | None \<Rightarrow> mget clusterConfDefaults k) @ [CHR 0x0A]) ks)"
  by (rule cluster_conf_lines) (simp add: zero_defs is_gomap_def)

text \<open>
  C37: The config map of a cluster does not depend on the order in which Go visits the user's
  configuration map. Reconciling an unchanged resource twice therefore renders the same text, and
  the config hash put on the pods cannot restart them.
\<close>

theorem cluster_conf_order_irrelevant:
  assumes "mset u = mset u'" and "is_gomap u"
  shows "BuildClusterConfigMap (rc\<lparr>c_Spec := (c_Spec rc)\<lparr>c_RedisConfig := u\<rparr>\<rparr>)
    = BuildClusterConfigMap (rc\<lparr>c_Spec := (c_Spec rc)\<lparr>c_RedisConfig := u'\<rparr>\<rparr>)"
proof -
  have "renderConf (moverlay clusterConfDefaults u) = renderConf (moverlay clusterConfDefaults u')"
    using cluster_conf.order_irrelevant [OF assms, of rc]
    by (simp add: BuildClusterConfigMap_def mkConfigMap_def Let_def mget_def)
  then show ?thesis by (simp add: BuildClusterConfigMap_def Let_def)
qed

theorem cluster_conf_order_irrelevant_witness:
  "BuildClusterConfigMap ((zeroRedisCluster ''c'' ''ns'')\<lparr>c_Spec := (c_Spec (zeroRedisCluster ''c'' ''ns''))
      \<lparr>c_RedisConfig := [(''hz'', ''20''), (''port'', ''7000'')]\<rparr>\<rparr>)
    = BuildClusterConfigMap ((zeroRedisCluster ''c'' ''ns'')\<lparr>c_Spec := (c_Spec (zeroRedisCluster ''c'' ''ns''))
      \<lparr>c_RedisConfig := [(''port'', ''7000''), (''hz'', ''20'')]\<rparr>\<rparr>)"
  by (rule cluster_conf_order_irrelevant) (simp_all add: is_gomap_def)

text \<open>The keys of the operator's own \<open>sentinel.conf\<close>, and their values.\<close>

lemma sentinel_defaults:
  "set (map fst (sentinelConfDefaults ip q)) = {''sentinel monitor mymaster'', ''sentinel down-after-milliseconds mymaster'',
     ''sentinel failover-timeout mymaster'', ''sentinel parallel-syncs mymaster''}"
  "k \<in> set (map fst (sentinelConfDefaults ip q)) \<Longrightarrow> mget (sentinelConfDefaults ip q) k =
     (if k = ''sentinel monitor mymaster'' then ip @ '' 6379 '' @ Itoa q
      else if k = ''sentinel down-after-milliseconds mymaster'' then ''5000''
      else if k = ''sentinel failover-timeout mymaster'' then ''10000'' else ''1'')"
  by (auto simp: sentinelConfDefaults_def mget_def)

text \<open>
  C38: The \<open>sentinel.conf\<close> of every \<open>RedisSentinel\<close> the webhook admits has one line per key, in sorted order: the
  four keys of the operator and those of the user. The value the operator gives for the monitored master names its address,
  port 6379 and a quorum that is a strict majority of the Sentinels, so that two disjoint groups of them never both
  agree that it is down, and one that can be lost a member of. This is what is rendered unless the user has an entry
  \<open>sentinel monitor mymaster\<close> of his own, and the webhook admits any: it does not look at the user's entries.
\<close>

theorem sentinel_conf_quorum:
  assumes "admitted (RedisSentinel_ValidateCreate pq rs)" and "is_gomap (s_SentinelConfig (s_Spec rs))"
  shows "\<exists>q ks. sint (s_SentinelReplicas (s_Spec rs)) < 2 * q \<and> q < sint (s_SentinelReplicas (s_Spec rs)) \<and>
    sorted ks \<and> distinct ks \<and>
    set ks = {''sentinel monitor mymaster'', ''sentinel down-after-milliseconds mymaster'', ''sentinel failover-timeout mymaster'',
      ''sentinel parallel-syncs mymaster''} \<union> dom (map_of (s_SentinelConfig (s_Spec rs))) \<and>
    mget (cm_Data (BuildSentinelConfigMap rs ip)) ''sentinel.conf'' =
      concat (map (\<lambda>k. k @ '' '' @ (case map_of (s_SentinelConfig (s_Spec rs)) k of
        Some v \<Rightarrow> v
      | None \<Rightarrow> if k = ''sentinel monitor mymaster'' then ip @ '' 6379 '' @ Itoa q
          else if k = ''sentinel down-after-milliseconds mymaster'' then ''5000''
          else if k = ''sentinel failover-timeout mymaster'' then ''10000'' else ''1'') @ [CHR 0x0A]) ks) \<and>
    RedisSentinel_ValidateCreate pq (rs\<lparr>s_Spec := (s_Spec rs)\<lparr>s_SentinelConfig := anyConfig\<rparr>\<rparr>) = RedisSentinel_ValidateCreate pq rs"
proof (intro exI conjI)
  let ?u = "s_SentinelConfig (s_Spec rs)" and ?n = "s_SentinelReplicas (s_Spec rs)"
  let ?d = "sentinelConfDefaults ip (sentinelQuorum ?n)"
  let ?ks = "sort (map fst (moverlay ?d ?u))"
  show "sint ?n < 2 * sentinelQuorum ?n" "sentinelQuorum ?n < sint ?n"
    using assms(1) by (auto simp: webhook_defs admitted_def sentinelQuorum_def Let_def split: if_splits)
  have ok: "is_gomap (moverlay ?d ?u)" by (simp add: sentinel_conf.defaults_ok)
  then show "sorted ?ks" "distinct ?ks" by (simp_all add: is_gomap_def)
  have "set ?ks = dom (map_of ?d ++ map_of ?u)"
    using assms(2) by (simp add: dom_map_of_conv_image_fst flip: map_of_moverlay)
  then show "set ?ks = {''sentinel monitor mymaster'', ''sentinel down-after-milliseconds mymaster'',
      ''sentinel failover-timeout mymaster'', ''sentinel parallel-syncs mymaster''} \<union> dom (map_of ?u)"
    by (simp only: dom_map_add dom_map_of_conv_image_fst flip: set_map) (simp only: sentinel_defaults Un_commute)
  have "confLine (moverlay ?d ?u) k = k @ '' '' @ (case map_of ?u k of Some v \<Rightarrow> v
      | None \<Rightarrow> if k = ''sentinel monitor mymaster'' then ip @ '' 6379 '' @ Itoa (sentinelQuorum ?n)
          else if k = ''sentinel down-after-milliseconds mymaster'' then ''5000''
          else if k = ''sentinel failover-timeout mymaster'' then ''10000'' else ''1'') @ [CHR 0x0A]" if "k \<in> set ?ks" for k
  proof (cases "map_of ?u k")
    case None
    then have "k \<in> set (map fst ?d)"
      using that \<open>set ?ks = dom (map_of ?d ++ map_of ?u)\<close> by (auto simp: dom_map_of_conv_image_fst map_of_eq_None_iff)
    moreover have "mget (moverlay ?d ?u) k = mget ?d k"
      using sentinel_conf.entry [OF assms(2), of ip rs k] None by (simp only: mget_def option.case)
    ultimately show ?thesis using None by (simp only: confLine_def sentinel_defaults(2) option.case)
  next
    case (Some v)
    then have "mget (moverlay ?d ?u) k = v" using sentinel_conf.entry [OF assms(2), of ip rs k] by (simp only: mget_def option.case)
    then show ?thesis using Some by (simp only: confLine_def option.case)
  qed
  then show "mget (cm_Data (BuildSentinelConfigMap rs ip)) ''sentinel.conf'' =
      concat (map (\<lambda>k. k @ '' '' @ (case map_of ?u k of Some v \<Rightarrow> v
      | None \<Rightarrow> if k = ''sentinel monitor mymaster'' then ip @ '' 6379 '' @ Itoa (sentinelQuorum ?n)
          else if k = ''sentinel down-after-milliseconds mymaster'' then ''5000''
          else if k = ''sentinel failover-timeout mymaster'' then ''10000'' else ''1'') @ [CHR 0x0A]) ?ks)"
    by (simp only: BuildSentinelConfigMap_def mkConfigMap_def Let_def renderConf_def ConfigMap.simps cong: map_cong) (simp add: mget_def)
qed (simp add: webhook_defs Let_def)

theorem sentinel_conf_quorum_witness:
  "\<exists>q ks. sint (s_SentinelReplicas (s_Spec (sampleSentinel ''1Gi''))) < 2 * q \<and> q < sint (s_SentinelReplicas (s_Spec (sampleSentinel ''1Gi''))) \<and>
    sorted ks \<and> distinct ks \<and>
    set ks = {''sentinel monitor mymaster'', ''sentinel down-after-milliseconds mymaster'', ''sentinel failover-timeout mymaster'',
      ''sentinel parallel-syncs mymaster''} \<union> dom (map_of (s_SentinelConfig (s_Spec (sampleSentinel ''1Gi'')))) \<and>
    mget (cm_Data (BuildSentinelConfigMap (sampleSentinel ''1Gi'') ''m'')) ''sentinel.conf'' =
      concat (map (\<lambda>k. k @ '' '' @ (case map_of (s_SentinelConfig (s_Spec (sampleSentinel ''1Gi''))) k of
        Some v \<Rightarrow> v
      | None \<Rightarrow> if k = ''sentinel monitor mymaster'' then ''m'' @ '' 6379 '' @ Itoa q
          else if k = ''sentinel down-after-milliseconds mymaster'' then ''5000''
          else if k = ''sentinel failover-timeout mymaster'' then ''10000'' else ''1'') @ [CHR 0x0A]) ks) \<and>
    RedisSentinel_ValidateCreate sampleQuantity ((sampleSentinel ''1Gi'')\<lparr>s_Spec := (s_Spec (sampleSentinel ''1Gi''))\<lparr>s_SentinelConfig := []\<rparr>\<rparr>)
      = RedisSentinel_ValidateCreate sampleQuantity (sampleSentinel ''1Gi'')"
  by (rule sentinel_conf_quorum) (simp_all add: webhook_defs sample_defs admitted_def is_gomap_def)

section \<open>Selectors\<close>

text \<open>
  The two StatefulSets of a cluster select the pods made from their own templates and no pod of
  the other, nor any pod of another resource of the namespace; the client service of the cluster
  selects the pods of both.
\<close>

theorem cluster_selectors:
  "let m = sts_Spec (BuildClusterMasterStatefulSet pq rc); r = sts_Spec (BuildClusterReplicaStatefulSet pq rc) in
     selects (ss_Selector m) (pt_Labels (ss_Template m)) \<and> selects (ss_Selector r) (pt_Labels (ss_Template r)) \<and>
     \<not> selects (ss_Selector m) (pt_Labels (ss_Template r)) \<and> \<not> selects (ss_Selector r) (pt_Labels (ss_Template m)) \<and>
     (\<forall>n c. selects (ss_Selector m) (PodLabels n c) \<longleftrightarrow> n = om_Name (c_Meta rc) \<and> c = ComponentMaster) \<and>
     selects (sv_Selector (svc_Spec (BuildClusterClientService rc))) (pt_Labels (ss_Template m)) \<and>
     selects (sv_Selector (svc_Spec (BuildClusterClientService rc))) (pt_Labels (ss_Template r))"
  using master_sts.selects_own [of pq rc] replica_sts.selects_own [of pq rc]
    master_sts.selects_no_other [of pq rc] replica_sts.selects_no_other [of pq rc]
  by (simp add: Let_def master_sts.template_eq replica_sts.template_eq component_defs service_defs selects_def
      PodLabels_def CommonLabels_def label_key_defs)

lemma role_selectors:
  assumes "map_of labels labelInstance = Some (om_Name (s_Meta rs))"
  shows "selects (sv_Selector (svc_Spec (BuildSentinelMasterService rs))) labels
      \<longleftrightarrow> map_of labels RoleLabelKey = Some RoleMaster"
    and "selects (sv_Selector (svc_Spec (BuildSentinelReplicaService rs))) labels
      \<longleftrightarrow> map_of labels RoleLabelKey = Some RoleReplica"
  using assms by (simp_all add: service_defs Let_def selects_def component_defs)

text \<open>
  The two role services of a \<open>RedisSentinel\<close> split its pods by the role label: a pod of the set is
  behind the master service exactly when its role is master, behind the replica service exactly
  when it is replica, and never behind both.
\<close>

theorem role_services_partition:
  assumes "map_of labels labelInstance = Some (om_Name (s_Meta rs))"
  shows "(selects (sv_Selector (svc_Spec (BuildSentinelMasterService rs))) labels
           \<longleftrightarrow> map_of labels RoleLabelKey = Some RoleMaster) \<and>
    (selects (sv_Selector (svc_Spec (BuildSentinelReplicaService rs))) labels
           \<longleftrightarrow> map_of labels RoleLabelKey = Some RoleReplica) \<and>
    \<not> (selects (sv_Selector (svc_Spec (BuildSentinelMasterService rs))) labels \<and>
       selects (sv_Selector (svc_Spec (BuildSentinelReplicaService rs))) labels)"
  unfolding role_selectors [OF assms] by (simp add: component_defs)

theorem role_services_partition_witness:
  "(selects (sv_Selector (svc_Spec (BuildSentinelMasterService (zeroRedisSentinel ''s'' ''ns'')))) [(labelInstance, ''s''), (RoleLabelKey, RoleMaster)]
           \<longleftrightarrow> map_of [(labelInstance, ''s''), (RoleLabelKey, RoleMaster)] RoleLabelKey = Some RoleMaster) \<and>
    (selects (sv_Selector (svc_Spec (BuildSentinelReplicaService (zeroRedisSentinel ''s'' ''ns'')))) [(labelInstance, ''s''), (RoleLabelKey, RoleMaster)]
           \<longleftrightarrow> map_of [(labelInstance, ''s''), (RoleLabelKey, RoleMaster)] RoleLabelKey = Some RoleReplica) \<and>
    \<not> (selects (sv_Selector (svc_Spec (BuildSentinelMasterService (zeroRedisSentinel ''s'' ''ns'')))) [(labelInstance, ''s''), (RoleLabelKey, RoleMaster)] \<and>
       selects (sv_Selector (svc_Spec (BuildSentinelReplicaService (zeroRedisSentinel ''s'' ''ns'')))) [(labelInstance, ''s''), (RoleLabelKey, RoleMaster)])"
  by (rule role_services_partition) (simp add: zero_defs)

text \<open>
  No service the operator creates has a port with the name the service monitors ask Prometheus to
  scrape, although every pod with the exporter sidecar opens such a port: the monitors match
  services but no endpoint.
\<close>

theorem monitors_scrape_no_service_port:
  "(sp_Name ` (\<Union>s \<in> set (redisServices r @ sentinelServices rs @ clusterServices rc). set (sv_Ports (svc_Spec s)))) \<inter>
   (ep_Port ` set (sm_Endpoints (sm_Spec (BuildRedisServiceMonitor r)) @
             sm_Endpoints (sm_Spec (BuildSentinelServiceMonitor rs)) @
             sm_Endpoints (sm_Spec (BuildClusterServiceMonitor rc)))) = {}"
  by (simp add: service_defs Let_def buildServiceMonitor_def BuildRedisServiceMonitor_def
      BuildSentinelServiceMonitor_def BuildClusterServiceMonitor_def exporterPortName_def)

section \<open>Volumes\<close>

text \<open>The mounts and volumes of the Redis container, which all the pods of the operator share.\<close>

lemma redis_mounts:
  "mounts_backed \<lparr>ps_InitContainers = [], ps_Containers = c # (if e then [buildExporterContainer pq ei auth'] else []),
     ps_Volumes = vs, ps_Affinity = a, ps_Tolerations = t, ps_NodeSelector = ns\<rparr> claims
   \<longleftrightarrow> (vm_Name ` set (ct_VolumeMounts c) \<subseteq> vo_Name ` set vs \<union> set claims)"
  by (auto simp: mounts_backed_def buildExporterContainer_def zeroContainer_def)

lemma redis_container_mounts:
  "vm_Name ` set (ct_VolumeMounts (buildRedisContainer img res auth tls cfg st)) =
     {''config''} \<union> (if st then {''data''} else {}) \<union> (if tls \<noteq> None then {''tls''} else {})"
  by (auto simp: buildRedisContainer_def Let_def zeroContainer_def)

lemma volume_names: "vo_Name ` set (buildVolumes cfg tls) = {''config''} \<union> (if tls \<noteq> None then {''tls''} else {})"
  by (auto simp: buildVolumes_def split: option.splits)

lemma claim_names: "pvc_Name ` set (claimsFor pq st) = (if st \<noteq> None then {''data''} else {})"
  by (auto simp: claimsFor_def buildPVCTemplates_def split: option.splits)

text \<open>
  C39: The pods of a standalone Redis without storage mount only volumes that exist, an empty directory
  among them; in a StatefulSet the claim template backs the data mount exactly when there is
  storage. The cluster has only StatefulSets, so without storage its master and replica pods mount
  a volume \<open>data\<close> that nothing provides, and Kubernetes rejects them.
\<close>

theorem volume_mounts_backed:
  "mounts_backed (pt_Spec (ds_Template (dep_Spec (BuildRedisDeployment pq r)))) [] \<and>
   (mounts_backed (pt_Spec (ss_Template (sts_Spec (BuildRedisStatefulSet pq r))))
      (map pvc_Name (ss_VolumeClaimTemplates (sts_Spec (BuildRedisStatefulSet pq r)))) \<longleftrightarrow> r_Storage (r_Spec r) \<noteq> None) \<and>
   (mounts_backed (pt_Spec (ss_Template (sts_Spec (BuildClusterMasterStatefulSet pq rc))))
      (map pvc_Name (ss_VolumeClaimTemplates (sts_Spec (BuildClusterMasterStatefulSet pq rc)))) \<longleftrightarrow> c_Storage (c_Spec rc) \<noteq> None) \<and>
   (mounts_backed (pt_Spec (ss_Template (sts_Spec (BuildClusterReplicaStatefulSet pq rc))))
      (map pvc_Name (ss_VolumeClaimTemplates (sts_Spec (BuildClusterReplicaStatefulSet pq rc)))) \<longleftrightarrow> c_Storage (c_Spec rc) \<noteq> None)"
proof (intro conjI)
  show "mounts_backed (pt_Spec (ds_Template (dep_Spec (BuildRedisDeployment pq r)))) []"
    by (auto simp: BuildRedisDeployment_def mkDeployment_def buildRedisPodSpec_def buildRedisContainer_def
        buildExporterContainer_def zeroContainer_def buildVolumes_def mounts_backed_def Let_def split: option.splits)
qed (auto simp: BuildRedisStatefulSet_def BuildClusterMasterStatefulSet_def BuildClusterReplicaStatefulSet_def
    mkStatefulSet_def buildRedisPodSpec_def buildClusterPodSpec_def Let_def redis_mounts redis_container_mounts
    volume_names claim_names)

end
