(* ===== verification/Effects.thy ===== *)
theory Effects
  imports K8s_Types Go_Strings
begin

text \<open>
  The outside world of the operator. What the program does to Redis servers, to the Kubernetes
  API, to the metrics registry and to the clock is a sequence of events, the trace; every
  operation takes the trace so far and returns it extended. What the world answers is a function
  of the trace (the whole history), so that a server may answer the same command differently
  every time, and two answers are related only where a hypothesis says so.

  An operation that cannot run forever returns its result paired with the trace. One that
  contains a loop the program itself does not bound returns an option of such a pair, with
  \<open>None\<close> for a run that never returns (or panics).

  The theory also holds the polling loop all the \<open>WaitFor\<close> functions share, with a locale that
  proves it sound and terminating for any probe, under a clock that advances while the program
  sleeps.
\<close>

section \<open>Events\<close>

datatype redis_cmd =
    Ping string
  | Info string string
  | ConfigSet string string string
  | ConfigGet string string
  | Save string
  | ClusterInfo string
  | ClusterNodes string
  | ClusterMeet string string int
  | ClusterAddSlots string "int list"
  | ClusterDelSlots string "int list"
  | ClusterReplicate string string
  | ClusterFailover string
  | ClusterForget string string
  | ClusterReset string bool
  | ClusterSetSlot string int string string
  | ClusterGetKeysInSlot string int int
  | ClusterCountKeysInSlot string int
  | Migrate string string int string int int
  | SentinelMaster string string
  | SentinelGetMasterAddr string string
  | SentinelFailover string string
  | SentinelReset string string
  | ReplicaOf string string int
  | Role string

datatype kube_op =
    GetRedis string string
  | GetSentinel string string
  | GetCluster string string
  | GetSecret string string
  | GetPVC string string
  | ListPVCs string gomap
  | DeletePVC string string
  | ListPods string gomap
  | PatchPod string Pod
  | UpdateRedis Redis
  | UpdateSentinel RedisSentinel
  | UpdateCluster RedisCluster
  | StatusRedis Redis
  | StatusSentinel RedisSentinel
  | StatusCluster RedisCluster
  | PatchCluster RedisCluster
  | Fetch kobj
  | Apply kobj
  | RecordEvent string string string

datatype metric_op =
    Inc string "string list"
  | Observe string "string list" int
  | SetGauge string "string list" int
  | DeleteSeries string "string list"

datatype event =
    Cmd redis_cmd
  | Kube kube_op
  | Metric metric_op
  | ReadClock
  | Sleep int

type_synonym trace = "event list"

text \<open>\<open>adds E tr tr'\<close>: the history \<open>tr'\<close> continues \<open>tr\<close> with events of the set \<open>E\<close> only.\<close>

definition adds :: "event set \<Rightarrow> trace \<Rightarrow> trace \<Rightarrow> bool" where
  "adds E tr tr' \<longleftrightarrow> (\<exists>es. tr' = tr @ es \<and> set es \<subseteq> E)"

lemma adds_refl [simp, intro]: "adds E tr tr"
  by (simp add: adds_def)

lemma adds_append [simp]: "adds E tr (tr @ es) \<longleftrightarrow> set es \<subseteq> E"
  by (simp add: adds_def)

lemma adds_trans [trans]: "adds E a b \<Longrightarrow> adds E b c \<Longrightarrow> adds E a c"
  by (auto simp: adds_def)

lemma adds_mono: "adds E a b \<Longrightarrow> E \<subseteq> F \<Longrightarrow> adds F a b"
  by (auto simp: adds_def)

lemma adds_more: "adds E a b \<Longrightarrow> set es \<subseteq> E \<Longrightarrow> adds E a (b @ es)"
  by (auto simp: adds_def)

lemma addsE [elim?]:
  assumes "adds E tr tr'"
  obtains es where "tr' = tr @ es" and "set es \<subseteq> E"
  using assms by (auto simp: adds_def)

section \<open>Clock, context and map order\<close>

text \<open>
  \<open>Now\<close> is the clock at a point of the history, in nanoseconds; \<open>Done\<close> is the error of
  \<open>ctx.Err()\<close> where the \<open>select\<close> statement of a loop takes its \<open>ctx.Done()\<close> case, and \<open>None\<close>
  where it waits out \<open>time.After\<close>; \<open>MapRank\<close> fixes the order in which a \<open>range\<close> over a map visits
  its keys: every order of the keys is the order of some rank.
\<close>

record Ctx =
  Now :: "trace \<Rightarrow> int"
  Done :: "trace \<Rightarrow> error option"
  MapRank :: "trace \<Rightarrow> string \<Rightarrow> nat"

definition time_Now :: "Ctx \<Rightarrow> trace \<Rightarrow> int \<times> trace" where
  "time_Now cx tr = (Now cx tr, tr @ [ReadClock])"

definition map_order :: "Ctx \<Rightarrow> trace \<Rightarrow> string list \<Rightarrow> string list" where
  "map_order cx tr ks = sort_key (MapRank cx tr) ks"

lemma mset_map_order [simp]: "mset (map_order cx tr ks) = mset ks"
  by (simp add: map_order_def)

lemma set_map_order [simp]: "set (map_order cx tr ks) = set ks"
  by (simp add: map_order_def)

text \<open>
  What Go documents of its clock: it never goes back (monotonic reading), and \<open>time.After(d)\<close>
  delivers no sooner than after the duration \<open>d\<close>.
\<close>

definition fair_clock :: "Ctx \<Rightarrow> bool" where
  "fair_clock cx \<longleftrightarrow>
     (\<forall>tr e. Now cx tr \<le> Now cx (tr @ [e])) \<and> (\<forall>tr d. Now cx tr + d \<le> Now cx (tr @ [Sleep d]))"

lemma fair_clock_append: "fair_clock cx \<Longrightarrow> Now cx tr \<le> Now cx (tr @ es)"
proof (induction es rule: rev_induct)
  case (snoc e es)
  then have "Now cx tr \<le> Now cx (tr @ es)" by simp
  also have "\<dots> \<le> Now cx ((tr @ es) @ [e])" using snoc.prems unfolding fair_clock_def by blast
  finally show ?case by simp
qed simp

lemma fair_clock_Sleep: "fair_clock cx \<Longrightarrow> Now cx tr + d \<le> Now cx (tr @ [Sleep d])"
  by (simp add: fair_clock_def)

section \<open>The polling loop\<close>

datatype ('r, 's) outcome = Returned 'r | Cancelled error | TimedOut 's

text \<open>
  The loop \<open>for time.Now().Before(deadline)\<close>: probe, return if the probe decides, otherwise wait two
  seconds unless the context ends. The probe carries a loop variable of type \<open>'s\<close>.
\<close>

partial_function (option) poll ::
  "Ctx \<Rightarrow> int \<Rightarrow> ('s \<Rightarrow> trace \<Rightarrow> ('r + 's) \<times> trace) \<Rightarrow> 's \<Rightarrow> trace \<Rightarrow> (('r, 's) outcome \<times> trace) option"
  where
  "poll cx deadline probe s tr =
     (let (t, tr) = time_Now cx tr in
      if t < deadline then
        (case probe s tr of
           (Inl r, tr) \<Rightarrow> Some (Returned r, tr)
         | (Inr s', tr) \<Rightarrow>
             (case Done cx tr of
                Some e \<Rightarrow> Some (Cancelled e, tr)
              | None \<Rightarrow> poll cx deadline probe s' (tr @ [Sleep (2 * second)])))
      else Some (TimedOut s, tr))"

declare poll.simps [code]

text \<open>Every run of the loop that returns went through states an invariant describes.\<close>

lemma poll_rule:
  assumes "poll cx dl probe s tr = Some (out, tr')" and "I s tr"
    and timeout: "\<And>s tr. I s tr \<Longrightarrow> dl \<le> Now cx tr \<Longrightarrow> Q (TimedOut s) (tr @ [ReadClock])"
    and return: "\<And>s tr r tr'. I s tr \<Longrightarrow> Now cx tr < dl \<Longrightarrow> probe s (tr @ [ReadClock]) = (Inl r, tr')
      \<Longrightarrow> Q (Returned r) tr'"
    and cancel: "\<And>s tr s' tr' e. I s tr \<Longrightarrow> probe s (tr @ [ReadClock]) = (Inr s', tr') \<Longrightarrow>
      Done cx tr' = Some e \<Longrightarrow> Q (Cancelled e) tr'"
    and step: "\<And>s tr s' tr'. I s tr \<Longrightarrow> probe s (tr @ [ReadClock]) = (Inr s', tr') \<Longrightarrow>
      Done cx tr' = None \<Longrightarrow> I s' (tr' @ [Sleep (2 * second)])"
  shows "Q out tr'"
proof -
  define P where "P = (\<lambda>cx0 dl0 probe0 s tr y. cx0 = cx \<longrightarrow> dl0 = dl \<longrightarrow> probe0 = probe \<longrightarrow> I s tr \<longrightarrow>
    (case y of (out, tr') \<Rightarrow> Q out tr'))"
  have "P cx dl probe s tr (out, tr')"
  proof (rule poll.raw_induct [of P, OF _ assms(1)])
    fix poll cx0 dl0 probe0 s tr y
    assume IH: "\<And>cx dl probe s tr y. poll cx dl probe s tr = Some y \<Longrightarrow> P cx dl probe s tr y"
      and eq: "(let (t, tr) = time_Now cx0 tr in
        if t < dl0 then
          (case probe0 s tr of
             (Inl r, tr) \<Rightarrow> Some (Returned r, tr)
           | (Inr s', tr) \<Rightarrow>
               (case Done cx0 tr of
                  Some e \<Rightarrow> Some (Cancelled e, tr)
                | None \<Rightarrow> poll cx0 dl0 probe0 s' (tr @ [Sleep (2 * second)])))
        else Some (TimedOut s, tr)) = Some y"
    show "P cx0 dl0 probe0 s tr y"
      unfolding P_def
    proof (intro impI)
      assume h: "cx0 = cx" "dl0 = dl" "probe0 = probe" "I s tr"
      obtain d tr1 where p: "probe s (tr @ [ReadClock]) = (d, tr1)" by fastforce
      show "case y of (out, tr') \<Rightarrow> Q out tr'"
      proof (cases "Now cx tr < dl")
        case False
        then show ?thesis using eq h timeout [of s tr] by (auto simp: time_Now_def)
      next
        case True
        show ?thesis
        proof (cases d)
          case (Inl r)
          then show ?thesis using eq h True p return [of s tr] by (auto simp: time_Now_def)
        next
          case (Inr s')
          show ?thesis
          proof (cases "Done cx tr1")
            case None
            have "poll cx dl probe s' (tr1 @ [Sleep (2 * second)]) = Some y"
              using eq h True p Inr None by (simp add: time_Now_def)
            from IH [OF this] show ?thesis using step [of s tr s' tr1] h p Inr None by (simp add: P_def)
          next
            case (Some e)
            then show ?thesis using eq h True p Inr cancel [of s tr s' tr1 e] by (auto simp: time_Now_def)
          qed
        qed
      qed
    qed
  qed
  then show ?thesis using assms(2) by (simp add: P_def)
qed

lemma append_Cons_snoc_eqE:
  assumes "xs @ y # ys = t @ [z]"
  obtains ts where "t = xs @ ts" and "y # ys = ts @ [z]"
proof -
  obtain zs w where w: "y # ys = zs @ [w]" by (metis append_butlast_last_id list.distinct(1))
  with assms have "t = xs @ zs" and "w = z" by simp_all
  with w that show thesis by blast
qed

lemma poll_times_out_late:
  fixes probe :: "'s \<Rightarrow> trace \<Rightarrow> ('r + 's) \<times> trace"
  assumes "poll cx dl probe s tr = Some (TimedOut s', tr')"
  shows "\<exists>t. tr' = t @ [ReadClock] \<and> dl \<le> Now cx t"
proof -
  let ?Q = "\<lambda>(out :: ('r, 's) outcome) t'. \<forall>s. out = TimedOut s \<longrightarrow> (\<exists>t. t' = t @ [ReadClock] \<and> dl \<le> Now cx t)"
  have "?Q (TimedOut s') tr'"
    by (rule poll_rule [OF assms, where I = "\<lambda>_ _. True" and Q = ?Q]) auto
  then show ?thesis by simp
qed

lemma poll_cancelled:
  fixes probe :: "'s \<Rightarrow> trace \<Rightarrow> ('r + 's) \<times> trace"
  assumes "poll cx dl probe s tr = Some (Cancelled e, tr')"
  shows "Done cx tr' = Some e"
proof -
  let ?Q = "\<lambda>(out :: ('r, 's) outcome) t'. \<forall>e. out = Cancelled e \<longrightarrow> Done cx t' = Some e"
  have "?Q (Cancelled e) tr'"
    by (rule poll_rule [OF assms, where I = "\<lambda>_ _. True" and Q = ?Q]) auto
  then show ?thesis by simp
qed

text \<open>
  A \<open>WaitFor\<close> function: it takes its deadline from the clock, polls, and turns the outcome into its
  result.
\<close>

definition waitUntil ::
  "Ctx \<Rightarrow> int \<Rightarrow> ('s \<Rightarrow> trace \<Rightarrow> ('r + 's) \<times> trace) \<Rightarrow> 's \<Rightarrow> (('r, 's) outcome \<Rightarrow> 'a) \<Rightarrow> trace \<Rightarrow>
     ('a \<times> trace) option" where
  "waitUntil cx timeout probe s finish tr =
     (let (t, tr) = time_Now cx tr in do {
        (out, tr) \<leftarrow> poll cx (t + timeout) probe s tr;
        Some (finish out, tr)
      })"

text \<open>The outcome as an error: nil, that of the context, or the one made for a timeout.\<close>

definition errOutcome :: "('s \<Rightarrow> error) \<Rightarrow> ('r, 's) outcome \<Rightarrow> error option" where
  "errOutcome late out =
     (case out of Returned _ \<Rightarrow> None | Cancelled e \<Rightarrow> Some e | TimedOut s \<Rightarrow> Some (late s))"

text \<open>
  The contract of a probe: it only asks questions of a given kind, and when it decides, its
  decision is justified by what the world answered.
\<close>

locale polling =
  fixes probe :: "'s \<Rightarrow> trace \<Rightarrow> ('r + 's) \<times> trace"
    and justified :: "'r \<Rightarrow> trace \<Rightarrow> bool"
    and asks :: "event set"
  assumes extends: "adds asks tr (snd (probe s tr))"
    and decides: "fst (probe s tr) = Inl r \<Longrightarrow> justified r tr"
begin

lemma terminates:
  assumes "fair_clock cx"
  shows "\<exists>out tr'. poll cx deadline probe s tr = Some (out, tr')"
proof (induction "nat (deadline - Now cx tr)" arbitrary: s tr rule: less_induct)
  case less
  let ?tr = "tr @ [ReadClock]"
  obtain d tr' where p: "probe s ?tr = (d, tr')" by (cases "probe s ?tr")
  obtain es where es: "tr' = ?tr @ es" using extends [of ?tr s] p by (auto simp: adds_def)
  have IH: "\<exists>out tr2. poll cx deadline probe s' (tr' @ [Sleep (2 * second)]) = Some (out, tr2)"
    if "Now cx tr < deadline" for s'
  proof (rule less)
    have "Now cx tr \<le> Now cx tr'"
      using fair_clock_append [OF assms, of tr "ReadClock # es"] es by simp
    moreover have "Now cx tr' + 2 * second \<le> Now cx (tr' @ [Sleep (2 * second)])"
      using assms by (rule fair_clock_Sleep)
    ultimately show "nat (deadline - Now cx (tr' @ [Sleep (2 * second)])) < nat (deadline - Now cx tr)"
      using that by (auto simp: second_def)
  qed
  show ?case
    using IH by (subst poll.simps) (auto simp: time_Now_def p split: sum.split option.split)
qed

lemma only_asks:
  assumes "poll cx dl probe s tr = Some (out, tr')"
  shows "adds (asks \<union> {ReadClock, Sleep (2 * second)}) tr tr'"
proof -
  define E where "E = asks \<union> {ReadClock, Sleep (2 * second)}"
  then have E: "asks \<subseteq> E" "ReadClock \<in> E" "Sleep (2 * second) \<in> E" by auto
  have probe: "adds E tr t'" if "adds E tr t" and "probe s (t @ [ReadClock]) = (d, t')" for s t d t'
  proof -
    have "adds E (t @ [ReadClock]) t'"
      using extends [of "t @ [ReadClock]" s] that(2) E(1) by (auto intro: adds_mono)
    moreover have "adds E tr (t @ [ReadClock])" using that(1) by (rule adds_more) (simp add: E)
    ultimately show ?thesis using adds_trans by blast
  qed
  have "adds E tr tr'"
    by (rule poll_rule [OF assms, where I = "\<lambda>s t. adds E tr t" and Q = "\<lambda>out t. adds E tr t"])
      (auto intro: adds_more probe simp: E)
  then show ?thesis by (simp add: E_def)
qed

lemma sound:
  assumes "poll cx dl probe s tr = Some (Returned r, tr')"
  shows "\<exists>es es'. tr' = tr @ es @ es' \<and> justified r (tr @ es)"
proof -
  let ?Q = "\<lambda>(out :: ('r, 's) outcome) t'. \<forall>r. out = Returned r \<longrightarrow> (\<exists>es es'. t' = tr @ es @ es' \<and> justified r (tr @ es))"
  have "?Q (Returned r) tr'"
  proof (rule poll_rule [OF assms, where I = "\<lambda>s t. \<exists>es. t = tr @ es" and Q = ?Q])
    fix s t r t'
    assume "\<exists>es. t = tr @ es" and p: "probe s (t @ [ReadClock]) = (Inl r, t')"
    then obtain es es' where "t = tr @ es" and "t' = t @ [ReadClock] @ es'"
      using extends [of "t @ [ReadClock]" s] by (auto simp: adds_def)
    moreover have "justified r (t @ [ReadClock])" using decides [of s "t @ [ReadClock]" r] p by simp
    ultimately show "?Q (Returned r) t'"
      by (auto intro: exI [of _ "es @ [ReadClock]"])
  next
    fix s t s' t'
    assume "\<exists>es. t = tr @ es" and "probe s (t @ [ReadClock]) = (Inr s', t')"
    then show "\<exists>es. t' @ [Sleep (2 * second)] = tr @ es"
      using extends [of "t @ [ReadClock]" s] by (auto simp: adds_def)
  qed auto
  then show ?thesis by simp
qed

definition waits :: "event set" where
  "waits = asks \<union> {ReadClock, Sleep (2 * second)}"

definition explained :: "Ctx \<Rightarrow> int \<Rightarrow> trace \<Rightarrow> ('r, 's) outcome \<Rightarrow> event list \<Rightarrow> bool" where
  "explained cx timeout tr out es \<longleftrightarrow> set es \<subseteq> waits \<and>
     (case out of
        Returned r \<Rightarrow> \<exists>us vs. es = us @ vs \<and> justified r (tr @ us)
      | Cancelled e \<Rightarrow> Done cx (tr @ es) = Some e
      | TimedOut _ \<Rightarrow> \<exists>ts. es = ts @ [ReadClock] \<and> Now cx tr + timeout \<le> Now cx (tr @ ts))"

lemma wait_explained:
  assumes "waitUntil cx timeout probe s finish tr = Some (x, tr')"
  shows "\<exists>out es. x = finish out \<and> tr' = tr @ es \<and> explained cx timeout tr out es"
proof -
  from assms obtain out where x: "x = finish out"
    and p: "poll cx (Now cx tr + timeout) probe s (tr @ [ReadClock]) = Some (out, tr')"
    by (auto simp: waitUntil_def time_Now_def Option.bind_eq_Some_conv)
  obtain es where es: "tr' = (tr @ [ReadClock]) @ es" and sub: "set (ReadClock # es) \<subseteq> waits"
    using only_asks [OF p] by (auto simp: adds_def waits_def)
  have "explained cx timeout tr out (ReadClock # es)"
  proof (cases out)
    case (Returned r)
    from sound [OF p [unfolded Returned]] obtain us vs
      where "tr' = (tr @ [ReadClock]) @ us @ vs" "justified r ((tr @ [ReadClock]) @ us)" by blast
    then have "ReadClock # es = (ReadClock # us) @ vs \<and> justified r (tr @ ReadClock # us)" using es by simp
    then show ?thesis using sub unfolding explained_def Returned outcome.case by blast
  next
    case (Cancelled e)
    from poll_cancelled [OF p [unfolded Cancelled]] show ?thesis
      using es sub by (simp add: explained_def Cancelled)
  next
    case (TimedOut s')
    from poll_times_out_late [OF p [unfolded TimedOut]] obtain t
      where t: "tr' = t @ [ReadClock]" "Now cx tr + timeout \<le> Now cx t" by blast
    have "tr @ (ReadClock # es) = t @ [ReadClock]" using t(1) es by simp
    then obtain ts where "t = tr @ ts" and "ReadClock # es = ts @ [ReadClock]"
      by (rule append_Cons_snoc_eqE)
    then show ?thesis using t(2) sub unfolding explained_def TimedOut outcome.case by blast
  qed
  then show ?thesis using x es by auto
qed

lemma wait_adds: "waitUntil cx timeout probe s finish tr = Some (x, tr') \<Longrightarrow> adds waits tr tr'"
  using wait_explained by (fastforce simp: explained_def)

lemma wait_returns:
  "fair_clock cx \<Longrightarrow> \<exists>x tr'. waitUntil cx timeout probe s finish tr = Some (x, tr')"
  using terminates [of cx "Now cx tr + timeout" s "tr @ [ReadClock]"]
  by (auto simp: waitUntil_def time_Now_def)

end

section \<open>Loops over lists\<close>

text \<open>
  \<open>for _, x := range xs { if err := f(x); err != nil { return err } }\<close>, for a body that always
  returns and for one that may not, and the loop that ignores the errors of its body.
\<close>

fun forErr :: "('a \<Rightarrow> trace \<Rightarrow> error option \<times> trace) \<Rightarrow> 'a list \<Rightarrow> trace \<Rightarrow> error option \<times> trace" where
  "forErr f [] tr = (None, tr)"
| "forErr f (x # xs) tr =
     (case f x tr of (Some e, tr) \<Rightarrow> (Some e, tr) | (None, tr) \<Rightarrow> forErr f xs tr)"

fun forErrO ::
  "('a \<Rightarrow> trace \<Rightarrow> (error option \<times> trace) option) \<Rightarrow> 'a list \<Rightarrow> trace \<Rightarrow> (error option \<times> trace) option"
  where
  "forErrO f [] tr = Some (None, tr)"
| "forErrO f (x # xs) tr =
     (case f x tr of
        None \<Rightarrow> None
      | Some (Some e, tr) \<Rightarrow> Some (Some e, tr)
      | Some (None, tr) \<Rightarrow> forErrO f xs tr)"

definition forIgnore :: "('a \<Rightarrow> trace \<Rightarrow> error option \<times> trace) \<Rightarrow> 'a list \<Rightarrow> trace \<Rightarrow> trace" where
  "forIgnore f xs tr = fold (\<lambda>x tr. snd (f x tr)) xs tr"

lemma forErr_done:
  assumes "forErr f xs tr = (None, tr')"
    and "\<And>x tr tr'. x \<in> set xs \<Longrightarrow> f x tr = (None, tr') \<Longrightarrow> tr' = tr @ ev x"
  shows "tr' = tr @ concat (map ev xs)"
  using assms
proof (induction xs arbitrary: tr)
  case (Cons x xs)
  then obtain tr1 where f: "f x tr = (None, tr1)" and rest: "forErr f xs tr1 = (None, tr')"
    by (auto split: prod.splits option.splits)
  have "tr1 = tr @ ev x" using Cons.prems(2) [OF _ f] by simp
  moreover have "tr' = tr1 @ concat (map ev xs)" using rest by (rule Cons.IH) (simp add: Cons.prems(2))
  ultimately show ?case by simp
qed simp

lemma forErr_failed:
  assumes "forErr f xs tr = (Some e, tr')"
    and "\<And>x tr tr'. x \<in> set xs \<Longrightarrow> f x tr = (None, tr') \<Longrightarrow> tr' = tr @ ev x"
  shows "\<exists>ys x zs. xs = ys @ x # zs \<and> f x (tr @ concat (map ev ys)) = (Some e, tr')"
  using assms
proof (induction xs arbitrary: tr)
  case (Cons x xs)
  show ?case
  proof (cases "f x tr")
    case (Pair r tr1)
    show ?thesis
    proof (cases r)
      case None
      then have t1: "tr1 = tr @ ev x" using Cons.prems(2) [of x] Pair by simp
      have "forErr f xs tr1 = (Some e, tr')" using Cons.prems(1) Pair None by simp
      then have "\<exists>ys y zs. xs = ys @ y # zs \<and> f y (tr1 @ concat (map ev ys)) = (Some e, tr')"
        by (rule Cons.IH) (simp add: Cons.prems(2))
      then obtain ys y zs where "xs = ys @ y # zs" and "f y (tr1 @ concat (map ev ys)) = (Some e, tr')"
        by blast
      then show ?thesis using t1 by (intro exI [of _ "x # ys"]) auto
    next
      case (Some e')
      then show ?thesis using Cons.prems(1) Pair by (intro exI [of _ "[]"]) auto
    qed
  qed
qed simp

lemma forErr_total:
  assumes "\<And>x tr. x \<in> set xs \<Longrightarrow> f x tr = (None, tr @ ev x)"
  shows "forErr f xs tr = (None, tr @ concat (map ev xs))"
  using assms by (induction xs arbitrary: tr) simp_all

lemma forErrO_total:
  assumes "\<And>x tr. x \<in> set xs \<Longrightarrow> \<exists>y. f x tr = Some y"
  shows "\<exists>y. forErrO f xs tr = Some y"
  using assms
proof (induction xs arbitrary: tr)
  case (Cons x xs)
  from Cons.prems [of x tr] obtain r tr1 where "f x tr = Some (r, tr1)" by auto
  then show ?case using Cons by (cases r) auto
qed simp

lemma forIgnore_adds:
  assumes "\<And>x tr. x \<in> set xs \<Longrightarrow> adds E tr (snd (f x tr))"
  shows "adds E tr (forIgnore f xs tr)"
  using assms
proof (induction xs arbitrary: tr)
  case (Cons x xs)
  have "adds E tr (snd (f x tr))" using Cons.prems by simp
  moreover have "adds E (snd (f x tr)) (forIgnore f xs (snd (f x tr)))" using Cons by simp
  ultimately show ?case using adds_trans by (auto simp: forIgnore_def)
qed (simp add: forIgnore_def)

lemma forIgnore_events:
  assumes "\<And>x tr. x \<in> set xs \<Longrightarrow> snd (f x tr) = tr @ ev x"
  shows "forIgnore f xs tr = tr @ concat (map ev xs)"
  using assms by (induction xs arbitrary: tr) (simp_all add: forIgnore_def)

lemma forErr_adds:
  assumes "\<And>x tr. x \<in> set xs \<Longrightarrow> adds E tr (snd (f x tr))"
  shows "adds E tr (snd (forErr f xs tr))"
  using assms
proof (induction xs arbitrary: tr)
  case (Cons x xs)
  obtain r tr1 where f: "f x tr = (r, tr1)" by fastforce
  have 1: "adds E tr tr1" using Cons.prems [of x tr] f by simp
  moreover have "adds E tr1 (snd (forErr f xs tr1))" using Cons by simp
  ultimately show ?case using f adds_trans by (auto split: option.split)
qed simp

lemma forErrO_adds:
  assumes "forErrO f xs tr = Some (r, tr')"
    and "\<And>x tr r tr'. x \<in> set xs \<Longrightarrow> f x tr = Some (r, tr') \<Longrightarrow> adds E tr tr'"
  shows "adds E tr tr'"
  using assms
proof (induction xs arbitrary: tr)
  case (Cons x xs)
  then obtain r1 tr1 where f: "f x tr = Some (r1, tr1)" by (auto split: option.splits)
  have 1: "adds E tr tr1" using Cons.prems(2) [OF _ f] by simp
  show ?case
  proof (cases r1)
    case None
    then have "forErrO f xs tr1 = Some (r, tr')" using Cons.prems(1) f by simp
    then have "adds E tr1 tr'" by (rule Cons.IH) (metis Cons.prems(2) list.set_intros(2))
    with 1 show ?thesis by (rule adds_trans)
  next
    case (Some e)
    then show ?thesis using Cons.prems(1) f 1 by simp
  qed
qed simp

text \<open>A context that is never cancelled, whose clock advances by the time slept.\<close>

definition sampleCtx :: Ctx where
  "sampleCtx = \<lparr>Now = (\<lambda>tr. sum_list (map (\<lambda>e. case e of Sleep d \<Rightarrow> max 0 d | _ \<Rightarrow> 0) tr)),
     Done = (\<lambda>_. None), MapRank = (\<lambda>_ _. 0)\<rparr>"

lemma fair_sampleCtx: "fair_clock sampleCtx"
  by (auto simp: fair_clock_def sampleCtx_def split: event.split)

end
