(* ===== verification/Metrics_Recorder.thy ===== *)
theory Metrics_Recorder
  imports Effects
begin

text \<open>
  \<open>internal/metrics\<close>: the Prometheus metrics the operator declares (\<open>metrics.go\<close>) and what it records
  with them (\<open>recorder.go\<close>), as metric events. A metric is named by the Go variable that holds it in \<open>metrics.go\<close>; a duration is in nanoseconds.
\<close>

section \<open>Declarations\<close>

text \<open>
  \<open>internal/metrics/metrics.go\<close>: the metrics the operator registers, each with the Go variable that holds
  it, its exported name and its label names; help texts and buckets are left out. Prometheus panics when a metric is used with another
  number of label values than it declares, and when two registered metrics share a name.
\<close>

datatype metric_kind = Gauge | CounterVec | HistogramVec | GaugeVec

record MetricDecl =
  md_Var :: string
  md_Kind :: metric_kind
  md_Name :: string
  md_Labels :: "string list"

definition decl :: "string \<Rightarrow> metric_kind \<Rightarrow> string \<Rightarrow> string list \<Rightarrow> MetricDecl" where
  "decl var k name labels = \<lparr>md_Var = var, md_Kind = k, md_Name = name, md_Labels = labels\<rparr>"

definition registeredMetrics :: "MetricDecl list" where
  "registeredMetrics =
     [decl ''ReconcileTotal'' CounterVec ''redis_operator_reconcile_total'' [''kind'', ''result''],
      decl ''ReconcileDuration'' HistogramVec ''redis_operator_reconcile_duration_seconds'' [''kind''],
      decl ''ReconcileErrors'' CounterVec ''redis_operator_reconcile_errors_total'' [''kind'', ''error_type''],
      decl ''ManagedClusters'' Gauge ''redis_operator_managed_clusters_total'' [],
      decl ''ManagedSentinels'' Gauge ''redis_operator_managed_sentinels_total'' [],
      decl ''ManagedStandalone'' Gauge ''redis_operator_managed_standalone_total'' [],
      decl ''ClusterState'' GaugeVec ''redis_cluster_state'' [''name'', ''namespace''],
      decl ''ClusterAssignedSlots'' GaugeVec ''redis_cluster_assigned_slots'' [''name'', ''namespace''],
      decl ''ClusterKnownNodes'' GaugeVec ''redis_cluster_known_nodes'' [''name'', ''namespace''],
      decl ''ClusterMasterCount'' GaugeVec ''redis_cluster_master_count'' [''name'', ''namespace''],
      decl ''ClusterReplicaCount'' GaugeVec ''redis_cluster_replica_count'' [''name'', ''namespace''],
      decl ''ClusterScalingOperations'' CounterVec ''redis_cluster_scaling_operations_total'' [''name'', ''namespace'', ''direction''],
      decl ''ClusterScalingDuration'' HistogramVec ''redis_cluster_scaling_duration_seconds'' [''name'', ''namespace'', ''direction''],
      decl ''ClusterSlotMigrationTotal'' CounterVec ''redis_cluster_slot_migration_total'' [''name'', ''namespace''],
      decl ''ClusterSlotMigrationDuration'' HistogramVec ''redis_cluster_slot_migration_duration_seconds'' [''name'', ''namespace''],
      decl ''ClusterFailoverTotal'' CounterVec ''redis_cluster_failover_total'' [''name'', ''namespace''],
      decl ''ClusterFailoverDuration'' HistogramVec ''redis_cluster_failover_duration_seconds'' [''name'', ''namespace'']]"

definition declaredAs :: "metric_kind \<Rightarrow> string \<Rightarrow> string list \<Rightarrow> bool" where
  "declaredAs k var values \<longleftrightarrow>
     list_ex (\<lambda>d. md_Var d = var \<and> md_Kind d = k \<and> length (md_Labels d) = length values) registeredMetrics"

fun declaredMetric :: "metric_op \<Rightarrow> bool" where
  "declaredMetric (Inc v ls) \<longleftrightarrow> declaredAs CounterVec v ls"
| "declaredMetric (Observe v ls d) \<longleftrightarrow> declaredAs HistogramVec v ls"
| "declaredMetric (SetGauge v ls x) \<longleftrightarrow> declaredAs GaugeVec v ls"
| "declaredMetric (DeleteSeries v ls) \<longleftrightarrow> declaredAs GaugeVec v ls"

fun metricVar :: "metric_op \<Rightarrow> string" where
  "metricVar (Inc v ls) = v"
| "metricVar (Observe v ls d) = v"
| "metricVar (SetGauge v ls x) = v"
| "metricVar (DeleteSeries v ls) = v"

text \<open>Six metrics are registered that no run ever uses.\<close>

definition idleMetrics :: "string list" where
  "idleMetrics = [''ManagedClusters'', ''ManagedSentinels'', ''ManagedStandalone'', ''ClusterSlotMigrationTotal'',
     ''ClusterSlotMigrationDuration'', ''ClusterFailoverDuration'']"

fun recorded :: "event \<Rightarrow> bool" where
  "recorded (Metric m) \<longleftrightarrow> declaredMetric m \<and> metricVar m \<notin> set idleMetrics"
| "recorded _ \<longleftrightarrow> True"

lemma busyMetrics [simp]:
  "''ReconcileErrors'' \<notin> set idleMetrics" "''ReconcileTotal'' \<notin> set idleMetrics" "''ReconcileDuration'' \<notin> set idleMetrics"
  "''ClusterState'' \<notin> set idleMetrics" "''ClusterAssignedSlots'' \<notin> set idleMetrics" "''ClusterKnownNodes'' \<notin> set idleMetrics"
  "''ClusterMasterCount'' \<notin> set idleMetrics" "''ClusterReplicaCount'' \<notin> set idleMetrics"
  "''ClusterScalingDuration'' \<notin> set idleMetrics" "''ClusterScalingOperations'' \<notin> set idleMetrics"
  "''ClusterFailoverTotal'' \<notin> set idleMetrics"
  by (simp_all add: idleMetrics_def)

lemma declaredAs_simps [simp]:
  "declaredAs CounterVec ''ReconcileErrors'' [a, b]" "declaredAs CounterVec ''ReconcileTotal'' [a, b]"
  "declaredAs HistogramVec ''ReconcileDuration'' [a]"
  "declaredAs GaugeVec ''ClusterState'' [a, b]" "declaredAs GaugeVec ''ClusterAssignedSlots'' [a, b]"
  "declaredAs GaugeVec ''ClusterKnownNodes'' [a, b]" "declaredAs GaugeVec ''ClusterMasterCount'' [a, b]"
  "declaredAs GaugeVec ''ClusterReplicaCount'' [a, b]"
  "declaredAs HistogramVec ''ClusterScalingDuration'' [a, b, c]"
  "declaredAs CounterVec ''ClusterScalingOperations'' [a, b, c]"
  "declaredAs CounterVec ''ClusterFailoverTotal'' [a, b]"
  by (simp_all add: declaredAs_def registeredMetrics_def decl_def)

lemma registered_names_distinct: "distinct (map md_Name registeredMetrics)" "distinct (map md_Var registeredMetrics)"
  by (simp_all add: registeredMetrics_def decl_def)

text \<open>The documentation names all metrics \<open>redis_operator_*\<close>; those of a cluster are exported without \<open>operator\<close>.\<close>

lemma exported_cluster_names:
  "list_all (\<lambda>d. take 14 (md_Name d) \<noteq> ''redis_operator'' \<longleftrightarrow> take 7 (md_Var d) = ''Cluster'') registeredMetrics"
  by (simp add: registeredMetrics_def decl_def)

section \<open>Recording\<close>

definition KindRedis :: string where "KindRedis = ''Redis''"
definition KindSentinel :: string where "KindSentinel = ''RedisSentinel''"
definition KindCluster :: string where "KindCluster = ''RedisCluster''"

definition observeSince :: "Ctx \<Rightarrow> string \<Rightarrow> string list \<Rightarrow> int \<Rightarrow> trace \<Rightarrow> trace" where
  "observeSince cx vec labels start tr =
     (let (t, tr) = time_Now cx tr in tr @ [Metric (Observe vec labels (t - start))])"

definition RecordReconcile :: "Ctx \<Rightarrow> string \<Rightarrow> int \<Rightarrow> error option \<Rightarrow> trace \<Rightarrow> trace" where
  "RecordReconcile cx kind start err tr =
     (let res = (if err \<noteq> None then ''error'' else ''success'');
          tr = (if err \<noteq> None then tr @ [Metric (Inc ''ReconcileErrors'' [kind, ''error''])] else tr);
          tr = tr @ [Metric (Inc ''ReconcileTotal'' [kind, res])]
      in observeSince cx ''ReconcileDuration'' [kind] start tr)"

definition SetClusterMetrics ::
  "string \<Rightarrow> string \<Rightarrow> string \<Rightarrow> int32 \<Rightarrow> int32 \<Rightarrow> int32 \<Rightarrow> int32 \<Rightarrow> trace \<Rightarrow> trace" where
  "SetClusterMetrics name namespace state slots nodes masters replicas tr =
     tr @ [Metric (SetGauge ''ClusterState'' [name, namespace] (if state = ''ok'' then 1 else 0)),
           Metric (SetGauge ''ClusterAssignedSlots'' [name, namespace] (sint slots)),
           Metric (SetGauge ''ClusterKnownNodes'' [name, namespace] (sint nodes)),
           Metric (SetGauge ''ClusterMasterCount'' [name, namespace] (sint masters)),
           Metric (SetGauge ''ClusterReplicaCount'' [name, namespace] (sint replicas))]"

definition RecordClusterScaling :: "Ctx \<Rightarrow> string \<Rightarrow> string \<Rightarrow> string \<Rightarrow> int \<Rightarrow> trace \<Rightarrow> trace" where
  "RecordClusterScaling cx name namespace direction start tr =
     observeSince cx ''ClusterScalingDuration'' [name, namespace, direction] start
       (tr @ [Metric (Inc ''ClusterScalingOperations'' [name, namespace, direction])])"

definition RecordClusterFailover :: "string \<Rightarrow> string \<Rightarrow> trace \<Rightarrow> trace" where
  "RecordClusterFailover name namespace tr = tr @ [Metric (Inc ''ClusterFailoverTotal'' [name, namespace])]"

definition DeleteClusterMetrics :: "string \<Rightarrow> string \<Rightarrow> trace \<Rightarrow> trace" where
  "DeleteClusterMetrics name namespace tr =
     tr @ [Metric (DeleteSeries ''ClusterState'' [name, namespace]),
           Metric (DeleteSeries ''ClusterAssignedSlots'' [name, namespace]),
           Metric (DeleteSeries ''ClusterKnownNodes'' [name, namespace]),
           Metric (DeleteSeries ''ClusterMasterCount'' [name, namespace]),
           Metric (DeleteSeries ''ClusterReplicaCount'' [name, namespace])]"

lemmas metric_defs = observeSince_def RecordReconcile_def SetClusterMetrics_def
  RecordClusterScaling_def RecordClusterFailover_def DeleteClusterMetrics_def

text \<open>
  The gauges a history leaves behind: the value each series was last set to, unless the series was
  deleted since.
\<close>

definition gaugeStep :: "event \<Rightarrow> (string \<times> string list \<rightharpoonup> int) \<Rightarrow> (string \<times> string list \<rightharpoonup> int)" where
  "gaugeStep e g =
     (case e of
        Metric (SetGauge v ls x) \<Rightarrow> g((v, ls) \<mapsto> x)
      | Metric (DeleteSeries v ls) \<Rightarrow> g((v, ls) := None)
      | _ \<Rightarrow> g)"

definition gauges :: "trace \<Rightarrow> (string \<times> string list \<rightharpoonup> int)" where
  "gauges tr = fold gaugeStep tr Map.empty"

definition clusterGauges :: "string list" where
  "clusterGauges = [''ClusterState'', ''ClusterAssignedSlots'', ''ClusterKnownNodes'', ''ClusterMasterCount'',
     ''ClusterReplicaCount'']"

lemma gauges_deleted:
  "gauges (tr @ map (\<lambda>v. Metric (DeleteSeries v ls)) vs) =
     (\<lambda>(v, labels). if labels = ls \<and> v \<in> set vs then None else gauges tr (v, labels))"
proof (induction vs rule: rev_induct)
  case (snoc v vs)
  have "gauges (tr @ map (\<lambda>v. Metric (DeleteSeries v ls)) (vs @ [v]))
      = (gauges (tr @ map (\<lambda>v. Metric (DeleteSeries v ls)) vs))((v, ls) := None)"
    by (simp add: gauges_def gaugeStep_def)
  then show ?case by (auto simp: snoc.IH fun_eq_iff)
qed (simp add: fun_eq_iff)

lemma gauges_set:
  "v \<notin> fst ` set xs \<or> labels \<noteq> ls \<Longrightarrow>
     gauges (tr @ map (\<lambda>(v, x). Metric (SetGauge v ls x)) xs) (v, labels) = gauges tr (v, labels)"
  by (induction xs rule: rev_induct) (auto simp: gauges_def gaugeStep_def)

lemma cluster_metrics_as_maps:
  "DeleteClusterMetrics name ns tr = tr @ map (\<lambda>v. Metric (DeleteSeries v [name, ns])) clusterGauges"
  "SetClusterMetrics name ns state slots nodes masters replicas tr =
     tr @ map (\<lambda>(v, x). Metric (SetGauge v [name, ns] x))
       (zip clusterGauges [if state = ''ok'' then 1 else 0, sint slots, sint nodes, sint masters, sint replicas])"
  by (simp_all add: DeleteClusterMetrics_def SetClusterMetrics_def clusterGauges_def)

lemma gauges_SetClusterMetrics:
  "v \<notin> set clusterGauges \<or> labels \<noteq> [name, ns] \<Longrightarrow>
     gauges (SetClusterMetrics name ns state slots nodes masters replicas tr) (v, labels) = gauges tr (v, labels)"
  unfolding cluster_metrics_as_maps by (rule gauges_set) (auto dest: set_zip_leftD)

text \<open>
  Deleting the metrics of a cluster removes every gauge series that recording them can have
  created, whatever happened before, and touches no other series.
\<close>

theorem DeleteClusterMetrics_complete:
  "gauges (DeleteClusterMetrics name ns (SetClusterMetrics name ns state slots nodes masters replicas tr))
     = gauges (DeleteClusterMetrics name ns tr) \<and>
   gauges (DeleteClusterMetrics name ns tr) =
     (\<lambda>(v, labels). if labels = [name, ns] \<and> v \<in> set clusterGauges then None else gauges tr (v, labels))"
  unfolding cluster_metrics_as_maps(1) gauges_deleted
  by (auto simp: fun_eq_iff gauges_SetClusterMetrics)

text \<open>
  Deleting a cluster removes its gauges; of the series with its name, those on scaling and failover stay.
\<close>

lemma series_left_by_deletion:
  "map md_Var (filter (\<lambda>d. ''name'' \<in> set (md_Labels d) \<and> md_Var d \<notin> set idleMetrics \<and>
      Metric (DeleteSeries (md_Var d) [n, ns]) \<notin> set (DeleteClusterMetrics n ns [])) registeredMetrics) =
    [''ClusterScalingOperations'', ''ClusterScalingDuration'', ''ClusterFailoverTotal'']"
  by (simp add: registeredMetrics_def decl_def DeleteClusterMetrics_def idleMetrics_def)

end
