(* ===== verification/Redis_Client.thy ===== *)
theory Redis_Client
  imports Effects
begin

text \<open>
  \<open>internal/redis/client.go\<close>: the interface \<open>RedisClient\<close> as a record of answers, one field per
  method, the calls through it (which append the command to the trace), the parsers of
  \<open>INFO\<close>, \<open>CLUSTER INFO\<close> and \<open>CLUSTER NODES\<close> replies, and the concrete client, which is built from
  the commands of the library go-redis. The library is a parameter (\<open>GoRedis\<close>).

  The lemmas show that the parsers undo the printing of the replies they read, for every
  well-formed node table, and accept any text.
\<close>

section \<open>Parsed replies\<close>

record ClusterInfo =
  ci_State :: string
  ci_SlotsAssigned :: int
  ci_SlotsOK :: int
  ci_SlotsPFail :: int
  ci_SlotsFail :: int
  ci_KnownNodes :: int
  ci_ClusterSize :: int
  ci_CurrentEpoch :: int
  ci_MyEpoch :: int
  ci_StatsMessagesSent :: int
  ci_StatsMessagesReceived :: int

record SlotRange =
  sr_Start :: int
  sr_End :: int

record ClusterNode =
  cn_NodeID :: string
  cn_Addr :: string
  cn_Flags :: "string list"
  cn_MasterID :: string
  cn_PingSent :: int
  cn_PongRecv :: int
  cn_ConfigEpoch :: int
  cn_LinkState :: string
  cn_Slots :: "SlotRange list"

section \<open>The interface\<close>

record RedisClient =
  rc_Ping :: "trace \<Rightarrow> string \<Rightarrow> error option"
  rc_Info :: "trace \<Rightarrow> string \<Rightarrow> string \<Rightarrow> gomap result"
  rc_ConfigSet :: "trace \<Rightarrow> string \<Rightarrow> string \<Rightarrow> string \<Rightarrow> error option"
  rc_ConfigGet :: "trace \<Rightarrow> string \<Rightarrow> string \<Rightarrow> string result"
  rc_Save :: "trace \<Rightarrow> string \<Rightarrow> error option"
  rc_ClusterInfo :: "trace \<Rightarrow> string \<Rightarrow> ClusterInfo result"
  rc_ClusterNodes :: "trace \<Rightarrow> string \<Rightarrow> ClusterNode list result"
  rc_ClusterMeet :: "trace \<Rightarrow> string \<Rightarrow> string \<Rightarrow> int \<Rightarrow> error option"
  rc_ClusterAddSlots :: "trace \<Rightarrow> string \<Rightarrow> int list \<Rightarrow> error option"
  rc_ClusterDelSlots :: "trace \<Rightarrow> string \<Rightarrow> int list \<Rightarrow> error option"
  rc_ClusterReplicate :: "trace \<Rightarrow> string \<Rightarrow> string \<Rightarrow> error option"
  rc_ClusterFailover :: "trace \<Rightarrow> string \<Rightarrow> error option"
  rc_ClusterForget :: "trace \<Rightarrow> string \<Rightarrow> string \<Rightarrow> error option"
  rc_ClusterReset :: "trace \<Rightarrow> string \<Rightarrow> bool \<Rightarrow> error option"
  rc_ClusterSetSlot :: "trace \<Rightarrow> string \<Rightarrow> int \<Rightarrow> string \<Rightarrow> string \<Rightarrow> error option"
  rc_ClusterGetKeysInSlot :: "trace \<Rightarrow> string \<Rightarrow> int \<Rightarrow> int \<Rightarrow> string list result"
  rc_ClusterCountKeysInSlot :: "trace \<Rightarrow> string \<Rightarrow> int \<Rightarrow> int result"
  rc_Migrate :: "trace \<Rightarrow> string \<Rightarrow> string \<Rightarrow> int \<Rightarrow> string \<Rightarrow> int \<Rightarrow> int \<Rightarrow> error option"
  rc_SentinelMaster :: "trace \<Rightarrow> string \<Rightarrow> string \<Rightarrow> gomap result"
  rc_SentinelGetMasterAddr :: "trace \<Rightarrow> string \<Rightarrow> string \<Rightarrow> (string \<times> int) result"
  rc_SentinelFailover :: "trace \<Rightarrow> string \<Rightarrow> string \<Rightarrow> error option"
  rc_SentinelReset :: "trace \<Rightarrow> string \<Rightarrow> string \<Rightarrow> error option"
  rc_ReplicaOf :: "trace \<Rightarrow> string \<Rightarrow> string \<Rightarrow> int \<Rightarrow> error option"
  rc_Role :: "trace \<Rightarrow> string \<Rightarrow> string result"

text \<open>
  A call of an interface method. The answer comes from the record, at the history so far, and
  the command joins the history.
\<close>

definition call :: "redis_cmd \<Rightarrow> (trace \<Rightarrow> 'a) \<Rightarrow> trace \<Rightarrow> 'a \<times> trace" where
  "call c f tr = (f tr, tr @ [Cmd c])"

definition call_Ping where
  "call_Ping c a = call (Ping a) (\<lambda>tr. rc_Ping c tr a)"
definition call_Info where
  "call_Info c a s = call (Info a s) (\<lambda>tr. rc_Info c tr a s)"
definition call_ConfigSet where
  "call_ConfigSet c a k v = call (ConfigSet a k v) (\<lambda>tr. rc_ConfigSet c tr a k v)"
definition call_ClusterInfo where
  "call_ClusterInfo c a = call (ClusterInfo a) (\<lambda>tr. rc_ClusterInfo c tr a)"
definition call_ClusterNodes where
  "call_ClusterNodes c a = call (ClusterNodes a) (\<lambda>tr. rc_ClusterNodes c tr a)"
definition call_ClusterMeet where
  "call_ClusterMeet c a ip p = call (ClusterMeet a ip p) (\<lambda>tr. rc_ClusterMeet c tr a ip p)"
definition call_ClusterAddSlots where
  "call_ClusterAddSlots c a ss = call (ClusterAddSlots a ss) (\<lambda>tr. rc_ClusterAddSlots c tr a ss)"
definition call_ClusterReplicate where
  "call_ClusterReplicate c a i = call (ClusterReplicate a i) (\<lambda>tr. rc_ClusterReplicate c tr a i)"
definition call_ClusterFailover where
  "call_ClusterFailover c a = call (ClusterFailover a) (\<lambda>tr. rc_ClusterFailover c tr a)"
definition call_ClusterForget where
  "call_ClusterForget c a i = call (ClusterForget a i) (\<lambda>tr. rc_ClusterForget c tr a i)"
definition call_ClusterReset where
  "call_ClusterReset c a h = call (ClusterReset a h) (\<lambda>tr. rc_ClusterReset c tr a h)"
definition call_ClusterSetSlot where
  "call_ClusterSetSlot c a n sub i = call (ClusterSetSlot a n sub i) (\<lambda>tr. rc_ClusterSetSlot c tr a n sub i)"
definition call_ClusterGetKeysInSlot where
  "call_ClusterGetKeysInSlot c a n k =
     call (ClusterGetKeysInSlot a n k) (\<lambda>tr. rc_ClusterGetKeysInSlot c tr a n k)"
definition call_Migrate where
  "call_Migrate c a ip p key db ms =
     call (Migrate a ip p key db ms) (\<lambda>tr. rc_Migrate c tr a ip p key db ms)"
definition call_SentinelMaster where
  "call_SentinelMaster c a n = call (SentinelMaster a n) (\<lambda>tr. rc_SentinelMaster c tr a n)"
definition call_SentinelGetMasterAddr where
  "call_SentinelGetMasterAddr c a n =
     call (SentinelGetMasterAddr a n) (\<lambda>tr. rc_SentinelGetMasterAddr c tr a n)"
definition call_SentinelFailover where
  "call_SentinelFailover c a n = call (SentinelFailover a n) (\<lambda>tr. rc_SentinelFailover c tr a n)"
definition call_SentinelReset where
  "call_SentinelReset c a p = call (SentinelReset a p) (\<lambda>tr. rc_SentinelReset c tr a p)"
definition call_Role where
  "call_Role c a = call (Role a) (\<lambda>tr. rc_Role c tr a)"

lemmas call_defs [trace_simps] = call_def call_Ping_def call_Info_def call_ConfigSet_def
  call_ClusterInfo_def call_ClusterNodes_def call_ClusterMeet_def call_ClusterAddSlots_def
  call_ClusterReplicate_def call_ClusterFailover_def call_ClusterForget_def call_ClusterReset_def
  call_ClusterSetSlot_def call_ClusterGetKeysInSlot_def call_Migrate_def call_SentinelMaster_def
  call_SentinelGetMasterAddr_def call_SentinelFailover_def call_SentinelReset_def call_Role_def

section \<open>Parsers\<close>

definition parseInfoLine :: "string \<Rightarrow> gomap \<Rightarrow> gomap" where
  "parseInfoLine line0 res =
     (let line = TrimSpace line0 in
      if line = [] \<or> take 1 line = ''#'' then res
      else (case cut_first CHR '':'' line of
              Some (k, v) \<Rightarrow> AList.update (TrimSpace k) (TrimSpace v) res
            | None \<Rightarrow> res))"

definition parseInfoOutput :: "string \<Rightarrow> gomap" where
  "parseInfoOutput raw = fold parseInfoLine (Split raw CHR 0x0A) []"

definition atoiOr0 :: "string \<Rightarrow> int" where
  "atoiOr0 s = (case Atoi s of Some v \<Rightarrow> v | None \<Rightarrow> 0)"

definition parseClusterInfo :: "string \<Rightarrow> ClusterInfo" where
  "parseClusterInfo raw =
     (let m = parseInfoOutput raw in
      \<lparr>ci_State = mget m ''cluster_state'',
       ci_SlotsAssigned = atoiOr0 (mget m ''cluster_slots_assigned''),
       ci_SlotsOK = atoiOr0 (mget m ''cluster_slots_ok''),
       ci_SlotsPFail = atoiOr0 (mget m ''cluster_slots_pfail''),
       ci_SlotsFail = atoiOr0 (mget m ''cluster_slots_fail''),
       ci_KnownNodes = atoiOr0 (mget m ''cluster_known_nodes''),
       ci_ClusterSize = atoiOr0 (mget m ''cluster_size''),
       ci_CurrentEpoch = 0, ci_MyEpoch = 0,
       ci_StatsMessagesSent = 0, ci_StatsMessagesReceived = 0\<rparr>)"

definition parseSlotRange :: "string \<Rightarrow> SlotRange result" where
  "parseSlotRange s =
     (case cut_first CHR ''-'' s of
        Some (a, b) \<Rightarrow>
          (case (Atoi a, Atoi b) of
             (Some start, Some end) \<Rightarrow> Inr \<lparr>sr_Start = start, sr_End = end\<rparr>
           | _ \<Rightarrow> Inl (Errorf (''invalid slot range: '' @ s)))
      | None \<Rightarrow>
          (case Atoi s of
             Some v \<Rightarrow> Inr \<lparr>sr_Start = v, sr_End = v\<rparr>
           | None \<Rightarrow> Inl (Errorf (''invalid slot: '' @ s))))"

definition parseSlots :: "string list \<Rightarrow> SlotRange list" where
  "parseSlots ws = List.map_filter (\<lambda>w. case parseSlotRange w of Inr sr \<Rightarrow> Some sr | Inl _ \<Rightarrow> None) ws"

definition parseNodeLine :: "string \<Rightarrow> ClusterNode option" where
  "parseNodeLine line0 =
     (let line = TrimSpace line0; parts = Fields line in
      if line = [] then None
      else if length parts < 8 then None
      else Some \<lparr>cn_NodeID = parts ! 0,
        cn_Addr = (case cut_first CHR ''@'' (parts ! 1) of Some (a, _) \<Rightarrow> a | None \<Rightarrow> parts ! 1),
        cn_Flags = Split (parts ! 2) CHR '','',
        cn_MasterID = parts ! 3,
        cn_PingSent = atoiOr0 (parts ! 4),
        cn_PongRecv = atoiOr0 (parts ! 5),
        cn_ConfigEpoch = atoiOr0 (parts ! 6),
        cn_LinkState = parts ! 7,
        cn_Slots = parseSlots (drop 8 parts)\<rparr>)"

definition parseClusterNodes :: "string \<Rightarrow> ClusterNode list" where
  "parseClusterNodes raw = List.map_filter parseNodeLine (Split raw CHR 0x0A)"

section \<open>The client over go-redis\<close>

text \<open>
  The connection options handed to go-redis and the commands of the library the client uses.
  A value of Go type \<open>interface{}\<close> is text, a list, or something else, of which only the
  rendering by the verb \<open>%v\<close> matters.
\<close>

text \<open>
  A TLS configuration holds certificates, here known by their content. Reading files, parsing key
  pairs and parsing a PEM file into certificates are what \<open>os\<close>, \<open>crypto/tls\<close> and \<open>crypto/x509\<close> do.
\<close>

record TLSConfig =
  tc_Certificates :: "string list"
  tc_RootCAs :: "string list"
  tc_MinVersion :: int

record TLSFiles =
  tf_LoadX509KeyPair :: "string \<Rightarrow> string \<Rightarrow> string result"
  tf_ReadFile :: "string \<Rightarrow> string result"
  tf_CertsFromPEM :: "string \<Rightarrow> string list"

definition VersionTLS12 :: int where "VersionTLS12 = 0x0303"

definition NewTLSConfig :: "TLSFiles \<Rightarrow> string \<Rightarrow> string \<Rightarrow> string \<Rightarrow> TLSConfig result" where
  "NewTLSConfig fs certFile keyFile caFile =
     (case tf_LoadX509KeyPair fs certFile keyFile of
        Inl e \<Rightarrow> Inl (Wrapf ''loading TLS key pair'' e)
      | Inr cert \<Rightarrow>
          (case tf_ReadFile fs caFile of
             Inl e \<Rightarrow> Inl (Wrapf ''reading CA certificate'' e)
           | Inr caPEM \<Rightarrow>
               if tf_CertsFromPEM fs caPEM = [] then Inl (Errorf ''failed to parse CA certificate'')
               else Inr \<lparr>tc_Certificates = [cert], tc_RootCAs = tf_CertsFromPEM fs caPEM, tc_MinVersion = VersionTLS12\<rparr>))"

record ClientOptions =
  co_Password :: string
  co_TLSConfig :: "TLSConfig option"
  co_DialTimeout :: int
  co_ReadTimeout :: int
  co_WriteTimeout :: int

definition DefaultClientOptions :: ClientOptions where
  "DefaultClientOptions =
     \<lparr>co_Password = [], co_TLSConfig = None, co_DialTimeout = 5 * second,
      co_ReadTimeout = 10 * second, co_WriteTimeout = 10 * second\<rparr>"

record GoOptions =
  go_Addr :: string
  go_Password :: string
  go_DialTimeout :: int
  go_ReadTimeout :: int
  go_WriteTimeout :: int
  go_TLSConfig :: "TLSConfig option"

datatype goarg = AStr string | AInt int
datatype goiface = IString string | IList "goiface list" | IOther string

record GoRedis =
  gr_Ping :: "trace \<Rightarrow> GoOptions \<Rightarrow> error option"
  gr_Info :: "trace \<Rightarrow> GoOptions \<Rightarrow> string list \<Rightarrow> string result"
  gr_ConfigSet :: "trace \<Rightarrow> GoOptions \<Rightarrow> string \<Rightarrow> string \<Rightarrow> error option"
  gr_ConfigGet :: "trace \<Rightarrow> GoOptions \<Rightarrow> string \<Rightarrow> gomap result"
  gr_Save :: "trace \<Rightarrow> GoOptions \<Rightarrow> error option"
  gr_ClusterInfo :: "trace \<Rightarrow> GoOptions \<Rightarrow> string result"
  gr_ClusterNodes :: "trace \<Rightarrow> GoOptions \<Rightarrow> string result"
  gr_ClusterMeet :: "trace \<Rightarrow> GoOptions \<Rightarrow> string \<Rightarrow> string \<Rightarrow> error option"
  gr_ClusterAddSlots :: "trace \<Rightarrow> GoOptions \<Rightarrow> int list \<Rightarrow> error option"
  gr_ClusterDelSlots :: "trace \<Rightarrow> GoOptions \<Rightarrow> int list \<Rightarrow> error option"
  gr_ClusterReplicate :: "trace \<Rightarrow> GoOptions \<Rightarrow> string \<Rightarrow> error option"
  gr_ClusterFailover :: "trace \<Rightarrow> GoOptions \<Rightarrow> error option"
  gr_ClusterForget :: "trace \<Rightarrow> GoOptions \<Rightarrow> string \<Rightarrow> error option"
  gr_ClusterGetKeysInSlot :: "trace \<Rightarrow> GoOptions \<Rightarrow> int \<Rightarrow> int \<Rightarrow> string list result"
  gr_ClusterCountKeysInSlot :: "trace \<Rightarrow> GoOptions \<Rightarrow> int \<Rightarrow> int result"
  gr_Migrate :: "trace \<Rightarrow> GoOptions \<Rightarrow> string \<Rightarrow> string \<Rightarrow> string \<Rightarrow> int \<Rightarrow> int \<Rightarrow> error option"
  gr_Do :: "trace \<Rightarrow> GoOptions \<Rightarrow> goarg list \<Rightarrow> goiface result"
  gr_StringSlice :: "goiface \<Rightarrow> string list result"
  gr_Format :: "goiface \<Rightarrow> string"

definition newGoRedisClient :: "ClientOptions \<Rightarrow> string \<Rightarrow> GoOptions" where
  "newGoRedisClient opts addr =
     \<lparr>go_Addr = addr, go_Password = co_Password opts, go_DialTimeout = co_DialTimeout opts,
      go_ReadTimeout = co_ReadTimeout opts, go_WriteTimeout = co_WriteTimeout opts,
      go_TLSConfig = co_TLSConfig opts\<rparr>"

definition errOf :: "'a result \<Rightarrow> error option" where
  "errOf r = (case r of Inl e \<Rightarrow> Some e | Inr _ \<Rightarrow> None)"

definition client_Ping where
  "client_Ping g opts tr addr = gr_Ping g tr (newGoRedisClient opts addr)"

definition client_ConfigSet where
  "client_ConfigSet g opts tr addr param v = gr_ConfigSet g tr (newGoRedisClient opts addr) param v"

definition client_Save where
  "client_Save g opts tr addr = gr_Save g tr (newGoRedisClient opts addr)"

definition client_ClusterAddSlots where
  "client_ClusterAddSlots g opts tr addr slots = gr_ClusterAddSlots g tr (newGoRedisClient opts addr) slots"

definition client_ClusterDelSlots where
  "client_ClusterDelSlots g opts tr addr slots = gr_ClusterDelSlots g tr (newGoRedisClient opts addr) slots"

definition client_ClusterReplicate where
  "client_ClusterReplicate g opts tr addr masterNodeID = gr_ClusterReplicate g tr (newGoRedisClient opts addr) masterNodeID"

definition client_ClusterFailover where
  "client_ClusterFailover g opts tr addr = gr_ClusterFailover g tr (newGoRedisClient opts addr)"

definition client_ClusterForget where
  "client_ClusterForget g opts tr addr nodeID = gr_ClusterForget g tr (newGoRedisClient opts addr) nodeID"

definition client_ClusterGetKeysInSlot where
  "client_ClusterGetKeysInSlot g opts tr addr slot n = gr_ClusterGetKeysInSlot g tr (newGoRedisClient opts addr) slot n"

definition client_ClusterCountKeysInSlot where
  "client_ClusterCountKeysInSlot g opts tr addr slot = gr_ClusterCountKeysInSlot g tr (newGoRedisClient opts addr) slot"

definition client_Info where
  "client_Info g opts tr addr sect =
     map_sum id parseInfoOutput
       (gr_Info g tr (newGoRedisClient opts addr) (if sect = [] then [] else [sect]))"

definition client_ConfigGet where
  "client_ConfigGet g opts tr addr param = map_sum id (\<lambda>vals. mget vals param) (gr_ConfigGet g tr (newGoRedisClient opts addr) param)"

definition client_ClusterInfo where
  "client_ClusterInfo g opts tr addr = map_sum id parseClusterInfo (gr_ClusterInfo g tr (newGoRedisClient opts addr))"

definition client_ClusterNodes where
  "client_ClusterNodes g opts tr addr = map_sum id parseClusterNodes (gr_ClusterNodes g tr (newGoRedisClient opts addr))"

definition client_ClusterMeet where
  "client_ClusterMeet g opts tr addr targetIP targetPort =
     gr_ClusterMeet g tr (newGoRedisClient opts addr) targetIP (Itoa targetPort)"

definition client_ClusterReset where
  "client_ClusterReset g opts tr addr hard =
     errOf (gr_Do g tr (newGoRedisClient opts addr)
       [AStr ''CLUSTER'', AStr ''RESET'', AStr (if hard then ''HARD'' else ''SOFT'')])"

definition client_ClusterSetSlot where
  "client_ClusterSetSlot g opts tr addr slot sub nodeID =
     errOf (gr_Do g tr (newGoRedisClient opts addr)
       ([AStr ''CLUSTER'', AStr ''SETSLOT'', AInt slot, AStr sub] @ (if nodeID \<noteq> [] then [AStr nodeID] else [])))"

definition client_Migrate where
  "client_Migrate g opts tr addr targetIP targetPort key db timeoutMs =
     gr_Migrate g tr (newGoRedisClient opts addr) targetIP (Itoa targetPort) key db (timeoutMs * 1000000)"

fun pairUp :: "string list \<Rightarrow> gomap \<Rightarrow> gomap" where
  "pairUp (k # v # rest) m = pairUp rest (AList.update k v m)"
| "pairUp _ m = m"

definition doSlice :: "GoRedis \<Rightarrow> trace \<Rightarrow> GoOptions \<Rightarrow> goarg list \<Rightarrow> string list result" where
  "doSlice g tr go args = (case gr_Do g tr go args of Inl e \<Rightarrow> Inl e | Inr v \<Rightarrow> gr_StringSlice g v)"

definition client_SentinelMaster where
  "client_SentinelMaster g opts tr addr masterName =
     (case doSlice g tr (newGoRedisClient opts addr) [AStr ''SENTINEL'', AStr ''MASTER'', AStr masterName] of
        Inl e \<Rightarrow> Inl e
      | Inr res \<Rightarrow> Inr (pairUp res []))"

definition formatSlice :: "string list \<Rightarrow> string" where
  "formatSlice ws = ''['' @ unwords ws @ '']''"

definition client_SentinelGetMasterAddr where
  "client_SentinelGetMasterAddr g opts tr addr masterName =
     (case doSlice g tr (newGoRedisClient opts addr)
             [AStr ''SENTINEL'', AStr ''GET-MASTER-ADDR-BY-NAME'', AStr masterName] of
        Inl e \<Rightarrow> Inl e
      | Inr res \<Rightarrow>
          (case res of
             ip # port # _ \<Rightarrow>
               (case Atoi port of
                  Some p \<Rightarrow> Inr (ip, p)
                | None \<Rightarrow> Inl (Wrapf ''invalid port in SENTINEL response'' (Atoi_err port)))
           | _ \<Rightarrow> Inl (Errorf (''unexpected SENTINEL GET-MASTER-ADDR-BY-NAME response: '' @ formatSlice res))))"

definition client_SentinelFailover where
  "client_SentinelFailover g opts tr addr masterName =
     errOf (gr_Do g tr (newGoRedisClient opts addr) [AStr ''SENTINEL'', AStr ''FAILOVER'', AStr masterName])"

definition client_SentinelReset where
  "client_SentinelReset g opts tr addr pattern =
     errOf (gr_Do g tr (newGoRedisClient opts addr) [AStr ''SENTINEL'', AStr ''RESET'', AStr pattern])"

definition client_ReplicaOf where
  "client_ReplicaOf g opts tr addr masterHost masterPort =
     errOf (gr_Do g tr (newGoRedisClient opts addr) [AStr ''REPLICAOF'', AStr masterHost, AStr (Itoa masterPort)])"

definition client_Role where
  "client_Role g opts tr addr =
     (case gr_Do g tr (newGoRedisClient opts addr) [AStr ''ROLE''] of
        Inl e \<Rightarrow> Inl e
      | Inr v \<Rightarrow>
          (case v of
             IList (IString r # _) \<Rightarrow> Inr r
           | _ \<Rightarrow> Inl (Errorf (''unexpected ROLE response: '' @ gr_Format g v))))"

definition NewClient :: "GoRedis \<Rightarrow> ClientOptions \<Rightarrow> RedisClient" where
  "NewClient g opts =
     \<lparr>rc_Ping = client_Ping g opts,
      rc_Info = client_Info g opts,
      rc_ConfigSet = client_ConfigSet g opts,
      rc_ConfigGet = client_ConfigGet g opts,
      rc_Save = client_Save g opts,
      rc_ClusterInfo = client_ClusterInfo g opts,
      rc_ClusterNodes = client_ClusterNodes g opts,
      rc_ClusterMeet = client_ClusterMeet g opts,
      rc_ClusterAddSlots = client_ClusterAddSlots g opts,
      rc_ClusterDelSlots = client_ClusterDelSlots g opts,
      rc_ClusterReplicate = client_ClusterReplicate g opts,
      rc_ClusterFailover = client_ClusterFailover g opts,
      rc_ClusterForget = client_ClusterForget g opts,
      rc_ClusterReset = client_ClusterReset g opts,
      rc_ClusterSetSlot = client_ClusterSetSlot g opts,
      rc_ClusterGetKeysInSlot = client_ClusterGetKeysInSlot g opts,
      rc_ClusterCountKeysInSlot = client_ClusterCountKeysInSlot g opts,
      rc_Migrate = client_Migrate g opts,
      rc_SentinelMaster = client_SentinelMaster g opts,
      rc_SentinelGetMasterAddr = client_SentinelGetMasterAddr g opts,
      rc_SentinelFailover = client_SentinelFailover g opts,
      rc_SentinelReset = client_SentinelReset g opts,
      rc_ReplicaOf = client_ReplicaOf g opts,
      rc_Role = client_Role g opts\<rparr>"

section \<open>Round trips\<close>

text \<open>
  How a Redis server prints its node table: one line per node, the fields separated by single
  blanks, the address followed by the bus port, a slot range as one number when it has one slot.
\<close>

fun join :: "char \<Rightarrow> string list \<Rightarrow> string" where
  "join d [] = []"
| "join d [w] = w"
| "join d (w # ws) = w @ d # join d ws"

definition printSlotRange :: "SlotRange \<Rightarrow> string" where
  "printSlotRange sr =
     (if sr_Start sr = sr_End sr then Itoa (sr_Start sr)
      else Itoa (sr_Start sr) @ ''-'' @ Itoa (sr_End sr))"

definition nodeFields :: "string \<Rightarrow> ClusterNode \<Rightarrow> string list" where
  "nodeFields busPort n =
     [cn_NodeID n, cn_Addr n @ ''@'' @ busPort, join CHR '','' (cn_Flags n), cn_MasterID n,
      Itoa (cn_PingSent n), Itoa (cn_PongRecv n), Itoa (cn_ConfigEpoch n), cn_LinkState n]
     @ map printSlotRange (cn_Slots n)"

definition printNodes :: "string \<Rightarrow> ClusterNode list \<Rightarrow> string" where
  "printNodes busPort ns = concat (map (\<lambda>n. unwords (nodeFields busPort n) @ [CHR 0x0A]) ns)"

definition no_space :: "string \<Rightarrow> bool" where
  "no_space w \<longleftrightarrow> list_all (\<lambda>c. \<not> isSpace c) w"

definition slot_ok :: "SlotRange \<Rightarrow> bool" where
  "slot_ok sr \<longleftrightarrow> 0 \<le> sr_Start sr \<and> sr_Start sr \<le> sr_End sr \<and> sr_End sr < 16384"

definition node_ok :: "ClusterNode \<Rightarrow> bool" where
  "node_ok n \<longleftrightarrow>
     list_all (\<lambda>w. w \<noteq> [] \<and> no_space w) [cn_NodeID n, cn_MasterID n, cn_LinkState n] \<and>
     no_space (cn_Addr n) \<and> CHR ''@'' \<notin> set (cn_Addr n) \<and>
     cn_Flags n \<noteq> [] \<and>
     list_all (\<lambda>f. f \<noteq> [] \<and> no_space f \<and> CHR '','' \<notin> set f) (cn_Flags n) \<and>
     list_all int64_ok [cn_PingSent n, cn_PongRecv n, cn_ConfigEpoch n] \<and>
     list_all slot_ok (cn_Slots n)"

lemma Split_join:
  assumes "ws \<noteq> []" and "\<forall>w \<in> set ws. d \<notin> set w"
  shows "Split (join d ws) d = ws"
  using assms
proof (induction d ws rule: join.induct)
  case (2 d w)
  then have "\<forall>c \<in> set w. \<not> c = d" by auto
  then show ?case by (simp add: Split_def split_by_plain)
next
  case (3 d w v vs)
  then have "\<forall>c \<in> set w. \<not> c = d" by auto
  with 3 show ?case by (simp add: Split_def split_by_append)
qed simp

lemma set_join: "c \<in> set (join d ws) \<Longrightarrow> c = d \<or> (\<exists>w \<in> set ws. c \<in> set w)"
  by (induction d ws rule: join.induct) auto

lemma join_nonempty: "ws \<noteq> [] \<Longrightarrow> \<forall>w \<in> set ws. w \<noteq> [] \<Longrightarrow> join d ws \<noteq> []"
  by (induction d ws rule: join.induct) auto

lemma no_spaceD: "no_space w \<Longrightarrow> w \<noteq> [] \<Longrightarrow> word_ok w"
  by (simp add: no_space_def word_ok_def list_all_iff)

lemma word_ok_Itoa: "word_ok (Itoa i)"
proof -
  have "\<not> isSpace c" if "c \<in> set (show_nat n)" for c n
    using digit_not_special [OF show_nat_chars [OF that]] by simp
  then show ?thesis by (auto simp: word_ok_def Itoa_def isSpace_def)
qed

lemma word_ok_join:
  assumes "ws \<noteq> []" and "list_all (\<lambda>f. f \<noteq> [] \<and> no_space f) ws"
  shows "word_ok (join CHR '','' ws)"
proof -
  have "\<not> isSpace c" if "c \<in> set (join CHR '','' ws)" for c
    using set_join [OF that] assms by (auto simp: list_all_iff no_space_def isSpace_def)
  moreover have "join CHR '','' ws \<noteq> []" using assms join_nonempty by (simp add: list_all_iff)
  ultimately show ?thesis by (simp add: word_ok_def)
qed

lemma word_ok_printSlotRange: "word_ok (printSlotRange sr)"
  using word_ok_Itoa [of "sr_Start sr"] word_ok_Itoa [of "sr_End sr"]
  by (auto simp: printSlotRange_def word_ok_def isSpace_def)

lemma parse_printSlotRange:
  assumes "slot_ok sr"
  shows "parseSlotRange (printSlotRange sr) = Inr sr"
proof -
  have r: "0 \<le> sr_Start sr" "int64_ok (sr_Start sr)" "int64_ok (sr_End sr)"
    using assms by (auto simp: slot_ok_def int64_ok_def)
  have dash: "CHR ''-'' \<notin> set (Itoa (sr_Start sr))"
    using Itoa_chars [OF r(1)] digit_not_special by blast
  show ?thesis
  proof (cases "sr_Start sr = sr_End sr")
    case True
    then show ?thesis
      using dash r by (simp add: parseSlotRange_def printSlotRange_def Atoi_Itoa cut_first_None [THEN iffD2])
  next
    case False
    then have "cut_first CHR ''-'' (printSlotRange sr) = Some (Itoa (sr_Start sr), Itoa (sr_End sr))"
      using dash by (simp add: printSlotRange_def)
    then show ?thesis using r by (simp add: parseSlotRange_def Atoi_Itoa)
  qed
qed

lemma parseSlots_print: "list_all slot_ok srs \<Longrightarrow> parseSlots (map printSlotRange srs) = srs"
  by (induction srs) (auto simp: parseSlots_def map_filter_simps parse_printSlotRange)

lemma nodeFields_words:
  assumes "node_ok n" and "no_space busPort"
  shows "\<forall>w \<in> set (nodeFields busPort n). word_ok w"
proof -
  have "word_ok (join CHR '','' (cn_Flags n))"
    using assms(1) by (intro word_ok_join) (auto simp: node_ok_def list_all_iff)
  moreover have "word_ok (cn_Addr n @ ''@'' @ busPort)"
    using assms by (intro no_spaceD) (auto simp: node_ok_def no_space_def isSpace_def)
  ultimately show ?thesis
    using assms(1) by (auto simp: nodeFields_def node_ok_def word_ok_Itoa word_ok_printSlotRange no_spaceD)
qed

lemma parseNodeLine_print:
  assumes "node_ok n" and "no_space busPort"
  shows "parseNodeLine (unwords (nodeFields busPort n)) = Some n"
proof -
  let ?ps = "nodeFields busPort n"
  note ok = nodeFields_words [OF assms]
  have ne: "unwords ?ps \<noteq> []"
    using ok by (auto simp: nodeFields_def word_ok_def)
  have "Split (join CHR '','' (cn_Flags n)) CHR '','' = cn_Flags n"
    using assms(1) by (intro Split_join) (auto simp: node_ok_def list_all_iff)
  moreover have "parseSlots (map printSlotRange (cn_Slots n)) = cn_Slots n"
    using assms(1) by (simp add: node_ok_def parseSlots_print)
  ultimately show ?thesis
    using assms(1) ne
    unfolding parseNodeLine_def Let_def TrimSpace_unwords [OF ok] Fields_unwords [OF ok]
    by (simp add: nodeFields_def node_ok_def atoiOr0_def Atoi_Itoa)
qed

lemma unwords_no_newline: "\<forall>w \<in> set ws. word_ok w \<Longrightarrow> CHR 0x0A \<notin> set (unwords ws)"
  by (induction ws rule: unwords.induct) (auto simp: word_ok_def)

text \<open>
  C24: Parsing a \<open>CLUSTER NODES\<close> reply recovers the node table a server printed, whatever the table
  and the bus port: identifiers, addresses without the bus port, flags, counters and slot ranges.
\<close>

theorem parseClusterNodes_roundtrip:
  assumes "list_all node_ok ns" and "no_space busPort"
  shows "parseClusterNodes (printNodes busPort ns) = ns"
proof -
  let ?ls = "map (\<lambda>n. unwords (nodeFields busPort n)) ns"
  have "CHR 0x0A \<notin> set (unwords (nodeFields busPort n))" if "n \<in> set ns" for n
    using that assms nodeFields_words unwords_no_newline unfolding list_all_iff by blast
  then have "\<forall>l \<in> set ?ls. CHR 0x0A \<notin> set l" by auto
  from Split_lines [OF this] have "Split (printNodes busPort ns) CHR 0x0A = ?ls @ [[]]"
    by (simp add: printNodes_def comp_def)
  moreover have "List.map_filter parseNodeLine (?ls @ [[]]) = ns"
    using assms(1) by (induction ns)
      (auto simp: map_filter_simps parseNodeLine_print assms(2), simp add: parseNodeLine_def)
  ultimately show ?thesis by (simp add: parseClusterNodes_def)
qed

definition sampleNodes :: "ClusterNode list" where
  "sampleNodes =
     [\<lparr>cn_NodeID = ''a1'', cn_Addr = ''10.0.0.1:6379'', cn_Flags = [''myself'', ''master''],
       cn_MasterID = ''-'', cn_PingSent = 0, cn_PongRecv = 1426238316232, cn_ConfigEpoch = 2,
       cn_LinkState = ''connected'',
       cn_Slots = [\<lparr>sr_Start = 0, sr_End = 5460\<rparr>, \<lparr>sr_Start = 9000, sr_End = 9000\<rparr>]\<rparr>,
      \<lparr>cn_NodeID = ''b2'', cn_Addr = ''10.0.0.2:6379'', cn_Flags = [''slave''],
       cn_MasterID = ''a1'', cn_PingSent = 0, cn_PongRecv = 1426238317741, cn_ConfigEpoch = 2,
       cn_LinkState = ''connected'', cn_Slots = []\<rparr>]"

theorem parseClusterNodes_roundtrip_witness:
  "parseClusterNodes (printNodes ''16379'' sampleNodes) = sampleNodes"
  by (rule parseClusterNodes_roundtrip)
    (simp_all add: sampleNodes_def node_ok_def no_space_def isSpace_def int64_ok_def slot_ok_def)

section \<open>A sample server\<close>

text \<open>
  A server that accepts every command and reports an empty, healthy cluster; the examples of the
  other theories change single answers of it.
\<close>

definition zeroClusterInfo :: ClusterInfo where
  "zeroClusterInfo =
     \<lparr>ci_State = ''ok'', ci_SlotsAssigned = 0, ci_SlotsOK = 0, ci_SlotsPFail = 0, ci_SlotsFail = 0,
      ci_KnownNodes = 0, ci_ClusterSize = 0, ci_CurrentEpoch = 0, ci_MyEpoch = 0,
      ci_StatsMessagesSent = 0, ci_StatsMessagesReceived = 0\<rparr>"

definition quietClient :: RedisClient where
  "quietClient =
     \<lparr>rc_Ping = (\<lambda>_ _. None), rc_Info = (\<lambda>_ _ _. Inr []), rc_ConfigSet = (\<lambda>_ _ _ _. None),
      rc_ConfigGet = (\<lambda>_ _ _. Inr []), rc_Save = (\<lambda>_ _. None),
      rc_ClusterInfo = (\<lambda>_ _. Inr zeroClusterInfo), rc_ClusterNodes = (\<lambda>_ _. Inr []),
      rc_ClusterMeet = (\<lambda>_ _ _ _. None), rc_ClusterAddSlots = (\<lambda>_ _ _. None),
      rc_ClusterDelSlots = (\<lambda>_ _ _. None), rc_ClusterReplicate = (\<lambda>_ _ _. None),
      rc_ClusterFailover = (\<lambda>_ _. None), rc_ClusterForget = (\<lambda>_ _ _. None),
      rc_ClusterReset = (\<lambda>_ _ _. None), rc_ClusterSetSlot = (\<lambda>_ _ _ _ _. None),
      rc_ClusterGetKeysInSlot = (\<lambda>_ _ _ _. Inr []), rc_ClusterCountKeysInSlot = (\<lambda>_ _ _. Inr 0),
      rc_Migrate = (\<lambda>_ _ _ _ _ _ _. None), rc_SentinelMaster = (\<lambda>_ _ _. Inr []),
      rc_SentinelGetMasterAddr = (\<lambda>_ _ _. Inr ([], 0)), rc_SentinelFailover = (\<lambda>_ _ _. None),
      rc_SentinelReset = (\<lambda>_ _ _. None), rc_ReplicaOf = (\<lambda>_ _ _ _. None),
      rc_Role = (\<lambda>_ _. Inr ''master'')\<rparr>"

end
