(* ===== verification/Controller_Base.thy ===== *)
theory Controller_Base
  imports Services Metrics_Recorder Redis_Client
begin

text \<open>
  What the three controllers share: the Kubernetes API they talk to, the mutate functions of the
  reconcilers and the calls that pass them to \<open>CreateOrUpdate\<close>, the config hash, the readiness counts
  and the events.

  The API server and the libraries controller-runtime and apimachinery are parameters, collected
  in the record \<open>Kube\<close>: the answers to reads and writes (a write that succeeds returns the object as
  the server has it, with which Go overwrites the in-memory object), the helpers for finalizers,
  owner references and status conditions, and the SHA-256 digest in hexadecimal.
\<close>

record Kube =
  k_GetRedis :: "trace \<Rightarrow> string \<Rightarrow> string \<Rightarrow> Redis result"
  k_GetSentinel :: "trace \<Rightarrow> string \<Rightarrow> string \<Rightarrow> RedisSentinel result"
  k_GetCluster :: "trace \<Rightarrow> string \<Rightarrow> string \<Rightarrow> RedisCluster result"
  k_GetSecret :: "trace \<Rightarrow> string \<Rightarrow> string \<Rightarrow> error option"
  k_GetPVC :: "trace \<Rightarrow> string \<Rightarrow> string \<Rightarrow> error option"
  k_ListPVCs :: "trace \<Rightarrow> string \<Rightarrow> gomap \<Rightarrow> string list result"
  k_DeletePVC :: "trace \<Rightarrow> string \<Rightarrow> string \<Rightarrow> error option"
  k_ListPods :: "trace \<Rightarrow> string \<Rightarrow> gomap \<Rightarrow> Pod list result"
  k_PatchPod :: "trace \<Rightarrow> string \<Rightarrow> Pod \<Rightarrow> error option"
  k_UpdateRedis :: "trace \<Rightarrow> Redis \<Rightarrow> Redis result"
  k_UpdateSentinel :: "trace \<Rightarrow> RedisSentinel \<Rightarrow> RedisSentinel result"
  k_UpdateCluster :: "trace \<Rightarrow> RedisCluster \<Rightarrow> RedisCluster result"
  k_StatusRedis :: "trace \<Rightarrow> Redis \<Rightarrow> Redis result"
  k_StatusSentinel :: "trace \<Rightarrow> RedisSentinel \<Rightarrow> RedisSentinel result"
  k_StatusCluster :: "trace \<Rightarrow> RedisCluster \<Rightarrow> RedisCluster result"
  k_PatchCluster :: "trace \<Rightarrow> RedisCluster \<Rightarrow> RedisCluster result"
  k_FetchConfigMap :: "trace \<Rightarrow> ConfigMap \<Rightarrow> ConfigMap result"
  k_FetchStatefulSet :: "trace \<Rightarrow> StatefulSet \<Rightarrow> StatefulSet result"
  k_FetchDeployment :: "trace \<Rightarrow> Deployment \<Rightarrow> Deployment result"
  k_FetchService :: "trace \<Rightarrow> Service \<Rightarrow> Service result"
  k_FetchPDB :: "trace \<Rightarrow> PodDisruptionBudget \<Rightarrow> PodDisruptionBudget result"
  k_FetchServiceMonitor :: "trace \<Rightarrow> ServiceMonitor \<Rightarrow> ServiceMonitor result"
  k_Unchanged :: "trace \<Rightarrow> kobj \<Rightarrow> kobj \<Rightarrow> bool"
  k_Apply :: "trace \<Rightarrow> kobj \<Rightarrow> error option"
  k_SetControllerReference :: "ObjectMeta \<Rightarrow> ObjectMeta \<Rightarrow> ObjectMeta result"
  k_ContainsFinalizer :: "ObjectMeta \<Rightarrow> string \<Rightarrow> bool"
  k_AddFinalizer :: "ObjectMeta \<Rightarrow> string \<Rightarrow> ObjectMeta"
  k_RemoveFinalizer :: "ObjectMeta \<Rightarrow> string \<Rightarrow> ObjectMeta"
  k_SetStatusCondition :: "Condition list \<Rightarrow> Condition \<Rightarrow> Condition list"
  k_ParseQuantity :: "string \<Rightarrow> Quantity result"
  k_sha256 :: "string \<Rightarrow> string"

text \<open>
  A reconciler: its Kubernetes client, its clock and context, its Redis client and its cluster manager
  (the client the manager wraps), both of which may be nil.
\<close>

record Reconciler =
  rec_Kube :: Kube
  rec_Ctx :: Ctx
  rec_RedisClient :: "RedisClient option"
  rec_ClusterManager :: "RedisClient option"

record Result =
  Requeue :: bool
  RequeueAfter :: int

type_synonym outcome2 = "Result \<times> error option"

definition noResult :: Result where "noResult = \<lparr>Requeue = False, RequeueAfter = 0\<rparr>"
definition requeueNow :: Result where "requeueNow = \<lparr>Requeue = True, RequeueAfter = 0\<rparr>"
definition requeueIn :: "int \<Rightarrow> Result" where "requeueIn secs = \<lparr>Requeue = False, RequeueAfter = secs * second\<rparr>"

section \<open>Constants\<close>

definition configHashAnnotation :: string where "configHashAnnotation = ''redis.example.com/config-hash''"
definition lastConfigHashAnnotation :: string where
  "lastConfigHashAnnotation = ''redis.example.com/last-config-hash''"
definition conditionReady :: string where "conditionReady = ''Ready''"
definition reasonReady :: string where "reasonReady = ''Ready''"
definition reasonReconciling :: string where "reasonReconciling = ''Reconciling''"

definition hotReloadableParams :: "string list" where
  "hotReloadableParams =
     [''maxmemory'', ''maxmemory-policy'', ''hz'', ''loglevel'', ''save'', ''timeout'', ''tcp-keepalive'',
      ''slowlog-log-slower-than'', ''slowlog-max-len'']"

section \<open>Helpers\<close>

definition configDataText :: "gomap \<Rightarrow> string" where
  "configDataText data = concat (map (\<lambda>k. k @ ''='' @ mget data k @ [CHR 0x0A]) (sort (map fst data)))"

definition configDataHash :: "Kube \<Rightarrow> gomap \<Rightarrow> string" where
  "configDataHash k data = take 16 (k_sha256 k (configDataText data))"

definition boolConditionStatus :: "bool \<Rightarrow> string" where
  "boolConditionStatus ok = (if ok then ''True'' else ''False'')"

text \<open>Pods times their ready conditions: the loop counts a pod once per matching condition.\<close>

definition countReadyPods :: "Pod list \<Rightarrow> int" where
  "countReadyPods pods = int (length (filter (\<lambda>c. c = (''Ready'', ''True'')) (concat (map po_Conditions pods))))"

definition recordEvent :: "string \<Rightarrow> string \<Rightarrow> string \<Rightarrow> trace \<Rightarrow> trace" where
  "recordEvent type reason msg tr = tr @ [Kube (RecordEvent type reason msg)]"

definition listPods :: "Kube \<Rightarrow> string \<Rightarrow> gomap \<Rightarrow> trace \<Rightarrow> Pod list result \<times> trace" where
  "listPods k ns labels tr = (k_ListPods k tr ns labels, tr @ [Kube (ListPods ns labels)])"

definition deletePVC :: "Kube \<Rightarrow> string \<Rightarrow> string \<Rightarrow> trace \<Rightarrow> error option \<times> trace" where
  "deletePVC k ns name tr = (k_DeletePVC k tr ns name, tr @ [Kube (DeletePVC ns name)])"

text \<open>
  The loop of the deletion handlers over claims: a claim that is already gone is no error.
\<close>

definition deletePVCs :: "Kube \<Rightarrow> string \<Rightarrow> string list \<Rightarrow> trace \<Rightarrow> error option \<times> trace" where
  "deletePVCs k ns names =
     forErr (\<lambda>name tr. case deletePVC k ns name tr of
       (Some e, tr) \<Rightarrow> (if IsNotFound e then None else Some e, tr)
     | (None, tr) \<Rightarrow> (None, tr)) names"

text \<open>
  \<open>CONFIG SET\<close> for the hot-reloadable entries of a configuration, in the order Go visits the map.
\<close>

definition pushConfig :: "Ctx \<Rightarrow> RedisClient \<Rightarrow> string \<Rightarrow> gomap \<Rightarrow> trace \<Rightarrow> trace" where
  "pushConfig cx c addr conf tr =
     forIgnore (\<lambda>key tr. if key \<in> set hotReloadableParams then call_ConfigSet c addr key (mget conf key) tr
                         else (None, tr)) (map_order cx tr (map fst conf)) tr"

section \<open>CreateOrUpdate\<close>

text \<open>
  \<open>controllerutil.CreateOrUpdate\<close> is library code, and what it does is not defined here but answered by
  parameters. The reconcilers pass it an object that holds just a key and a \<open>MutateFn\<close>; the library
  answers what it hands to the function (\<open>k_FetchConfigMap\<close> and the like: an object, or an error),
  whether it leaves the result alone because nothing has changed (\<open>k_Unchanged\<close>), and otherwise what
  became of the create or update (\<open>k_Apply\<close>). \<open>createOrUpdate\<close> only puts the three answers in the order in
  which the documentation of controller-runtime has them. What a theorem needs to know of the answers is
  a named hypothesis (\<open>createsOrUpdates\<close>, \<open>keepsManaged\<close>).
\<close>

definition createOrUpdate ::
  "Kube \<Rightarrow> (trace \<Rightarrow> 'a \<Rightarrow> 'a result) \<Rightarrow> ('a \<Rightarrow> kobj) \<Rightarrow> 'a \<Rightarrow> ('a \<Rightarrow> 'a result) \<Rightarrow> trace \<Rightarrow> error option \<times> trace"
  where
  "createOrUpdate k fetch wrap key mutate tr0 =
     (let tr = tr0 @ [Kube (Fetch (wrap key))] in
      case fetch tr0 key of
        Inl e \<Rightarrow> (Some e, tr)
      | Inr existing \<Rightarrow>
          (case mutate existing of
             Inl e \<Rightarrow> (Some e, tr)
           | Inr obj \<Rightarrow>
               if k_Unchanged k tr (wrap existing) (wrap obj) then (None, tr)
               else (k_Apply k tr (wrap obj), tr @ [Kube (Apply (wrap obj))])))"

definition keyOf :: "ObjectMeta \<Rightarrow> ObjectMeta" where
  "keyOf m = newMeta (om_Name m) (om_Namespace m) []"

text \<open>The labels are replaced, then the owner reference is set; both touch only the metadata.\<close>

definition ownedMeta :: "Kube \<Rightarrow> ObjectMeta \<Rightarrow> gomap \<Rightarrow> ObjectMeta \<Rightarrow> ObjectMeta result" where
  "ownedMeta k owner labels m = k_SetControllerReference k owner (m\<lparr>om_Labels := labels\<rparr>)"

definition isNew :: "ObjectMeta \<Rightarrow> bool" where
  "isNew m \<longleftrightarrow> om_CreationTimestamp m = None"

definition mutateConfigMap :: "Kube \<Rightarrow> ObjectMeta \<Rightarrow> ConfigMap \<Rightarrow> ConfigMap \<Rightarrow> ConfigMap result" where
  "mutateConfigMap k owner desired existing =
     map_sum id (\<lambda>m. \<lparr>cm_Meta = m, cm_Data = cm_Data desired\<rparr>)
       (ownedMeta k owner (om_Labels (cm_Meta desired)) (cm_Meta existing))"

definition mutateStatefulSet :: "Kube \<Rightarrow> ObjectMeta \<Rightarrow> StatefulSet \<Rightarrow> StatefulSet \<Rightarrow> StatefulSet result" where
  "mutateStatefulSet k owner desired existing =
     (let spec = (if isNew (sts_Meta existing) then sts_Spec desired
                  else (sts_Spec existing)\<lparr>ss_Replicas := ss_Replicas (sts_Spec desired),
                         ss_Template := ss_Template (sts_Spec desired)\<rparr>)
      in map_sum id (\<lambda>m. \<lparr>sts_Meta = m, sts_Spec = spec\<rparr>)
           (ownedMeta k owner (om_Labels (sts_Meta desired)) (sts_Meta existing)))"

definition mutateDeployment :: "Kube \<Rightarrow> ObjectMeta \<Rightarrow> Deployment \<Rightarrow> Deployment \<Rightarrow> Deployment result" where
  "mutateDeployment k owner desired existing =
     (let spec = (if isNew (dep_Meta existing) then dep_Spec desired
                  else (dep_Spec existing)\<lparr>ds_Replicas := ds_Replicas (dep_Spec desired),
                         ds_Template := ds_Template (dep_Spec desired)\<rparr>)
      in map_sum id (\<lambda>m. \<lparr>dep_Meta = m, dep_Spec = spec\<rparr>)
           (ownedMeta k owner (om_Labels (dep_Meta desired)) (dep_Meta existing)))"

text \<open>
  Two mutate functions for services: the one of most reconcilers, and that of the client service of
  a standalone Redis, which leaves annotations and unready addresses alone.
\<close>

definition mutateService :: "Kube \<Rightarrow> ObjectMeta \<Rightarrow> Service \<Rightarrow> Service \<Rightarrow> Service result" where
  "mutateService k owner desired existing =
     (let spec = (if isNew (svc_Meta existing) then svc_Spec desired
                  else (svc_Spec existing)\<lparr>sv_Selector := sv_Selector (svc_Spec desired),
                         sv_Ports := sv_Ports (svc_Spec desired),
                         sv_PublishNotReadyAddresses := sv_PublishNotReadyAddresses (svc_Spec desired)\<rparr>)
      in map_sum id (\<lambda>m. \<lparr>svc_Meta = m, svc_Spec = spec\<rparr>)
           (ownedMeta k owner (om_Labels (svc_Meta desired))
              ((svc_Meta existing)\<lparr>om_Annotations := om_Annotations (svc_Meta desired)\<rparr>)))"

definition mutateClientService :: "Kube \<Rightarrow> ObjectMeta \<Rightarrow> Service \<Rightarrow> Service \<Rightarrow> Service result" where
  "mutateClientService k owner desired existing =
     (let spec = (if isNew (svc_Meta existing) then svc_Spec desired
                  else (svc_Spec existing)\<lparr>sv_Selector := sv_Selector (svc_Spec desired),
                         sv_Ports := sv_Ports (svc_Spec desired)\<rparr>)
      in map_sum id (\<lambda>m. \<lparr>svc_Meta = m, svc_Spec = spec\<rparr>)
           (ownedMeta k owner (om_Labels (svc_Meta desired)) (svc_Meta existing)))"

definition mutatePDB :: "Kube \<Rightarrow> ObjectMeta \<Rightarrow> PodDisruptionBudget \<Rightarrow> PodDisruptionBudget \<Rightarrow> PodDisruptionBudget result" where
  "mutatePDB k owner desired existing =
     map_sum id (\<lambda>m. \<lparr>pdb_Meta = m, pdb_Spec = pdb_Spec desired\<rparr>)
       (ownedMeta k owner (om_Labels (pdb_Meta desired)) (pdb_Meta existing))"

definition mutateServiceMonitor :: "Kube \<Rightarrow> ObjectMeta \<Rightarrow> ServiceMonitor \<Rightarrow> ServiceMonitor \<Rightarrow> ServiceMonitor result" where
  "mutateServiceMonitor k owner desired existing =
     map_sum id (\<lambda>m. \<lparr>sm_Meta = m, sm_Spec = sm_Spec desired\<rparr>)
       (ownedMeta k owner (om_Labels (sm_Meta desired)) (sm_Meta existing))"

text \<open>A bare object with just the key of the desired one.\<close>

definition keyConfigMap :: "ConfigMap \<Rightarrow> ConfigMap" where
  "keyConfigMap d = \<lparr>cm_Meta = keyOf (cm_Meta d), cm_Data = []\<rparr>"

definition emptyPodSpec :: PodSpec where
  "emptyPodSpec = \<lparr>ps_InitContainers = [], ps_Containers = [], ps_Volumes = [], ps_Affinity = None,
     ps_Tolerations = [], ps_NodeSelector = []\<rparr>"

definition emptyTemplate :: PodTemplateSpec where
  "emptyTemplate = \<lparr>pt_Labels = [], pt_Annotations = [], pt_Spec = emptyPodSpec\<rparr>"

definition keyStatefulSet :: "StatefulSet \<Rightarrow> StatefulSet" where
  "keyStatefulSet d = \<lparr>sts_Meta = keyOf (sts_Meta d), sts_Spec = \<lparr>ss_Replicas = 0, ss_ServiceName = [],
     ss_Selector = [], ss_Template = emptyTemplate, ss_VolumeClaimTemplates = []\<rparr>\<rparr>"

definition keyDeployment :: "Deployment \<Rightarrow> Deployment" where
  "keyDeployment d = \<lparr>dep_Meta = keyOf (dep_Meta d), dep_Spec = \<lparr>ds_Replicas = 0, ds_Selector = [],
     ds_Template = emptyTemplate\<rparr>\<rparr>"

definition keyService :: "Service \<Rightarrow> Service" where
  "keyService d = \<lparr>svc_Meta = keyOf (svc_Meta d), svc_Spec = \<lparr>sv_Type = [], sv_ClusterIP = [], sv_Selector = [],
     sv_Ports = [], sv_PublishNotReadyAddresses = False\<rparr>\<rparr>"

definition keyPDB :: "PodDisruptionBudget \<Rightarrow> PodDisruptionBudget" where
  "keyPDB d = \<lparr>pdb_Meta = keyOf (pdb_Meta d), pdb_Spec = \<lparr>pdb_MaxUnavailable = None, pdb_Selector = []\<rparr>\<rparr>"

definition keyServiceMonitor :: "ServiceMonitor \<Rightarrow> ServiceMonitor" where
  "keyServiceMonitor d = \<lparr>sm_Meta = keyOf (sm_Meta d), sm_Spec = \<lparr>sm_Selector = [], sm_Endpoints = []\<rparr>\<rparr>"

definition applyConfigMap :: "Kube \<Rightarrow> ObjectMeta \<Rightarrow> ConfigMap \<Rightarrow> trace \<Rightarrow> error option \<times> trace" where
  "applyConfigMap k owner d = createOrUpdate k (k_FetchConfigMap k) KConfigMap (keyConfigMap d) (mutateConfigMap k owner d)"

definition applyStatefulSet :: "Kube \<Rightarrow> ObjectMeta \<Rightarrow> StatefulSet \<Rightarrow> trace \<Rightarrow> error option \<times> trace" where
  "applyStatefulSet k owner d = createOrUpdate k (k_FetchStatefulSet k) KStatefulSet (keyStatefulSet d) (mutateStatefulSet k owner d)"

definition applyDeployment :: "Kube \<Rightarrow> ObjectMeta \<Rightarrow> Deployment \<Rightarrow> trace \<Rightarrow> error option \<times> trace" where
  "applyDeployment k owner d = createOrUpdate k (k_FetchDeployment k) KDeployment (keyDeployment d) (mutateDeployment k owner d)"

definition applyService :: "Kube \<Rightarrow> ObjectMeta \<Rightarrow> Service \<Rightarrow> trace \<Rightarrow> error option \<times> trace" where
  "applyService k owner d = createOrUpdate k (k_FetchService k) KService (keyService d) (mutateService k owner d)"

definition applyClientService :: "Kube \<Rightarrow> ObjectMeta \<Rightarrow> Service \<Rightarrow> trace \<Rightarrow> error option \<times> trace" where
  "applyClientService k owner d = createOrUpdate k (k_FetchService k) KService (keyService d) (mutateClientService k owner d)"

definition applyPDB :: "Kube \<Rightarrow> ObjectMeta \<Rightarrow> PodDisruptionBudget \<Rightarrow> trace \<Rightarrow> error option \<times> trace" where
  "applyPDB k owner d = createOrUpdate k (k_FetchPDB k) KPDB (keyPDB d) (mutatePDB k owner d)"

definition applyServiceMonitor :: "Kube \<Rightarrow> ObjectMeta \<Rightarrow> ServiceMonitor \<Rightarrow> trace \<Rightarrow> error option \<times> trace" where
  "applyServiceMonitor k owner d =
     createOrUpdate k (k_FetchServiceMonitor k) KServiceMonitor (keyServiceMonitor d) (mutateServiceMonitor k owner d)"

definition withConfigHash :: "string \<Rightarrow> PodTemplateSpec \<Rightarrow> PodTemplateSpec" where
  "withConfigHash h t = t\<lparr>pt_Annotations := AList.update configHashAnnotation h (pt_Annotations t)\<rparr>"

definition hashStatefulSet :: "string \<Rightarrow> StatefulSet \<Rightarrow> StatefulSet" where
  "hashStatefulSet h d = d\<lparr>sts_Spec := (sts_Spec d)\<lparr>ss_Template := withConfigHash h (ss_Template (sts_Spec d))\<rparr>\<rparr>"

definition hashDeployment :: "string \<Rightarrow> Deployment \<Rightarrow> Deployment" where
  "hashDeployment h d = d\<lparr>dep_Spec := (dep_Spec d)\<lparr>ds_Template := withConfigHash h (ds_Template (dep_Spec d))\<rparr>\<rparr>"

section \<open>The outcomes of CreateOrUpdate\<close>

lemma createOrUpdate_cases:
  assumes "createOrUpdate k fetch wrap key mutate tr = (e, tr')"
  obtains (unread) err where "fetch tr key = Inl err" and "e = Some err" and "tr' = tr @ [Kube (Fetch (wrap key))]"
  | (refused) existing err where "fetch tr key = Inr existing" and "mutate existing = Inl err" and "e = Some err"
      and "tr' = tr @ [Kube (Fetch (wrap key))]"
  | (left) existing obj where "fetch tr key = Inr existing" and "mutate existing = Inr obj"
      and "k_Unchanged k (tr @ [Kube (Fetch (wrap key))]) (wrap existing) (wrap obj)" and "e = None"
      and "tr' = tr @ [Kube (Fetch (wrap key))]"
  | (written) existing obj where "fetch tr key = Inr existing" and "mutate existing = Inr obj"
      and "e = k_Apply k (tr @ [Kube (Fetch (wrap key))]) (wrap obj)"
      and "tr' = tr @ [Kube (Fetch (wrap key)), Kube (Apply (wrap obj))]"
proof (cases "fetch tr key")
  case (Inl err)
  then show thesis using assms by (intro unread [of err]) (simp_all add: createOrUpdate_def)
next
  case r: (Inr existing)
  show thesis
  proof (cases "mutate existing")
    case (Inl err)
    then show thesis using assms r by (intro refused [of existing err]) (simp_all add: createOrUpdate_def)
  next
    case (Inr obj)
    show thesis
    proof (cases "k_Unchanged k (tr @ [Kube (Fetch (wrap key))]) (wrap existing) (wrap obj)")
      case True
      then show thesis using assms r Inr by (intro left [of existing obj]) (simp_all add: createOrUpdate_def)
    next
      case False
      then show thesis using assms r Inr by (intro written [of existing obj]) (simp_all add: createOrUpdate_def Let_def)
    qed
  qed
qed

text \<open>The events an \<open>apply\<close> function may add: reads and writes of objects of the API server.\<close>

definition applies :: "event set" where
  "applies = range (\<lambda>x. Kube (Fetch x)) \<union> range (\<lambda>x. Kube (Apply x))"

lemma createOrUpdate_adds: "adds applies tr (snd (createOrUpdate k fetch wrap key mutate tr))"
  by (auto simp: createOrUpdate_def applies_def Let_def split: sum.split)

lemma apply_adds:
  "adds applies tr (snd (applyConfigMap k ow cm tr))" "adds applies tr (snd (applyStatefulSet k ow st tr))"
  "adds applies tr (snd (applyDeployment k ow dp tr))" "adds applies tr (snd (applyService k ow sv tr))"
  "adds applies tr (snd (applyClientService k ow sv tr))" "adds applies tr (snd (applyPDB k ow pd tr))"
  "adds applies tr (snd (applyServiceMonitor k ow sm tr))"
  by (simp_all add: applyConfigMap_def applyStatefulSet_def applyDeployment_def applyService_def
      applyClientService_def applyPDB_def applyServiceMonitor_def createOrUpdate_adds)

end
