(* ===== verification/Redis_Controller.thy ===== *)
theory Redis_Controller
  imports Controller_Base
begin

text \<open>
  \<open>internal/controller/redis_controller.go\<close>: the reconciler of a standalone Redis. One call of
  \<open>Reconcile\<close> reads the resource, handles its deletion or installs the finalizer, brings config map,
  workload and services to their desired state, pushes hot-reloadable parameters, and writes the
  status.
\<close>

definition redisFailedStatus :: "Reconciler \<Rightarrow> Redis \<Rightarrow> string \<Rightarrow> string \<Rightarrow> trace \<Rightarrow> trace" where
  "redisFailedStatus r obj reason msg tr =
     (let (now, tr) = time_Now (rec_Ctx r) tr;
          cond = \<lparr>cd_Type = conditionReady, cd_Status = ''False'', cd_ObservedGeneration = om_Generation (r_Meta obj),
                  cd_LastTransitionTime = now, cd_Reason = reason, cd_Message = msg\<rparr>;
          st = r_Status obj;
          obj = obj\<lparr>r_Status := st\<lparr>r_Conditions := k_SetStatusCondition (rec_Kube r) (r_Conditions st) cond,
                                 r_Phase := PhaseFailed\<rparr>\<rparr>
      in tr @ [Kube (StatusRedis obj)])"

definition redis_handleDeletion :: "Reconciler \<Rightarrow> Redis \<Rightarrow> trace \<Rightarrow> outcome2 \<times> trace" where
  "redis_handleDeletion r obj tr =
     (let k = rec_Kube r; m = r_Meta obj; ns = om_Namespace m; pvc = ''data-'' @ om_Name m @ ''-0'' in
      if \<not> k_ContainsFinalizer k m FinalizerName then ((noResult, None), tr)
      else
        (case (case r_Storage (r_Spec obj) of
                 Some st \<Rightarrow>
                   if KeepAfterDeletion st then (None, tr)
                   else (case k_GetPVC k tr ns pvc of
                           Some _ \<Rightarrow> (None, tr @ [Kube (GetPVC ns pvc)])
                         | None \<Rightarrow> deletePVCs k ns [pvc] (tr @ [Kube (GetPVC ns pvc)]))
               | None \<Rightarrow> (None, tr)) of
           (Some e, tr) \<Rightarrow> ((noResult, Some e), tr)
         | (None, tr) \<Rightarrow>
             (let tr = recordEvent ''Normal'' ''Deleted'' ''Redis instance cleaned up'' tr;
                  obj = obj\<lparr>r_Meta := k_RemoveFinalizer k m FinalizerName\<rparr>
              in ((noResult, errOf (k_UpdateRedis k tr obj)), tr @ [Kube (UpdateRedis obj)]))))"

definition redis_reconcileConfigMap :: "Reconciler \<Rightarrow> Redis \<Rightarrow> trace \<Rightarrow> string result \<times> trace" where
  "redis_reconcileConfigMap r obj tr =
     (let desired = BuildRedisConfigMap obj in
      case applyConfigMap (rec_Kube r) (r_Meta obj) desired tr of
        (Some e, tr) \<Rightarrow> (Inl e, tr)
      | (None, tr) \<Rightarrow> (Inr (configDataHash (rec_Kube r) (cm_Data desired)), tr))"

text \<open>One operation per object, each on what the builder of the object returns.\<close>

definition reconcileHeadlessService :: "Reconciler \<Rightarrow> Redis \<Rightarrow> trace \<Rightarrow> error option \<times> trace" where
  "reconcileHeadlessService r obj =
     applyService (rec_Kube r) (r_Meta obj)
       (BuildHeadlessService (om_Name (r_Meta obj)) (om_Namespace (r_Meta obj)) ComponentRedis)"

definition redis_reconcileStatefulSet :: "Reconciler \<Rightarrow> Redis \<Rightarrow> string \<Rightarrow> trace \<Rightarrow> error option \<times> trace" where
  "redis_reconcileStatefulSet r obj hash =
     applyStatefulSet (rec_Kube r) (r_Meta obj)
       (hashStatefulSet hash (BuildRedisStatefulSet (k_ParseQuantity (rec_Kube r)) obj))"

definition redis_reconcileDeployment :: "Reconciler \<Rightarrow> Redis \<Rightarrow> string \<Rightarrow> trace \<Rightarrow> error option \<times> trace" where
  "redis_reconcileDeployment r obj hash =
     applyDeployment (rec_Kube r) (r_Meta obj)
       (hashDeployment hash (BuildRedisDeployment (k_ParseQuantity (rec_Kube r)) obj))"

definition redis_reconcileService :: "Reconciler \<Rightarrow> Redis \<Rightarrow> trace \<Rightarrow> error option \<times> trace" where
  "redis_reconcileService r obj =
     applyClientService (rec_Kube r) (r_Meta obj) (BuildRedisService obj)"

definition redis_reconcileServiceMonitor :: "Reconciler \<Rightarrow> Redis \<Rightarrow> trace \<Rightarrow> error option \<times> trace" where
  "redis_reconcileServiceMonitor r obj =
     applyServiceMonitor (rec_Kube r) (r_Meta obj) (BuildRedisServiceMonitor obj)"

text \<open>The steps between the config map and the service monitor, each of which ends the run if it fails.\<close>

definition redis_steps :: "Reconciler \<Rightarrow> Redis \<Rightarrow> string \<Rightarrow> (trace \<Rightarrow> error option \<times> trace) list" where
  "redis_steps r obj hash =
     (if r_Storage (r_Spec obj) \<noteq> None
      then [reconcileHeadlessService r obj, redis_reconcileStatefulSet r obj hash]
      else [redis_reconcileDeployment r obj hash])
     @ [redis_reconcileService r obj]"

lemmas redis_object_defs = reconcileHeadlessService_def redis_reconcileStatefulSet_def
  redis_reconcileDeployment_def redis_reconcileService_def redis_reconcileServiceMonitor_def

lemma redis_steps_eq:
  "redis_steps r obj hash =
     (let k = rec_Kube r; pq = k_ParseQuantity k; m = r_Meta obj in
      (if r_Storage (r_Spec obj) \<noteq> None
       then [applyService k m (BuildHeadlessService (om_Name m) (om_Namespace m) ComponentRedis),
             applyStatefulSet k m (hashStatefulSet hash (BuildRedisStatefulSet pq obj))]
       else [applyDeployment k m (hashDeployment hash (BuildRedisDeployment pq obj))])
      @ [applyClientService k m (BuildRedisService obj)])"
  by (simp add: redis_steps_def redis_object_defs Let_def)

definition redisAddr :: "Redis \<Rightarrow> string" where
  "redisAddr obj = om_Name (r_Meta obj) @ ''.'' @ om_Namespace (r_Meta obj) @ ''.svc.cluster.local:'' @ Itoa (sint RedisPort)"

definition redis_tryHotReload :: "Reconciler \<Rightarrow> Redis \<Rightarrow> trace \<Rightarrow> trace" where
  "redis_tryHotReload r obj tr =
     (let conf = r_RedisConfig (r_Spec obj); ns = om_Namespace (r_Meta obj) in
      case rec_RedisClient r of
        None \<Rightarrow> tr
      | Some c \<Rightarrow>
          if conf = [] then tr
          else (case r_Auth (r_Spec obj) of
                  None \<Rightarrow> pushConfig (rec_Ctx r) c (redisAddr obj) conf tr
                | Some auth \<Rightarrow>
                    (let read = k_GetSecret (rec_Kube r) tr ns (auth_SecretName auth);
                         tr = tr @ [Kube (GetSecret ns (auth_SecretName auth))]
                     in if read \<noteq> None then tr else pushConfig (rec_Ctx r) c (redisAddr obj) conf tr)))"

definition redis_statusOf :: "Kube \<Rightarrow> Redis \<Rightarrow> int32 \<Rightarrow> int \<Rightarrow> RedisStatus" where
  "redis_statusOf k obj readyCount now =
     (let ready = (0 < sint readyCount); st = r_Status obj;
          cond = \<lparr>cd_Type = conditionReady, cd_Status = boolConditionStatus ready,
                  cd_ObservedGeneration = om_Generation (r_Meta obj), cd_LastTransitionTime = now,
                  cd_Reason = (if ready then reasonReady else reasonReconciling),
                  cd_Message = (if ready then Itoa (sint readyCount) @ ''/1 pods ready''
                                else ''waiting for pods to become ready'')\<rparr>
      in st\<lparr>r_Conditions := k_SetStatusCondition k (r_Conditions st) cond,
            r_Phase := (if ready then PhaseReady
                        else if r_Phase st \<noteq> PhaseFailed then PhaseInitializing else r_Phase st),
            r_ReadyReplicas := readyCount\<rparr>)"

definition redis_updateStatus :: "Reconciler \<Rightarrow> Redis \<Rightarrow> trace \<Rightarrow> error option \<times> trace" where
  "redis_updateStatus r obj tr =
     (let k = rec_Kube r; m = r_Meta obj in
      case listPods k (om_Namespace m) (PodLabels (om_Name m) ComponentRedis) tr of
        (Inl e, tr) \<Rightarrow> (Some e, tr)
      | (Inr pods, tr) \<Rightarrow>
          (let (now, tr) = time_Now (rec_Ctx r) tr;
               obj = obj\<lparr>r_Status := redis_statusOf k obj (word_of_int (countReadyPods pods)) now\<rparr>
           in (errOf (k_StatusRedis k tr obj), tr @ [Kube (StatusRedis obj)])))"

text \<open>The part of the run behind the finalizer and the initial phase.\<close>

definition redis_converge :: "Reconciler \<Rightarrow> Redis \<Rightarrow> trace \<Rightarrow> outcome2 \<times> trace" where
  "redis_converge r obj tr =
     (case redis_reconcileConfigMap r obj tr of
        (Inl e, tr) \<Rightarrow> ((noResult, Some e), redisFailedStatus r obj ''ConfigMapFailed'' (Error e) tr)
      | (Inr hash, tr) \<Rightarrow>
          (case forErr (\<lambda>step. step) (redis_steps r obj hash) tr of
             (Some e, tr) \<Rightarrow> ((noResult, Some e), tr)
           | (None, tr) \<Rightarrow>
               (let tr = (if r_EnableExporter (r_Spec obj) = Some True
                          then snd (redis_reconcileServiceMonitor r obj tr)
                          else tr);
                    tr = redis_tryHotReload r obj tr
                in case redis_updateStatus r obj tr of
                     (Some e, tr) \<Rightarrow> ((noResult, Some e), tr)
                   | (None, tr) \<Rightarrow> ((requeueIn 30, None), tr))))"

lemma redis_converge_eq:
  "redis_converge r obj tr =
     (case redis_reconcileConfigMap r obj tr of
        (Inl e, tr) \<Rightarrow> ((noResult, Some e), redisFailedStatus r obj ''ConfigMapFailed'' (Error e) tr)
      | (Inr hash, tr) \<Rightarrow>
          (case forErr (\<lambda>step. step) (redis_steps r obj hash) tr of
             (Some e, tr) \<Rightarrow> ((noResult, Some e), tr)
           | (None, tr) \<Rightarrow>
               (let tr = (if r_EnableExporter (r_Spec obj) = Some True
                          then snd (applyServiceMonitor (rec_Kube r) (r_Meta obj) (BuildRedisServiceMonitor obj) tr)
                          else tr);
                    tr = redis_tryHotReload r obj tr
                in case redis_updateStatus r obj tr of
                     (Some e, tr) \<Rightarrow> ((noResult, Some e), tr)
                   | (None, tr) \<Rightarrow> ((requeueIn 30, None), tr))))"
  unfolding redis_converge_def redis_reconcileServiceMonitor_def ..

definition redis_doReconcile :: "Reconciler \<Rightarrow> string \<Rightarrow> string \<Rightarrow> trace \<Rightarrow> outcome2 \<times> trace" where
  "redis_doReconcile r ns name tr0 =
     (let k = rec_Kube r; tr = tr0 @ [Kube (GetRedis ns name)] in
      case k_GetRedis k tr0 ns name of
        Inl e \<Rightarrow> ((noResult, if IsNotFound e then None else Some e), tr)
      | Inr obj \<Rightarrow>
          if om_DeletionTimestamp (r_Meta obj) \<noteq> None then redis_handleDeletion r obj tr
          else if \<not> k_ContainsFinalizer k (r_Meta obj) FinalizerName then
            (let obj = obj\<lparr>r_Meta := k_AddFinalizer k (r_Meta obj) FinalizerName\<rparr>;
                 res = k_UpdateRedis k tr obj;
                 tr = tr @ [Kube (UpdateRedis obj)]
             in (case res of Inl e \<Rightarrow> (noResult, Some e) | Inr _ \<Rightarrow> (requeueNow, None), tr))
          else if r_Phase (r_Status obj) = [] then
            (let obj = obj\<lparr>r_Status := (r_Status obj)\<lparr>r_Phase := PhaseInitializing\<rparr>\<rparr>;
                 res = k_StatusRedis k tr obj;
                 tr = tr @ [Kube (StatusRedis obj)]
             in case res of Inl e \<Rightarrow> ((noResult, Some e), tr) | Inr obj \<Rightarrow> redis_converge r obj tr)
          else redis_converge r obj tr)"

definition redis_Reconcile :: "Reconciler \<Rightarrow> string \<Rightarrow> string \<Rightarrow> trace \<Rightarrow> outcome2 \<times> trace" where
  "redis_Reconcile r ns name tr =
     (let (start, tr) = time_Now (rec_Ctx r) tr;
          (res, tr) = redis_doReconcile r ns name tr
      in (res, RecordReconcile (rec_Ctx r) KindRedis start (snd res) tr))"

end
