(* ===== verification/Sentinel_Controller.thy ===== *)
theory Sentinel_Controller
  imports Controller_Base
begin

text \<open>
  \<open>internal/controller/redissentinel_controller.go\<close>: the reconciler of a Sentinel-managed Redis. Besides
  the objects it tracks the master: it asks Sentinel for the master's address, finds the pod with
  that IP, and gives every Redis pod its role label.
\<close>

definition sentinelMasterName :: string where "sentinelMasterName = ''mymaster''"

definition setSentinelFailedStatus :: "Reconciler \<Rightarrow> RedisSentinel \<Rightarrow> string \<Rightarrow> string \<Rightarrow> trace \<Rightarrow> trace" where
  "setSentinelFailedStatus r rs reason msg tr =
     (let (now, tr) = time_Now (rec_Ctx r) tr;
          cond = \<lparr>cd_Type = conditionReady, cd_Status = ''False'', cd_ObservedGeneration = om_Generation (s_Meta rs),
                  cd_LastTransitionTime = now, cd_Reason = reason, cd_Message = msg\<rparr>;
          st = s_Status rs;
          rs = rs\<lparr>s_Status := st\<lparr>s_Conditions := k_SetStatusCondition (rec_Kube r) (s_Conditions st) cond,
                                s_Phase := PhaseFailed\<rparr>\<rparr>
      in tr @ [Kube (StatusSentinel rs)])"

definition sentinelAddr :: "RedisSentinel \<Rightarrow> string" where
  "sentinelAddr rs = om_Name (s_Meta rs) @ ''-sentinel.'' @ om_Namespace (s_Meta rs) @ ''.svc.cluster.local:'' @
     Itoa (sint SentinelPort)"

definition sentinel_handleDeletion :: "Reconciler \<Rightarrow> RedisSentinel \<Rightarrow> trace \<Rightarrow> outcome2 \<times> trace" where
  "sentinel_handleDeletion r rs tr =
     (let k = rec_Kube r; m = s_Meta rs; ns = om_Namespace m; sel = PodLabels (om_Name m) ComponentRedis in
      if \<not> k_ContainsFinalizer k m FinalizerName then ((noResult, None), tr)
      else
        (let tr = (case rec_RedisClient r of
                     None \<Rightarrow> tr
                   | Some c \<Rightarrow> snd (call_SentinelReset c (sentinelAddr rs) ''*'' tr))
         in case (case s_Storage (s_Spec rs) of
                 Some st \<Rightarrow>
                   if KeepAfterDeletion st then (None, tr)
                   else (case k_ListPVCs k tr ns sel of
                           Inl _ \<Rightarrow> (None, tr @ [Kube (ListPVCs ns sel)])
                         | Inr names \<Rightarrow> deletePVCs k ns names (tr @ [Kube (ListPVCs ns sel)]))
               | None \<Rightarrow> (None, tr)) of
           (Some e, tr) \<Rightarrow> ((noResult, Some e), tr)
         | (None, tr) \<Rightarrow>
             (let tr = recordEvent ''Normal'' ''Deleted'' ''RedisSentinel instance cleaned up'' tr;
                  rs = rs\<lparr>s_Meta := k_RemoveFinalizer k m FinalizerName\<rparr>
              in ((noResult, errOf (k_UpdateSentinel k tr rs)), tr @ [Kube (UpdateSentinel rs)]))))"

definition reconcileRedisConfigMap :: "Reconciler \<Rightarrow> RedisSentinel \<Rightarrow> trace \<Rightarrow> string result \<times> trace" where
  "reconcileRedisConfigMap r rs tr =
     (let desired = BuildSentinelRedisConfigMap rs in
      case applyConfigMap (rec_Kube r) (s_Meta rs) desired tr of
        (Some e, tr) \<Rightarrow> (Inl e, tr)
      | (None, tr) \<Rightarrow> (Inr (configDataHash (rec_Kube r) (cm_Data desired)), tr))"

text \<open>One operation per object; those for services and disruption budgets are given the object.\<close>

definition reconcileSentinelConfigMap :: "Reconciler \<Rightarrow> RedisSentinel \<Rightarrow> string \<Rightarrow> trace \<Rightarrow> error option \<times> trace" where
  "reconcileSentinelConfigMap r rs master =
     applyConfigMap (rec_Kube r) (s_Meta rs) (BuildSentinelConfigMap rs master)"

definition reconcileRedisStatefulSet :: "Reconciler \<Rightarrow> RedisSentinel \<Rightarrow> string \<Rightarrow> trace \<Rightarrow> error option \<times> trace" where
  "reconcileRedisStatefulSet r rs hash =
     applyStatefulSet (rec_Kube r) (s_Meta rs)
       (hashStatefulSet hash (BuildSentinelRedisStatefulSet (k_ParseQuantity (rec_Kube r)) rs))"

definition reconcileSentinelDeployment :: "Reconciler \<Rightarrow> RedisSentinel \<Rightarrow> trace \<Rightarrow> error option \<times> trace" where
  "reconcileSentinelDeployment r rs =
     applyDeployment (rec_Kube r) (s_Meta rs) (BuildSentinelDeployment rs)"

definition reconcileSentinelService :: "Reconciler \<Rightarrow> RedisSentinel \<Rightarrow> Service \<Rightarrow> trace \<Rightarrow> error option \<times> trace" where
  "reconcileSentinelService r rs desired =
     applyService (rec_Kube r) (s_Meta rs) desired"

definition reconcilePDB :: "Reconciler \<Rightarrow> RedisSentinel \<Rightarrow> PodDisruptionBudget \<Rightarrow> trace \<Rightarrow> error option \<times> trace" where
  "reconcilePDB r rs desired =
     applyPDB (rec_Kube r) (s_Meta rs) desired"

definition reconcileSentinelServiceMonitor :: "Reconciler \<Rightarrow> RedisSentinel \<Rightarrow> trace \<Rightarrow> error option \<times> trace" where
  "reconcileSentinelServiceMonitor r rs =
     applyServiceMonitor (rec_Kube r) (s_Meta rs) (BuildSentinelServiceMonitor rs)"

definition masterFQDN :: "RedisSentinel \<Rightarrow> string" where
  "masterFQDN rs = om_Name (s_Meta rs) @ ''-0.'' @ HeadlessServiceName (om_Name (s_Meta rs)) ComponentRedis @ ''.'' @
     om_Namespace (s_Meta rs) @ ''.svc.cluster.local''"

definition sentinel_steps :: "Reconciler \<Rightarrow> RedisSentinel \<Rightarrow> string \<Rightarrow> (trace \<Rightarrow> error option \<times> trace) list" where
  "sentinel_steps r rs hash =
     [reconcileSentinelConfigMap r rs (masterFQDN rs), reconcileRedisStatefulSet r rs hash, reconcileSentinelDeployment r rs] @
     map (reconcileSentinelService r rs) (sentinelServices rs) @
     map (reconcilePDB r rs) [BuildSentinelRedisPDB rs, BuildSentinelPDB rs]"

lemmas sentinel_object_defs = reconcileSentinelConfigMap_def reconcileRedisStatefulSet_def
  reconcileSentinelDeployment_def reconcileSentinelService_def reconcilePDB_def reconcileSentinelServiceMonitor_def

lemma sentinel_steps_eq:
  "sentinel_steps r rs hash =
     (let k = rec_Kube r; pq = k_ParseQuantity k; m = s_Meta rs in
      [applyConfigMap k m (BuildSentinelConfigMap rs (masterFQDN rs)),
       applyStatefulSet k m (hashStatefulSet hash (BuildSentinelRedisStatefulSet pq rs)),
       applyDeployment k m (BuildSentinelDeployment rs)] @
      map (applyService k m) (sentinelServices rs) @
      map (applyPDB k m) [BuildSentinelRedisPDB rs, BuildSentinelPDB rs])"
  by (simp add: sentinel_steps_def sentinel_object_defs Let_def)

section \<open>Tracking the master\<close>

definition redisPodLabels :: "RedisSentinel \<Rightarrow> gomap" where
  "redisPodLabels rs = PodLabels (om_Name (s_Meta rs)) ComponentRedis"

definition podWithIP :: "Pod list \<Rightarrow> string \<Rightarrow> string option" where
  "podWithIP pods ip = map_option po_Name (find (\<lambda>p. po_PodIP p = ip) pods)"

definition findMasterPod :: "Reconciler \<Rightarrow> RedisSentinel \<Rightarrow> trace \<Rightarrow> string \<times> trace" where
  "findMasterPod r rs tr =
     (let default = om_Name (s_Meta rs) @ ''-0'' in
      case rec_RedisClient r of
        None \<Rightarrow> (default, tr)
      | Some c \<Rightarrow>
          (case call_SentinelGetMasterAddr c (sentinelAddr rs) sentinelMasterName tr of
             (Inl _, tr) \<Rightarrow> (default, tr)
           | (Inr (masterHost, _), tr) \<Rightarrow>
               if masterHost = [] then (default, tr)
               else (case listPods (rec_Kube r) (om_Namespace (s_Meta rs)) (redisPodLabels rs) tr of
                       (Inl _, tr) \<Rightarrow> (default, tr)
                     | (Inr pods, tr) \<Rightarrow>
                         ((case podWithIP pods masterHost of Some n \<Rightarrow> n | None \<Rightarrow> default), tr))))"

definition desiredRole :: "string \<Rightarrow> Pod \<Rightarrow> string" where
  "desiredRole masterPodName pod = (if po_Name pod = masterPodName then RoleMaster else RoleReplica)"

definition withRole :: "string \<Rightarrow> Pod \<Rightarrow> Pod" where
  "withRole role pod = pod\<lparr>po_Labels := AList.update RoleLabelKey role (po_Labels pod)\<rparr>"

definition patchRole :: "Kube \<Rightarrow> string \<Rightarrow> string \<Rightarrow> Pod \<Rightarrow> trace \<Rightarrow> error option \<times> trace" where
  "patchRole k ns masterPodName pod tr =
     (let role = desiredRole masterPodName pod in
      if mget (po_Labels pod) RoleLabelKey = role then (None, tr)
      else (k_PatchPod k tr ns (withRole role pod), tr @ [Kube (PatchPod ns (withRole role pod))]))"

definition reconcileRoleLabels :: "Reconciler \<Rightarrow> RedisSentinel \<Rightarrow> trace \<Rightarrow> RedisSentinel \<times> trace" where
  "reconcileRoleLabels r rs tr =
     (let k = rec_Kube r; ns = om_Namespace (s_Meta rs) in
      case findMasterPod r rs tr of (masterPodName, tr) \<Rightarrow>
      (case listPods k ns (redisPodLabels rs) tr of
         (Inl _, tr) \<Rightarrow> (rs, tr)
       | (Inr pods, tr) \<Rightarrow>
           (let tr = forIgnore (patchRole k ns masterPodName) pods tr in
            (rs\<lparr>s_Status := (s_Status rs)\<lparr>s_MasterNode := masterPodName\<rparr>\<rparr>, tr))))"

section \<open>Status\<close>

definition sentinel_statusOf :: "Kube \<Rightarrow> RedisSentinel \<Rightarrow> int \<Rightarrow> int \<Rightarrow> int \<Rightarrow> RedisSentinelStatus" where
  "sentinel_statusOf k rs readyRedis readySentinels now =
     (let sp = s_Spec rs; st = s_Status rs;
          allReady = (sint (s_Replicas sp) \<le> sint (word_of_int readyRedis :: int32) \<and>
                      sint (s_SentinelReplicas sp) \<le> sint (word_of_int readySentinels :: int32));
          cond = \<lparr>cd_Type = conditionReady, cd_Status = boolConditionStatus allReady,
                  cd_ObservedGeneration = om_Generation (s_Meta rs), cd_LastTransitionTime = now,
                  cd_Reason = (if allReady then reasonReady else reasonReconciling),
                  cd_Message = ''redis: '' @ Itoa readyRedis @ ''/'' @ Itoa (sint (s_Replicas sp)) @ '' ready, sentinels: '' @
                    Itoa readySentinels @ ''/'' @ Itoa (sint (s_SentinelReplicas sp)) @ '' ready''\<rparr>
      in st\<lparr>s_Conditions := k_SetStatusCondition k (s_Conditions st) cond,
            s_Phase := (if allReady then PhaseReady
                        else if s_Phase st \<noteq> PhaseFailed then PhaseInitializing else s_Phase st),
            s_ReadyReplicas := word_of_int readyRedis,
            s_ReadySentinels := word_of_int readySentinels\<rparr>)"

text \<open>The Sentinel reconciler has its own copy of the count of ready pods.\<close>

definition countReadySentinelPods :: "Pod list \<Rightarrow> int" where
  "countReadySentinelPods pods = int (length (filter (\<lambda>c. c = (''Ready'', ''True'')) (concat (map po_Conditions pods))))"

definition updateSentinelStatus :: "Reconciler \<Rightarrow> RedisSentinel \<Rightarrow> trace \<Rightarrow> error option \<times> trace" where
  "updateSentinelStatus r rs tr =
     (let k = rec_Kube r; ns = om_Namespace (s_Meta rs); name = om_Name (s_Meta rs) in
      case listPods k ns (PodLabels name ComponentRedis) tr of
        (Inl e, tr) \<Rightarrow> (Some e, tr)
      | (Inr redisPods, tr) \<Rightarrow>
          (case listPods k ns (PodLabels name ComponentSentinel) tr of
             (Inl e, tr) \<Rightarrow> (Some e, tr)
           | (Inr sentinelPods, tr) \<Rightarrow>
               (let (now, tr) = time_Now (rec_Ctx r) tr;
                    rs = rs\<lparr>s_Status := sentinel_statusOf k rs (countReadySentinelPods redisPods) (countReadySentinelPods sentinelPods) now\<rparr>
                in (errOf (k_StatusSentinel k tr rs), tr @ [Kube (StatusSentinel rs)]))))"

section \<open>Reconcile\<close>

definition sentinel_converge :: "Reconciler \<Rightarrow> RedisSentinel \<Rightarrow> trace \<Rightarrow> outcome2 \<times> trace" where
  "sentinel_converge r rs tr =
     (case reconcileRedisConfigMap r rs tr of
        (Inl e, tr) \<Rightarrow> ((noResult, Some e), setSentinelFailedStatus r rs ''ConfigMapFailed'' (Error e) tr)
      | (Inr hash, tr) \<Rightarrow>
          (case forErr (\<lambda>step. step) (sentinel_steps r rs hash) tr of
             (Some e, tr) \<Rightarrow> ((noResult, Some e), tr)
           | (None, tr) \<Rightarrow>
               (let tr = (if s_EnableExporter (s_Spec rs) = Some True
                          then snd (reconcileSentinelServiceMonitor r rs tr)
                          else tr)
                in case reconcileRoleLabels r rs tr of (rs, tr) \<Rightarrow>
                   (case updateSentinelStatus r rs tr of
                      (Some e, tr) \<Rightarrow> ((noResult, Some e), tr)
                    | (None, tr) \<Rightarrow> ((requeueIn 30, None), tr)))))"

lemma sentinel_converge_eq:
  "sentinel_converge r rs tr =
     (case reconcileRedisConfigMap r rs tr of
        (Inl e, tr) \<Rightarrow> ((noResult, Some e), setSentinelFailedStatus r rs ''ConfigMapFailed'' (Error e) tr)
      | (Inr hash, tr) \<Rightarrow>
          (case forErr (\<lambda>step. step) (sentinel_steps r rs hash) tr of
             (Some e, tr) \<Rightarrow> ((noResult, Some e), tr)
           | (None, tr) \<Rightarrow>
               (let tr = (if s_EnableExporter (s_Spec rs) = Some True
                          then snd (applyServiceMonitor (rec_Kube r) (s_Meta rs) (BuildSentinelServiceMonitor rs) tr)
                          else tr)
                in case reconcileRoleLabels r rs tr of (rs, tr) \<Rightarrow>
                   (case updateSentinelStatus r rs tr of
                      (Some e, tr) \<Rightarrow> ((noResult, Some e), tr)
                    | (None, tr) \<Rightarrow> ((requeueIn 30, None), tr)))))"
  unfolding sentinel_converge_def reconcileSentinelServiceMonitor_def ..

definition sentinel_doReconcile :: "Reconciler \<Rightarrow> string \<Rightarrow> string \<Rightarrow> trace \<Rightarrow> outcome2 \<times> trace" where
  "sentinel_doReconcile r ns name tr0 =
     (let k = rec_Kube r; tr = tr0 @ [Kube (GetSentinel ns name)] in
      case k_GetSentinel k tr0 ns name of
        Inl e \<Rightarrow> ((noResult, if IsNotFound e then None else Some e), tr)
      | Inr rs \<Rightarrow>
          if om_DeletionTimestamp (s_Meta rs) \<noteq> None then sentinel_handleDeletion r rs tr
          else if \<not> k_ContainsFinalizer k (s_Meta rs) FinalizerName then
            (let rs = rs\<lparr>s_Meta := k_AddFinalizer k (s_Meta rs) FinalizerName\<rparr>;
                 res = k_UpdateSentinel k tr rs;
                 tr = tr @ [Kube (UpdateSentinel rs)]
             in (case res of Inl e \<Rightarrow> (noResult, Some e) | Inr _ \<Rightarrow> (requeueNow, None), tr))
          else if s_Phase (s_Status rs) = [] then
            (let rs = rs\<lparr>s_Status := (s_Status rs)\<lparr>s_Phase := PhaseInitializing\<rparr>\<rparr>;
                 res = k_StatusSentinel k tr rs;
                 tr = tr @ [Kube (StatusSentinel rs)]
             in case res of Inl e \<Rightarrow> ((noResult, Some e), tr) | Inr rs \<Rightarrow> sentinel_converge r rs tr)
          else sentinel_converge r rs tr)"

definition sentinel_Reconcile :: "Reconciler \<Rightarrow> string \<Rightarrow> string \<Rightarrow> trace \<Rightarrow> outcome2 \<times> trace" where
  "sentinel_Reconcile r ns name tr =
     (let (start, tr) = time_Now (rec_Ctx r) tr;
          (res, tr) = sentinel_doReconcile r ns name tr
      in (res, RecordReconcile (rec_Ctx r) KindSentinel start (snd res) tr))"

end
