(* ===== verification/Cluster_Manager.thy ===== *)
theory Cluster_Manager
  imports Redis_Client
begin

text \<open>
  \<open>internal/redis/cluster.go\<close>: forming a Redis Cluster, assigning and migrating hash slots,
  rebalancing, adding and removing nodes, and the loops that wait for the cluster, over the
  interface \<open>RedisClient\<close>.
\<close>

section \<open>Helpers\<close>

definition totalHashSlots :: int where "totalHashSlots = 16384"
definition migrateTimeout :: int where "migrateTimeout = 5000"
definition migrateBatch :: int where "migrateBatch = 100"

definition splitAddr :: "string \<Rightarrow> (string \<times> int) result" where
  "splitAddr addr =
     (case cut_last CHR '':'' addr of
        None \<Rightarrow> Inl (Errorf (''invalid address (no port): '' @ addr))
      | Some (ip, p) \<Rightarrow>
          (case Sscanf_d p of
             Some port \<Rightarrow> Inr (ip, port)
           | None \<Rightarrow> Inl (Wrapf (''invalid port in address '' @ addr) (Sscanf_err p))))"

definition isMaster :: "ClusterNode \<Rightarrow> bool" where
  "isMaster node \<longleftrightarrow> ''master'' \<in> set (cn_Flags node)"

definition masterNodeIDs :: "ClusterNode list \<Rightarrow> string list" where
  "masterNodeIDs nodes = map cn_NodeID (filter isMaster nodes)"

definition selfNodeID :: "ClusterNode list \<Rightarrow> string" where
  "selfNodeID nodes =
     (case find (\<lambda>n. ''myself'' \<in> set (cn_Flags n)) nodes of Some n \<Rightarrow> cn_NodeID n | None \<Rightarrow> [])"

definition nodeIDForAddr :: "ClusterNode list \<Rightarrow> string \<Rightarrow> string" where
  "nodeIDForAddr nodes addr =
     (case find (\<lambda>n. cn_Addr n = addr) nodes of Some n \<Rightarrow> cn_NodeID n | None \<Rightarrow> [])"

text \<open>
  \<open>collectSlots\<close>: the inner loop runs over one range until it ends or enough slots are
  collected; \<open>collectRanges\<close> leaves the ranges of a node once there are enough.
\<close>

function collectRange :: "int \<Rightarrow> int \<Rightarrow> int \<Rightarrow> int list \<Rightarrow> int list" where
  "collectRange s end cnt slots =
     (if s \<le> end \<and> int (length slots) < cnt then collectRange (s + 1) end cnt (slots @ [s]) else slots)"
  by pat_completeness auto
termination by (relation "measure (\<lambda>(s, end, cnt, slots). nat (end + 1 - s))") auto

declare collectRange.simps [simp del]

fun collectRanges :: "SlotRange list \<Rightarrow> int \<Rightarrow> int list \<Rightarrow> int list" where
  "collectRanges [] cnt slots = slots"
| "collectRanges (sr # srs) cnt slots =
     (let slots = collectRange (sr_Start sr) (sr_End sr) cnt slots in
      if int (length slots) \<ge> cnt then slots else collectRanges srs cnt slots)"

definition collectSlots :: "ClusterNode list \<Rightarrow> string \<Rightarrow> int \<Rightarrow> int list" where
  "collectSlots nodes nodeID cnt =
     fold (\<lambda>n slots. if cn_NodeID n \<noteq> nodeID then slots else collectRanges (cn_Slots n) cnt slots) nodes []"

section \<open>Waiting\<close>

definition probeReady :: "RedisClient \<Rightarrow> string \<Rightarrow> unit \<Rightarrow> trace \<Rightarrow> (unit + unit) \<times> trace" where
  "probeReady c addr u tr =
     (case call_ClusterInfo c addr tr of
        (Inr info, tr) \<Rightarrow> (if ci_State info = ''ok'' then Inl () else Inr (), tr)
      | (Inl _, tr) \<Rightarrow> (Inr (), tr))"

definition WaitForClusterReady ::
  "Ctx \<Rightarrow> RedisClient \<Rightarrow> string \<Rightarrow> int \<Rightarrow> trace \<Rightarrow> (error option \<times> trace) option" where
  "WaitForClusterReady cx c addr timeout =
     waitUntil cx timeout (probeReady c addr) () (errOutcome (\<lambda>_.
       Errorf (''cluster at '' @ addr @ '' did not reach state 'ok' within '' @ Duration_String timeout)))"

definition probeKnownNodes :: "RedisClient \<Rightarrow> string \<Rightarrow> int \<Rightarrow> unit \<Rightarrow> trace \<Rightarrow> (unit + unit) \<times> trace" where
  "probeKnownNodes c addr expected u tr =
     (case call_ClusterInfo c addr tr of
        (Inr info, tr) \<Rightarrow> (if ci_KnownNodes info \<ge> expected then Inl () else Inr (), tr)
      | (Inl _, tr) \<Rightarrow> (Inr (), tr))"

definition waitForKnownNodes ::
  "Ctx \<Rightarrow> RedisClient \<Rightarrow> string \<Rightarrow> int \<Rightarrow> int \<Rightarrow> trace \<Rightarrow> (error option \<times> trace) option" where
  "waitForKnownNodes cx c addr expected timeout =
     waitUntil cx timeout (probeKnownNodes c addr expected) () (errOutcome (\<lambda>_.
       Errorf (''cluster at '' @ addr @ '' did not reach '' @ Itoa expected @ '' known nodes within '' @
         Duration_String timeout)))"

section \<open>Forming a cluster\<close>

definition meetPeer :: "RedisClient \<Rightarrow> nat \<Rightarrow> string \<Rightarrow> nat \<times> string \<Rightarrow> trace \<Rightarrow> error option \<times> trace" where
  "meetPeer c i addr = (\<lambda>(j, peer) tr.
     if i = j then (None, tr)
     else (case splitAddr peer of
             Inl e \<Rightarrow> (Some (Wrapf (''invalid master address '' @ Quote peer) e), tr)
           | Inr (ip, port) \<Rightarrow>
               (case call_ClusterMeet c addr ip port tr of
                  (Some e, tr) \<Rightarrow>
                    (Some (Wrapf (''CLUSTER MEET '' @ addr @ '' '' @ arrow @ '' '' @ peer) e), tr)
                | (None, tr) \<Rightarrow> (None, tr))))"

definition meetMasters :: "RedisClient \<Rightarrow> string list \<Rightarrow> trace \<Rightarrow> error option \<times> trace" where
  "meetMasters c masterAddrs =
     forErr (\<lambda>(i, addr). forErr (meetPeer c i addr) (enumerate 0 masterAddrs)) (enumerate 0 masterAddrs)"

definition slotsFor :: "int \<Rightarrow> int \<Rightarrow> int list" where
  "slotsFor n i =
     (let slotsPerMaster = totalHashSlots div n;
          start = i * slotsPerMaster;
          end = (if i = n - 1 then totalHashSlots - 1 else start + slotsPerMaster - 1)
      in [start..end])"

definition assignShare :: "RedisClient \<Rightarrow> int \<Rightarrow> nat \<times> string \<Rightarrow> trace \<Rightarrow> error option \<times> trace" where
  "assignShare c n = (\<lambda>(i, addr) tr.
     let start = int i * (totalHashSlots div n);
         end = (if int i = n - 1 then totalHashSlots - 1 else start + totalHashSlots div n - 1)
     in (case call_ClusterAddSlots c addr (slotsFor n (int i)) tr of
           (Some e, tr) \<Rightarrow>
             (Some (Wrapf (''CLUSTER ADDSLOTS on '' @ addr @ '' (slots '' @ Itoa start @ endash @
                Itoa end @ '')'') e), tr)
         | (None, tr) \<Rightarrow> (None, tr)))"

definition AssignSlotsEvenly :: "RedisClient \<Rightarrow> string list \<Rightarrow> trace \<Rightarrow> error option \<times> trace" where
  "AssignSlotsEvenly c masterAddrs tr =
     (let n = int (length masterAddrs) in
      if n = 0 then (Some (Errorf ''no master addresses provided''), tr)
      else forErr (assignShare c n) (enumerate 0 masterAddrs) tr)"

definition meetReplica :: "RedisClient \<Rightarrow> string \<Rightarrow> string \<Rightarrow> trace \<Rightarrow> error option \<times> trace" where
  "meetReplica c master rAddr tr =
     (case splitAddr rAddr of
        Inl e \<Rightarrow> (Some (Wrapf (''invalid replica address '' @ Quote rAddr) e), tr)
      | Inr (ip, port) \<Rightarrow>
          (case call_ClusterMeet c master ip port tr of
             (Some e, tr) \<Rightarrow> (Some (Wrapf (''CLUSTER MEET replica '' @ rAddr) e), tr)
           | (None, tr) \<Rightarrow> (None, tr)))"

definition replicateTo :: "RedisClient \<Rightarrow> string list \<Rightarrow> nat \<times> string \<Rightarrow> trace \<Rightarrow> error option \<times> trace" where
  "replicateTo c masterIDs = (\<lambda>(i, rAddr) tr.
     let masterID = masterIDs ! (i mod length masterIDs) in
     (case call_ClusterReplicate c rAddr masterID tr of
        (Some e, tr) \<Rightarrow>
          (Some (Wrapf (''CLUSTER REPLICATE '' @ rAddr @ '' '' @ arrow @ '' '' @ masterID) e), tr)
      | (None, tr) \<Rightarrow> (None, tr)))"

definition assignReplicas ::
  "RedisClient \<Rightarrow> string list \<Rightarrow> string list \<Rightarrow> trace \<Rightarrow> error option \<times> trace" where
  "assignReplicas c masterAddrs replicaAddrs tr =
     (case call_ClusterNodes c (hd masterAddrs) tr of
        (Inl e, tr) \<Rightarrow> (Some (Wrapf ''fetching cluster nodes'' e), tr)
      | (Inr nodes, tr) \<Rightarrow>
          (let masterIDs = masterNodeIDs nodes in
           if length masterIDs \<noteq> length masterAddrs
           then (Some (Errorf (''expected '' @ Itoa (int (length masterAddrs)) @ '' master IDs, found '' @
                   Itoa (int (length masterIDs)))), tr)
           else forErr (replicateTo c masterIDs) (enumerate 0 replicaAddrs) tr))"

definition joinReplicas ::
  "Ctx \<Rightarrow> RedisClient \<Rightarrow> string list \<Rightarrow> string list \<Rightarrow> trace \<Rightarrow> (error option \<times> trace) option" where
  "joinReplicas cx c masterAddrs replicaAddrs tr =
     (case forErr (meetReplica c (hd masterAddrs)) replicaAddrs tr of
        (Some e, tr) \<Rightarrow> Some (Some e, tr)
      | (None, tr) \<Rightarrow> do {
          (err, tr) \<leftarrow> waitForKnownNodes cx c (hd masterAddrs)
            (int (length masterAddrs + length replicaAddrs)) (60 * second) tr;
          Some (case err of
                  Some e \<Rightarrow> (Some (Wrapf ''waiting for replicas to join'' e), tr)
                | None \<Rightarrow> assignReplicas c masterAddrs replicaAddrs tr)
        })"

definition FormCluster ::
  "Ctx \<Rightarrow> RedisClient \<Rightarrow> string list \<Rightarrow> string list \<Rightarrow> int \<Rightarrow> trace \<Rightarrow> (error option \<times> trace) option" where
  "FormCluster cx c masterAddrs replicaAddrs replicasPerMaster tr =
     (if length masterAddrs < 3
      then Some (Some (Errorf (''need at least 3 masters to form a cluster, got '' @
             Itoa (int (length masterAddrs)))), tr)
      else (case meetMasters c masterAddrs tr of
        (Some e, tr) \<Rightarrow> Some (Some e, tr)
      | (None, tr) \<Rightarrow> do {
          (err, tr) \<leftarrow> waitForKnownNodes cx c (hd masterAddrs) (int (length masterAddrs)) (30 * second) tr;
          (case err of
             Some e \<Rightarrow> Some (Some (Wrapf ''waiting for cluster formation'' e), tr)
           | None \<Rightarrow>
               (case AssignSlotsEvenly c masterAddrs tr of
                  (Some e, tr) \<Rightarrow> Some (Some (Wrapf ''assigning slots'' e), tr)
                | (None, tr) \<Rightarrow> do {
                    (err, tr) \<leftarrow> WaitForClusterReady cx c (hd masterAddrs) (60 * second) tr;
                    (case err of
                       Some e \<Rightarrow>
                         Some (Some (Wrapf ''waiting for cluster ready after slot assignment'' e), tr)
                     | None \<Rightarrow>
                         if replicaAddrs = [] \<or> replicasPerMaster = 0 then Some (None, tr)
                         else joinReplicas cx c masterAddrs replicaAddrs tr)
                  }))
        }))"

section \<open>Migrating slots\<close>

definition migrateKey ::
  "RedisClient \<Rightarrow> string \<Rightarrow> string \<Rightarrow> int \<Rightarrow> string \<Rightarrow> trace \<Rightarrow> error option \<times> trace" where
  "migrateKey c sourceAddr destIP destPort key tr =
     (case call_Migrate c sourceAddr destIP destPort key 0 migrateTimeout tr of
        (Some e, tr) \<Rightarrow>
          (Some (Wrapf (''MIGRATE key '' @ Quote key @ '' to '' @ destIP @ '':'' @ Itoa destPort) e), tr)
      | (None, tr) \<Rightarrow> (None, tr))"

partial_function (option) migrateKeys ::
  "RedisClient \<Rightarrow> string \<Rightarrow> string \<Rightarrow> int \<Rightarrow> int \<Rightarrow> trace \<Rightarrow> (error option \<times> trace) option" where
  "migrateKeys c sourceAddr destIP destPort slot tr =
     (case call_ClusterGetKeysInSlot c sourceAddr slot migrateBatch tr of
        (Inl e, tr) \<Rightarrow> Some (Some (Wrapf (''CLUSTER GETKEYSINSLOT '' @ Itoa slot) e), tr)
      | (Inr keys, tr) \<Rightarrow>
          if keys = [] then Some (None, tr)
          else (case forErr (migrateKey c sourceAddr destIP destPort) keys tr of
                  (Some e, tr) \<Rightarrow> Some (Some e, tr)
                | (None, tr) \<Rightarrow> migrateKeys c sourceAddr destIP destPort slot tr))"

declare migrateKeys.simps [code]

definition commitSlot :: "RedisClient \<Rightarrow> string \<Rightarrow> int \<Rightarrow> string \<Rightarrow> trace \<Rightarrow> error option \<times> trace" where
  "commitSlot c sourceAddr slot destNodeID tr =
     (case call_ClusterNodes c sourceAddr tr of
        (Inl e, tr) \<Rightarrow> (Some (Wrapf (''fetching all nodes to commit slot '' @ Itoa slot) e), tr)
      | (Inr allNodes, tr) \<Rightarrow>
          (None, forIgnore (\<lambda>node. call_ClusterSetSlot c (cn_Addr node) slot ''NODE'' destNodeID) allNodes tr))"

definition moveSlot ::
  "RedisClient \<Rightarrow> string \<Rightarrow> string \<Rightarrow> string \<Rightarrow> int \<Rightarrow> string \<Rightarrow> string \<Rightarrow> int \<Rightarrow> trace \<Rightarrow>
     (error option \<times> trace) option" where
  "moveSlot c sourceAddr destAddr destIP destPort srcNodeID destNodeID slot tr =
     (case call_ClusterSetSlot c destAddr slot ''IMPORTING'' srcNodeID tr of
        (Some e, tr) \<Rightarrow> Some (Some (Wrapf (''CLUSTER SETSLOT '' @ Itoa slot @ '' IMPORTING'') e), tr)
      | (None, tr) \<Rightarrow>
          (case call_ClusterSetSlot c sourceAddr slot ''MIGRATING'' destNodeID tr of
             (Some e, tr) \<Rightarrow>
               (let (_, tr) = call_ClusterSetSlot c destAddr slot ''STABLE'' [] tr in
                Some (Some (Wrapf (''CLUSTER SETSLOT '' @ Itoa slot @ '' MIGRATING'') e), tr))
           | (None, tr) \<Rightarrow> do {
               (err, tr) \<leftarrow> migrateKeys c sourceAddr destIP destPort slot tr;
               (case err of
                  Some e \<Rightarrow>
                    (let (_, tr) = call_ClusterSetSlot c sourceAddr slot ''STABLE'' [] tr;
                         (_, tr) = call_ClusterSetSlot c destAddr slot ''STABLE'' [] tr in
                     Some (Some (Wrapf (''migrating keys in slot '' @ Itoa slot) e), tr))
                | None \<Rightarrow> Some (commitSlot c sourceAddr slot destNodeID tr))
             }))"

definition MigrateSlot ::
  "RedisClient \<Rightarrow> string \<Rightarrow> string \<Rightarrow> int \<Rightarrow> trace \<Rightarrow> (error option \<times> trace) option" where
  "MigrateSlot c sourceAddr destAddr slot tr =
     (case splitAddr destAddr of
        Inl e \<Rightarrow> Some (Some e, tr)
      | Inr (destIP, destPort) \<Rightarrow>
          (case call_ClusterNodes c destAddr tr of
             (Inl e, tr) \<Rightarrow> Some (Some (Wrapf ''fetching dest nodes'' e), tr)
           | (Inr destNodes, tr) \<Rightarrow>
               if selfNodeID destNodes = []
               then Some (Some (Errorf (''could not determine destination node ID for '' @ destAddr)), tr)
               else (case call_ClusterNodes c sourceAddr tr of
                  (Inl e, tr) \<Rightarrow> Some (Some (Wrapf ''fetching source nodes'' e), tr)
                | (Inr srcNodes, tr) \<Rightarrow>
                    if selfNodeID srcNodes = []
                    then Some (Some (Errorf (''could not determine source node ID for '' @ sourceAddr)), tr)
                    else moveSlot c sourceAddr destAddr destIP destPort (selfNodeID srcNodes)
                           (selfNodeID destNodes) slot tr)))"

definition MigrateSlotsRange ::
  "RedisClient \<Rightarrow> string \<Rightarrow> string \<Rightarrow> int \<Rightarrow> int \<Rightarrow> trace \<Rightarrow> (error option \<times> trace) option" where
  "MigrateSlotsRange c sourceAddr destAddr startSlot endSlot =
     forErrO (MigrateSlot c sourceAddr destAddr) [startSlot..endSlot]"

section \<open>Rebalancing\<close>

definition slotTotal :: "ClusterNode \<Rightarrow> int" where
  "slotTotal node = fold (\<lambda>sr total. total + (sr_End sr - sr_Start sr + 1)) (cn_Slots node) 0"

definition slotCounts :: "ClusterNode list \<Rightarrow> (string \<times> int) list" where
  "slotCounts nodes =
     fold (\<lambda>node m. if isMaster node then AList.update (cn_NodeID node) (slotTotal node) m else m) nodes []"

definition nodeAddrByID :: "ClusterNode list \<Rightarrow> (string \<times> string) list" where
  "nodeAddrByID nodes =
     fold (\<lambda>node m. if isMaster node then AList.update (cn_NodeID node) (cn_Addr node) m else m) nodes []"

definition countOf :: "(string \<times> int) list \<Rightarrow> string \<Rightarrow> int" where
  "countOf m k = (case map_of m k of Some v \<Rightarrow> v | None \<Rightarrow> 0)"

fun donate ::
  "RedisClient \<Rightarrow> int \<Rightarrow> (string \<times> int) list \<Rightarrow> ClusterNode list \<Rightarrow> string \<Rightarrow> string \<Rightarrow> int \<Rightarrow> string list \<Rightarrow>
     trace \<Rightarrow> (error option \<times> trace) option" where
  "donate c target counts donorNodes donorID donorAddr excess [] tr = Some (None, tr)"
| "donate c target counts donorNodes donorID donorAddr excess (receiverAddr # rest) tr =
     (if receiverAddr = donorAddr \<or> excess \<le> 0
      then donate c target counts donorNodes donorID donorAddr excess rest tr
      else let receiverNodeID = nodeIDForAddr donorNodes receiverAddr in
      if receiverNodeID = [] then donate c target counts donorNodes donorID donorAddr excess rest tr
      else let toMove = countOf counts receiverNodeID in
      if toMove \<ge> target then donate c target counts donorNodes donorID donorAddr excess rest tr
      else let needed = (if target - toMove > excess then excess else target - toMove) in
      (case forErrO (MigrateSlot c donorAddr receiverAddr) (collectSlots donorNodes donorID needed) tr of
         None \<Rightarrow> None
       | Some (Some e, tr) \<Rightarrow> Some (Some e, tr)
       | Some (None, tr) \<Rightarrow>
           donate c target counts donorNodes donorID donorAddr (excess - needed) rest tr))"

definition drainDonor ::
  "RedisClient \<Rightarrow> string list \<Rightarrow> int \<Rightarrow> ClusterNode list \<Rightarrow> string \<Rightarrow> trace \<Rightarrow> (error option \<times> trace) option"
  where
  "drainDonor c masterAddrs target nodes donorID tr =
     (let excess = countOf (slotCounts nodes) donorID - target;
          donorAddr = mget (nodeAddrByID nodes) donorID in
      if excess \<le> 0 then Some (None, tr)
      else (case call_ClusterNodes c donorAddr tr of
              (Inl e, tr) \<Rightarrow> Some (Some e, tr)
            | (Inr donorNodes, tr) \<Rightarrow>
                donate c target (slotCounts nodes) donorNodes donorID donorAddr excess masterAddrs tr))"

text \<open>With no masters the division by their number panics.\<close>

definition RebalanceSlots ::
  "Ctx \<Rightarrow> RedisClient \<Rightarrow> string list \<Rightarrow> trace \<Rightarrow> (error option \<times> trace) option" where
  "RebalanceSlots cx c masterAddrs tr =
     (if masterAddrs = [] then None
      else let target = totalHashSlots div int (length masterAddrs) in
      (case call_ClusterNodes c (hd masterAddrs) tr of
         (Inl e, tr) \<Rightarrow> Some (Some e, tr)
       | (Inr nodes, tr) \<Rightarrow>
           forErrO (drainDonor c masterAddrs target nodes)
             (map_order cx tr (map fst (slotCounts nodes))) tr))"

section \<open>Adding and removing nodes\<close>

definition AddMaster :: "RedisClient \<Rightarrow> string \<Rightarrow> string \<Rightarrow> trace \<Rightarrow> error option \<times> trace" where
  "AddMaster c existingAddr newAddr tr =
     (case splitAddr newAddr of
        Inl e \<Rightarrow> (Some e, tr)
      | Inr (ip, port) \<Rightarrow> call_ClusterMeet c existingAddr ip port tr)"

definition forgetAll :: "RedisClient \<Rightarrow> ClusterNode list \<Rightarrow> string \<Rightarrow> string \<Rightarrow> trace \<Rightarrow> trace" where
  "forgetAll c nodes removeAddr removeID =
     forIgnore (\<lambda>node tr. if cn_Addr node = removeAddr then (None, tr)
                          else call_ClusterForget c (cn_Addr node) removeID tr) nodes"

definition RemoveMaster :: "RedisClient \<Rightarrow> string \<Rightarrow> string \<Rightarrow> trace \<Rightarrow> error option \<times> trace" where
  "RemoveMaster c clusterAddr removeAddr tr =
     (case call_ClusterNodes c clusterAddr tr of
        (Inl e, tr) \<Rightarrow> (Some e, tr)
      | (Inr nodes, tr) \<Rightarrow>
          (let removeID = nodeIDForAddr nodes removeAddr in
           if removeID = [] then (Some (Errorf (''node '' @ removeAddr @ '' not found in cluster'')), tr)
           else (case call_ClusterReset c removeAddr False tr of
                   (Some e, tr) \<Rightarrow> (Some (Wrapf (''CLUSTER RESET on '' @ removeAddr) e), tr)
                 | (None, tr) \<Rightarrow> (None, forgetAll c nodes removeAddr removeID tr))))"

definition AddReplica :: "RedisClient \<Rightarrow> string \<Rightarrow> string \<Rightarrow> trace \<Rightarrow> error option \<times> trace" where
  "AddReplica c replicaAddr masterAddr tr =
     (case splitAddr replicaAddr of
        Inl e \<Rightarrow> (Some e, tr)
      | Inr (ip, port) \<Rightarrow>
          (case call_ClusterMeet c masterAddr ip port tr of
             (Some e, tr) \<Rightarrow> (Some e, tr)
           | (None, tr) \<Rightarrow>
               (case call_ClusterNodes c masterAddr tr of
                  (Inl e, tr) \<Rightarrow> (Some e, tr)
                | (Inr nodes, tr) \<Rightarrow>
                    (let masterID = nodeIDForAddr nodes masterAddr in
                     if masterID = []
                     then (Some (Errorf (''master '' @ masterAddr @ '' not found in cluster nodes'')), tr)
                     else call_ClusterReplicate c replicaAddr masterID tr))))"

definition RemoveReplica :: "RedisClient \<Rightarrow> string \<Rightarrow> string \<Rightarrow> trace \<Rightarrow> error option \<times> trace" where
  "RemoveReplica c clusterAddr replicaAddr tr =
     (case call_ClusterNodes c clusterAddr tr of
        (Inl e, tr) \<Rightarrow> (Some e, tr)
      | (Inr nodes, tr) \<Rightarrow>
          (let replicaID = nodeIDForAddr nodes replicaAddr in
           if replicaID = [] then (Some (Errorf (''replica '' @ replicaAddr @ '' not found in cluster'')), tr)
           else (case call_ClusterReset c replicaAddr False tr of
                   (Some e, tr) \<Rightarrow> (Some (Wrapf (''CLUSTER RESET on '' @ replicaAddr) e), tr)
                 | (None, tr) \<Rightarrow> (None, forgetAll c nodes replicaAddr replicaID tr))))"

section \<open>Observing the cluster\<close>

record ClusterState =
  cst_State :: string
  cst_SlotsAssigned :: int
  cst_SlotsOK :: int
  cst_SlotsPFail :: int
  cst_SlotsFail :: int
  cst_KnownNodes :: int
  cst_Size :: int
  cst_Nodes :: "ClusterNode list"

definition GetClusterState :: "RedisClient \<Rightarrow> string \<Rightarrow> trace \<Rightarrow> ClusterState result \<times> trace" where
  "GetClusterState c addr tr =
     (case call_ClusterInfo c addr tr of
        (Inl e, tr) \<Rightarrow> (Inl e, tr)
      | (Inr info, tr) \<Rightarrow>
          (case call_ClusterNodes c addr tr of
             (Inl e, tr) \<Rightarrow> (Inl e, tr)
           | (Inr nodes, tr) \<Rightarrow>
               (Inr \<lparr>cst_State = ci_State info, cst_SlotsAssigned = ci_SlotsAssigned info,
                  cst_SlotsOK = ci_SlotsOK info, cst_SlotsPFail = ci_SlotsPFail info,
                  cst_SlotsFail = ci_SlotsFail info, cst_KnownNodes = ci_KnownNodes info,
                  cst_Size = ci_ClusterSize info, cst_Nodes = nodes\<rparr>, tr)))"

definition VerifySlotCoverage :: "RedisClient \<Rightarrow> string \<Rightarrow> trace \<Rightarrow> bool result \<times> trace" where
  "VerifySlotCoverage c addr tr =
     (case call_ClusterInfo c addr tr of
        (Inl e, tr) \<Rightarrow> (Inl e, tr)
      | (Inr info, tr) \<Rightarrow> (Inr (ci_SlotsAssigned info = totalHashSlots), tr))"

end
