(* ===== verification/Cluster_Controller.thy ===== *)
theory Cluster_Controller
  imports Controller_Base Cluster_Manager
begin

text \<open>
  \<open>internal/controller/rediscluster_controller.go\<close>: the reconciler of a Redis Cluster: its objects, the
  lifecycle state machine (formation, recovery, scaling out and in), the rolling failover before a
  configuration change, hot reload and status.

  Operations that may form a cluster or migrate slots return an option, with \<open>None\<close> for a run that
  never returns or panics: a slice of negative length (a negative number of masters, or a product
  that overflows 32 bits to a negative one) and the division by the number of masters.
\<close>

section \<open>Addresses and readiness\<close>

definition clusterMasterAddr :: "RedisCluster \<Rightarrow> int32 \<Rightarrow> string" where
  "clusterMasterAddr rc idx =
     ClusterMasterStatefulSetName (om_Name (c_Meta rc)) @ ''-'' @ Itoa (sint idx) @ ''.'' @
     HeadlessServiceName (om_Name (c_Meta rc)) ComponentMaster @ ''.'' @ om_Namespace (c_Meta rc) @
     ''.svc.cluster.local:'' @ Itoa (sint RedisPort)"

definition clusterReplicaAddr :: "RedisCluster \<Rightarrow> int32 \<Rightarrow> string" where
  "clusterReplicaAddr rc idx =
     ClusterReplicaStatefulSetName (om_Name (c_Meta rc)) @ ''-'' @ Itoa (sint idx) @ ''.'' @
     HeadlessServiceName (om_Name (c_Meta rc)) ComponentReplica @ ''.'' @ om_Namespace (c_Meta rc) @
     ''.svc.cluster.local:'' @ Itoa (sint RedisPort)"

definition replicaTotal :: "RedisCluster \<Rightarrow> int32" where
  "replicaTotal rc = c_Masters (c_Spec rc) * c_ReplicasPerMaster (c_Spec rc)"

text \<open>The values of an \<open>int32\<close> loop variable that starts at \<open>a\<close> and stops before \<open>b\<close>.\<close>

definition loop32 :: "int32 \<Rightarrow> int32 \<Rightarrow> int32 list" where
  "loop32 a b = map word_of_int [sint a..sint b - 1]"

definition allMasterAddrs :: "RedisCluster \<Rightarrow> string list" where
  "allMasterAddrs rc = map (clusterMasterAddr rc) (loop32 0 (c_Masters (c_Spec rc)))"

definition allReplicaAddrs :: "RedisCluster \<Rightarrow> string list" where
  "allReplicaAddrs rc = map (clusterReplicaAddr rc) (loop32 0 (replicaTotal rc))"

definition podsOf :: "Reconciler \<Rightarrow> RedisCluster \<Rightarrow> string \<Rightarrow> trace \<Rightarrow> Pod list result \<times> trace" where
  "podsOf r rc component =
     listPods (rec_Kube r) (om_Namespace (c_Meta rc)) (PodLabels (om_Name (c_Meta rc)) component)"

definition ready32 :: "Pod list \<Rightarrow> int32" where
  "ready32 pods = word_of_int (countReadyPods pods)"

definition allMasterPodsReady :: "Reconciler \<Rightarrow> RedisCluster \<Rightarrow> trace \<Rightarrow> bool \<times> trace" where
  "allMasterPodsReady r rc tr =
     (case podsOf r rc ComponentMaster tr of
        (Inl _, tr) \<Rightarrow> (False, tr)
      | (Inr pods, tr) \<Rightarrow> (sint (c_Masters (c_Spec rc)) \<le> sint (ready32 pods), tr))"

definition allPodsReady :: "Reconciler \<Rightarrow> RedisCluster \<Rightarrow> trace \<Rightarrow> bool \<times> trace" where
  "allPodsReady r rc tr =
     (case allMasterPodsReady r rc tr of
        (False, tr) \<Rightarrow> (False, tr)
      | (True, tr) \<Rightarrow>
          if c_ReplicasPerMaster (c_Spec rc) = 0 then (True, tr)
          else (case podsOf r rc ComponentReplica tr of
                  (Inl _, tr) \<Rightarrow> (False, tr)
                | (Inr pods, tr) \<Rightarrow> (sint (replicaTotal rc) \<le> sint (ready32 pods), tr)))"

section \<open>Status writes\<close>

definition setPhase :: "string \<Rightarrow> RedisCluster \<Rightarrow> RedisCluster" where
  "setPhase p rc = rc\<lparr>c_Status := (c_Status rc)\<lparr>c_Phase := p\<rparr>\<rparr>"

definition statusUpdate :: "Reconciler \<Rightarrow> RedisCluster \<Rightarrow> trace \<Rightarrow> error option \<times> RedisCluster \<times> trace" where
  "statusUpdate r rc tr =
     (case k_StatusCluster (rec_Kube r) tr rc of
        Inl e \<Rightarrow> (Some e, rc, tr @ [Kube (StatusCluster rc)])
      | Inr rc' \<Rightarrow> (None, rc', tr @ [Kube (StatusCluster rc)]))"

definition setClusterFailedStatus ::
  "Reconciler \<Rightarrow> RedisCluster \<Rightarrow> string \<Rightarrow> string \<Rightarrow> trace \<Rightarrow> RedisCluster \<times> trace" where
  "setClusterFailedStatus r rc reason msg tr =
     (let (now, tr) = time_Now (rec_Ctx r) tr;
          cond = \<lparr>cd_Type = conditionReady, cd_Status = ''False'', cd_ObservedGeneration = om_Generation (c_Meta rc),
                  cd_LastTransitionTime = now, cd_Reason = reason, cd_Message = msg\<rparr>;
          st = c_Status rc;
          rc = rc\<lparr>c_Status := st\<lparr>c_Conditions := k_SetStatusCondition (rec_Kube r) (c_Conditions st) cond,
                                c_Phase := PhaseFailed\<rparr>\<rparr>
      in snd (statusUpdate r rc tr))"

section \<open>Lifecycle\<close>

type_synonym lifecycle = "(outcome2 \<times> RedisCluster) \<times> trace"

definition meetNewMasters :: "RedisClient \<Rightarrow> RedisCluster \<Rightarrow> int32 \<Rightarrow> trace \<Rightarrow> error option \<times> trace" where
  "meetNewMasters cm rc currentMasters =
     forErr (\<lambda>i. AddMaster cm (clusterMasterAddr rc 0) (clusterMasterAddr rc i))
       (loop32 currentMasters (c_Masters (c_Spec rc)))"

definition attachReplicas :: "RedisClient \<Rightarrow> RedisCluster \<Rightarrow> int32 \<Rightarrow> trace \<Rightarrow> trace" where
  "attachReplicas cm rc currentMasters =
     (let rpm = c_ReplicasPerMaster (c_Spec rc) in
      forIgnore (\<lambda>(i, j). AddReplica cm (clusterReplicaAddr rc (i * rpm + j)) (clusterMasterAddr rc i))
        (List.product (loop32 currentMasters (c_Masters (c_Spec rc))) (loop32 0 rpm)))"

definition scaledEvent :: "string \<Rightarrow> int32 \<Rightarrow> int32 \<Rightarrow> trace \<Rightarrow> trace" where
  "scaledEvent reason from to =
     recordEvent ''Normal'' reason (''Scaled from '' @ Itoa (sint from) @ '' to '' @ Itoa (sint to) @ '' masters'')"

definition reconcileScaleOut ::
  "Reconciler \<Rightarrow> RedisClient \<Rightarrow> RedisCluster \<Rightarrow> int32 \<Rightarrow> trace \<Rightarrow> lifecycle option" where
  "reconcileScaleOut r cm rc currentMasters tr =
     (let (start, tr) = time_Now (rec_Ctx r) tr; rc = setPhase PhaseScaling rc; m = c_Meta rc in
      case allMasterPodsReady r rc tr of
        (False, tr) \<Rightarrow> Some (((requeueIn 15, None), rc), tr)
      | (True, tr) \<Rightarrow>
          (case meetNewMasters cm rc currentMasters tr of
             (Some _, tr) \<Rightarrow> Some (((requeueIn 30, None), rc), tr)
           | (None, tr) \<Rightarrow> do {
               (err, tr) \<leftarrow> RebalanceSlots (rec_Ctx r) cm (allMasterAddrs rc) tr;
               Some (if err \<noteq> None then (((requeueIn 30, None), rc), tr)
                     else (let tr = attachReplicas cm rc currentMasters tr;
                               tr = RecordClusterScaling (rec_Ctx r) (om_Name m) (om_Namespace m) ''out'' start tr;
                               tr = scaledEvent ''ScaleOut'' currentMasters (c_Masters (c_Spec rc)) tr
                           in (((requeueNow, None), setPhase PhaseReady rc), tr)))
             }))"

definition removeReplicasOf :: "RedisClient \<Rightarrow> RedisCluster \<Rightarrow> int32 \<Rightarrow> trace \<Rightarrow> trace" where
  "removeReplicasOf cm rc i =
     (let rpm = c_ReplicasPerMaster (c_Spec rc) in
      forIgnore (\<lambda>j. RemoveReplica cm (clusterMasterAddr rc 0) (clusterReplicaAddr rc (i * rpm + j))) (loop32 0 rpm))"

text \<open>The excess masters, highest index first.\<close>

definition removeExcess :: "RedisClient \<Rightarrow> RedisCluster \<Rightarrow> int32 \<Rightarrow> trace \<Rightarrow> error option \<times> trace" where
  "removeExcess cm rc currentMasters =
     forErr (\<lambda>i tr. RemoveMaster cm (clusterMasterAddr rc 0) (clusterMasterAddr rc i) (removeReplicasOf cm rc i tr))
       (rev (loop32 (c_Masters (c_Spec rc)) currentMasters))"

definition reconcileScaleIn ::
  "Reconciler \<Rightarrow> RedisClient \<Rightarrow> RedisCluster \<Rightarrow> int32 \<Rightarrow> trace \<Rightarrow> lifecycle option" where
  "reconcileScaleIn r cm rc currentMasters tr =
     (let (start, tr) = time_Now (rec_Ctx r) tr; rc = setPhase PhaseScaling rc; m = c_Meta rc in
      if sint (c_Masters (c_Spec rc)) < 0 then None
      else do {
        (err, tr) \<leftarrow> RebalanceSlots (rec_Ctx r) cm (allMasterAddrs rc) tr;
        Some (if err \<noteq> None then (((requeueIn 30, None), rc), tr)
              else (case removeExcess cm rc currentMasters tr of
                      (Some _, tr) \<Rightarrow> (((requeueIn 30, None), rc), tr)
                    | (None, tr) \<Rightarrow>
                        (let tr = RecordClusterScaling (rec_Ctx r) (om_Name m) (om_Namespace m) ''in'' start tr;
                             tr = scaledEvent ''ScaleIn'' currentMasters (c_Masters (c_Spec rc)) tr
                         in (((requeueNow, None), setPhase PhaseReady rc), tr))))
      })"

definition formOnce :: "Reconciler \<Rightarrow> RedisClient \<Rightarrow> RedisCluster \<Rightarrow> trace \<Rightarrow> lifecycle option" where
  "formOnce r cm rc tr =
     (case allPodsReady r rc tr of
        (False, tr) \<Rightarrow> Some (((requeueIn 15, None), setPhase PhaseInitializing rc), tr)
      | (True, tr) \<Rightarrow>
          if sint (c_Masters (c_Spec rc)) < 0 \<or> sint (replicaTotal rc) < 0 then None
          else do {
            (err, tr) \<leftarrow> FormCluster (rec_Ctx r) cm (allMasterAddrs rc) (allReplicaAddrs rc)
              (sint (c_ReplicasPerMaster (c_Spec rc))) tr;
            Some (case err of
                    Some e \<Rightarrow>
                      (let (rc, tr) = setClusterFailedStatus r rc ''ClusterFormationFailed'' (Error e) tr;
                           tr = recordEvent ''Warning'' ''ClusterFormationFailed'' (Error e) tr
                       in (((requeueIn 30, None), rc), tr))
                  | None \<Rightarrow>
                      (((requeueNow, None), setPhase PhaseReady rc),
                       recordEvent ''Normal'' ''ClusterFormed'' ''Redis Cluster formed successfully'' tr))
          })"

definition failState :: "RedisCluster \<Rightarrow> trace \<Rightarrow> lifecycle" where
  "failState rc tr =
     (if c_Phase (c_Status rc) \<noteq> PhaseRecovering
      then (((requeueIn 15, None), setPhase PhaseRecovering rc),
            recordEvent ''Warning'' ''ClusterFailing'' ''Redis Cluster is in fail state; waiting for automatic recovery''
              (RecordClusterFailover (om_Name (c_Meta rc)) (om_Namespace (c_Meta rc)) tr))
      else (((requeueIn 15, None), rc), tr))"

definition recovered :: "RedisCluster \<Rightarrow> string \<Rightarrow> trace \<Rightarrow> RedisCluster \<times> trace" where
  "recovered rc state tr =
     (if c_Phase (c_Status rc) = PhaseRecovering \<and> state = ''ok''
      then (setPhase PhaseReady rc,
            recordEvent ''Normal'' ''ClusterRecovered'' ''Redis Cluster has recovered'' tr)
      else (rc, tr))"

definition scaleIfNeeded ::
  "Reconciler \<Rightarrow> RedisClient \<Rightarrow> RedisCluster \<Rightarrow> int32 \<Rightarrow> trace \<Rightarrow> lifecycle option" where
  "scaleIfNeeded r cm rc currentMasters tr =
     (if 0 < sint currentMasters \<and> currentMasters \<noteq> c_Masters (c_Spec rc)
      then if sint currentMasters < sint (c_Masters (c_Spec rc))
           then reconcileScaleOut r cm rc currentMasters tr
           else reconcileScaleIn r cm rc currentMasters tr
      else Some (((noResult, None), rc), tr))"

definition reconcileClusterLifecycle :: "Reconciler \<Rightarrow> RedisCluster \<Rightarrow> trace \<Rightarrow> lifecycle option" where
  "reconcileClusterLifecycle r rc tr =
     (case rec_ClusterManager r of
        None \<Rightarrow> Some (((noResult, None), rc), tr)
      | Some cm \<Rightarrow>
          (case GetClusterState cm (clusterMasterAddr rc 0) tr of
             (Inl _, tr) \<Rightarrow>
               Some (case allMasterPodsReady r rc tr of
                       (False, tr) \<Rightarrow> (((requeueIn 15, None), setPhase PhaseInitializing rc), tr)
                     | (True, tr) \<Rightarrow> (((requeueIn 10, None), rc), tr))
           | (Inr st, tr) \<Rightarrow>
               if cst_SlotsAssigned st = 0 then formOnce r cm rc tr
               else if cst_State st = ''fail'' then Some (failState rc tr)
               else (case recovered rc (cst_State st) tr of
                       (rc, tr) \<Rightarrow> scaleIfNeeded r cm rc (word_of_int (cst_Size st)) tr)))"

section \<open>Rolling failover and hot reload\<close>

definition recordLastConfigHash :: "Reconciler \<Rightarrow> RedisCluster \<Rightarrow> string \<Rightarrow> trace \<Rightarrow> RedisCluster \<times> trace" where
  "recordLastConfigHash r rc hash tr =
     (if mget (om_Annotations (c_Meta rc)) lastConfigHashAnnotation = hash then (rc, tr)
      else (let m = c_Meta rc;
                rc = rc\<lparr>c_Meta := m\<lparr>om_Annotations := AList.update lastConfigHashAnnotation hash (om_Annotations m)\<rparr>\<rparr>
            in (case k_PatchCluster (rec_Kube r) tr rc of Inl _ \<Rightarrow> rc | Inr rc' \<Rightarrow> rc', tr @ [Kube (PatchCluster rc)])))"

definition needsRestart :: "gomap \<Rightarrow> bool" where
  "needsRestart conf \<longleftrightarrow> list_ex (\<lambda>(k, _). k \<notin> set hotReloadableParams) conf"

definition failoverReplica :: "RedisClient \<Rightarrow> ClusterNode list \<Rightarrow> string \<Rightarrow> trace \<Rightarrow> error option \<times> trace" where
  "failoverReplica c nodes masterID tr =
     (case find (\<lambda>n. cn_MasterID n = masterID \<and> \<not> isMaster n) nodes of
        None \<Rightarrow> (None, tr)
      | Some n \<Rightarrow> call_ClusterFailover c (cn_Addr n) tr)"

definition tryClusterRollingFailover :: "Reconciler \<Rightarrow> RedisCluster \<Rightarrow> string \<Rightarrow> trace \<Rightarrow> RedisCluster \<times> trace" where
  "tryClusterRollingFailover r rc newConfigHash tr =
     (case (rec_RedisClient r, rec_ClusterManager r) of
        (Some c, Some cm) \<Rightarrow>
          (let lastHash = mget (om_Annotations (c_Meta rc)) lastConfigHashAnnotation in
           if lastHash = [] \<or> lastHash = newConfigHash \<or> \<not> needsRestart (c_RedisConfig (c_Spec rc))
           then recordLastConfigHash r rc newConfigHash tr
           else (case GetClusterState cm (clusterMasterAddr rc 0) tr of
                   (Inl _, tr) \<Rightarrow> recordLastConfigHash r rc newConfigHash tr
                 | (Inr st, tr) \<Rightarrow>
                     (let ids = map_order (rec_Ctx r) tr (remdups (masterNodeIDs (cst_Nodes st)));
                          tr = forIgnore (failoverReplica c (cst_Nodes st)) ids tr;
                          tr = recordEvent ''Normal'' ''RollingFailover''
                            ''Pre-triggered CLUSTER FAILOVER on replicas before config-driven pod restart'' tr
                      in recordLastConfigHash r rc newConfigHash tr)))
      | _ \<Rightarrow> (rc, tr))"

definition tryClusterHotReload :: "Reconciler \<Rightarrow> RedisCluster \<Rightarrow> trace \<Rightarrow> trace" where
  "tryClusterHotReload r rc tr =
     (case rec_RedisClient r of
        None \<Rightarrow> tr
      | Some c \<Rightarrow>
          fold (\<lambda>i. pushConfig (rec_Ctx r) c (clusterMasterAddr rc i) (c_RedisConfig (c_Spec rc)))
            (loop32 0 (c_Masters (c_Spec rc))) tr)"

section \<open>Status\<close>

definition nodeStatus :: "ClusterNode \<Rightarrow> RedisNodeStatus" where
  "nodeStatus n =
     \<lparr>ns_NodeID = cn_NodeID n, ns_PodName = [], ns_IP = cn_Addr n,
      ns_Role = (case cn_Flags n of f # _ \<Rightarrow> if f = ''master'' then ''master'' else ''replica'' | [] \<Rightarrow> ''replica''),
      ns_Slots = (if cn_Slots n = [] then []
                  else Itoa (sr_Start (hd (cn_Slots n))) @ ''-'' @ Itoa (sr_End (last (cn_Slots n)))),
      ns_MasterRef = [], ns_Health = ''ok''\<rparr>"

definition clusterAllReady :: "RedisCluster \<Rightarrow> int32 \<Rightarrow> int32 \<Rightarrow> bool" where
  "clusterAllReady rc readyMasters readyReplicas \<longleftrightarrow>
     sint (c_Masters (c_Spec rc)) \<le> sint readyMasters \<and>
     (if 0 < sint (c_ReplicasPerMaster (c_Spec rc)) then sint (replicaTotal rc) \<le> sint readyReplicas else True)"

definition cluster_statusOf ::
  "Kube \<Rightarrow> RedisCluster \<Rightarrow> int32 \<Rightarrow> int32 \<Rightarrow> string \<Rightarrow> int32 \<Rightarrow> RedisNodeStatus list \<Rightarrow> int \<Rightarrow> RedisClusterStatus" where
  "cluster_statusOf k rc readyMasters readyReplicas clusterState assignedSlots nodes now =
     (let sp = c_Spec rc; st = c_Status rc; allReady = clusterAllReady rc readyMasters readyReplicas;
          cond = \<lparr>cd_Type = conditionReady, cd_Status = boolConditionStatus allReady,
                  cd_ObservedGeneration = om_Generation (c_Meta rc), cd_LastTransitionTime = now,
                  cd_Reason = (if allReady then reasonReady else reasonReconciling),
                  cd_Message = ''masters: '' @ Itoa (sint readyMasters) @ ''/'' @ Itoa (sint (c_Masters sp)) @
                    '' ready, replicas: '' @ Itoa (sint readyReplicas) @ ''/'' @ Itoa (sint (replicaTotal rc)) @
                    '' ready, slots: '' @ Itoa (sint assignedSlots) @ ''/16384, state: '' @ clusterState\<rparr>;
          phase = (if c_Phase st = [] \<or> c_Phase st = PhaseInitializing \<and> allReady
                   then if allReady \<and> clusterState = ''ok'' then PhaseReady else PhaseInitializing
                   else c_Phase st)
      in st\<lparr>c_Conditions := k_SetStatusCondition k (c_Conditions st) cond, c_Phase := phase,
            c_ReadyMasters := readyMasters, c_ReadyReplicas := readyReplicas, c_AssignedSlots := assignedSlots,
            c_ClusterState := clusterState, c_Nodes := nodes\<rparr>)"

definition listedPods :: "Pod list result \<Rightarrow> Pod list" where
  "listedPods res = (case res of Inl _ \<Rightarrow> [] | Inr pods \<Rightarrow> pods)"

definition observe :: "Reconciler \<Rightarrow> RedisCluster \<Rightarrow> trace \<Rightarrow> (string \<times> int32 \<times> RedisNodeStatus list) \<times> trace" where
  "observe r rc tr =
     (case rec_ClusterManager r of
        None \<Rightarrow> ((''unknown'', 0, []), tr)
      | Some cm \<Rightarrow>
          (case GetClusterState cm (clusterMasterAddr rc 0) tr of
             (Inl _, tr) \<Rightarrow> ((''unknown'', 0, []), tr)
           | (Inr st, tr) \<Rightarrow>
               ((cst_State st, word_of_int (cst_SlotsAssigned st), map nodeStatus (cst_Nodes st)), tr)))"

definition updateClusterStatus :: "Reconciler \<Rightarrow> RedisCluster \<Rightarrow> trace \<Rightarrow> error option \<times> trace" where
  "updateClusterStatus r rc tr =
     (case podsOf r rc ComponentMaster tr of (masterPods, tr) \<Rightarrow>
      case podsOf r rc ComponentReplica tr of (replicaPods, tr) \<Rightarrow>
      case observe r rc tr of ((clusterState, assignedSlots, nodes), tr) \<Rightarrow>
      (let rm = ready32 (listedPods masterPods); rr = ready32 (listedPods replicaPods);
           (now, tr) = time_Now (rec_Ctx r) tr;
           rc = rc\<lparr>c_Status := cluster_statusOf (rec_Kube r) rc rm rr clusterState assignedSlots nodes now\<rparr>;
           tr = SetClusterMetrics (om_Name (c_Meta rc)) (om_Namespace (c_Meta rc)) clusterState assignedSlots
                  (word_of_int (int (length nodes))) rm rr tr;
           (err, _, tr) = statusUpdate r rc tr
       in (err, tr)))"

section \<open>Reconcile\<close>

definition cluster_handleDeletion :: "Reconciler \<Rightarrow> RedisCluster \<Rightarrow> trace \<Rightarrow> outcome2 \<times> trace" where
  "cluster_handleDeletion r rc tr =
     (let k = rec_Kube r; m = c_Meta rc; ns = om_Namespace m; sel = [(labelCluster, om_Name m)] in
      if \<not> k_ContainsFinalizer k m FinalizerName then ((noResult, None), tr)
      else
        (case (case c_Storage (c_Spec rc) of
                 Some st \<Rightarrow>
                   if KeepAfterDeletion st then (None, tr)
                   else (case k_ListPVCs k tr ns sel of
                           Inl _ \<Rightarrow> (None, tr @ [Kube (ListPVCs ns sel)])
                         | Inr names \<Rightarrow> deletePVCs k ns names (tr @ [Kube (ListPVCs ns sel)]))
               | None \<Rightarrow> (None, tr)) of
           (Some e, tr) \<Rightarrow> ((noResult, Some e), tr)
         | (None, tr) \<Rightarrow>
             (let tr = DeleteClusterMetrics (om_Name m) ns tr;
                  tr = recordEvent ''Normal'' ''Deleted'' ''RedisCluster instance cleaned up'' tr;
                  rc = rc\<lparr>c_Meta := k_RemoveFinalizer k m FinalizerName\<rparr>
              in ((noResult, errOf (k_UpdateCluster k tr rc)), tr @ [Kube (UpdateCluster rc)]))))"

definition reconcileClusterConfigMap :: "Reconciler \<Rightarrow> RedisCluster \<Rightarrow> trace \<Rightarrow> string result \<times> trace" where
  "reconcileClusterConfigMap r rc tr =
     (let desired = BuildClusterConfigMap rc in
      case applyConfigMap (rec_Kube r) (c_Meta rc) desired tr of
        (Some e, tr) \<Rightarrow> (Inl e, tr)
      | (None, tr) \<Rightarrow> (Inr (configDataHash (rec_Kube r) (cm_Data desired)), tr))"

text \<open>One operation per object; those for services and disruption budgets are given the object.\<close>

definition reconcileClusterMasterStatefulSet :: "Reconciler \<Rightarrow> RedisCluster \<Rightarrow> string \<Rightarrow> trace \<Rightarrow> error option \<times> trace" where
  "reconcileClusterMasterStatefulSet r rc hash =
     applyStatefulSet (rec_Kube r) (c_Meta rc)
       (hashStatefulSet hash (BuildClusterMasterStatefulSet (k_ParseQuantity (rec_Kube r)) rc))"

definition reconcileClusterReplicaStatefulSet :: "Reconciler \<Rightarrow> RedisCluster \<Rightarrow> string \<Rightarrow> trace \<Rightarrow> error option \<times> trace" where
  "reconcileClusterReplicaStatefulSet r rc hash =
     applyStatefulSet (rec_Kube r) (c_Meta rc)
       (hashStatefulSet hash (BuildClusterReplicaStatefulSet (k_ParseQuantity (rec_Kube r)) rc))"

definition reconcileClusterService :: "Reconciler \<Rightarrow> RedisCluster \<Rightarrow> Service \<Rightarrow> trace \<Rightarrow> error option \<times> trace" where
  "reconcileClusterService r rc desired =
     applyService (rec_Kube r) (c_Meta rc) desired"

definition reconcileClusterPDB :: "Reconciler \<Rightarrow> RedisCluster \<Rightarrow> PodDisruptionBudget \<Rightarrow> trace \<Rightarrow> error option \<times> trace" where
  "reconcileClusterPDB r rc desired =
     applyPDB (rec_Kube r) (c_Meta rc) desired"

definition reconcileClusterServiceMonitor :: "Reconciler \<Rightarrow> RedisCluster \<Rightarrow> trace \<Rightarrow> error option \<times> trace" where
  "reconcileClusterServiceMonitor r rc =
     applyServiceMonitor (rec_Kube r) (c_Meta rc) (BuildClusterServiceMonitor rc)"

definition cluster_steps :: "Reconciler \<Rightarrow> RedisCluster \<Rightarrow> string \<Rightarrow> (trace \<Rightarrow> error option \<times> trace) list" where
  "cluster_steps r rc hash =
     [reconcileClusterMasterStatefulSet r rc hash] @
     (if 0 < sint (c_ReplicasPerMaster (c_Spec rc)) then [reconcileClusterReplicaStatefulSet r rc hash] else []) @
     map (reconcileClusterService r rc) (clusterServices rc) @
     map (reconcileClusterPDB r rc) [BuildClusterMasterPDB rc, BuildClusterReplicaPDB rc]"

lemmas cluster_object_defs = reconcileClusterMasterStatefulSet_def reconcileClusterReplicaStatefulSet_def
  reconcileClusterService_def reconcileClusterPDB_def reconcileClusterServiceMonitor_def

lemma cluster_steps_eq:
  "cluster_steps r rc hash =
     (let k = rec_Kube r; pq = k_ParseQuantity k; m = c_Meta rc in
      [applyStatefulSet k m (hashStatefulSet hash (BuildClusterMasterStatefulSet pq rc))] @
      (if 0 < sint (c_ReplicasPerMaster (c_Spec rc))
       then [applyStatefulSet k m (hashStatefulSet hash (BuildClusterReplicaStatefulSet pq rc))] else []) @
      map (applyService k m) (clusterServices rc) @
      map (applyPDB k m) [BuildClusterMasterPDB rc, BuildClusterReplicaPDB rc])"
  by (simp add: cluster_steps_def cluster_object_defs Let_def)

definition finishReconcile :: "outcome2 \<Rightarrow> outcome2" where
  "finishReconcile res =
     (if snd res \<noteq> None \<or> Requeue (fst res) \<or> 0 < RequeueAfter (fst res) then res else (requeueIn 30, None))"

definition cluster_converge :: "Reconciler \<Rightarrow> RedisCluster \<Rightarrow> trace \<Rightarrow> (outcome2 \<times> trace) option" where
  "cluster_converge r rc tr =
     (case reconcileClusterConfigMap r rc tr of
        (Inl e, tr) \<Rightarrow> Some ((noResult, Some e), snd (setClusterFailedStatus r rc ''ConfigMapFailed'' (Error e) tr))
      | (Inr hash, tr) \<Rightarrow>
          (case forErr (\<lambda>step. step) (cluster_steps r rc hash) tr of
             (Some e, tr) \<Rightarrow> Some ((noResult, Some e), tr)
           | (None, tr) \<Rightarrow>
               (let tr = (if c_EnableExporter (c_Spec rc) = Some True
                          then snd (reconcileClusterServiceMonitor r rc tr)
                          else tr)
                in do {
                  ((res, rc), tr) \<leftarrow> reconcileClusterLifecycle r rc tr;
                  Some (case tryClusterRollingFailover r rc hash tr of (rc, tr) \<Rightarrow>
                    (case updateClusterStatus r rc (tryClusterHotReload r rc tr) of
                       (Some e, tr) \<Rightarrow> ((noResult, Some e), tr)
                     | (None, tr) \<Rightarrow> (finishReconcile res, tr)))
                })))"

lemma cluster_converge_eq:
  "cluster_converge r rc tr =
     (case reconcileClusterConfigMap r rc tr of
        (Inl e, tr) \<Rightarrow> Some ((noResult, Some e), snd (setClusterFailedStatus r rc ''ConfigMapFailed'' (Error e) tr))
      | (Inr hash, tr) \<Rightarrow>
          (case forErr (\<lambda>step. step) (cluster_steps r rc hash) tr of
             (Some e, tr) \<Rightarrow> Some ((noResult, Some e), tr)
           | (None, tr) \<Rightarrow>
               (let tr = (if c_EnableExporter (c_Spec rc) = Some True
                          then snd (applyServiceMonitor (rec_Kube r) (c_Meta rc) (BuildClusterServiceMonitor rc) tr)
                          else tr)
                in do {
                  ((res, rc), tr) \<leftarrow> reconcileClusterLifecycle r rc tr;
                  Some (case tryClusterRollingFailover r rc hash tr of (rc, tr) \<Rightarrow>
                    (case updateClusterStatus r rc (tryClusterHotReload r rc tr) of
                       (Some e, tr) \<Rightarrow> ((noResult, Some e), tr)
                     | (None, tr) \<Rightarrow> (finishReconcile res, tr)))
                })))"
  unfolding cluster_converge_def reconcileClusterServiceMonitor_def ..

definition cluster_doReconcile :: "Reconciler \<Rightarrow> string \<Rightarrow> string \<Rightarrow> trace \<Rightarrow> (outcome2 \<times> trace) option" where
  "cluster_doReconcile r ns name tr0 =
     (let k = rec_Kube r; tr = tr0 @ [Kube (GetCluster ns name)] in
      case k_GetCluster k tr0 ns name of
        Inl e \<Rightarrow> Some ((noResult, if IsNotFound e then None else Some e), tr)
      | Inr rc \<Rightarrow>
          if om_DeletionTimestamp (c_Meta rc) \<noteq> None then Some (cluster_handleDeletion r rc tr)
          else if \<not> k_ContainsFinalizer k (c_Meta rc) FinalizerName then
            (let rc = rc\<lparr>c_Meta := k_AddFinalizer k (c_Meta rc) FinalizerName\<rparr>;
                 res = k_UpdateCluster k tr rc;
                 tr = tr @ [Kube (UpdateCluster rc)]
             in Some (case res of Inl e \<Rightarrow> (noResult, Some e) | Inr _ \<Rightarrow> (requeueNow, None), tr))
          else if c_Phase (c_Status rc) = [] then
            (case statusUpdate r (setPhase PhaseInitializing rc) tr of
               (Some e, _, tr) \<Rightarrow> Some ((noResult, Some e), tr)
             | (None, rc, tr) \<Rightarrow> cluster_converge r rc tr)
          else cluster_converge r rc tr)"

definition cluster_Reconcile :: "Reconciler \<Rightarrow> string \<Rightarrow> string \<Rightarrow> trace \<Rightarrow> (outcome2 \<times> trace) option" where
  "cluster_Reconcile r ns name tr =
     (let (start, tr) = time_Now (rec_Ctx r) tr in do {
        (res, tr) \<leftarrow> cluster_doReconcile r ns name tr;
        Some (res, RecordReconcile (rec_Ctx r) KindCluster start (snd res) tr)
      })"

end
