(* ===== verification/Controller_Objects.thy ===== *)
theory Controller_Objects
  imports Redis_Controller Sentinel_Controller Cluster_Controller
begin

text \<open>
  The abstract specification of what the reconcilers write to the API server: the desired objects of
  each kind in order, and for each what its writing means (\<open>brings\<close>): an object of the right key, with the
  labels and the owner reference, whose managed part is the desired one and whose other part, which
  Kubernetes does not let change or which the reconciler leaves to others, is the desired one at its
  creation and stays what it was on an object that exists.

  The locale \<open>reconciled_object\<close> is the contract of a mutate function; it is interpreted for each of the
  seven, and gives the meaning of a call of \<open>CreateOrUpdate\<close> with it.
\<close>

section \<open>Keys of objects\<close>

fun kindOf :: "kobj \<Rightarrow> string" where
  "kindOf (KConfigMap x) = ''ConfigMap''"
| "kindOf (KStatefulSet x) = ''StatefulSet''"
| "kindOf (KDeployment x) = ''Deployment''"
| "kindOf (KService x) = ''Service''"
| "kindOf (KPDB x) = ''PodDisruptionBudget''"
| "kindOf (KServiceMonitor x) = ''ServiceMonitor''"

definition keyId :: "kobj \<Rightarrow> string \<times> string \<times> string" where
  "keyId x = (kindOf x, om_Namespace (kMeta x), om_Name (kMeta x))"

text \<open>What \<open>CreateOrUpdate\<close> hands to the mutate function, and the object it is called with, whatever the kind.\<close>

fun fetchObj :: "Kube \<Rightarrow> trace \<Rightarrow> kobj \<Rightarrow> kobj result" where
  "fetchObj k tr (KConfigMap x) = map_sum id KConfigMap (k_FetchConfigMap k tr x)"
| "fetchObj k tr (KStatefulSet x) = map_sum id KStatefulSet (k_FetchStatefulSet k tr x)"
| "fetchObj k tr (KDeployment x) = map_sum id KDeployment (k_FetchDeployment k tr x)"
| "fetchObj k tr (KService x) = map_sum id KService (k_FetchService k tr x)"
| "fetchObj k tr (KPDB x) = map_sum id KPDB (k_FetchPDB k tr x)"
| "fetchObj k tr (KServiceMonitor x) = map_sum id KServiceMonitor (k_FetchServiceMonitor k tr x)"

fun keyObj :: "kobj \<Rightarrow> kobj" where
  "keyObj (KConfigMap d) = KConfigMap (keyConfigMap d)"
| "keyObj (KStatefulSet d) = KStatefulSet (keyStatefulSet d)"
| "keyObj (KDeployment d) = KDeployment (keyDeployment d)"
| "keyObj (KService d) = KService (keyService d)"
| "keyObj (KPDB d) = KPDB (keyPDB d)"
| "keyObj (KServiceMonitor d) = KServiceMonitor (keyServiceMonitor d)"

lemma keyId_keyObj [simp]: "keyId (keyObj d) = keyId d"
  by (cases d) (simp_all add: keyId_def keyConfigMap_def keyStatefulSet_def keyDeployment_def keyService_def
      keyPDB_def keyServiceMonitor_def keyOf_def newMeta_def)

section \<open>Objects written\<close>

definition applied :: "trace \<Rightarrow> kobj list" where
  "applied es = List.map_filter (\<lambda>e. case e of Kube (Apply x) \<Rightarrow> Some x | _ \<Rightarrow> None) es"

lemma applied_simps [simp]:
  "applied [] = []"
  "applied (Kube (Apply x) # es) = x # applied es"
  "applied (Kube (Fetch x) # es) = applied es"
  "applied (xs @ ys) = applied xs @ applied ys"
  by (simp_all add: applied_def map_filter_simps List.map_filter_def)

text \<open>
  A desired object, and whether the reconciler manages all it can of it. The one exception is the client
  service of a standalone Redis, of which it leaves annotations and unready addresses alone.
\<close>

type_synonym target = "bool \<times> kobj"

text \<open>
  The part of an object the operator decides on every write, and the part it decides at the creation only;
  metadata and the other part are blanked out.
\<close>

definition blankMeta :: ObjectMeta where
  "blankMeta = newMeta [] [] []"

fun managedPart :: "bool \<Rightarrow> kobj \<Rightarrow> kobj" where
  "managedPart full (KConfigMap x) = KConfigMap \<lparr>cm_Meta = blankMeta, cm_Data = cm_Data x\<rparr>"
| "managedPart full (KStatefulSet x) = KStatefulSet \<lparr>sts_Meta = blankMeta, sts_Spec = \<lparr>ss_Replicas = ss_Replicas (sts_Spec x),
     ss_ServiceName = [], ss_Selector = [], ss_Template = ss_Template (sts_Spec x), ss_VolumeClaimTemplates = []\<rparr>\<rparr>"
| "managedPart full (KDeployment x) = KDeployment \<lparr>dep_Meta = blankMeta, dep_Spec = \<lparr>ds_Replicas = ds_Replicas (dep_Spec x),
     ds_Selector = [], ds_Template = ds_Template (dep_Spec x)\<rparr>\<rparr>"
| "managedPart full (KService x) = KService \<lparr>svc_Meta = blankMeta, svc_Spec = \<lparr>sv_Type = [], sv_ClusterIP = [],
     sv_Selector = sv_Selector (svc_Spec x), sv_Ports = sv_Ports (svc_Spec x),
     sv_PublishNotReadyAddresses = full \<and> sv_PublishNotReadyAddresses (svc_Spec x)\<rparr>\<rparr>"
| "managedPart full (KPDB x) = KPDB \<lparr>pdb_Meta = blankMeta, pdb_Spec = pdb_Spec x\<rparr>"
| "managedPart full (KServiceMonitor x) = KServiceMonitor \<lparr>sm_Meta = blankMeta, sm_Spec = sm_Spec x\<rparr>"

fun fixedPart :: "bool \<Rightarrow> kobj \<Rightarrow> kobj option" where
  "fixedPart full (KStatefulSet x) = Some (KStatefulSet \<lparr>sts_Meta = blankMeta, sts_Spec = \<lparr>ss_Replicas = 0,
     ss_ServiceName = ss_ServiceName (sts_Spec x), ss_Selector = ss_Selector (sts_Spec x), ss_Template = emptyTemplate,
     ss_VolumeClaimTemplates = ss_VolumeClaimTemplates (sts_Spec x)\<rparr>\<rparr>)"
| "fixedPart full (KDeployment x) = Some (KDeployment \<lparr>dep_Meta = blankMeta, dep_Spec = \<lparr>ds_Replicas = 0,
     ds_Selector = ds_Selector (dep_Spec x), ds_Template = emptyTemplate\<rparr>\<rparr>)"
| "fixedPart full (KService x) = Some (KService \<lparr>svc_Meta = blankMeta, svc_Spec = \<lparr>sv_Type = sv_Type (svc_Spec x),
     sv_ClusterIP = sv_ClusterIP (svc_Spec x), sv_Selector = [], sv_Ports = [],
     sv_PublishNotReadyAddresses = (\<not> full \<and> sv_PublishNotReadyAddresses (svc_Spec x))\<rparr>\<rparr>)"
| "fixedPart full _ = None"

lemma parts_determine:
  assumes "managedPart full x = managedPart full y" and "fixedPart full x = fixedPart full y" and "kMeta x = kMeta y"
  shows "x = y"
  using assms by (cases x; cases y) (auto intro!: ConfigMap.equality StatefulSet.equality StatefulSetSpec.equality
      Deployment.equality DeploymentSpec.equality Service.equality ServiceSpec.equality
      PodDisruptionBudget.equality ServiceMonitor.equality)

lemma managedPart_kind: "managedPart full x = managedPart full y \<Longrightarrow> kindOf x = kindOf y"
  by (cases x; cases y) simp_all

lemma managedPart_less: "managedPart True x = managedPart True y \<Longrightarrow> managedPart full x = managedPart full y"
  by (cases x; cases y) auto

text \<open>
  The metadata an object is to have, but for its owner references: what there was, with the labels and, if it
  is a service managed in full, the annotations of the desired object.
\<close>

definition managedMeta :: "bool \<Rightarrow> kobj \<Rightarrow> ObjectMeta \<Rightarrow> ObjectMeta" where
  "managedMeta full d m =
     (if full \<and> kindOf d = ''Service'' then m\<lparr>om_Annotations := om_Annotations (kMeta d)\<rparr> else m)
       \<lparr>om_Labels := om_Labels (kMeta d)\<rparr>"

text \<open>The object \<open>x\<close> is what a target makes of the object \<open>ex\<close> there is.\<close>

definition wanted :: "Kube \<Rightarrow> ObjectMeta \<Rightarrow> target \<Rightarrow> kobj \<Rightarrow> kobj \<Rightarrow> bool" where
  "wanted k ow t ex x \<longleftrightarrow> (case t of (full, d) \<Rightarrow>
     k_SetControllerReference k ow (managedMeta full d (kMeta ex)) = Inr (kMeta x) \<and>
     managedPart full x = managedPart full d \<and>
     fixedPart full x = fixedPart full (if isNew (kMeta ex) then d else ex))"

text \<open>
  One target is brought about: the object under its key is read, and either it is the wanted one already, or
  the wanted one is written, with success. It has the key and the labels of the target.
\<close>

definition brings :: "Kube \<Rightarrow> ObjectMeta \<Rightarrow> target \<Rightarrow> trace \<Rightarrow> trace \<Rightarrow> bool" where
  "brings k ow t tr tr' \<longleftrightarrow> (\<exists>ex x. fetchObj k tr (keyObj (snd t)) = Inr ex \<and> wanted k ow t ex x \<and>
     keyId x = keyId (snd t) \<and> om_Labels (kMeta x) = om_Labels (kMeta (snd t)) \<and>
     (tr' = tr @ [Kube (Fetch (keyObj (snd t)))] \<and> x = ex \<and> \<not> isNew (kMeta ex) \<or>
      tr' = tr @ [Kube (Fetch (keyObj (snd t))), Kube (Apply x)] \<and>
        k_Apply k (tr @ [Kube (Fetch (keyObj (snd t)))]) x = None))"

fun brought :: "Kube \<Rightarrow> ObjectMeta \<Rightarrow> target list \<Rightarrow> trace \<Rightarrow> trace \<Rightarrow> bool" where
  "brought k ow [] tr tr' \<longleftrightarrow> tr' = tr"
| "brought k ow (t # ts) tr tr' \<longleftrightarrow> (\<exists>tr1. brings k ow t tr tr1 \<and> brought k ow ts tr1 tr')"

text \<open>
  A target that is tried, the outcome being ignored: nothing is written if the object cannot be read or cannot
  get the owner, and otherwise the wanted object, unless it is there.
\<close>

definition tried :: "Kube \<Rightarrow> ObjectMeta \<Rightarrow> target \<Rightarrow> trace \<Rightarrow> trace \<Rightarrow> bool" where
  "tried k ow t tr tr' \<longleftrightarrow>
     (case fetchObj k tr (keyObj (snd t)) of
        Inl e \<Rightarrow> tr' = tr @ [Kube (Fetch (keyObj (snd t)))]
      | Inr ex \<Rightarrow>
          (case k_SetControllerReference k ow (managedMeta (fst t) (snd t) (kMeta ex)) of
             Inl e \<Rightarrow> tr' = tr @ [Kube (Fetch (keyObj (snd t)))]
           | Inr m \<Rightarrow> \<exists>x. wanted k ow t ex x \<and>
               (tr' = tr @ [Kube (Fetch (keyObj (snd t)))] \<and> x = ex \<or>
                tr' = tr @ [Kube (Fetch (keyObj (snd t))), Kube (Apply x)])))"

section \<open>What the libraries promise\<close>

text \<open>
  \<open>CreateOrUpdate\<close> hands over an object of the key it was asked for, and leaves a result alone only if it is
  equal to an object that is there.
\<close>

definition createsOrUpdates :: "Kube \<Rightarrow> bool" where
  "createsOrUpdates k \<longleftrightarrow>
     (\<forall>tr key ex. fetchObj k tr key = Inr ex \<longrightarrow> keyId ex = keyId key) \<and>
     (\<forall>tr ex x. k_Unchanged k tr ex x \<longrightarrow> x = ex \<and> \<not> isNew (kMeta ex))"

text \<open>
  \<open>SetControllerReference\<close> touches the owner references only, and leaves an object of the namespace alone that
  has the references it has set.
\<close>

definition ownsOnly :: "Kube \<Rightarrow> bool" where
  "ownsOnly k \<longleftrightarrow> (\<forall>owner m m'. k_SetControllerReference k owner m = Inr m' \<longrightarrow>
     m' = m\<lparr>om_OwnerReferences := om_OwnerReferences m'\<rparr> \<and>
     (\<forall>m2. om_Namespace m2 = om_Namespace m \<longrightarrow> om_OwnerReferences m2 = om_OwnerReferences m' \<longrightarrow>
        k_SetControllerReference k owner m2 = Inr m2))"

lemma ownsOnly_meta:
  assumes "ownsOnly k" and "k_SetControllerReference k owner m = Inr m'"
  shows "om_Labels m' = om_Labels m" and "om_Name m' = om_Name m" and "om_Namespace m' = om_Namespace m"
    and "om_Annotations m' = om_Annotations m"
proof -
  obtain refs where "m' = m\<lparr>om_OwnerReferences := refs\<rparr>" using assms unfolding ownsOnly_def by blast
  then show "om_Labels m' = om_Labels m" "om_Name m' = om_Name m" "om_Namespace m' = om_Namespace m"
    "om_Annotations m' = om_Annotations m" by simp_all
qed

lemma managedMeta_simps [simp]:
  "om_Labels (managedMeta full d m) = om_Labels (kMeta d)" "om_Name (managedMeta full d m) = om_Name m"
  "om_Namespace (managedMeta full d m) = om_Namespace m"
  "om_OwnerReferences (managedMeta full d m) = om_OwnerReferences m"
  by (simp_all add: managedMeta_def)

section \<open>The contract of a mutate function\<close>

text \<open>
  A mutate function with the functions to read an object of its kind and to name it: it makes the wanted object,
  unless the owner reference cannot be set.
\<close>

locale reconciled_object =
  fixes k :: Kube and ow :: ObjectMeta and t :: target
    and fetch :: "trace \<Rightarrow> 'a \<Rightarrow> 'a result" and wrap :: "'a \<Rightarrow> kobj" and key :: 'a and mutate :: "'a \<Rightarrow> 'a result"
  assumes names: "wrap key = keyObj (snd t)"
    and reads: "fetchObj k tr (keyObj (snd t)) = map_sum id wrap (fetch tr key)"
    and updates: "mutate x = Inr y \<Longrightarrow> wanted k ow t (wrap x) (wrap y)"
    and refuses: "mutate x = Inl e \<Longrightarrow> \<exists>e'. k_SetControllerReference k ow (managedMeta (fst t) (snd t) (kMeta (wrap x))) = Inl e'"
begin

lemma step_brings:
  assumes lib: "createsOrUpdates k" "ownsOnly k" and run: "createOrUpdate k fetch wrap key mutate tr = (None, tr')"
  shows "brings k ow t tr tr'"
proof -
  have made: "fetchObj k tr (keyObj (snd t)) = Inr (wrap ex) \<and> wanted k ow t (wrap ex) (wrap x) \<and>
      keyId (wrap x) = keyId (snd t) \<and> om_Labels (kMeta (wrap x)) = om_Labels (kMeta (snd t))"
    if "fetch tr key = Inr ex" and "mutate ex = Inr x" for ex x
  proof -
    have f: "fetchObj k tr (keyObj (snd t)) = Inr (wrap ex)" using that(1) by (simp add: reads)
    then have id: "keyId (wrap ex) = keyId (snd t)" using lib(1) by (simp add: createsOrUpdates_def)
    have w: "wanted k ow t (wrap ex) (wrap x)" using that(2) by (rule updates)
    then have m: "k_SetControllerReference k ow (managedMeta (fst t) (snd t) (kMeta (wrap ex))) = Inr (kMeta (wrap x))"
      and "kindOf (wrap x) = kindOf (snd t)" by (auto simp: wanted_def split: prod.splits dest: managedPart_kind)
    then show ?thesis using f w id ownsOnly_meta [OF lib(2) m] by (simp add: keyId_def)
  qed
  from run show ?thesis
  proof (cases rule: createOrUpdate_cases)
    case (left ex x)
    then have "wrap x = wrap ex" "\<not> isNew (kMeta (wrap ex))" using lib(1) unfolding createsOrUpdates_def by blast+
    then show ?thesis unfolding brings_def using made [OF left(1,2)] left(5) names by metis
  next
    case (written ex x)
    then show ?thesis unfolding brings_def using made [OF written(1,2)] names by metis
  qed simp_all
qed

lemma step_tried:
  assumes lib: "createsOrUpdates k" and run: "createOrUpdate k fetch wrap key mutate tr = (e, tr')"
  shows "tried k ow t tr tr'"
  using run
proof (cases rule: createOrUpdate_cases)
  case (unread err)
  then show ?thesis by (simp add: tried_def reads names)
next
  case (refused ex err)
  then show ?thesis using refuses [of ex err] by (auto simp: tried_def reads names)
next
  case (left ex x)
  have "wrap x = wrap ex" using lib left(3) by (simp add: createsOrUpdates_def)
  then show ?thesis using left updates [of ex x] by (auto simp: tried_def reads names wanted_def split: prod.splits)
next
  case (written ex x)
  then show ?thesis using updates [of ex x] by (auto simp: tried_def reads names wanted_def split: prod.splits)
qed

end

lemmas mutate_defs = mutateConfigMap_def mutateStatefulSet_def mutateDeployment_def mutateService_def
  mutateClientService_def mutatePDB_def mutateServiceMonitor_def

lemmas spec_defs = mutate_defs ownedMeta_def wanted_def managedMeta_def Let_def map_sum_def

interpretation cm: reconciled_object k ow "(True, KConfigMap d)" "k_FetchConfigMap k" KConfigMap "keyConfigMap d"
  "mutateConfigMap k ow d" for k ow d
  by unfold_locales (auto simp: spec_defs split: sum.splits)

interpretation sts: reconciled_object k ow "(True, KStatefulSet d)" "k_FetchStatefulSet k" KStatefulSet "keyStatefulSet d"
  "mutateStatefulSet k ow d" for k ow d
  by unfold_locales (auto simp: spec_defs split: sum.splits)

interpretation dep: reconciled_object k ow "(True, KDeployment d)" "k_FetchDeployment k" KDeployment "keyDeployment d"
  "mutateDeployment k ow d" for k ow d
  by unfold_locales (auto simp: spec_defs split: sum.splits)

interpretation svc: reconciled_object k ow "(True, KService d)" "k_FetchService k" KService "keyService d"
  "mutateService k ow d" for k ow d
  by unfold_locales (auto simp: spec_defs split: sum.splits)

interpretation client: reconciled_object k ow "(False, KService d)" "k_FetchService k" KService "keyService d"
  "mutateClientService k ow d" for k ow d
  by unfold_locales (auto simp: spec_defs split: sum.splits)

interpretation pdb: reconciled_object k ow "(True, KPDB d)" "k_FetchPDB k" KPDB "keyPDB d" "mutatePDB k ow d" for k ow d
  by unfold_locales (auto simp: spec_defs split: sum.splits)

interpretation sm: reconciled_object k ow "(True, KServiceMonitor d)" "k_FetchServiceMonitor k" KServiceMonitor
  "keyServiceMonitor d" "mutateServiceMonitor k ow d" for k ow d
  by unfold_locales (auto simp: spec_defs split: sum.splits)

text \<open>A step that is fatal brings about one target.\<close>

definition achieves :: "Kube \<Rightarrow> ObjectMeta \<Rightarrow> (trace \<Rightarrow> error option \<times> trace) \<Rightarrow> target \<Rightarrow> bool" where
  "achieves k ow step t \<longleftrightarrow> (\<forall>tr tr'. createsOrUpdates k \<longrightarrow> ownsOnly k \<longrightarrow> step tr = (None, tr') \<longrightarrow> brings k ow t tr tr')"

lemma apply_achieves:
  "achieves k ow (applyConfigMap k ow cm) (True, KConfigMap cm)"
  "achieves k ow (applyStatefulSet k ow st) (True, KStatefulSet st)"
  "achieves k ow (applyDeployment k ow dp) (True, KDeployment dp)"
  "achieves k ow (applyService k ow sv) (True, KService sv)"
  "achieves k ow (applyClientService k ow sv) (False, KService sv)"
  "achieves k ow (applyPDB k ow pd) (True, KPDB pd)"
  unfolding achieves_def applyConfigMap_def applyStatefulSet_def applyDeployment_def applyService_def
    applyClientService_def applyPDB_def
  by (intro allI impI, rule cm.step_brings sts.step_brings dep.step_brings svc.step_brings client.step_brings
      pdb.step_brings, assumption+)+

lemma steps_achieve:
  assumes "createsOrUpdates k" and "ownsOnly k" and "list_all2 (achieves k ow) steps ts"
    and "forErr (\<lambda>step. step) steps tr = (None, tr')"
  shows "brought k ow ts tr tr'"
  using assms(3,4)
proof (induction arbitrary: tr rule: list_all2_induct)
  case (Cons step steps t ts)
  from Cons.prems obtain tr1 where s: "step tr = (None, tr1)" and rest: "forErr (\<lambda>step. step) steps tr1 = (None, tr')"
    by (auto split: prod.splits option.splits)
  from Cons.hyps(1) s have "brings k ow t tr tr1" using assms(1,2) unfolding achieves_def by blast
  with Cons.IH [OF rest] show ?case by auto
qed simp

section \<open>The three kinds\<close>

definition redisObjects :: "Kube \<Rightarrow> Redis \<Rightarrow> target list" where
  "redisObjects k obj =
     (let pq = k_ParseQuantity k; cm = BuildRedisConfigMap obj; hash = configDataHash k (cm_Data cm) in
      map (Pair True)
        ([KConfigMap cm] @
         (if r_Storage (r_Spec obj) \<noteq> None
          then [KService (BuildHeadlessService (om_Name (r_Meta obj)) (om_Namespace (r_Meta obj)) ComponentRedis),
                KStatefulSet (hashStatefulSet hash (BuildRedisStatefulSet pq obj))]
          else [KDeployment (hashDeployment hash (BuildRedisDeployment pq obj))])) @
      [(False, KService (BuildRedisService obj))])"

definition sentinelObjects :: "Kube \<Rightarrow> RedisSentinel \<Rightarrow> target list" where
  "sentinelObjects k rs =
     (let pq = k_ParseQuantity k; cm = BuildSentinelRedisConfigMap rs; hash = configDataHash k (cm_Data cm) in
      map (Pair True)
        ([KConfigMap cm, KConfigMap (BuildSentinelConfigMap rs (masterFQDN rs)),
          KStatefulSet (hashStatefulSet hash (BuildSentinelRedisStatefulSet pq rs)),
          KDeployment (BuildSentinelDeployment rs)] @
         map KService (sentinelServices rs) @ map KPDB [BuildSentinelRedisPDB rs, BuildSentinelPDB rs]))"

definition clusterObjects :: "Kube \<Rightarrow> RedisCluster \<Rightarrow> target list" where
  "clusterObjects k rc =
     (let pq = k_ParseQuantity k; cm = BuildClusterConfigMap rc; hash = configDataHash k (cm_Data cm) in
      map (Pair True)
        ([KConfigMap cm, KStatefulSet (hashStatefulSet hash (BuildClusterMasterStatefulSet pq rc))] @
         (if 0 < sint (c_ReplicasPerMaster (c_Spec rc))
          then [KStatefulSet (hashStatefulSet hash (BuildClusterReplicaStatefulSet pq rc))] else []) @
         map KService (clusterServices rc) @ map KPDB [BuildClusterMasterPDB rc, BuildClusterReplicaPDB rc]))"

lemma apply_maps_achieve:
  "list_all2 (achieves k m) (map (applyService k m) ss) (map (Pair True) (map KService ss))"
  "list_all2 (achieves k m) (map (applyPDB k m) ps) (map (Pair True) (map KPDB ps))"
  by (simp_all add: list_all2_conv_all_nth apply_achieves)

lemma cluster_steps_achieve:
  "list_all2 (achieves (rec_Kube r) (c_Meta rc)) (applyConfigMap (rec_Kube r) (c_Meta rc) (BuildClusterConfigMap rc) #
     cluster_steps r rc (configDataHash (rec_Kube r) (cm_Data (BuildClusterConfigMap rc)))) (clusterObjects (rec_Kube r) rc)"
  unfolding cluster_steps_eq clusterObjects_def Let_def map_append
  by (simp only: append_Cons append_Nil list.map, intro list_all2_appendI list.rel_intros apply_maps_achieve apply_achieves)
    (simp_all add: apply_achieves)

end
