(* ===== verification/Workload_Validity.thy ===== *)
theory Workload_Validity
  imports Resources_Correct Controller_Objects
begin

text \<open>
  The objects of the three kinds against the rules Kubernetes documents for names and label values, which the
  operator has to respect when it derives names from the name of a resource, and the consistency of the workloads.
\<close>

section \<open>The documented rules\<close>

text \<open>
  From the pages on object names and on labels of the Kubernetes documentation: a DNS label has at most 63 characters,
  lower-case letters, digits and hyphens, and begins and ends with a letter or digit; the name of a service begins
  with a letter; a DNS subdomain is a list of such parts separated by dots, of at most 253 characters altogether; a label
  value is empty, or has at most 63 characters, letters, digits, hyphens, underscores and dots, and begins and ends
  with a letter or digit. A StatefulSet is named by a DNS label, any other object by a DNS subdomain.
\<close>

definition lowerLetter :: "char \<Rightarrow> bool" where
  "lowerLetter c \<longleftrightarrow> c \<in> set ''abcdefghijklmnopqrstuvwxyz''"

definition lowerAlnum :: "char \<Rightarrow> bool" where
  "lowerAlnum c \<longleftrightarrow> lowerLetter c \<or> c \<in> set ''0123456789''"

definition alnum :: "char \<Rightarrow> bool" where
  "alnum c \<longleftrightarrow> lowerAlnum c \<or> c \<in> set ''ABCDEFGHIJKLMNOPQRSTUVWXYZ''"

definition dnsPart :: "string \<Rightarrow> bool" where
  "dnsPart s \<longleftrightarrow> s \<noteq> [] \<and> list_all (\<lambda>c. lowerAlnum c \<or> c = CHR ''-'') s \<and> lowerAlnum (hd s) \<and> lowerAlnum (last s)"

definition dnsLabel :: "string \<Rightarrow> bool" where
  "dnsLabel s \<longleftrightarrow> dnsPart s \<and> length s \<le> 63"

definition serviceName :: "string \<Rightarrow> bool" where
  "serviceName s \<longleftrightarrow> dnsLabel s \<and> lowerLetter (hd s)"

definition dnsSubdomain :: "string \<Rightarrow> bool" where
  "dnsSubdomain s \<longleftrightarrow> list_all dnsPart (Split s CHR ''.'') \<and> length s \<le> 253"

definition labelValue :: "string \<Rightarrow> bool" where
  "labelValue s \<longleftrightarrow> s = [] \<or> length s \<le> 63 \<and> list_all (\<lambda>c. alnum c \<or> c \<in> set ''-_.'') s \<and> alnum (hd s) \<and> alnum (last s)"

fun validName :: "kobj \<Rightarrow> bool" where
  "validName (KService x) \<longleftrightarrow> serviceName (om_Name (svc_Meta x))"
| "validName (KStatefulSet x) \<longleftrightarrow> dnsLabel (om_Name (sts_Meta x))"
| "validName x \<longleftrightarrow> dnsSubdomain (om_Name (kMeta x))"

text \<open>The labels of an object, of the pods it makes and of its selector.\<close>

fun labelMaps :: "kobj \<Rightarrow> gomap list" where
  "labelMaps (KStatefulSet x) = [om_Labels (sts_Meta x), ss_Selector (sts_Spec x), pt_Labels (ss_Template (sts_Spec x))]"
| "labelMaps (KDeployment x) = [om_Labels (dep_Meta x), ds_Selector (dep_Spec x), pt_Labels (ds_Template (dep_Spec x))]"
| "labelMaps (KService x) = [om_Labels (svc_Meta x), sv_Selector (svc_Spec x)]"
| "labelMaps (KPDB x) = [om_Labels (pdb_Meta x), pdb_Selector (pdb_Spec x)]"
| "labelMaps (KServiceMonitor x) = [om_Labels (sm_Meta x), sm_Selector (sm_Spec x)]"
| "labelMaps (KConfigMap x) = [om_Labels (cm_Meta x)]"

definition followsRules :: "kobj \<Rightarrow> bool" where
  "followsRules x \<longleftrightarrow> validName x \<and> list_all (\<lambda>m. list_all labelValue (map snd m)) (labelMaps x)"

section \<open>Consistent workloads\<close>

text \<open>
  A pod has containers, their names and those of their ports are distinct, no container is given a variable twice or
  mounts two volumes at one path, no two volumes share a name, and no claim takes the place of a volume.
\<close>

definition consistentPod :: "PodSpec \<Rightarrow> string list \<Rightarrow> bool" where
  "consistentPod p claims \<longleftrightarrow>
     (let cs = ps_InitContainers p @ ps_Containers p in
      ps_Containers p \<noteq> [] \<and> distinct (map ct_Name cs) \<and> distinct (map vo_Name (ps_Volumes p) @ claims) \<and>
      list_all (\<lambda>c. distinct (map ev_Name (ct_Env c)) \<and> distinct (map vm_MountPath (ct_VolumeMounts c))) cs \<and>
      distinct (map cp_Name (concat (map ct_Ports cs))))"

text \<open>A workload has a selector, which selects the pods made from its template.\<close>

fun consistent :: "kobj \<Rightarrow> bool" where
  "consistent (KStatefulSet x) \<longleftrightarrow> ss_Selector (sts_Spec x) \<noteq> [] \<and>
     selects (ss_Selector (sts_Spec x)) (pt_Labels (ss_Template (sts_Spec x))) \<and>
     consistentPod (pt_Spec (ss_Template (sts_Spec x))) (map pvc_Name (ss_VolumeClaimTemplates (sts_Spec x)))"
| "consistent (KDeployment x) \<longleftrightarrow> ds_Selector (dep_Spec x) \<noteq> [] \<and>
     selects (ds_Selector (dep_Spec x)) (pt_Labels (ds_Template (dep_Spec x))) \<and>
     consistentPod (pt_Spec (ds_Template (dep_Spec x))) []"
| "consistent _ \<longleftrightarrow> True"

lemma PodLabels_nonempty [simp]: "PodLabels n c \<noteq> []"
  by (simp add: PodLabels_def CommonLabels_def)

lemma consistent_made [simp]:
  "consistent (KStatefulSet (hashStatefulSet h (mkStatefulSet a b n r c s p claims))) \<longleftrightarrow> consistentPod p (map pvc_Name claims)"
  "consistent (KDeployment (hashDeployment h (mkDeployment a b n r c p))) \<longleftrightarrow> consistentPod p []"
  "consistent (KDeployment (mkDeployment a b n r c p)) \<longleftrightarrow> consistentPod p []"
  by (simp_all add: mkStatefulSet_def mkDeployment_def hashStatefulSet_def hashDeployment_def withConfigHash_def selects_refl)

declare consistent.simps(1,2) [simp del]

lemma claim_list: "map pvc_Name (claimsFor pq st) = (if st = None then [] else [''data''])"
  by (simp add: claimsFor_def buildPVCTemplates_def split: option.split)

lemma consistent_redis_pods [simp]:
  "consistentPod (buildRedisPodSpec pq img ei e res auth tls aff tol sel cfg st) (map pvc_Name (claimsFor pq s))"
  "consistentPod (buildClusterPodSpec pq img ei e res auth tls aff tol sel cfg) (map pvc_Name (claimsFor pq s))"
  by (simp_all add: consistentPod_def claim_list builder_defs Let_def zeroContainer_def secretEnv_def split: option.split)

lemma consistent_workloads:
  "consistent (KStatefulSet (hashStatefulSet h (BuildRedisStatefulSet pq r)))"
  "consistent (KStatefulSet (hashStatefulSet h (BuildClusterMasterStatefulSet pq rc)))"
  "consistent (KStatefulSet (hashStatefulSet h (BuildClusterReplicaStatefulSet pq rc)))"
  "consistent (KStatefulSet (hashStatefulSet h (BuildSentinelRedisStatefulSet pq rs)))"
  "consistent (KDeployment (hashDeployment h (BuildRedisDeployment pq r)))"
  "consistent (KDeployment (BuildSentinelDeployment rs))"
proof -
  show "consistent (KStatefulSet (hashStatefulSet h (BuildRedisStatefulSet pq r)))"
    "consistent (KStatefulSet (hashStatefulSet h (BuildClusterMasterStatefulSet pq rc)))"
    "consistent (KStatefulSet (hashStatefulSet h (BuildClusterReplicaStatefulSet pq rc)))"
    by (simp_all add: BuildRedisStatefulSet_def BuildClusterMasterStatefulSet_def BuildClusterReplicaStatefulSet_def Let_def)
  show "consistent (KStatefulSet (hashStatefulSet h (BuildSentinelRedisStatefulSet pq rs)))"
    unfolding BuildSentinelRedisStatefulSet_def Let_def consistent_made
    by (simp add: consistentPod_def claim_list builder_defs addEnvFirst_def Let_def zeroContainer_def secretEnv_def split: option.split)
  show "consistent (KDeployment (hashDeployment h (BuildRedisDeployment pq r)))" "consistent (KDeployment (BuildSentinelDeployment rs))"
    unfolding BuildRedisDeployment_def BuildSentinelDeployment_def Let_def consistent_made
    by (simp_all add: consistentPod_def builder_defs Let_def zeroContainer_def secretEnv_def split: option.split)
qed

section \<open>Names\<close>

lemma lower_chars [simp]:
  "lowerLetter c \<Longrightarrow> lowerAlnum c" "lowerAlnum c \<Longrightarrow> alnum c" "\<not> alnum CHR ''-''" "\<not> lowerAlnum CHR ''-''" "\<not> lowerLetter CHR ''-''"
  "\<not> lowerAlnum CHR ''.''"
  by (auto simp: alnum_def lowerAlnum_def lowerLetter_def)

lemma part_without_dot: "dnsPart s \<Longrightarrow> Split s CHR ''.'' = [s]"
  unfolding Split_def by (rule split_by_plain) (auto simp: dnsPart_def list_all_iff)

lemma part_is_subdomain: "dnsPart s \<Longrightarrow> length s \<le> 253 \<Longrightarrow> dnsSubdomain s"
  by (simp add: dnsSubdomain_def part_without_dot)

lemma part_is_label_value: "dnsPart s \<Longrightarrow> length s \<le> 63 \<Longrightarrow> labelValue s"
  by (auto simp: dnsPart_def labelValue_def list_all_iff)

text \<open>A suffix as the operator appends them.\<close>

definition suffix_ok :: "string \<Rightarrow> bool" where
  "suffix_ok t \<longleftrightarrow> t \<noteq> [] \<and> hd t = CHR ''-'' \<and> list_all (\<lambda>c. lowerAlnum c \<or> c = CHR ''-'') t \<and> lowerAlnum (last t)"

lemma part_append: "dnsPart s \<Longrightarrow> suffix_ok t \<Longrightarrow> dnsPart (s @ t)"
  by (simp add: dnsPart_def suffix_ok_def)

text \<open>A name with a suffix is the name of a service exactly if the name is, and if there is room for the suffix.\<close>

lemma serviceName_append:
  assumes "suffix_ok t" and "labelValue s"
  shows "serviceName (s @ t) \<longleftrightarrow> serviceName s \<and> length s + length t \<le> 63"
proof
  assume l: "serviceName (s @ t)"
  have "s \<noteq> []"
  proof
    assume "s = []"
    then show False using l assms(1) by (auto simp: serviceName_def suffix_ok_def)
  qed
  moreover have "lowerAlnum (last s)"
  proof -
    have "lowerAlnum (last s) \<or> last s = CHR ''-''"
      using l \<open>s \<noteq> []\<close> by (simp add: serviceName_def dnsLabel_def dnsPart_def list_all_iff)
    then show ?thesis using assms(2) \<open>s \<noteq> []\<close> by (auto simp: labelValue_def)
  qed
  ultimately show "serviceName s \<and> length s + length t \<le> 63"
    using l by (simp add: serviceName_def dnsLabel_def dnsPart_def)
next
  assume "serviceName s \<and> length s + length t \<le> 63"
  then show "serviceName (s @ t)"
    using assms(1) by (simp add: serviceName_def dnsLabel_def part_append) (simp add: dnsPart_def)
qed

lemma fixed_values [simp]:
  "labelValue ''redis''" "labelValue ''redis-operator''" "labelValue ComponentRedis" "labelValue ComponentMaster"
  "labelValue ''master''" "labelValue ''replica''" "labelValue ComponentReplica" "labelValue ComponentSentinel" "labelValue RoleMaster" "labelValue RoleReplica"
  by (simp_all add: component_defs labelValue_def alnum_def lowerAlnum_def lowerLetter_def)

lemma suffixes [simp]:
  "suffix_ok ''-config''" "suffix_ok ''-sentinel-config''" "suffix_ok ''-masters''" "suffix_ok ''-replicas''" "suffix_ok ''-master''"
  "suffix_ok ''-replica''" "suffix_ok ''-sentinel''" "suffix_ok ''-redis-pdb''" "suffix_ok ''-sentinel-pdb''"
  "suffix_ok ''-masters-pdb''" "suffix_ok ''-replicas-pdb''" "suffix_ok ''-redis-headless''" "suffix_ok ''-master-headless''"
  "suffix_ok ''-replica-headless''"
  by (simp_all add: suffix_ok_def lowerAlnum_def lowerLetter_def)

lemma follows_made:
  assumes "labelValue c"
  shows "followsRules (KConfigMap (mkConfigMap a ns (CommonLabels n c) d)) \<longleftrightarrow> dnsSubdomain a \<and> labelValue n"
    "followsRules (KStatefulSet (hashStatefulSet h (mkStatefulSet a ns n r c s p cl))) \<longleftrightarrow> dnsLabel a \<and> labelValue n"
    "followsRules (KDeployment (hashDeployment h (mkDeployment a ns n r c p))) \<longleftrightarrow> dnsSubdomain a \<and> labelValue n"
    "followsRules (KDeployment (mkDeployment a ns n r c p)) \<longleftrightarrow> dnsSubdomain a \<and> labelValue n"
    "followsRules (KPDB (mkPDB a ns n c)) \<longleftrightarrow> dnsSubdomain a \<and> labelValue n"
    "followsRules (KService (BuildHeadlessService n ns c)) \<longleftrightarrow> serviceName (n @ ''-'' @ c @ ''-headless'') \<and> labelValue n"
  using assms
  by (auto simp: followsRules_def mkConfigMap_def mkStatefulSet_def mkDeployment_def mkPDB_def hashStatefulSet_def
      hashDeployment_def withConfigHash_def newMeta_def CommonLabels_def PodLabels_def BuildHeadlessService_def
      HeadlessServiceName_def clusterIPSpec_def)

lemma follows_services:
  "followsRules (KService (BuildRedisService rd)) \<longleftrightarrow> serviceName (om_Name (r_Meta rd)) \<and> labelValue (om_Name (r_Meta rd))"
  "followsRules (KService (BuildClusterClientService rc)) \<longleftrightarrow> serviceName (om_Name (c_Meta rc)) \<and> labelValue (om_Name (c_Meta rc))"
  "followsRules (KService (BuildSentinelMasterService rs)) \<longleftrightarrow>
     serviceName (om_Name (s_Meta rs) @ ''-master'') \<and> labelValue (om_Name (s_Meta rs))"
  "followsRules (KService (BuildSentinelReplicaService rs)) \<longleftrightarrow>
     serviceName (om_Name (s_Meta rs) @ ''-replica'') \<and> labelValue (om_Name (s_Meta rs))"
  "followsRules (KService (BuildSentinelService rs)) \<longleftrightarrow>
     serviceName (om_Name (s_Meta rs) @ ''-sentinel'') \<and> labelValue (om_Name (s_Meta rs))"
  by (auto simp: followsRules_def service_defs Let_def newMeta_def CommonLabels_def PodLabels_def)

lemma service_label:
  assumes "serviceName n"
  shows "labelValue n" and "dnsLabel n" and "dnsSubdomain n" and "dnsPart n"
  using assms by (auto simp: serviceName_def dnsLabel_def part_is_label_value part_is_subdomain)

lemma service_suffixed:
  assumes "serviceName n" and "suffix_ok t"
  shows "length n + length t \<le> 253 \<Longrightarrow> dnsSubdomain (n @ t)" and "length n + length t \<le> 63 \<Longrightarrow> dnsLabel (n @ t)"
  using part_append [OF service_label(4) [OF assms(1)] assms(2)] by (simp_all add: part_is_subdomain dnsLabel_def)

lemma short_names:
  assumes "serviceName n" and "length n \<le> 48"
  shows "dnsSubdomain (n @ ''-config'')" "dnsSubdomain (n @ ''-sentinel-config'')" "dnsSubdomain (n @ ''-sentinel'')"
    "dnsSubdomain (n @ ''-redis-pdb'')" "dnsSubdomain (n @ ''-sentinel-pdb'')" "dnsSubdomain (n @ ''-masters-pdb'')"
    "dnsSubdomain (n @ ''-replicas-pdb'')" "dnsLabel (n @ ''-masters'')" "dnsLabel (n @ ''-replicas'')"
  using assms by (simp_all add: service_suffixed)

lemma config_name: "serviceName n \<Longrightarrow> dnsSubdomain (n @ ''-config'')"
  by (rule service_suffixed(1)) (auto simp: serviceName_def dnsLabel_def)

text \<open>
  C34: The names the operator derives and the labels it gives follow the documented rules exactly if the name of the resource
  begins with a lower-case letter, has lower-case letters, digits and hyphens only, does not end with a hyphen, and leaves
  room for the longest suffix of a service: at most 46 characters for a cluster, 48 for a RedisSentinel and for a Redis with
  storage, 63 for one without. The webhooks do not look at the name: they answer alike for any. Apart from names, all
  workloads are consistent.
\<close>

theorem names_within_limits:
  "(list_all (followsRules \<circ> snd) (redisObjects k r) \<longleftrightarrow> serviceName (om_Name (r_Meta r)) \<and>
      length (om_Name (r_Meta r)) \<le> (if r_Storage (r_Spec r) = None then 63 else 48)) \<and>
   (list_all (followsRules \<circ> snd) (sentinelObjects k rs) \<longleftrightarrow> serviceName (om_Name (s_Meta rs)) \<and> length (om_Name (s_Meta rs)) \<le> 48) \<and>
   (list_all (followsRules \<circ> snd) (clusterObjects k rc) \<longleftrightarrow> serviceName (om_Name (c_Meta rc)) \<and> length (om_Name (c_Meta rc)) \<le> 46) \<and>
   Redis_ValidateCreate pq (r\<lparr>r_Meta := m\<rparr>) = Redis_ValidateCreate pq r \<and>
   RedisSentinel_ValidateCreate pq (rs\<lparr>s_Meta := m\<rparr>) = RedisSentinel_ValidateCreate pq rs \<and>
   RedisCluster_ValidateCreate pq (rc\<lparr>c_Meta := m\<rparr>) = RedisCluster_ValidateCreate pq rc \<and>
   list_all (consistent \<circ> snd) (redisObjects k r @ sentinelObjects k rs @ clusterObjects k rc)"
proof (intro conjI)
  note made = follows_made follows_services config_name ConfigMapNameForRedis_def ConfigMapNameForSentinel_def
    ClusterMasterStatefulSetName_def ClusterReplicaStatefulSetName_def
  show "list_all (followsRules \<circ> snd) (redisObjects k r) \<longleftrightarrow> serviceName (om_Name (r_Meta r)) \<and>
      length (om_Name (r_Meta r)) \<le> (if r_Storage (r_Spec r) = None then 63 else 48)"
    using service_label [of "om_Name (r_Meta r)"] serviceName_append [of "''-redis-headless''" "om_Name (r_Meta r)"]
    by (auto simp: redisObjects_def Let_def BuildRedisConfigMap_def BuildRedisStatefulSet_def BuildRedisDeployment_def made
        ComponentRedis_def serviceName_def dnsLabel_def)
  show "list_all (followsRules \<circ> snd) (sentinelObjects k rs) \<longleftrightarrow> serviceName (om_Name (s_Meta rs)) \<and> length (om_Name (s_Meta rs)) \<le> 48"
    using service_label [of "om_Name (s_Meta rs)"] short_names [of "om_Name (s_Meta rs)"]
    by (auto simp: sentinelObjects_def Let_def BuildSentinelRedisConfigMap_def BuildSentinelConfigMap_def
        BuildSentinelRedisStatefulSet_def BuildSentinelDeployment_def BuildSentinelRedisPDB_def BuildSentinelPDB_def
        sentinelServices_def made serviceName_append ComponentRedis_def)
  show "list_all (followsRules \<circ> snd) (clusterObjects k rc) \<longleftrightarrow> serviceName (om_Name (c_Meta rc)) \<and> length (om_Name (c_Meta rc)) \<le> 46"
    using service_label [of "om_Name (c_Meta rc)"] short_names [of "om_Name (c_Meta rc)"]
    by (auto simp: clusterObjects_def Let_def BuildClusterConfigMap_def BuildClusterMasterStatefulSet_def
        BuildClusterReplicaStatefulSet_def BuildClusterMasterPDB_def BuildClusterReplicaPDB_def clusterServices_def made
        serviceName_append ComponentMaster_def ComponentReplica_def)
  show "list_all (consistent \<circ> snd) (redisObjects k r @ sentinelObjects k rs @ clusterObjects k rc)"
    by (simp add: redisObjects_def sentinelObjects_def clusterObjects_def sentinelServices_def clusterServices_def Let_def
        consistent_workloads)
qed (simp_all add: webhook_defs Let_def)

end
