(* ===== verification/Sentinel_Health.thy ===== *)
theory Sentinel_Health
  imports Redis_Client
begin

text \<open>
  \<open>internal/redis/sentinel.go\<close> and \<open>health.go\<close>: the Sentinel operations and the health checks. Their
  three waiting loops (for a master, for a quorum of Sentinels, for a ping) are instances of the
  polling contract; the quorum loop is proved to count every Sentinel it asked.
\<close>

section \<open>Sentinel\<close>

definition GetMaster :: "RedisClient \<Rightarrow> string \<Rightarrow> string \<Rightarrow> trace \<Rightarrow> (string \<times> int) result \<times> trace" where
  "GetMaster c sentinelAddr masterName = call_SentinelGetMasterAddr c sentinelAddr masterName"

definition probeMaster ::
  "RedisClient \<Rightarrow> string \<Rightarrow> string \<Rightarrow> unit \<Rightarrow> trace \<Rightarrow> ((string \<times> int) + unit) \<times> trace" where
  "probeMaster c sentinelAddr masterName u tr =
     (case call_SentinelGetMasterAddr c sentinelAddr masterName tr of
        (Inr (ip, port), tr) \<Rightarrow> (if ip \<noteq> [] then Inl (ip, port) else Inr (), tr)
      | (Inl _, tr) \<Rightarrow> (Inr (), tr))"

definition WaitForMaster ::
  "Ctx \<Rightarrow> RedisClient \<Rightarrow> string \<Rightarrow> string \<Rightarrow> int \<Rightarrow> trace \<Rightarrow> ((string \<times> int) result \<times> trace) option" where
  "WaitForMaster cx c sentinelAddr masterName timeout =
     waitUntil cx timeout (probeMaster c sentinelAddr masterName) () (\<lambda>out.
       case out of
         Returned m \<Rightarrow> Inr m
       | Cancelled e \<Rightarrow> Inl e
       | TimedOut _ \<Rightarrow> Inl (Errorf (''sentinel at '' @ sentinelAddr @ '' did not report a master for '' @
           Quote masterName @ '' within '' @ Duration_String timeout)))"

definition TriggerFailover :: "RedisClient \<Rightarrow> string \<Rightarrow> string \<Rightarrow> trace \<Rightarrow> error option \<times> trace" where
  "TriggerFailover c sentinelAddr masterName = call_SentinelFailover c sentinelAddr masterName"

definition ResetMonitor :: "RedisClient \<Rightarrow> string \<Rightarrow> string \<Rightarrow> trace \<Rightarrow> error option \<times> trace" where
  "ResetMonitor c sentinelAddr pattern = call_SentinelReset c sentinelAddr pattern"

definition GetMasterInfo :: "RedisClient \<Rightarrow> string \<Rightarrow> string \<Rightarrow> trace \<Rightarrow> gomap result \<times> trace" where
  "GetMasterInfo c sentinelAddr masterName = call_SentinelMaster c sentinelAddr masterName"

definition IsReplicaOfMaster :: "RedisClient \<Rightarrow> string \<Rightarrow> string \<Rightarrow> trace \<Rightarrow> bool result \<times> trace" where
  "IsReplicaOfMaster c addrToCheck masterAddr tr =
     (case call_Info c addrToCheck ''replication'' tr of
        (Inl e, tr) \<Rightarrow> (Inl (Wrapf (''INFO replication on '' @ addrToCheck) e), tr)
      | (Inr info, tr) \<Rightarrow>
          if mget info ''role'' \<noteq> ''slave'' then (Inr False, tr)
          else (let masterIP = mget info ''master_host'';
                    masterPort = atoiOr0 (mget info ''master_port'')
                in (Inr (masterIP @ '':'' @ Itoa masterPort = masterAddr), tr)))"

text \<open>One round of the quorum loop: the number of Sentinels that report a reachable master.\<close>

definition healthyInfo :: "gomap \<Rightarrow> bool" where
  "healthyInfo info \<longleftrightarrow> mget info ''status'' = ''ok'' \<or> mget info ''flags'' = ''master''"

fun countHealthy :: "RedisClient \<Rightarrow> string \<Rightarrow> string list \<Rightarrow> int \<Rightarrow> trace \<Rightarrow> int \<times> trace" where
  "countHealthy c masterName [] healthy tr = (healthy, tr)"
| "countHealthy c masterName (addr # addrs) healthy tr =
     (case call_SentinelMaster c addr masterName tr of
        (Inl _, tr) \<Rightarrow> countHealthy c masterName addrs healthy tr
      | (Inr info, tr) \<Rightarrow>
          countHealthy c masterName addrs (if healthyInfo info then healthy + 1 else healthy) tr)"

definition probeQuorum ::
  "RedisClient \<Rightarrow> string list \<Rightarrow> string \<Rightarrow> int \<Rightarrow> unit \<Rightarrow> trace \<Rightarrow> (unit + unit) \<times> trace" where
  "probeQuorum c sentinelAddrs masterName quorum u tr =
     (case countHealthy c masterName sentinelAddrs 0 tr of
        (healthy, tr) \<Rightarrow> (if healthy \<ge> quorum then Inl () else Inr (), tr))"

definition WaitForSentinelQuorum ::
  "Ctx \<Rightarrow> RedisClient \<Rightarrow> string list \<Rightarrow> string \<Rightarrow> int \<Rightarrow> int \<Rightarrow> trace \<Rightarrow> (error option \<times> trace) option" where
  "WaitForSentinelQuorum cx c sentinelAddrs masterName quorum timeout =
     waitUntil cx timeout (probeQuorum c sentinelAddrs masterName quorum) () (errOutcome (\<lambda>_.
       Errorf (''sentinel quorum of '' @ Itoa quorum @ '' not reached within '' @ Duration_String timeout)))"

section \<open>Health\<close>

definition probePing ::
  "RedisClient \<Rightarrow> string \<Rightarrow> error option \<Rightarrow> trace \<Rightarrow> (unit + error option) \<times> trace" where
  "probePing c addr lastErr tr =
     (case call_Ping c addr tr of
        (None, tr) \<Rightarrow> (Inl (), tr)
      | (Some e, tr) \<Rightarrow> (Inr (Some e), tr))"

text \<open>Formatting a nil error with the verb \<open>%w\<close> prints \<open>%!w(<nil>)\<close>.\<close>

definition pingTimeout :: "string \<Rightarrow> int \<Rightarrow> error option \<Rightarrow> error" where
  "pingTimeout addr timeout lastErr =
     (let msg = ''redis at '' @ addr @ '' did not respond to PING within '' @ Duration_String timeout in
      case lastErr of Some e \<Rightarrow> Wrapf msg e | None \<Rightarrow> Errorf (msg @ '': %!w(<nil>)''))"

definition WaitForPing ::
  "Ctx \<Rightarrow> RedisClient \<Rightarrow> string \<Rightarrow> int \<Rightarrow> trace \<Rightarrow> (error option \<times> trace) option" where
  "WaitForPing cx c addr timeout =
     waitUntil cx timeout (probePing c addr) None (errOutcome (pingTimeout addr timeout))"

definition WaitForAllPings ::
  "Ctx \<Rightarrow> RedisClient \<Rightarrow> string list \<Rightarrow> int \<Rightarrow> trace \<Rightarrow> (error option \<times> trace) option" where
  "WaitForAllPings cx c addrs timeout = forErrO (\<lambda>addr. WaitForPing cx c addr timeout) addrs"

definition GetRole :: "RedisClient \<Rightarrow> string \<Rightarrow> trace \<Rightarrow> string result \<times> trace" where
  "GetRole c addr = call_Role c addr"

definition IsHealthy :: "RedisClient \<Rightarrow> string \<Rightarrow> trace \<Rightarrow> bool \<times> trace" where
  "IsHealthy c addr tr = (case call_Ping c addr tr of (e, tr) \<Rightarrow> (e = None, tr))"

definition GetRedisVersion :: "RedisClient \<Rightarrow> string \<Rightarrow> trace \<Rightarrow> string result \<times> trace" where
  "GetRedisVersion c addr tr =
     (case call_Info c addr ''server'' tr of
        (Inl e, tr) \<Rightarrow> (Inl (Wrapf (''INFO server on '' @ addr) e), tr)
      | (Inr info, tr) \<Rightarrow>
          (case map_of info ''redis_version'' of
             None \<Rightarrow> (Inl (Errorf ''redis_version not found in INFO server output''), tr)
           | Some v \<Rightarrow> (Inr v, tr)))"

definition scanOr0 :: "string \<Rightarrow> int" where
  "scanOr0 v = (if v = [] then 0 else case Sscanf_d v of Some n \<Rightarrow> n | None \<Rightarrow> 0)"

definition CountConnectedClients :: "RedisClient \<Rightarrow> string \<Rightarrow> trace \<Rightarrow> int result \<times> trace" where
  "CountConnectedClients c addr tr =
     (case call_Info c addr ''clients'' tr of
        (Inl e, tr) \<Rightarrow> (Inl e, tr)
      | (Inr info, tr) \<Rightarrow> (Inr (scanOr0 (mget info ''connected_clients'')), tr))"

definition GetReplicationLag :: "RedisClient \<Rightarrow> string \<Rightarrow> trace \<Rightarrow> int result \<times> trace" where
  "GetReplicationLag c addr tr =
     (case call_Info c addr ''replication'' tr of
        (Inl e, tr) \<Rightarrow> (Inl e, tr)
      | (Inr info, tr) \<Rightarrow> (Inr (scanOr0 (mget info ''master_repl_offset'')), tr))"

section \<open>Instances of the polling contract\<close>

interpretation master: polling "probeMaster c addr name"
  "\<lambda>m tr. rc_SentinelGetMasterAddr c tr addr name = Inr m \<and> fst m \<noteq> []" "{Cmd (SentinelGetMasterAddr addr name)}"
  for c addr name
  by unfold_locales (auto simp: probeMaster_def trace_simps split: sum.splits if_splits)

interpretation ping: polling "probePing c addr" "\<lambda>_ tr. rc_Ping c tr addr = None" "{Cmd (Ping addr)}"
  for c addr
  by unfold_locales (auto simp: probePing_def trace_simps split: option.splits)

text \<open>
  The answers of one round: the \<open>i\<close>-th Sentinel is asked after the first \<open>i\<close> commands of the round.
\<close>

fun roundHealthy :: "RedisClient \<Rightarrow> string \<Rightarrow> string list \<Rightarrow> trace \<Rightarrow> string list" where
  "roundHealthy c name [] tr = []"
| "roundHealthy c name (a # as) tr =
     (let rest = roundHealthy c name as (tr @ [Cmd (SentinelMaster a name)]) in
      case rc_SentinelMaster c tr a name of Inr info \<Rightarrow> if healthyInfo info then a # rest else rest | Inl _ \<Rightarrow> rest)"

lemma countHealthy_eq:
  "countHealthy c name as n tr =
     (n + int (length (roundHealthy c name as tr)), tr @ map (\<lambda>a. Cmd (SentinelMaster a name)) as)"
  by (induction as arbitrary: n tr) (auto simp: trace_simps Let_def split: sum.split)

interpretation quorum: polling "probeQuorum c addrs name q"
  "\<lambda>_ tr. q \<le> int (length (roundHealthy c name addrs tr))" "(\<lambda>a. Cmd (SentinelMaster a name)) ` set addrs"
  for c addrs name q
  by unfold_locales (auto simp: probeQuorum_def countHealthy_eq split: if_splits)


text \<open>
  \<open>WaitForAllPings\<close> returns for every list of addresses, and it reports success only if every
  address has answered a ping.
\<close>

theorem WaitForAllPings_correct:
  assumes "fair_clock cx"
  shows "\<exists>r tr'. WaitForAllPings cx c addrs timeout tr = Some (r, tr') \<and>
    (r \<noteq> None \<or> (\<forall>a \<in> set addrs. \<exists>t. rc_Ping c t a = None))"
  unfolding WaitForAllPings_def
proof (induction addrs arbitrary: tr)
  case (Cons a as)
  obtain r1 t1 where run: "WaitForPing cx c a timeout tr = Some (r1, t1)"
    using ping.wait_returns [OF assms, of timeout c a None "errOutcome (pingTimeout a timeout)" tr]
    by (auto simp: WaitForPing_def)
  then obtain out es where out: "r1 = errOutcome (pingTimeout a timeout) out"
    and why: "ping.explained c a cx timeout tr out es"
    using ping.wait_explained [of cx timeout c a None "errOutcome (pingTimeout a timeout)" tr]
    by (auto simp: WaitForPing_def)
  have "r1 \<noteq> None \<or> (\<exists>t. rc_Ping c t a = None)"
    using why out by (cases out) (auto simp: ping.explained_def errOutcome_def)
  then show ?case using run Cons [of t1] by (cases r1) auto
qed simp


theorem WaitForAllPings_correct_witness:
  "\<exists>r tr'. WaitForAllPings sampleCtx quietClient [''s:1'', ''t:1''] second [] = Some (r, tr') \<and>
    (r \<noteq> None \<or> (\<forall>a \<in> set [''s:1'', ''t:1'']. \<exists>t. rc_Ping quietClient t a = None))"
  by (rule WaitForAllPings_correct [OF fair_sampleCtx])

end
