(* ===== verification/Cluster_Slots.thy ===== *)
theory Cluster_Slots
  imports Cluster_Manager
begin

text \<open>
  Correctness of the slot arithmetic and of the slot assignment of the cluster manager: the
  shares \<open>AssignSlotsEvenly\<close> hands out partition the slot space, \<open>collectSlots\<close> is a prefix of a
  node's slots, and addresses survive \<open>splitAddr\<close>.
\<close>

section \<open>Shares\<close>

lemma upto_append: "a \<le> b + 1 \<Longrightarrow> b \<le> c \<Longrightarrow> [a..b] @ [b + 1..c] = [a..(c::int)]"
  using upto_split1 [of a "b + 1" c] by (cases "b = c") auto

lemma length_slotsFor:
  assumes "0 \<le> i" and "i < n"
  shows "int (length (slotsFor n i)) =
    (if i = n - 1 then totalHashSlots div n + totalHashSlots mod n else totalHashSlots div n)"
proof -
  have "n * (totalHashSlots div n) + totalHashSlots mod n = totalHashSlots" by simp
  then have last: "totalHashSlots - (n - 1) * (totalHashSlots div n) = totalHashSlots div n + totalHashSlots mod n"
    by (simp add: algebra_simps)
  have "0 \<le> totalHashSlots div n" "0 \<le> totalHashSlots mod n"
    using assms by (simp_all add: totalHashSlots_def pos_imp_zdiv_nonneg_iff)
  then show ?thesis using last by (auto simp: slotsFor_def Let_def)
qed

lemma concat_slotsFor_initial:
  assumes "int k < n"
  shows "concat (map (\<lambda>i. slotsFor n (int i)) [0..<k]) = [0..int k * (totalHashSlots div n) - 1]"
  using assms
proof (induction k)
  case (Suc k)
  let ?q = "totalHashSlots div n"
  have q: "0 \<le> ?q" using Suc.prems by (simp add: totalHashSlots_def pos_imp_zdiv_nonneg_iff)
  have "concat (map (\<lambda>i. slotsFor n (int i)) [0..<Suc k])
      = [0..int k * ?q - 1] @ [int k * ?q..int k * ?q + ?q - 1]"
    using Suc by (simp add: slotsFor_def Let_def)
  also have "\<dots> = [0..int k * ?q + ?q - 1]"
    using upto_append [of 0 "int k * ?q - 1" "int k * ?q + ?q - 1"] q by simp
  finally show ?case by (simp add: algebra_simps)
qed simp

lemma concat_slotsFor:
  assumes "0 < m"
  shows "concat (map (\<lambda>i. slotsFor (int m) (int i)) [0..<m]) = [0..totalHashSlots - 1]"
proof -
  let ?q = "totalHashSlots div int m"
  obtain k where m: "m = Suc k" using assms by (cases m) auto
  have "int k * ?q \<le> int m * ?q"
    using m by (intro mult_right_mono) (auto simp: totalHashSlots_def pos_imp_zdiv_nonneg_iff)
  also have "\<dots> \<le> totalHashSlots"
    using mult_div_mod_eq [of "int m" totalHashSlots] pos_mod_sign [of "int m" totalHashSlots] assms by linarith
  finally have le: "int k * ?q \<le> totalHashSlots" .
  have "0 \<le> int k * ?q" by (simp add: totalHashSlots_def pos_imp_zdiv_nonneg_iff m)
  moreover have "concat (map (\<lambda>i. slotsFor (int m) (int i)) [0..<m])
      = [0..int k * ?q - 1] @ [int k * ?q..totalHashSlots - 1]"
    using concat_slotsFor_initial [of k "int m"] by (simp add: m slotsFor_def Let_def)
  ultimately show ?thesis
    using upto_append [of 0 "int k * ?q - 1" "totalHashSlots - 1"] le by simp
qed

lemma enumerate_shares:
  "concat (map (\<lambda>(i, a). slotsFor n (int i)) (enumerate 0 xs)) = concat (map (\<lambda>i. slotsFor n (int i)) [0..<length xs])"
proof -
  have "map (\<lambda>(i, a). slotsFor n (int i)) (enumerate 0 xs) = map (\<lambda>i. slotsFor n (int i)) (map fst (enumerate 0 xs))"
    by (simp only: map_map comp_def case_prod_unfold)
  then show ?thesis by simp
qed

definition shares :: "string list \<Rightarrow> (string \<times> int list) list" where
  "shares addrs = map (\<lambda>(i, a). (a, slotsFor (int (length addrs)) (int i))) (enumerate 0 addrs)"

lemma map_fst_shares: "map fst (shares addrs) = addrs"
  by (simp add: shares_def case_prod_unfold comp_def)

lemma concat_shares: "addrs \<noteq> [] \<Longrightarrow> concat (map snd (shares addrs)) = [0..totalHashSlots - 1]"
  using concat_slotsFor [of "length addrs"] enumerate_shares [of "int (length addrs)" addrs]
  by (simp add: shares_def case_prod_unfold comp_def)

lemma shares_size:
  assumes "(a, ss) \<in> set (shares addrs)"
  shows "int (length ss) \<in> {totalHashSlots div int (length addrs) ..
    totalHashSlots div int (length addrs) + totalHashSlots mod int (length addrs)}"
proof -
  from assms obtain i where i: "i < length addrs" and "ss = slotsFor (int (length addrs)) (int i)"
    by (auto simp: shares_def in_set_enumerate_eq)
  moreover have "0 \<le> totalHashSlots mod int (length addrs)" by (rule pos_mod_sign) (use i in linarith)
  ultimately show ?thesis using length_slotsFor [of "int i" "int (length addrs)"] by auto
qed

text \<open>What handing one master its share does to the trace.\<close>

definition shareEvent :: "int \<Rightarrow> nat \<times> string \<Rightarrow> event list" where
  "shareEvent n = (\<lambda>(i, a). [Cmd (ClusterAddSlots a (slotsFor n (int i)))])"

lemma assignShare_ok: "assignShare c n x tr = (None, tr') \<Longrightarrow> tr' = tr @ shareEvent n x"
  by (auto simp: assignShare_def shareEvent_def trace_simps Let_def split: option.splits prod.splits)

lemma share_events:
  "concat (map (shareEvent n) xs) =
     map (\<lambda>(a, ss). Cmd (ClusterAddSlots a ss)) (map (\<lambda>(i, a). (a, slotsFor n (int i))) xs)"
  by (induction xs) (auto simp: shareEvent_def)

lemma AssignSlotsEvenly_done:
  assumes "AssignSlotsEvenly c masterAddrs tr = (None, tr')"
  shows "masterAddrs \<noteq> [] \<and> tr' = tr @ map (\<lambda>(a, ss). Cmd (ClusterAddSlots a ss)) (shares masterAddrs)"
proof -
  have ne: "masterAddrs \<noteq> []" using assms by (auto simp: AssignSlotsEvenly_def)
  then have "forErr (assignShare c (int (length masterAddrs))) (enumerate 0 masterAddrs) tr = (None, tr')"
    using assms by (simp add: AssignSlotsEvenly_def Let_def)
  then have "tr' = tr @ concat (map (shareEvent (int (length masterAddrs))) (enumerate 0 masterAddrs))"
    by (rule forErr_done) (rule assignShare_ok)
  then show ?thesis using ne by (simp only: share_events shares_def simp_thms not_False_eq_True)
qed

text \<open>
  C3: When \<open>AssignSlotsEvenly\<close> reports success it has sent exactly one \<open>CLUSTER ADDSLOTS\<close> to every
  master, in order, and the shares sent partition the slot space: together they are the slots
  0 to 16383, each exactly once, and no share is smaller than the even one or larger by more than
  the remainder of the division.
\<close>

theorem AssignSlotsEvenly_partition:
  assumes "AssignSlotsEvenly c masterAddrs tr = (None, tr')"
  shows "\<exists>given. tr' = tr @ map (\<lambda>(a, ss). Cmd (ClusterAddSlots a ss)) given \<and>
    map fst given = masterAddrs \<and> concat (map snd given) = [0..16383] \<and>
    (\<forall>(a, ss) \<in> set given. int (length ss) \<in>
      {16384 div int (length masterAddrs) ..
       16384 div int (length masterAddrs) + 16384 mod int (length masterAddrs)})"
  using AssignSlotsEvenly_done [OF assms] map_fst_shares [of masterAddrs] concat_shares [of masterAddrs]
    shares_size [of _ _ masterAddrs]
  unfolding totalHashSlots_def by (intro exI [of _ "shares masterAddrs"]) auto

theorem AssignSlotsEvenly_partition_witness:
  "\<exists>given. [] @ map (\<lambda>(a, ss). Cmd (ClusterAddSlots a ss)) (shares [''a:1'', ''b:1'', ''c:1''])
      = [] @ map (\<lambda>(a, ss). Cmd (ClusterAddSlots a ss)) given \<and>
    map fst given = [''a:1'', ''b:1'', ''c:1''] \<and> concat (map snd given) = [0..16383] \<and>
    (\<forall>(a, ss) \<in> set given. int (length ss) \<in>
      {16384 div int (length [''a:1'', ''b:1'', ''c:1'']) ..
       16384 div int (length [''a:1'', ''b:1'', ''c:1'']) + 16384 mod int (length [''a:1'', ''b:1'', ''c:1''])})"
  by (rule AssignSlotsEvenly_partition [of quietClient])
    (simp add: AssignSlotsEvenly_def assignShare_def shares_def quietClient_def trace_simps Let_def)

text \<open>
  When a master refuses its share, \<open>AssignSlotsEvenly\<close> stops there: the masters before it
  have their shares, it was asked for its own, and no later master was asked; the error names
  the address.
\<close>

theorem AssignSlotsEvenly_stops:
  assumes "AssignSlotsEvenly c masterAddrs tr = (Some e, tr')" and "masterAddrs \<noteq> []"
  shows "\<exists>given a ss rest cause. shares masterAddrs = given @ (a, ss) # rest \<and>
    tr' = tr @ map (\<lambda>(a, ss). Cmd (ClusterAddSlots a ss)) (given @ [(a, ss)]) \<and>
    rc_ClusterAddSlots c (tr @ map (\<lambda>(a, ss). Cmd (ClusterAddSlots a ss)) given) a ss = Some cause \<and>
    (\<exists>prefix. e = Wrapf (''CLUSTER ADDSLOTS on '' @ a @ prefix) cause)"
proof -
  let ?n = "int (length masterAddrs)"
  let ?share = "\<lambda>(i, a). (a, slotsFor ?n (int i))"
  have "forErr (assignShare c ?n) (enumerate 0 masterAddrs) tr = (Some e, tr')"
    using assms by (simp add: AssignSlotsEvenly_def Let_def)
  then have "\<exists>ys x zs. enumerate 0 masterAddrs = ys @ x # zs \<and>
      assignShare c ?n x (tr @ concat (map (shareEvent ?n) ys)) = (Some e, tr')"
    by (rule forErr_failed) (rule assignShare_ok)
  then obtain ys x zs where xs: "enumerate 0 masterAddrs = ys @ x # zs"
    and f: "assignShare c ?n x (tr @ concat (map (shareEvent ?n) ys)) = (Some e, tr')" by blast
  have "shares masterAddrs = map ?share ys @ ?share x # map ?share zs" by (simp add: shares_def xs)
  moreover obtain i a where x: "x = (i, a)" by (cases x)
  ultimately show ?thesis
    using f unfolding share_events
    by (intro exI [of _ "map ?share ys"] exI [of _ a] exI [of _ "slotsFor ?n (int i)"] exI [of _ "map ?share zs"])
      (auto simp: assignShare_def trace_simps Let_def split: option.splits)
qed

definition busyClient :: RedisClient where
  "busyClient = quietClient\<lparr>rc_ClusterAddSlots :=
     \<lambda>tr a ss. if a = ''b:1'' then Some (Errorf ''ERR Slot 5461 is already busy'') else None\<rparr>"

theorem AssignSlotsEvenly_stops_witness:
  "\<exists>e tr'. AssignSlotsEvenly busyClient [''a:1'', ''b:1'', ''c:1''] [] = (Some e, tr') \<and>
   (\<exists>given a ss rest cause. shares [''a:1'', ''b:1'', ''c:1''] = given @ (a, ss) # rest \<and>
    tr' = [] @ map (\<lambda>(a, ss). Cmd (ClusterAddSlots a ss)) (given @ [(a, ss)]) \<and>
    rc_ClusterAddSlots busyClient ([] @ map (\<lambda>(a, ss). Cmd (ClusterAddSlots a ss)) given) a ss = Some cause \<and>
    (\<exists>prefix. e = Wrapf (''CLUSTER ADDSLOTS on '' @ a @ prefix) cause))"
proof -
  obtain e tr' where run: "AssignSlotsEvenly busyClient [''a:1'', ''b:1'', ''c:1''] [] = (Some e, tr')"
    by (simp add: AssignSlotsEvenly_def assignShare_def busyClient_def quietClient_def trace_simps Let_def)
  from AssignSlotsEvenly_stops [OF run] run show ?thesis by blast
qed

section \<open>Collecting slots\<close>

lemma collectRange_eq:
  "collectRange s end cnt slots = slots @ take (nat (cnt - int (length slots))) [s..end]"
proof (induction s "end" cnt slots rule: collectRange.induct)
  case (1 s "end" cnt slots)
  show ?case
  proof (cases "s \<le> end \<and> int (length slots) < cnt")
    case True
    then have "nat (cnt - int (length slots)) = Suc (nat (cnt - int (length (slots @ [s]))))" by auto
    then show ?thesis
      using True 1 by (subst collectRange.simps) (simp add: upto_rec1)
  next
    case False
    then show ?thesis by (subst collectRange.simps) auto
  qed
qed

definition rangeSlots :: "SlotRange list \<Rightarrow> int list" where
  "rangeSlots srs = concat (map (\<lambda>sr. [sr_Start sr..sr_End sr]) srs)"

lemma collectRanges_eq:
  "collectRanges srs cnt slots = slots @ take (nat (cnt - int (length slots))) (rangeSlots srs)"
proof (induction srs cnt slots rule: collectRanges.induct)
  case (2 sr srs cnt slots)
  let ?s = "collectRange (sr_Start sr) (sr_End sr) cnt slots"
  show ?case
  proof (cases "int (length ?s) \<ge> cnt")
    case True
    then show ?thesis by (auto simp: rangeSlots_def collectRange_eq Let_def)
  next
    case False
    then have all: "?s = slots @ [sr_Start sr..sr_End sr]" by (auto simp: collectRange_eq)
    have "nat (cnt - int (length ?s)) = nat (cnt - int (length slots)) - length [sr_Start sr..sr_End sr]"
      unfolding all length_append of_nat_add by arith
    with False 2 all show ?thesis by (auto simp: rangeSlots_def)
  qed
qed (simp add: rangeSlots_def)

definition slotsOf :: "ClusterNode list \<Rightarrow> string \<Rightarrow> int list" where
  "slotsOf nodes nodeID = concat (map (rangeSlots \<circ> cn_Slots) (filter (\<lambda>n. cn_NodeID n = nodeID) nodes))"

lemma collect_fold:
  "fold (\<lambda>n slots. if cn_NodeID n \<noteq> nodeID then slots else collectRanges (cn_Slots n) cnt slots) nodes acc
     = acc @ take (nat (cnt - int (length acc))) (slotsOf nodes nodeID)"
proof (induction nodes arbitrary: acc)
  case Nil
  then show ?case by (simp add: slotsOf_def)
next
  case (Cons n nodes)
  have "nat (cnt - int (length (acc @ take (nat (cnt - int (length acc))) xs)))
      = nat (cnt - int (length acc)) - length xs" for xs :: "int list"
    by auto
  then show ?case using Cons by (simp add: slotsOf_def collectRanges_eq)
qed

lemma collectSlots_eq: "collectSlots nodes nodeID cnt = take (nat cnt) (slotsOf nodes nodeID)"
  by (simp add: collectSlots_def collect_fold)

text \<open>
  \<open>collectSlots\<close> returns the first slots of the node, in the order of the table, as many as
  asked for, or all of them when the node has fewer: no slot of another node is ever offered.
\<close>

theorem collectSlots_prefix:
  "collectSlots nodes nodeID cnt = take (nat cnt) (slotsOf nodes nodeID)"
  by (rule collectSlots_eq)

section \<open>Addresses\<close>

lemma splitAddr_print:
  assumes "0 \<le> port" and "port < 2 ^ 63"
  shows "splitAddr (host @ '':'' @ Itoa port) = Inr (host, port)"
proof -
  have ok: "int64_ok port" using assms by (simp add: int64_ok_def)
  have "CHR '':'' \<notin> set (Itoa port)"
    using Itoa_chars [OF assms(1)] digit_not_special by blast
  then have "cut_last CHR '':'' (host @ CHR '':'' # Itoa port) = Some (host, Itoa port)" by simp
  then show ?thesis using assms(1) ok by (simp add: splitAddr_def Sscanf_d_Itoa)
qed

text \<open>
  \<open>splitAddr\<close> recovers host and port of an address the operator printed, also where the host
  itself contains colons, as an IPv6 address does.
\<close>

theorem splitAddr_roundtrip:
  assumes "0 \<le> port" and "port < 2 ^ 63"
  shows "splitAddr (host @ '':'' @ Itoa port) = Inr (host, port)"
  using assms by (rule splitAddr_print)

theorem splitAddr_roundtrip_witness:
  "splitAddr (''fd00::1'' @ '':'' @ Itoa 6379) = Inr (''fd00::1'', 6379)"
  by (rule splitAddr_roundtrip) simp_all

end
