(* ===== verification/Cluster_Migration.thy ===== *)
theory Cluster_Migration
  imports Cluster_Slots
begin

text \<open>
  Correctness of slot migration and rebalancing: which commands a migration sends on every path,
  that the loop over the keys of a slot drains it and returns, how many slots a donor gives away,
  and when rebalancing moves nothing at all.
\<close>

section \<open>The loop over the keys of a slot\<close>

lemma migrateKeys_rule:
  assumes "migrateKeys c s ip p slot tr = Some (r, tr')" and "I tr"
    and refused: "\<And>tr e. I tr \<Longrightarrow> rc_ClusterGetKeysInSlot c tr s slot migrateBatch = Inl e \<Longrightarrow>
      Q (Some (Wrapf (''CLUSTER GETKEYSINSLOT '' @ Itoa slot) e)) (tr @ [Cmd (ClusterGetKeysInSlot s slot migrateBatch)])"
    and empty: "\<And>tr. I tr \<Longrightarrow> rc_ClusterGetKeysInSlot c tr s slot migrateBatch = Inr [] \<Longrightarrow>
      Q None (tr @ [Cmd (ClusterGetKeysInSlot s slot migrateBatch)])"
    and failed: "\<And>tr keys e tr'. I tr \<Longrightarrow> rc_ClusterGetKeysInSlot c tr s slot migrateBatch = Inr keys \<Longrightarrow>
      forErr (migrateKey c s ip p) keys (tr @ [Cmd (ClusterGetKeysInSlot s slot migrateBatch)]) = (Some e, tr') \<Longrightarrow>
      Q (Some e) tr'"
    and step: "\<And>tr keys tr'. I tr \<Longrightarrow> rc_ClusterGetKeysInSlot c tr s slot migrateBatch = Inr keys \<Longrightarrow>
      forErr (migrateKey c s ip p) keys (tr @ [Cmd (ClusterGetKeysInSlot s slot migrateBatch)]) = (None, tr') \<Longrightarrow>
      I tr'"
  shows "Q r tr'"
proof -
  define P where "P = (\<lambda>c0 s0 ip0 p0 slot0 tr y. c0 = c \<longrightarrow> s0 = s \<longrightarrow> ip0 = ip \<longrightarrow> p0 = p \<longrightarrow>
    slot0 = slot \<longrightarrow> I tr \<longrightarrow> (case y of (r, tr') \<Rightarrow> Q r tr'))"
  have "P c s ip p slot tr (r, tr')"
  proof (rule migrateKeys.raw_induct [of P, OF _ assms(1)])
    fix mk c0 s0 ip0 p0 slot0 tr y
    assume IH: "\<And>c s ip p slot tr y. mk c s ip p slot tr = Some y \<Longrightarrow> P c s ip p slot tr y"
      and eq: "(case call_ClusterGetKeysInSlot c0 s0 slot0 migrateBatch tr of
        (Inl e, tr) \<Rightarrow> Some (Some (Wrapf (''CLUSTER GETKEYSINSLOT '' @ Itoa slot0) e), tr)
      | (Inr keys, tr) \<Rightarrow>
          if keys = [] then Some (None, tr)
          else (case forErr (migrateKey c0 s0 ip0 p0) keys tr of
                  (Some e, tr) \<Rightarrow> Some (Some e, tr)
                | (None, tr) \<Rightarrow> mk c0 s0 ip0 p0 slot0 tr)) = Some y"
    show "P c0 s0 ip0 p0 slot0 tr y"
      unfolding P_def
    proof (intro impI)
      assume h: "c0 = c" "s0 = s" "ip0 = ip" "p0 = p" "slot0 = slot" "I tr"
      let ?get = "Cmd (ClusterGetKeysInSlot s slot migrateBatch)"
      show "case y of (r, tr') \<Rightarrow> Q r tr'"
      proof (cases "rc_ClusterGetKeysInSlot c tr s slot migrateBatch")
        case (Inl e)
        then show ?thesis using eq h refused by (auto simp: trace_simps)
      next
        case (Inr keys)
        obtain f tr1 where f: "forErr (migrateKey c s ip p) keys (tr @ [?get]) = (f, tr1)" by fastforce
        show ?thesis
        proof (cases "keys = []")
          case True
          then show ?thesis using eq h Inr empty by (auto simp: trace_simps)
        next
          case False
          show ?thesis
          proof (cases f)
            case None
            then have "mk c s ip p slot tr1 = Some y" using eq h Inr False f by (simp add: trace_simps)
            from IH [OF this] show ?thesis using step [OF h(6) Inr] f None by (simp add: P_def)
          next
            case (Some e)
            then show ?thesis using eq h Inr False f failed [OF h(6) Inr] by (auto simp: trace_simps)
          qed
        qed
      qed
    qed
  qed
  then show ?thesis using assms(2) by (simp add: P_def)
qed

text \<open>The commands the loop sends, and the events of one successful batch.\<close>

definition keyEvents :: "string \<Rightarrow> string \<Rightarrow> int \<Rightarrow> int \<Rightarrow> event set" where
  "keyEvents s ip p slot =
     insert (Cmd (ClusterGetKeysInSlot s slot migrateBatch))
       (range (\<lambda>k. Cmd (Migrate s ip p k 0 migrateTimeout)))"

definition migrateEvent :: "string \<Rightarrow> string \<Rightarrow> int \<Rightarrow> string \<Rightarrow> event" where
  "migrateEvent s ip p k = Cmd (Migrate s ip p k 0 migrateTimeout)"

lemma migrateKey_events: "snd (migrateKey c s ip p k tr) = tr @ [migrateEvent s ip p k]"
  by (simp add: migrateKey_def migrateEvent_def trace_simps split: option.split)

lemma migrateBatch_adds: "adds (keyEvents s ip p slot) tr (snd (forErr (migrateKey c s ip p) keys tr))"
  by (rule forErr_adds) (auto simp: migrateKey_events migrateEvent_def keyEvents_def)

lemma migrateKeys_adds:
  assumes "migrateKeys c s ip p slot tr = Some (r, tr')"
  shows "adds (keyEvents s ip p slot) tr tr'" (is "adds ?E tr tr'")
proof -
  have get: "adds ?E tr (t @ [Cmd (ClusterGetKeysInSlot s slot migrateBatch)])" if "adds ?E tr t" for t
    using that by (rule adds_more) (simp add: keyEvents_def)
  have batch: "adds ?E tr t'" if inv: "adds ?E tr t"
    and run: "forErr (migrateKey c s ip p) keys (t @ [Cmd (ClusterGetKeysInSlot s slot migrateBatch)]) = (r, t')"
    for t keys r t'
    using adds_trans [OF get [OF inv] migrateBatch_adds, of c keys] run by simp
  show ?thesis
    by (rule migrateKeys_rule [OF assms, where I = "adds ?E tr" and Q = "\<lambda>_. adds ?E tr"])
      (auto intro: get batch)
qed

text \<open>
  C6: When the key loop of a slot migration reports success, the last thing it did was to ask the
  source for keys of the slot, and the answer was that there are none left.
\<close>

theorem migrateKeys_success_means_empty:
  assumes "migrateKeys c s ip p slot tr = Some (None, tr')"
  shows "\<exists>t. tr' = t @ [Cmd (ClusterGetKeysInSlot s slot migrateBatch)] \<and>
    rc_ClusterGetKeysInSlot c t s slot migrateBatch = Inr []"
proof -
  let ?Q = "\<lambda>(r :: error option) t'. r = None \<longrightarrow> (\<exists>t. t' = t @ [Cmd (ClusterGetKeysInSlot s slot migrateBatch)] \<and>
    rc_ClusterGetKeysInSlot c t s slot migrateBatch = Inr [])"
  have "?Q None tr'" by (rule migrateKeys_rule [OF assms, where I = "\<lambda>_. True" and Q = ?Q]) auto
  then show ?thesis by simp
qed

text \<open>
  The documented behaviour of the two commands on a slot that is being migrated: the source holds
  the keys \<open>K\<close> of the slot (none are added, since a migrating slot redirects new keys),
  \<open>CLUSTER GETKEYSINSLOT\<close> lists up to the asked number of the keys still there, and a \<open>MIGRATE\<close> that
  succeeds removes its key.
\<close>

definition remaining :: "string \<Rightarrow> string \<Rightarrow> int \<Rightarrow> string list \<Rightarrow> trace \<Rightarrow> string list" where
  "remaining s ip p K tr = filter (\<lambda>k. migrateEvent s ip p k \<notin> set tr) K"

definition drains :: "RedisClient \<Rightarrow> string \<Rightarrow> string \<Rightarrow> int \<Rightarrow> int \<Rightarrow> string list \<Rightarrow> bool" where
  "drains c s ip p slot K \<longleftrightarrow>
     (\<forall>tr. rc_ClusterGetKeysInSlot c tr s slot migrateBatch = Inr (take 100 (remaining s ip p K tr))) \<and>
     (\<forall>tr k. rc_Migrate c tr s ip p k 0 migrateTimeout = None)"

definition migratedKeys :: "trace \<Rightarrow> string list" where
  "migratedKeys es = List.map_filter (\<lambda>e. case e of Cmd (Migrate _ _ _ k _ _) \<Rightarrow> Some k | _ \<Rightarrow> None) es"

lemma migratedKeys_simps [simp]:
  "migratedKeys [] = []"
  "migratedKeys (Cmd (ClusterGetKeysInSlot a b d) # es) = migratedKeys es"
  "migratedKeys (xs @ ys) = migratedKeys xs @ migratedKeys ys"
  "migratedKeys (map (migrateEvent s ip p) ks) = ks"
proof -
  show "migratedKeys (map (migrateEvent s ip p) ks) = ks"
    by (induction ks) (simp_all add: migratedKeys_def migrateEvent_def map_filter_simps)
qed (simp_all add: migratedKeys_def map_filter_simps List.map_filter_def)

lemma migrateEvent_inject [simp]: "migrateEvent s ip p k = migrateEvent s ip p k' \<longleftrightarrow> k = k'"
  by (simp add: migrateEvent_def)

lemma remaining_batch:
  assumes "distinct K" and "ks = take n (remaining s ip p K tr)"
  shows "remaining s ip p K (tr @ Cmd (ClusterGetKeysInSlot a b d) # map (migrateEvent s ip p) ks)
    = drop n (remaining s ip p K tr)"
proof -
  let ?r = "remaining s ip p K tr"
  have "remaining s ip p K (tr @ Cmd (ClusterGetKeysInSlot a b d) # map (migrateEvent s ip p) ks)
      = filter (\<lambda>k. k \<notin> set ks) ?r"
    by (auto simp: remaining_def migrateEvent_def image_iff intro: filter_cong)
  also have "\<dots> = filter (\<lambda>k. k \<notin> set ks) (ks @ drop n ?r)" using assms(2) by simp
  also have "\<dots> = filter (\<lambda>k. k \<notin> set ks) (drop n ?r)" by simp
  also have "\<dots> = drop n ?r"
  proof (rule filter_True)
    have "distinct (ks @ drop n ?r)" using assms by (simp add: remaining_def)
    then show "\<forall>k \<in> set (drop n ?r). k \<notin> set ks" by auto
  qed
  finally show ?thesis .
qed

lemma migrateKeys_empties:
  assumes "drains c s ip p slot K" and "distinct K"
  shows "\<exists>es. migrateKeys c s ip p slot tr = Some (None, tr @ es) \<and>
    migratedKeys es = remaining s ip p K tr \<and> remaining s ip p K (tr @ es) = []"
proof (induction "length (remaining s ip p K tr)" arbitrary: tr rule: less_induct)
  case less
  let ?r = "remaining s ip p K tr" and ?get = "Cmd (ClusterGetKeysInSlot s slot migrateBatch)"
  define ks where "ks = take 100 ?r"
  have get: "rc_ClusterGetKeysInSlot c tr s slot migrateBatch = Inr ks"
    using assms(1) by (simp add: drains_def ks_def)
  have batch: "forErr (migrateKey c s ip p) ks (tr @ [?get])
      = (None, (tr @ [?get]) @ concat (map (\<lambda>k. [migrateEvent s ip p k]) ks))"
    using assms(1) by (intro forErr_total) (simp add: migrateKey_def migrateEvent_def trace_simps drains_def)
  let ?tr = "tr @ ?get # map (migrateEvent s ip p) ks"
  show ?case
  proof (cases "ks = []")
    case True
    then have "?r = []" by (simp add: ks_def)
    moreover have "remaining s ip p K (tr @ [?get]) = ?r"
      by (simp add: remaining_def migrateEvent_def)
    ultimately show ?thesis
      using get True by (subst migrateKeys.simps) (auto simp: trace_simps intro!: exI [of _ "[?get]"])
  next
    case False
    have next_: "remaining s ip p K ?tr = drop 100 ?r" by (rule remaining_batch [OF assms(2) ks_def])
    have "?r \<noteq> []" using False by (auto simp: ks_def)
    then have "length (remaining s ip p K ?tr) < length ?r" by (cases ?r) (simp_all add: next_)
    from less [OF this] obtain es where es: "migrateKeys c s ip p slot ?tr = Some (None, ?tr @ es)"
      "migratedKeys es = drop 100 ?r" "remaining s ip p K (?tr @ es) = []" by (auto simp: next_)
    have "migrateKeys c s ip p slot tr = migrateKeys c s ip p slot ?tr"
      using get False batch by (subst migrateKeys.simps) (simp add: trace_simps concat_map_singleton)
    moreover have "migratedKeys (?get # map (migrateEvent s ip p) ks @ es) = ?r"
      using es(2) by (simp add: ks_def)
    ultimately show ?thesis
      using es by (intro exI [of _ "?get # map (migrateEvent s ip p) ks @ es"]) simp
  qed
qed

text \<open>
  C5: The key loop ends. On a slot whose keys \<open>MIGRATE\<close> really moves, it returns without error, and
  it has moved every key that was left, each exactly once, however many batches that takes.
\<close>

theorem migrateKeys_drains:
  assumes "drains c s ip p slot K" and "distinct K"
  shows "\<exists>es. migrateKeys c s ip p slot tr = Some (None, tr @ es) \<and>
    migratedKeys es = remaining s ip p K tr \<and> remaining s ip p K (tr @ es) = []"
  using assms by (rule migrateKeys_empties)

definition drainingClient :: "string list \<Rightarrow> RedisClient" where
  "drainingClient K = quietClient\<lparr>rc_ClusterGetKeysInSlot :=
     \<lambda>tr a slot n. Inr (take 100 (remaining ''s:1'' ''d'' 1 K tr))\<rparr>"

theorem migrateKeys_drains_witness:
  "\<exists>es. migrateKeys (drainingClient [''k1'', ''k2'', ''k3'']) ''s:1'' ''d'' 1 7 [] = Some (None, [] @ es) \<and>
    migratedKeys es = remaining ''s:1'' ''d'' 1 [''k1'', ''k2'', ''k3''] [] \<and>
    remaining ''s:1'' ''d'' 1 [''k1'', ''k2'', ''k3''] ([] @ es) = []"
  by (rule migrateKeys_drains) (simp_all add: drains_def drainingClient_def quietClient_def)

theorem migrateKeys_success_means_empty_witness:
  "\<exists>t. [Cmd (ClusterGetKeysInSlot ''s:1'' 7 migrateBatch)] = t @ [Cmd (ClusterGetKeysInSlot ''s:1'' 7 migrateBatch)] \<and>
    rc_ClusterGetKeysInSlot quietClient t ''s:1'' 7 migrateBatch = Inr []"
  by (rule migrateKeys_success_means_empty [where ip = "''d''" and p = 1 and tr = "[]"])
    (subst migrateKeys.simps, simp add: quietClient_def trace_simps)

section \<open>The migration of one slot\<close>

definition importing :: "string \<Rightarrow> int \<Rightarrow> string \<Rightarrow> event" where
  "importing d slot src = Cmd (ClusterSetSlot d slot ''IMPORTING'' src)"
definition migrating :: "string \<Rightarrow> int \<Rightarrow> string \<Rightarrow> event" where
  "migrating s slot dst = Cmd (ClusterSetSlot s slot ''MIGRATING'' dst)"
definition stable :: "string \<Rightarrow> int \<Rightarrow> event" where
  "stable a slot = Cmd (ClusterSetSlot a slot ''STABLE'' [])"
definition owned :: "string \<Rightarrow> int \<Rightarrow> string \<Rightarrow> event" where
  "owned dst slot a = Cmd (ClusterSetSlot a slot ''NODE'' dst)"

lemmas setslot_defs = importing_def migrating_def stable_def owned_def

text \<open>
  The five ways a migration can go once the two nodes are known, by the commands it sends: the destination refuses to
  import; the source refuses to migrate and the destination is reset; a key cannot be moved and both ends are
  reset; the node table for the commit cannot be read; or the keys are moved and the nodes of a list of
  addresses are told the new owner.
\<close>

datatype migration = ImportRefused | MigrateRefused | KeysFailed | CommitLost | Moved "string list"

fun protocol :: "string \<Rightarrow> string \<Rightarrow> int \<Rightarrow> string \<Rightarrow> string \<Rightarrow> trace \<Rightarrow> migration \<Rightarrow> trace" where
  "protocol s d slot src dst keys ImportRefused = [importing d slot src]"
| "protocol s d slot src dst keys MigrateRefused =
     [importing d slot src, migrating s slot dst, stable d slot]"
| "protocol s d slot src dst keys KeysFailed =
     [importing d slot src, migrating s slot dst] @ keys @ [stable s slot, stable d slot]"
| "protocol s d slot src dst keys CommitLost =
     [importing d slot src, migrating s slot dst] @ keys @ [Cmd (ClusterNodes s)]"
| "protocol s d slot src dst keys (Moved addrs) =
     [importing d slot src, migrating s slot dst] @ keys @ Cmd (ClusterNodes s) # map (owned dst slot) addrs"

fun isMoved :: "migration \<Rightarrow> bool" where
  "isMoved (Moved _) = True"
| "isMoved _ = False"

text \<open>
  The answers that make it go that way. Key by key, the events \<open>keys\<close> are those of the loop, which fails
  exactly in the third case; and the addresses told are all those of the table the source answers.
\<close>

definition bothReady :: "RedisClient \<Rightarrow> string \<Rightarrow> string \<Rightarrow> int \<Rightarrow> string \<Rightarrow> string \<Rightarrow> trace \<Rightarrow> bool" where
  "bothReady c s d slot src dst tr \<longleftrightarrow> rc_ClusterSetSlot c tr d slot ''IMPORTING'' src = None \<and>
     rc_ClusterSetSlot c (tr @ [importing d slot src]) s slot ''MIGRATING'' dst = None"

fun answered ::
  "RedisClient \<Rightarrow> string \<Rightarrow> string \<Rightarrow> string \<Rightarrow> int \<Rightarrow> int \<Rightarrow> string \<Rightarrow> string \<Rightarrow> trace \<Rightarrow> trace \<Rightarrow> migration \<Rightarrow> bool" where
  "answered c s d ip p slot src dst keys tr ImportRefused \<longleftrightarrow> rc_ClusterSetSlot c tr d slot ''IMPORTING'' src \<noteq> None"
| "answered c s d ip p slot src dst keys tr MigrateRefused \<longleftrightarrow> rc_ClusterSetSlot c tr d slot ''IMPORTING'' src = None \<and>
     rc_ClusterSetSlot c (tr @ [importing d slot src]) s slot ''MIGRATING'' dst \<noteq> None"
| "answered c s d ip p slot src dst keys tr KeysFailed \<longleftrightarrow> bothReady c s d slot src dst tr \<and>
     (\<exists>e. migrateKeys c s ip p slot (tr @ [importing d slot src, migrating s slot dst]) =
        Some (Some e, tr @ [importing d slot src, migrating s slot dst] @ keys))"
| "answered c s d ip p slot src dst keys tr CommitLost \<longleftrightarrow> bothReady c s d slot src dst tr \<and>
     migrateKeys c s ip p slot (tr @ [importing d slot src, migrating s slot dst]) =
       Some (None, tr @ [importing d slot src, migrating s slot dst] @ keys) \<and>
     (\<exists>e. rc_ClusterNodes c (tr @ [importing d slot src, migrating s slot dst] @ keys) s = Inl e)"
| "answered c s d ip p slot src dst keys tr (Moved addrs) \<longleftrightarrow> bothReady c s d slot src dst tr \<and>
     migrateKeys c s ip p slot (tr @ [importing d slot src, migrating s slot dst]) =
       Some (None, tr @ [importing d slot src, migrating s slot dst] @ keys) \<and>
     (\<exists>nodes. rc_ClusterNodes c (tr @ [importing d slot src, migrating s slot dst] @ keys) s = Inr nodes \<and>
        addrs = map cn_Addr nodes)"

lemma commitSlot_cases:
  assumes "commitSlot c s slot dst tr = (r, tr')"
  obtains (lost) e where "rc_ClusterNodes c tr s = Inl e" and "r \<noteq> None" and "tr' = tr @ [Cmd (ClusterNodes s)]"
  | (told) nodes where "rc_ClusterNodes c tr s = Inr nodes" and "r = None"
      and "tr' = tr @ Cmd (ClusterNodes s) # map (owned dst slot) (map cn_Addr nodes)"
proof -
  have tell: "forIgnore (\<lambda>node. call_ClusterSetSlot c (cn_Addr node) slot ''NODE'' dst) nodes t
      = t @ map (owned dst slot) (map cn_Addr nodes)" for nodes t
    by (subst forIgnore_events [where ev = "\<lambda>n. [owned dst slot (cn_Addr n)]"])
      (simp_all add: trace_simps owned_def concat_map_singleton comp_def)
  show thesis
  proof (cases "rc_ClusterNodes c tr s")
    case (Inl e)
    then show ?thesis using assms by (intro lost) (auto simp: commitSlot_def trace_simps)
  next
    case (Inr nodes)
    then show ?thesis using assms by (intro told) (auto simp: commitSlot_def tell call_ClusterNodes_def call_def)
  qed
qed

lemma moveSlot_protocol:
  assumes "moveSlot c s d ip p src dst slot tr = Some (r, tr')"
  shows "\<exists>keys m. tr' = tr @ protocol s d slot src dst keys m \<and> set keys \<subseteq> keyEvents s ip p slot \<and>
    answered c s d ip p slot src dst keys tr m \<and> (r = None \<longleftrightarrow> isMoved m)"
proof -
  let ?t1 = "tr @ [importing d slot src]" and ?t2 = "tr @ [importing d slot src, migrating s slot dst]"
  consider (imp) "rc_ClusterSetSlot c tr d slot ''IMPORTING'' src \<noteq> None"
    | (mig) "rc_ClusterSetSlot c tr d slot ''IMPORTING'' src = None" "rc_ClusterSetSlot c ?t1 s slot ''MIGRATING'' dst \<noteq> None"
    | (keys) "rc_ClusterSetSlot c tr d slot ''IMPORTING'' src = None" "rc_ClusterSetSlot c ?t1 s slot ''MIGRATING'' dst = None"
    by blast
  then show ?thesis
  proof cases
    case imp
    then have "r \<noteq> None \<and> tr' = tr @ protocol s d slot src dst [] ImportRefused"
      using assms by (auto simp: moveSlot_def trace_simps setslot_defs)
    then show ?thesis using imp by (intro exI [of _ "[]"] exI [of _ ImportRefused]) simp
  next
    case mig
    then have "r \<noteq> None \<and> tr' = tr @ protocol s d slot src dst [] MigrateRefused"
      using assms by (auto simp: moveSlot_def trace_simps setslot_defs)
    then show ?thesis using mig by (intro exI [of _ "[]"] exI [of _ MigrateRefused]) simp
  next
    case keys
    then obtain k t3 where mk: "migrateKeys c s ip p slot ?t2 = Some (k, t3)"
      using assms by (auto simp: moveSlot_def trace_simps setslot_defs Option.bind_eq_Some_conv)
    obtain ks where t3: "t3 = ?t2 @ ks" and ks: "set ks \<subseteq> keyEvents s ip p slot"
      using migrateKeys_adds [OF mk] by (auto simp: adds_def)
    have ready: "bothReady c s d slot src dst tr" using keys by (simp add: bothReady_def)
    show ?thesis
    proof (cases k)
      case (Some e)
      then have "r \<noteq> None \<and> tr' = tr @ protocol s d slot src dst ks KeysFailed"
        using assms keys mk t3 by (auto simp: moveSlot_def trace_simps setslot_defs)
      then show ?thesis using ks ready mk t3 Some by (intro exI [of _ ks] exI [of _ KeysFailed]) simp
    next
      case None
      then have "commitSlot c s slot dst t3 = (r, tr')"
        using assms keys mk by (auto simp: moveSlot_def trace_simps setslot_defs)
      then show ?thesis
      proof (cases rule: commitSlot_cases)
        case (lost e)
        then show ?thesis using ks ready mk t3 None by (intro exI [of _ ks] exI [of _ CommitLost]) simp
      next
        case (told nodes)
        then show ?thesis using ks ready mk t3 None
          by (intro exI [of _ ks] exI [of _ "Moved (map cn_Addr nodes)"]) simp
      qed
    qed
  qed
qed

text \<open>The two nodes are found: each has an entry for itself in the table it answers.\<close>

definition lookedUp :: "RedisClient \<Rightarrow> string \<Rightarrow> string \<Rightarrow> trace \<Rightarrow> string \<Rightarrow> string \<Rightarrow> bool" where
  "lookedUp c s d tr src dst \<longleftrightarrow> src \<noteq> [] \<and> dst \<noteq> [] \<and>
     (\<exists>nodes. rc_ClusterNodes c tr d = Inr nodes \<and> dst = selfNodeID nodes) \<and>
     (\<exists>nodes. rc_ClusterNodes c (tr @ [Cmd (ClusterNodes d)]) s = Inr nodes \<and> src = selfNodeID nodes)"

lemma MigrateSlot_exactly:
  assumes "MigrateSlot c s d slot tr = Some (r, tr')"
  shows "if \<exists>ip p src dst. splitAddr d = Inr (ip, p) \<and> lookedUp c s d tr src dst
    then \<exists>ip p src dst keys m. splitAddr d = Inr (ip, p) \<and> lookedUp c s d tr src dst \<and>
      tr' = tr @ [Cmd (ClusterNodes d), Cmd (ClusterNodes s)] @ protocol s d slot src dst keys m \<and>
      set keys \<subseteq> keyEvents s ip p slot \<and>
      answered c s d ip p slot src dst keys (tr @ [Cmd (ClusterNodes d), Cmd (ClusterNodes s)]) m \<and>
      (r = None \<longleftrightarrow> isMoved m)
    else r \<noteq> None \<and> tr' \<in> {tr, tr @ [Cmd (ClusterNodes d)], tr @ [Cmd (ClusterNodes d), Cmd (ClusterNodes s)]}"
proof (cases "\<exists>ip p src dst. splitAddr d = Inr (ip, p) \<and> lookedUp c s d tr src dst")
  case True
  then obtain ip p src dst where ok: "splitAddr d = Inr (ip, p)" "lookedUp c s d tr src dst" by blast
  let ?t = "tr @ [Cmd (ClusterNodes d), Cmd (ClusterNodes s)]"
  have "moveSlot c s d ip p src dst slot ?t = Some (r, tr')"
    using assms ok by (auto simp: MigrateSlot_def lookedUp_def trace_simps)
  from moveSlot_protocol [OF this] obtain keys m where "tr' = ?t @ protocol s d slot src dst keys m"
    "set keys \<subseteq> keyEvents s ip p slot" "answered c s d ip p slot src dst keys ?t m" "r = None \<longleftrightarrow> isMoved m" by blast
  then have "tr' = tr @ [Cmd (ClusterNodes d), Cmd (ClusterNodes s)] @ protocol s d slot src dst keys m \<and>
      set keys \<subseteq> keyEvents s ip p slot \<and> answered c s d ip p slot src dst keys ?t m \<and> (r = None \<longleftrightarrow> isMoved m)" by simp
  with True ok show ?thesis unfolding if_P [OF True] by blast
next
  case False
  then have "r \<noteq> None \<and> tr' \<in> {tr, tr @ [Cmd (ClusterNodes d)], tr @ [Cmd (ClusterNodes d), Cmd (ClusterNodes s)]}"
    using assms by (auto simp: MigrateSlot_def lookedUp_def trace_simps split: sum.splits if_splits)
  then show ?thesis unfolding if_not_P [OF False] .
qed

text \<open>The shape of the history alone.\<close>

lemma MigrateSlot_steps:
  assumes "MigrateSlot c s d slot tr = Some (r, tr')"
  obtains look where "set look \<subseteq> {Cmd (ClusterNodes d), Cmd (ClusterNodes s)}" and "tr' = tr @ look"
  | look src dst ip p keys m where "set look \<subseteq> {Cmd (ClusterNodes d), Cmd (ClusterNodes s)}"
      and "tr' = tr @ look @ protocol s d slot src dst keys m" and "set keys \<subseteq> keyEvents s ip p slot"
      and "splitAddr d = Inr (ip, p)"
proof (cases "\<exists>ip p src dst. splitAddr d = Inr (ip, p) \<and> lookedUp c s d tr src dst")
  case True
  then show thesis using MigrateSlot_exactly [OF assms] that(2) [of "[Cmd (ClusterNodes d), Cmd (ClusterNodes s)]"]
    unfolding if_P [OF True] by (metis append_Cons append_Nil list.set(1,2) subset_refl)
next
  case False
  then show thesis using MigrateSlot_exactly [OF assms] that(1) [of "[]"] that(1) [of "[Cmd (ClusterNodes d)]"]
      that(1) [of "[Cmd (ClusterNodes d), Cmd (ClusterNodes s)]"]
    unfolding if_not_P [OF False] by auto
qed

text \<open>
  C1: What a migration of one slot does, on every path. If the destination has no port or one of the two nodes
  cannot be found in its own table, it fails and has only read tables. Otherwise the answers decide which commands it
  sends: \<open>IMPORTING\<close> on the destination before \<open>MIGRATING\<close> on the source, keys only after both have agreed, the
  commit only after the last key. If the source refuses, the destination is reset; if a key cannot be
  moved, both ends are reset. Success is reported exactly when the new owner has been announced to every node of
  the table the source answers after the last key, whatever these nodes say.
\<close>

theorem MigrateSlot_protocol:
  assumes "MigrateSlot c s d slot tr = Some (r, tr')"
  shows "if \<exists>ip p src dst. splitAddr d = Inr (ip, p) \<and> lookedUp c s d tr src dst
    then \<exists>ip p src dst keys m. splitAddr d = Inr (ip, p) \<and> lookedUp c s d tr src dst \<and>
      tr' = tr @ [Cmd (ClusterNodes d), Cmd (ClusterNodes s)] @ protocol s d slot src dst keys m \<and>
      set keys \<subseteq> keyEvents s ip p slot \<and>
      answered c s d ip p slot src dst keys (tr @ [Cmd (ClusterNodes d), Cmd (ClusterNodes s)]) m \<and>
      (r = None \<longleftrightarrow> isMoved m)
    else r \<noteq> None \<and> tr' \<in> {tr, tr @ [Cmd (ClusterNodes d)], tr @ [Cmd (ClusterNodes d), Cmd (ClusterNodes s)]}"
  using assms by (rule MigrateSlot_exactly)

definition node :: "string \<Rightarrow> string \<Rightarrow> string list \<Rightarrow> SlotRange list \<Rightarrow> ClusterNode" where
  "node nid addr flags srs =
     \<lparr>cn_NodeID = nid, cn_Addr = addr, cn_Flags = flags, cn_MasterID = ''-'', cn_PingSent = 0,
      cn_PongRecv = 0, cn_ConfigEpoch = 1, cn_LinkState = ''connected'', cn_Slots = srs\<rparr>"

text \<open>Two nodes with one slot to move, and the same two once the source stops answering.\<close>

definition twoNodes :: RedisClient where
  "twoNodes = quietClient\<lparr>rc_ClusterNodes := \<lambda>tr a.
     Inr [node ''src'' ''s:1'' (if a = ''s:1'' then [''myself'', ''master''] else [''master'']) [],
          node ''dst'' ''d:1'' (if a = ''d:1'' then [''myself'', ''master''] else [''master'']) []]\<rparr>"

definition lostSource :: RedisClient where
  "lostSource = twoNodes\<lparr>rc_ClusterNodes := \<lambda>tr a.
     if length tr \<ge> 4 then Inl (Errorf ''i/o timeout'') else rc_ClusterNodes twoNodes tr a\<rparr>"

lemmas sample_client_defs = lostSource_def twoNodes_def node_def quietClient_def

lemma splitAddr_sample: "splitAddr ''d:1'' = Inr (''d'', 1)"
  by code_simp

lemma migrateKeys_empty:
  "rc_ClusterGetKeysInSlot c tr s slot migrateBatch = Inr [] \<Longrightarrow>
     migrateKeys c s ip p slot tr = Some (None, tr @ [Cmd (ClusterGetKeysInSlot s slot migrateBatch)])"
  by (subst migrateKeys.simps) (simp add: trace_simps)

text \<open>Two nodes between which a slot is moved: the commit reaches both.\<close>

lemma twoNodes_run:
  "MigrateSlot twoNodes ''s:1'' ''d:1'' 42 [] = Some (None, [Cmd (ClusterNodes ''d:1''), Cmd (ClusterNodes ''s:1'')] @
     [importing ''d:1'' 42 ''src'', migrating ''s:1'' 42 ''dst'', Cmd (ClusterGetKeysInSlot ''s:1'' 42 migrateBatch),
      Cmd (ClusterNodes ''s:1''), owned ''dst'' 42 ''s:1'', owned ''dst'' 42 ''d:1''])"
  by (simp add: MigrateSlot_def moveSlot_def commitSlot_def splitAddr_sample migrateKeys_empty selfNodeID_def
      sample_client_defs setslot_defs trace_simps forIgnore_def call_def)

theorem MigrateSlot_protocol_witness:
  "\<exists>tr'. MigrateSlot twoNodes ''s:1'' ''d:1'' 42 [] = Some (None, tr') \<and>
    {owned ''dst'' 42 ''s:1'', owned ''dst'' 42 ''d:1''} \<subseteq> set tr' \<and>
    (if \<exists>ip p src dst. splitAddr ''d:1'' = Inr (ip, p) \<and> lookedUp twoNodes ''s:1'' ''d:1'' [] src dst
    then \<exists>ip p src dst keys m. splitAddr ''d:1'' = Inr (ip, p) \<and> lookedUp twoNodes ''s:1'' ''d:1'' [] src dst \<and>
      tr' = [] @ [Cmd (ClusterNodes ''d:1''), Cmd (ClusterNodes ''s:1'')] @ protocol ''s:1'' ''d:1'' 42 src dst keys m \<and>
      set keys \<subseteq> keyEvents ''s:1'' ip p 42 \<and>
      answered twoNodes ''s:1'' ''d:1'' ip p 42 src dst keys ([] @ [Cmd (ClusterNodes ''d:1''), Cmd (ClusterNodes ''s:1'')]) m \<and>
      ((None :: error option) = None \<longleftrightarrow> isMoved m)
    else (None :: error option) \<noteq> None \<and>
      tr' \<in> {[], [] @ [Cmd (ClusterNodes ''d:1'')], [] @ [Cmd (ClusterNodes ''d:1''), Cmd (ClusterNodes ''s:1'')]})"
  by (rule exI, rule conjI, rule twoNodes_run, rule conjI, simp, rule MigrateSlot_protocol [OF twoNodes_run])

text \<open>
  The one gap of the protocol. If the source stops answering between the last key and the
  commit, the migration fails with the slot \<open>MIGRATING\<close> on the source and \<open>IMPORTING\<close> on the destination,
  and no \<open>SETSLOT STABLE\<close> is sent to either.
\<close>

theorem MigrateSlot_commit_failure_leaves_slot_open:
  "\<exists>e tr'. MigrateSlot lostSource ''s:1'' ''d:1'' 42 [] = Some (Some e, tr') \<and>
    importing ''d:1'' 42 ''src'' \<in> set tr' \<and> migrating ''s:1'' 42 ''dst'' \<in> set tr' \<and> (\<forall>a. stable a 42 \<notin> set tr')"
  by (simp add: MigrateSlot_def moveSlot_def commitSlot_def splitAddr_sample migrateKeys_empty selfNodeID_def
      sample_client_defs setslot_defs trace_simps)

section \<open>Rebalancing\<close>

text \<open>The slots a stretch of history puts into the state \<open>MIGRATING\<close>, counted with repetitions.\<close>

definition moves :: "trace \<Rightarrow> nat" where
  "moves es = length (filter (\<lambda>e. \<exists>a n i. e = Cmd (ClusterSetSlot a n ''MIGRATING'' i)) es)"

lemma moves_simps [simp]:
  "moves [] = 0" "moves (xs @ ys) = moves xs + moves ys"
  by (simp_all add: moves_def)

lemma moves_zero: "\<forall>e \<in> set es. \<forall>a n i. e \<noteq> Cmd (ClusterSetSlot a n ''MIGRATING'' i) \<Longrightarrow> moves es = 0"
  by (auto simp: moves_def filter_empty_conv)

lemma moves_protocol: "set keys \<subseteq> keyEvents s ip p slot \<Longrightarrow> moves (protocol s d slot src dst keys m) \<le> 1"
proof -
  assume k: "set keys \<subseteq> keyEvents s ip p slot"
  then have "moves keys = 0" by (intro moves_zero) (auto simp: keyEvents_def)
  moreover have "moves (map (owned dst slot) addrs) = 0" for addrs
    by (intro moves_zero) (auto simp: owned_def)
  ultimately show ?thesis
    by (cases m) (auto simp: moves_def setslot_defs)
qed

definition addsMoves :: "nat \<Rightarrow> trace \<Rightarrow> trace \<Rightarrow> bool" where
  "addsMoves n tr tr' \<longleftrightarrow> (\<exists>es. tr' = tr @ es \<and> moves es \<le> n)"

lemma addsMoves_trans: "addsMoves m a b \<Longrightarrow> addsMoves n b c \<Longrightarrow> addsMoves (m + n) a c"
  unfolding addsMoves_def by (metis add_mono append.assoc moves_simps(2))

lemma addsMoves_mono: "addsMoves m a b \<Longrightarrow> m \<le> n \<Longrightarrow> addsMoves n a b"
  by (auto simp: addsMoves_def)

lemma addsMoves_refl [simp]: "addsMoves n a a"
  by (simp add: addsMoves_def)

lemma MigrateSlot_moves:
  assumes "MigrateSlot c s d slot tr = Some (r, tr')"
  shows "addsMoves 1 tr tr'"
proof -
  from assms show ?thesis
  proof (cases rule: MigrateSlot_steps)
    case (1 look)
    have "moves look = 0" using 1(1) by (intro moves_zero) auto
    then show ?thesis using 1(2) by (simp add: addsMoves_def)
  next
    case (2 look src dst ip p keys m)
    have "moves look = 0" using 2(1) by (intro moves_zero) auto
    then show ?thesis using 2(2) moves_protocol [OF 2(3)] by (simp add: addsMoves_def)
  qed
qed

lemma forErrO_moves:
  assumes "forErrO f xs tr = Some (r, tr')"
    and "\<And>x tr r tr'. f x tr = Some (r, tr') \<Longrightarrow> addsMoves 1 tr tr'"
  shows "addsMoves (length xs) tr tr'"
  using assms(1)
proof (induction xs arbitrary: tr)
  case (Cons x xs)
  then obtain r1 tr1 where f: "f x tr = Some (r1, tr1)" by (auto split: option.splits)
  note one = assms(2) [OF f]
  show ?case
  proof (cases r1)
    case None
    then have "addsMoves (length xs) tr1 tr'" using Cons f by simp
    from addsMoves_trans [OF one this] show ?thesis by simp
  next
    case (Some e)
    then show ?thesis using Cons.prems f one by (auto intro: addsMoves_mono)
  qed
qed simp

lemma donate_skip:
  "a = da \<or> excess \<le> 0 \<or> nodeIDForAddr dn a = [] \<or> countOf counts (nodeIDForAddr dn a) \<ge> target \<Longrightarrow>
     donate c target counts dn did da excess (a # rs) tr = donate c target counts dn did da excess rs tr"
  by (elim disjE) (simp_all add: Let_def)

lemma donate_take:
  assumes "\<not> (a = da \<or> excess \<le> 0 \<or> nodeIDForAddr dn a = [] \<or> countOf counts (nodeIDForAddr dn a) \<ge> target)"
    and "needed = min excess (target - countOf counts (nodeIDForAddr dn a))"
  shows "donate c target counts dn did da excess (a # rs) tr =
    (case forErrO (MigrateSlot c da a) (collectSlots dn did needed) tr of
       None \<Rightarrow> None
     | Some (Some e, tr) \<Rightarrow> Some (Some e, tr)
     | Some (None, tr) \<Rightarrow> donate c target counts dn did da (excess - needed) rs tr)"
proof -
  have "needed = (if target - countOf counts (nodeIDForAddr dn a) > excess then excess
      else target - countOf counts (nodeIDForAddr dn a))"
    using assms(2) by (simp add: min_def)
  then show ?thesis using assms(1) by (simp only: donate.simps Let_def de_Morgan_disj if_False simp_thms)
qed

lemma donate_moves:
  assumes "donate c target counts dn did da excess rs tr = Some (r, tr')"
  shows "addsMoves (nat excess) tr tr'"
  using assms
proof (induction rs arbitrary: excess tr)
  case (Cons a rs)
  define rid where "rid = nodeIDForAddr dn a"
  define needed where "needed = min excess (target - countOf counts rid)"
  show ?case
  proof (cases "a = da \<or> excess \<le> 0 \<or> rid = [] \<or> countOf counts rid \<ge> target")
    case True
    then have "donate c target counts dn did da excess rs tr = Some (r, tr')"
      using Cons.prems donate_skip by (simp only: rid_def)
    then show ?thesis by (rule Cons.IH)
  next
    case False
    then have needed: "0 \<le> needed" "needed \<le> excess" by (auto simp: needed_def)
    have "donate c target counts dn did da excess (a # rs) tr =
      (case forErrO (MigrateSlot c da a) (collectSlots dn did needed) tr of
         None \<Rightarrow> None
       | Some (Some e, tr) \<Rightarrow> Some (Some e, tr)
       | Some (None, tr) \<Rightarrow> donate c target counts dn did da (excess - needed) rs tr)"
      using False needed_def unfolding rid_def by (rule donate_take)
    with Cons.prems obtain r1 tr1 where
      run: "forErrO (MigrateSlot c da a) (collectSlots dn did needed) tr = Some (r1, tr1)"
      and rest: "r1 = None \<Longrightarrow> donate c target counts dn did da (excess - needed) rs tr1 = Some (r, tr')"
        "r1 \<noteq> None \<Longrightarrow> tr' = tr1"
      by (auto split: option.splits prod.splits)
    have "addsMoves (length (collectSlots dn did needed)) tr tr1"
      using run by (rule forErrO_moves) (rule MigrateSlot_moves)
    then have one: "addsMoves (nat needed) tr tr1" by (rule addsMoves_mono) (simp add: collectSlots_eq)
    show ?thesis
    proof (cases r1)
      case None
      from addsMoves_trans [OF one Cons.IH [OF rest(1) [OF None]]] needed show ?thesis
        by (simp add: nat_add_distrib [symmetric])
    next
      case (Some e)
      then show ?thesis using one rest(2) needed by (auto intro: addsMoves_mono)
    qed
  qed
qed simp

text \<open>
  C31: Rebalancing never takes a master below its fair share: while one donor is served, the number
  of slots it is told to migrate is at most what it holds beyond the target.
\<close>

theorem donor_keeps_its_share:
  assumes "drainDonor c masterAddrs target nodes donorID tr = Some (r, tr')"
  shows "\<exists>es. tr' = tr @ es \<and> int (moves es) \<le> max 0 (countOf (slotCounts nodes) donorID - target)"
proof (cases "countOf (slotCounts nodes) donorID - target \<le> 0")
  case True
  then show ?thesis using assms by (simp add: drainDonor_def Let_def)
next
  case False
  let ?excess = "countOf (slotCounts nodes) donorID - target" and ?a = "mget (nodeAddrByID nodes) donorID"
  have look: "addsMoves 0 tr (tr @ [Cmd (ClusterNodes ?a)])"
    by (simp add: addsMoves_def moves_def)
  have "addsMoves (nat ?excess) tr tr'"
  proof (cases "rc_ClusterNodes c tr ?a")
    case (Inl e)
    then show ?thesis using assms False look by (auto simp: drainDonor_def trace_simps Let_def intro: addsMoves_mono)
  next
    case (Inr dn)
    then have "donate c target (slotCounts nodes) dn donorID ?a ?excess masterAddrs (tr @ [Cmd (ClusterNodes ?a)])
        = Some (r, tr')"
      using assms False by (simp add: drainDonor_def trace_simps Let_def)
    from addsMoves_trans [OF look donate_moves [OF this]] show ?thesis by simp
  qed
  then show ?thesis unfolding addsMoves_def by (smt (verit) False int_nat_eq of_nat_mono)
qed

lemma drainDonor_idle:
  "countOf (slotCounts nodes) donorID \<le> target \<Longrightarrow> drainDonor c masterAddrs target nodes donorID tr = Some (None, tr)"
  by (simp add: drainDonor_def)

lemma forErrO_idle: "(\<And>x tr. x \<in> set xs \<Longrightarrow> f x tr = Some (None, tr)) \<Longrightarrow> forErrO f xs tr = Some (None, tr)"
  by (induction xs) auto

lemma RebalanceSlots_balanced:
  assumes "masterAddrs \<noteq> []" and "rc_ClusterNodes c tr (hd masterAddrs) = Inr nodes"
    and "list_all (\<lambda>(_, n). n \<le> 16384 div int (length masterAddrs)) (slotCounts nodes)"
  shows "RebalanceSlots cx c masterAddrs tr = Some (None, tr @ [Cmd (ClusterNodes (hd masterAddrs))])"
proof -
  let ?target = "totalHashSlots div int (length masterAddrs)"
  have "0 \<le> ?target" by (rule div_int_pos_iff [THEN iffD2]) (simp add: totalHashSlots_def)
  then have "countOf (slotCounts nodes) k \<le> ?target" for k
    using assms(3) by (auto simp: countOf_def list_all_iff totalHashSlots_def dest!: map_of_SomeD split: option.split)
  then show ?thesis
    using assms(1,2) by (auto simp: RebalanceSlots_def trace_simps Let_def intro!: forErrO_idle drainDonor_idle)
qed

text \<open>
  Rebalancing is a no-op when no master holds more than the target. The target is computed from
  the masters that are to stay, so this is what happens when a balanced cluster is scaled in: the
  call succeeds, nothing is migrated, and the masters to be removed keep all their slots.
\<close>

theorem RebalanceSlots_idle:
  assumes "masterAddrs \<noteq> []" and "rc_ClusterNodes c tr (hd masterAddrs) = Inr nodes"
    and "list_all (\<lambda>(_, n). n \<le> 16384 div int (length masterAddrs)) (slotCounts nodes)"
  shows "RebalanceSlots cx c masterAddrs tr = Some (None, tr @ [Cmd (ClusterNodes (hd masterAddrs))])"
  using assms by (rule RebalanceSlots_balanced)

definition slotRange :: "int \<Rightarrow> int \<Rightarrow> SlotRange" where
  "slotRange a b = \<lparr>sr_Start = a, sr_End = b\<rparr>"

definition fourMasters :: "ClusterNode list" where
  "fourMasters =
     [node ''A'' ''a:1'' [''myself'', ''master''] [slotRange 0 4095], node ''B'' ''b:1'' [''master''] [slotRange 4096 8191],
      node ''C'' ''c:1'' [''master''] [slotRange 8192 12287], node ''D'' ''d:1'' [''master''] [slotRange 12288 16383]]"

definition fourClient :: RedisClient where
  "fourClient = quietClient\<lparr>rc_ClusterNodes := \<lambda>tr a. Inr fourMasters\<rparr>"

theorem RebalanceSlots_idle_witness:
  "RebalanceSlots sampleCtx fourClient [''a:1'', ''b:1'', ''c:1''] []
     = Some (None, [] @ [Cmd (ClusterNodes (hd [''a:1'', ''b:1'', ''c:1'']))])"
  by (rule RebalanceSlots_idle [where nodes = fourMasters])
    (simp_all add: fourClient_def fourMasters_def node_def slotRange_def slotCounts_def slotTotal_def isMaster_def)

definition lopsided :: "string \<Rightarrow> ClusterNode list" where
  "lopsided a =
     [node ''src'' ''s:1'' (if a = ''s:1'' then [''myself'', ''master''] else [''master'']) [slotRange 0 2],
      node ''dst'' ''d:1'' (if a = ''d:1'' then [''myself'', ''master''] else [''master'']) []]"

definition lopsidedClient :: RedisClient where
  "lopsidedClient = quietClient\<lparr>rc_ClusterNodes := \<lambda>tr a. Inr (lopsided a)\<rparr>"

lemma lopsided_counts:
  "slotCounts (lopsided a) = [(''src'', 3), (''dst'', 0)]"
  "nodeAddrByID (lopsided a) = [(''src'', ''s:1''), (''dst'', ''d:1'')]"
  "nodeIDForAddr (lopsided a) ''d:1'' = ''dst''"
  "collectSlots (lopsided a) ''src'' 1 = [0]"
  by (simp_all add: lopsided_def slotCounts_def nodeAddrByID_def slotTotal_def isMaster_def node_def
      slotRange_def nodeIDForAddr_def collectSlots_eq slotsOf_def rangeSlots_def upto_rec1)

lemma lopsided_MigrateSlot:
  "\<exists>tr'. MigrateSlot lopsidedClient ''s:1'' ''d:1'' slot tr = Some (None, tr')"
  by (simp add: MigrateSlot_def moveSlot_def commitSlot_def splitAddr_sample migrateKeys_empty selfNodeID_def
      lopsidedClient_def lopsided_def node_def quietClient_def trace_simps)

theorem donor_keeps_its_share_witness:
  "\<exists>r tr'. drainDonor lopsidedClient [''s:1'', ''d:1''] 2 (lopsided ''s:1'') ''src'' [] = Some (r, tr') \<and>
    (\<exists>es. tr' = [] @ es \<and> int (moves es) \<le> max 0 (countOf (slotCounts (lopsided ''s:1'')) ''src'' - 2))"
proof -
  obtain tr' where "MigrateSlot lopsidedClient ''s:1'' ''d:1'' 0 [Cmd (ClusterNodes ''s:1'')] = Some (None, tr')"
    using lopsided_MigrateSlot by blast
  then have run: "drainDonor lopsidedClient [''s:1'', ''d:1''] 2 (lopsided ''s:1'') ''src'' [] = Some (None, tr')"
    by (simp add: drainDonor_def lopsided_counts countOf_def mget_def lopsidedClient_def trace_simps)
  from donor_keeps_its_share [OF run] run show ?thesis by blast
qed

text \<open>
  The events a migration into the node \<open>a\<close> may consist of, and the addresses that occur, letter for letter, in
  a node table some node answers at some time.
\<close>

definition migrationInto :: "string \<Rightarrow> event set" where
  "migrationInto a = {e. \<exists>s slot src dst ip p keys m. s \<noteq> a \<and> splitAddr a = Inr (ip, p) \<and> set keys \<subseteq> keyEvents s ip p slot \<and>
     e \<in> set (protocol s a slot src dst keys m)}"

definition reported :: "RedisClient \<Rightarrow> string set" where
  "reported c = {a. \<exists>tr b nodes. rc_ClusterNodes c tr b = Inr nodes \<and> a \<in> cn_Addr ` set nodes}"

definition tableReads :: "event set" where
  "tableReads = range (\<lambda>a. Cmd (ClusterNodes a))"

abbreviation rebalancing :: "RedisClient \<Rightarrow> string list \<Rightarrow> event set" where
  "rebalancing c masterAddrs \<equiv> tableReads \<union> (\<Union>a \<in> set masterAddrs \<inter> reported c. migrationInto a)"

lemma MigrateSlot_into:
  assumes "MigrateSlot c s a slot tr = Some (r, tr')" and "s \<noteq> a"
  shows "adds (tableReads \<union> migrationInto a) tr tr'"
  using assms(1)
proof (cases rule: MigrateSlot_steps)
  case (1 look)
  then show ?thesis by (auto simp: tableReads_def)
next
  case (2 look src dst ip p keys m)
  have "set (protocol s a slot src dst keys m) \<subseteq> migrationInto a"
    unfolding migrationInto_def using 2(3,4) assms(2) by blast
  then show ?thesis using 2(1,2) by (auto simp: tableReads_def)
qed

lemma nodeIDForAddr_reported:
  assumes "rc_ClusterNodes c tr b = Inr nodes" and "nodeIDForAddr nodes a \<noteq> []"
  shows "a \<in> reported c"
proof -
  have "find (\<lambda>n. cn_Addr n = a) nodes \<noteq> None" using assms(2) by (cases "find (\<lambda>n. cn_Addr n = a) nodes") (simp_all add: nodeIDForAddr_def)
  then show ?thesis using assms(1) by (auto simp: find_None_iff reported_def)
qed

lemma donate_into:
  assumes "rc_ClusterNodes c tr0 b = Inr dn" and "donate c target counts dn did da excess rs tr = Some (r, tr')"
    and "set rs \<subseteq> set masterAddrs"
  shows "adds (rebalancing c masterAddrs) tr tr'"
  using assms(2,3)
proof (induction rs arbitrary: excess tr)
  case (Cons a rs)
  show ?case
  proof (cases "a = da \<or> excess \<le> 0 \<or> nodeIDForAddr dn a = [] \<or> countOf counts (nodeIDForAddr dn a) \<ge> target")
    case True
    then have "donate c target counts dn did da excess rs tr = Some (r, tr')"
      using Cons.prems donate_skip by (simp only:)
    then show ?thesis using Cons by simp
  next
    case False
    let ?n = "min excess (target - countOf counts (nodeIDForAddr dn a))"
    from Cons.prems obtain r1 tr1 where
      run: "forErrO (MigrateSlot c da a) (collectSlots dn did ?n) tr = Some (r1, tr1)"
      and rest: "r1 = None \<Longrightarrow> donate c target counts dn did da (excess - ?n) rs tr1 = Some (r, tr')"
        "r1 \<noteq> None \<Longrightarrow> tr' = tr1"
      unfolding donate_take [OF False refl] by (auto split: option.splits prod.splits)
    have "a \<in> set masterAddrs \<inter> reported c" using Cons.prems(2) nodeIDForAddr_reported [OF assms(1)] False by simp
    then have "tableReads \<union> migrationInto a \<subseteq> rebalancing c masterAddrs" by blast
    moreover have "adds (tableReads \<union> migrationInto a) tr tr1"
      by (rule forErrO_adds [OF run]) (rule MigrateSlot_into, assumption, use False in blast)
    ultimately have one: "adds (rebalancing c masterAddrs) tr tr1" by (rule adds_mono [rotated])
    have "adds (rebalancing c masterAddrs) tr1 tr'"
    proof (cases r1)
      case None
      show ?thesis using Cons.IH [OF rest(1) [OF None]] Cons.prems(2) by simp
    qed (use rest(2) in simp)
    with one show ?thesis by (rule adds_trans)
  qed
qed simp

lemma RebalanceSlots_into:
  assumes "RebalanceSlots cx c masterAddrs tr = Some (r, tr')"
  shows "adds (rebalancing c masterAddrs) tr tr'"
proof -
  let ?E = "rebalancing c masterAddrs"
  have reads: "adds ?E t (t @ [Cmd (ClusterNodes a)])" for t a by (simp add: tableReads_def)
  have donor: "adds ?E t t'" if run: "drainDonor c masterAddrs target nodes did t = Some (r, t')"
    for target nodes did t r t'
  proof -
    let ?t1 = "t @ [Cmd (ClusterNodes (mget (nodeAddrByID nodes) did))]"
    have "t' = t \<or> t' = ?t1 \<or> adds ?E ?t1 t'"
      using run donate_into [OF _ _ subset_refl] by (auto simp: drainDonor_def trace_simps Let_def split: if_splits sum.splits)
    then show ?thesis using reads adds_trans [OF reads] by auto
  qed
  let ?t1 = "tr @ [Cmd (ClusterNodes (hd masterAddrs))]"
  show ?thesis
  proof (cases "rc_ClusterNodes c tr (hd masterAddrs)")
    case (Inl e)
    then show ?thesis using assms reads by (auto simp: RebalanceSlots_def trace_simps Let_def split: if_splits)
  next
    case (Inr nodes)
    then have "forErrO (drainDonor c masterAddrs (totalHashSlots div int (length masterAddrs)) nodes)
        (map_order cx ?t1 (map fst (slotCounts nodes))) ?t1 = Some (r, tr')"
      using assms by (auto simp: RebalanceSlots_def trace_simps Let_def split: if_splits)
    then have "adds ?E ?t1 tr'" by (rule forErrO_adds) (rule donor)
    with reads show ?thesis by (rule adds_trans)
  qed
qed

text \<open>
  C40: Rebalancing moves slots only into nodes whose address in a node table is, letter for
  letter, one of the addresses it was given; everything else it sends is \<open>CLUSTER NODES\<close>. So a cluster that
  reports the IP addresses of its nodes while the operator names them by their DNS names is never rebalanced:
  nothing but \<open>CLUSTER NODES\<close> is sent at all. (The donors are taken from the table and need not be among the addresses given.)
\<close>

theorem RebalanceSlots_needs_matching_addresses:
  assumes "RebalanceSlots cx c masterAddrs tr = Some (r, tr')"
  shows "adds (tableReads \<union> (\<Union>a \<in> set masterAddrs \<inter> reported c. migrationInto a)) tr tr' \<and>
    (set masterAddrs \<inter> reported c = {} \<longrightarrow> adds tableReads tr tr')"
proof (intro conjI impI)
  show into: "adds (tableReads \<union> (\<Union>a \<in> set masterAddrs \<inter> reported c. migrationInto a)) tr tr'"
    using assms by (rule RebalanceSlots_into)
  show "adds tableReads tr tr'" if none: "set masterAddrs \<inter> reported c = {}"
    using into unfolding none by simp
qed

definition dnsAddrs :: "string list" where
  "dnsAddrs = [''c-masters-0.c-master-headless.ns.svc.cluster.local:6379'',
               ''c-masters-1.c-master-headless.ns.svc.cluster.local:6379'']"

theorem RebalanceSlots_needs_matching_addresses_witness:
  "\<exists>r tr'. RebalanceSlots sampleCtx lopsidedClient dnsAddrs [] = Some (r, tr') \<and>
    set dnsAddrs \<inter> reported lopsidedClient = {} \<and> adds tableReads [] tr'"
proof -
  have run: "RebalanceSlots sampleCtx lopsidedClient dnsAddrs [] = Some (None, [Cmd (ClusterNodes (hd dnsAddrs))])"
    by (simp add: RebalanceSlots_def dnsAddrs_def map_order_def sampleCtx_def lopsidedClient_def lopsided_counts
        drainDonor_def countOf_def totalHashSlots_def trace_simps sort_key_simps)
  have none: "set dnsAddrs \<inter> reported lopsidedClient = {}"
    by (auto simp: reported_def lopsidedClient_def lopsided_def node_def dnsAddrs_def)
  show ?thesis using RebalanceSlots_needs_matching_addresses [OF run] run none by auto
qed

end
