(* ===== verification/Cluster_Formation.thy ===== *)
theory Cluster_Formation
  imports Cluster_Migration
begin

text \<open>
  Correctness of cluster formation: the waiting loops are instances of the polling contract, so
  they return and are right when they report success; \<open>FormCluster\<close> returns, and its commands on
  the successful path are determined: all masters meet, the slot space is handed out, the replicas
  meet and are spread over the masters in turn.
\<close>

section \<open>The waiting loops\<close>

interpretation ready: polling "probeReady c addr"
  "\<lambda>_ tr. \<exists>info. rc_ClusterInfo c tr addr = Inr info \<and> ci_State info = ''ok''" "{Cmd (ClusterInfo addr)}"
  for c addr
  by unfold_locales (auto simp: probeReady_def trace_simps split: sum.splits if_splits)

interpretation known: polling "probeKnownNodes c addr expected"
  "\<lambda>_ tr. \<exists>info. rc_ClusterInfo c tr addr = Inr info \<and> ci_KnownNodes info \<ge> expected" "{Cmd (ClusterInfo addr)}"
  for c addr expected
  by unfold_locales (auto simp: probeKnownNodes_def trace_simps split: sum.splits if_splits)

definition waiting :: "string \<Rightarrow> event set" where
  "waiting addr = {Cmd (ClusterInfo addr), ReadClock, Sleep (2 * second)}"

lemma waiting_eq: "ready.waits addr = waiting addr" "known.waits addr = waiting addr"
  by (auto simp: ready.waits_def known.waits_def waiting_def)

lemma WaitForClusterReady_adds:
  "WaitForClusterReady cx c addr timeout tr = Some (r, tr') \<Longrightarrow> adds (waiting addr) tr tr'"
  using ready.wait_adds by (fastforce simp: WaitForClusterReady_def waiting_eq)

lemma waitForKnownNodes_adds:
  "waitForKnownNodes cx c addr expected timeout tr = Some (r, tr') \<Longrightarrow> adds (waiting addr) tr tr'"
  using known.wait_adds by (fastforce simp: waitForKnownNodes_def waiting_eq)

text \<open>
  C18: \<open>WaitForClusterReady\<close> returns, under a clock that advances while the program sleeps. It reports
  success only if some \<open>CLUSTER INFO\<close> it sent was answered with the state \<open>ok\<close>; otherwise either
  the context was cancelled, or the deadline had passed when it last looked at the clock.
\<close>

theorem WaitForClusterReady_correct:
  assumes "fair_clock cx"
  shows "\<exists>r es. WaitForClusterReady cx c addr timeout tr = Some (r, tr @ es) \<and> set es \<subseteq> waiting addr \<and>
    (case r of
       None \<Rightarrow> \<exists>us vs info. es = us @ vs \<and> rc_ClusterInfo c (tr @ us) addr = Inr info \<and> ci_State info = ''ok''
     | Some e \<Rightarrow> Done cx (tr @ es) = Some e \<or>
         (\<exists>ts. es = ts @ [ReadClock] \<and> Now cx tr + timeout \<le> Now cx (tr @ ts)))"
proof -
  let ?late = "errOutcome (\<lambda>_. Errorf (''cluster at '' @ addr @ '' did not reach state 'ok' within '' @
    Duration_String timeout))"
  obtain r tr' where run: "WaitForClusterReady cx c addr timeout tr = Some (r, tr')"
    using ready.wait_returns [OF assms, of timeout c addr "()" ?late tr] by (auto simp: WaitForClusterReady_def)
  then obtain out es where out: "r = ?late out" and es: "tr' = tr @ es"
    and why: "ready.explained c addr cx timeout tr out es"
    using ready.wait_explained [of cx timeout c addr "()" ?late tr] by (auto simp: WaitForClusterReady_def)
  have "set es \<subseteq> waiting addr" using why by (simp add: ready.explained_def waiting_eq)
  moreover have "case r of
       None \<Rightarrow> \<exists>us vs info. es = us @ vs \<and> rc_ClusterInfo c (tr @ us) addr = Inr info \<and> ci_State info = ''ok''
     | Some e \<Rightarrow> Done cx (tr @ es) = Some e \<or>
         (\<exists>ts. es = ts @ [ReadClock] \<and> Now cx tr + timeout \<le> Now cx (tr @ ts))"
    using why out by (cases out) (auto simp: ready.explained_def errOutcome_def)
  ultimately show ?thesis using run es by blast
qed

theorem WaitForClusterReady_correct_witness:
  "\<exists>r es. WaitForClusterReady sampleCtx quietClient ''a:1'' second [] = Some (r, [] @ es) \<and> set es \<subseteq> waiting ''a:1'' \<and>
    (case r of
       None \<Rightarrow> \<exists>us vs info. es = us @ vs \<and> rc_ClusterInfo quietClient ([] @ us) ''a:1'' = Inr info \<and> ci_State info = ''ok''
     | Some e \<Rightarrow> Done sampleCtx ([] @ es) = Some e \<or>
         (\<exists>ts. es = ts @ [ReadClock] \<and> Now sampleCtx [] + second \<le> Now sampleCtx ([] @ ts)))"
  by (rule WaitForClusterReady_correct [OF fair_sampleCtx])

section \<open>Forming a cluster\<close>

text \<open>The commands that introduce a peer, all pairs of masters, and all replicas.\<close>

definition meetEvent :: "string \<Rightarrow> string \<Rightarrow> event list" where
  "meetEvent a peer = (case splitAddr peer of Inr (ip, port) \<Rightarrow> [Cmd (ClusterMeet a ip port)] | Inl _ \<Rightarrow> [])"

definition allMeet :: "string list \<Rightarrow> event list" where
  "allMeet ms =
     concat (map (\<lambda>(i, a). concat (map (\<lambda>(j, p). if i = j then [] else meetEvent a p) (enumerate 0 ms))) (enumerate 0 ms))"

definition replicateEvents :: "string list \<Rightarrow> string list \<Rightarrow> event list" where
  "replicateEvents ids rs =
     map (\<lambda>(i, r). Cmd (ClusterReplicate r (ids ! (i mod length ids)))) (enumerate 0 rs)"

lemma meetMasters_done: "meetMasters c ms tr = (None, tr') \<Longrightarrow> tr' = tr @ allMeet ms"
proof -
  assume run: "meetMasters c ms tr = (None, tr')"
  have peer: "t' = t @ (case x of (j, p) \<Rightarrow> if i = j then [] else meetEvent a p)"
    if "meetPeer c i a x t = (None, t')" for i a x t t'
    using that by (auto simp: meetPeer_def meetEvent_def trace_simps split: prod.splits if_splits sum.splits option.splits)
  have "tr' = tr @ concat (map (\<lambda>(i, a). concat (map (\<lambda>(j, p). if i = j then [] else meetEvent a p)
      (enumerate 0 ms))) (enumerate 0 ms))"
    using run unfolding meetMasters_def
  proof (rule forErr_done)
    fix x :: "nat \<times> string" and t t' :: trace
    obtain i a where x: "x = (i, a)" by (cases x)
    assume "(case x of (i, a) \<Rightarrow> forErr (meetPeer c i a) (enumerate 0 ms)) t = (None, t')"
    then have "forErr (meetPeer c i a) (enumerate 0 ms) t = (None, t')" by (simp add: x)
    then have "t' = t @ concat (map (\<lambda>(j, p). if i = j then [] else meetEvent a p) (enumerate 0 ms))"
      by (rule forErr_done) (rule peer)
    then show "t' = t @ (case x of (i, a) \<Rightarrow> concat (map (\<lambda>(j, p). if i = j then [] else meetEvent a p) (enumerate 0 ms)))"
      by (simp add: x)
  qed
  then show ?thesis by (simp add: allMeet_def)
qed

lemma meetReplicas_done:
  assumes "forErr (meetReplica c m) rs tr = (None, tr')"
  shows "tr' = tr @ concat (map (meetEvent m) rs)"
  using assms
  by (rule forErr_done)
    (auto simp: meetReplica_def meetEvent_def trace_simps split: sum.splits option.splits)

lemma assignReplicas_done:
  assumes "assignReplicas c ms rs tr = (None, tr')"
  shows "\<exists>nodes. rc_ClusterNodes c tr (hd ms) = Inr nodes \<and> length (masterNodeIDs nodes) = length ms \<and>
    tr' = tr @ Cmd (ClusterNodes (hd ms)) # replicateEvents (masterNodeIDs nodes) rs"
proof -
  from assms obtain nodes where n: "rc_ClusterNodes c tr (hd ms) = Inr nodes"
    "length (masterNodeIDs nodes) = length ms"
    and run: "forErr (replicateTo c (masterNodeIDs nodes)) (enumerate 0 rs) (tr @ [Cmd (ClusterNodes (hd ms))]) = (None, tr')"
    by (auto simp: assignReplicas_def trace_simps Let_def split: sum.splits if_splits)
  let ?ids = "masterNodeIDs nodes"
  have "tr' = (tr @ [Cmd (ClusterNodes (hd ms))]) @
      concat (map (\<lambda>(i, r). [Cmd (ClusterReplicate r (?ids ! (i mod length ?ids)))]) (enumerate 0 rs))"
    using run by (rule forErr_done) (auto simp: replicateTo_def trace_simps Let_def split: option.splits)
  moreover have "concat (map (\<lambda>(i, r). [Cmd (ClusterReplicate r (?ids ! (i mod length ?ids)))]) xs)
      = map (\<lambda>(i, r). Cmd (ClusterReplicate r (?ids ! (i mod length ?ids)))) xs" for xs
    by (induction xs) auto
  ultimately show ?thesis using n by (simp add: replicateEvents_def)
qed

lemma joinReplicas_done:
  assumes "joinReplicas cx c ms rs tr = Some (None, tr')"
  shows "\<exists>w nodes. set w \<subseteq> waiting (hd ms) \<and> length (masterNodeIDs nodes) = length ms \<and>
    rc_ClusterNodes c (tr @ concat (map (meetEvent (hd ms)) rs) @ w) (hd ms) = Inr nodes \<and>
    tr' = tr @ concat (map (meetEvent (hd ms)) rs) @ w @ Cmd (ClusterNodes (hd ms)) #
      replicateEvents (masterNodeIDs nodes) rs"
proof -
  from assms obtain t1 t2 where met: "forErr (meetReplica c (hd ms)) rs tr = (None, t1)"
    and waited: "waitForKnownNodes cx c (hd ms) (int (length ms + length rs)) (60 * second) t1 = Some (None, t2)"
    and last: "assignReplicas c ms rs t2 = (None, tr')"
    by (auto simp: joinReplicas_def Option.bind_eq_Some_conv split: prod.splits option.splits)
  obtain w where "t2 = t1 @ w" "set w \<subseteq> waiting (hd ms)"
    using waitForKnownNodes_adds [OF waited] by (rule addsE)
  then show ?thesis using assignReplicas_done [OF last] meetReplicas_done [OF met] by auto
qed

lemma FormCluster_steps:
  assumes run: "FormCluster cx c ms rs rpm tr = Some (None, tr')"
  obtains t1 t2 t3 t4 where "3 \<le> length ms" and "meetMasters c ms tr = (None, t1)"
    and "waitForKnownNodes cx c (hd ms) (int (length ms)) (30 * second) t1 = Some (None, t2)"
    and "AssignSlotsEvenly c ms t2 = (None, t3)"
    and "WaitForClusterReady cx c (hd ms) (60 * second) t3 = Some (None, t4)"
    and "(if rs = [] \<or> rpm = 0 then Some (None, t4) else joinReplicas cx c ms rs t4) = Some (None, tr')"
proof -
  have three: "3 \<le> length ms" using run by (auto simp: FormCluster_def split: if_splits)
  obtain r1 t1 where 1: "meetMasters c ms tr = (r1, t1)" by fastforce
  with run three have r1: "r1 = None" by (cases r1) (simp_all add: FormCluster_def)
  from run three 1 r1 obtain r2 t2 where 2: "waitForKnownNodes cx c (hd ms) (int (length ms)) (30 * second) t1 = Some (r2, t2)"
    by (cases "waitForKnownNodes cx c (hd ms) (int (length ms)) (30 * second) t1") (auto simp: FormCluster_def)
  with run three 1 r1 have r2: "r2 = None" by (cases r2) (simp_all add: FormCluster_def)
  obtain r3 t3 where 3: "AssignSlotsEvenly c ms t2 = (r3, t3)" by fastforce
  with run three 1 r1 2 r2 have r3: "r3 = None" by (cases r3) (simp_all add: FormCluster_def)
  from run three 1 r1 2 r2 3 r3 obtain r4 t4 where 4: "WaitForClusterReady cx c (hd ms) (60 * second) t3 = Some (r4, t4)"
    by (cases "WaitForClusterReady cx c (hd ms) (60 * second) t3") (auto simp: FormCluster_def)
  with run three 1 r1 2 r2 3 r3 have r4: "r4 = None" by (cases r4) (simp_all add: FormCluster_def)
  have "(if rs = [] \<or> rpm = 0 then Some (None, t4) else joinReplicas cx c ms rs t4) = Some (None, tr')"
    using run three 1 r1 2 r2 3 r3 4 r4 by (simp add: FormCluster_def)
  with three 1 r1 2 r2 3 r3 4 r4 that show thesis by blast
qed


text \<open>A server on which three masters and three replicas form a cluster at the first attempt.\<close>

definition formedNodes :: "ClusterNode list" where
  "formedNodes =
     [node ''A'' ''a:1'' [''myself'', ''master''] [], node ''B'' ''b:1'' [''master''] [], node ''C'' ''c:1'' [''master''] [],
      node ''X'' ''x:1'' [''slave''] [], node ''Y'' ''y:1'' [''slave''] [], node ''Z'' ''z:1'' [''slave''] []]"

definition formingClient :: "ClusterNode list \<Rightarrow> RedisClient" where
  "formingClient nodes = quietClient\<lparr>rc_ClusterInfo := \<lambda>_ _. Inr (zeroClusterInfo\<lparr>ci_KnownNodes := 6\<rparr>),
     rc_ClusterNodes := \<lambda>_ _. Inr nodes\<rparr>"

lemma splitAddr_samples:
  "splitAddr ''a:1'' = Inr (''a'', 1)" "splitAddr ''b:1'' = Inr (''b'', 1)" "splitAddr ''c:1'' = Inr (''c'', 1)"
  "splitAddr ''x:1'' = Inr (''x'', 1)" "splitAddr ''y:1'' = Inr (''y'', 1)" "splitAddr ''z:1'' = Inr (''z'', 1)"
  by code_simp+

lemma formingClient_waits:
  "timeout > 0 \<Longrightarrow> WaitForClusterReady sampleCtx (formingClient nodes) a timeout tr =
     Some (None, tr @ [ReadClock, ReadClock, Cmd (ClusterInfo a)])"
  "timeout > 0 \<Longrightarrow> n \<le> 6 \<Longrightarrow> waitForKnownNodes sampleCtx (formingClient nodes) a n timeout tr =
     Some (None, tr @ [ReadClock, ReadClock, Cmd (ClusterInfo a)])"
  by (simp_all add: WaitForClusterReady_def waitForKnownNodes_def waitUntil_def poll.simps time_Now_def sampleCtx_def
      probeReady_def probeKnownNodes_def formingClient_def quietClient_def zeroClusterInfo_def errOutcome_def trace_simps)

lemma formingClient_accepts:
  "rc_ClusterMeet (formingClient nodes) t a ip p = None" "rc_ClusterAddSlots (formingClient nodes) t a ss = None"
  "rc_ClusterReplicate (formingClient nodes) t a i = None" "rc_ClusterNodes (formingClient nodes) t a = Inr nodes"
  by (simp_all add: formingClient_def quietClient_def)

lemmas forming_simps = meetMasters_def meetPeer_def AssignSlotsEvenly_def assignShare_def
  joinReplicas_def meetReplica_def assignReplicas_def replicateTo_def formingClient_waits formingClient_accepts
  splitAddr_samples masterNodeIDs_def isMaster_def second_def trace_simps

lemma forming_steps:
  "\<exists>tr'. meetMasters (formingClient nodes) [''a:1'', ''b:1'', ''c:1''] tr = (None, tr')"
  "\<exists>tr'. AssignSlotsEvenly (formingClient nodes) [''a:1'', ''b:1'', ''c:1''] tr = (None, tr')"
  "\<exists>r tr'. joinReplicas sampleCtx (formingClient nodes) [''a:1'', ''b:1'', ''c:1''] [''x:1'', ''y:1'', ''z:1''] tr = Some (r, tr')
     \<and> (r = None \<longleftrightarrow> length (masterNodeIDs nodes) = 3)"
  by (simp_all add: forming_simps Let_def)

lemma FormCluster_sample:
  "\<exists>r tr'. FormCluster sampleCtx (formingClient nodes) [''a:1'', ''b:1'', ''c:1''] [''x:1'', ''y:1'', ''z:1''] 1 []
     = Some (r, tr') \<and> (r = None \<longleftrightarrow> length (masterNodeIDs nodes) = 3)"
proof -
  let ?c = "formingClient nodes" and ?ms = "[''a:1'', ''b:1'', ''c:1'']" and ?rs = "[''x:1'', ''y:1'', ''z:1'']"
  obtain t1 where 1: "meetMasters ?c ?ms [] = (None, t1)" using forming_steps(1) by blast
  let ?t2 = "t1 @ [ReadClock, ReadClock, Cmd (ClusterInfo ''a:1'')]"
  obtain t3 where 3: "AssignSlotsEvenly ?c ?ms ?t2 = (None, t3)" using forming_steps(2) by blast
  let ?t4 = "t3 @ [ReadClock, ReadClock, Cmd (ClusterInfo ''a:1'')]"
  obtain r t5 where 5: "joinReplicas sampleCtx ?c ?ms ?rs ?t4 = Some (r, t5)"
    "r = None \<longleftrightarrow> length (masterNodeIDs nodes) = 3" using forming_steps(3) by blast
  then show ?thesis by (simp add: FormCluster_def 1 3 formingClient_waits second_def)
qed


lemma FormCluster_total:
  assumes "fair_clock cx"
  shows "\<exists>r tr'. FormCluster cx c ms rs replicasPerMaster tr = Some (r, tr')"
proof -
  have known: "\<exists>r t'. waitForKnownNodes cx c a n d t = Some (r, t')" for a n d t
    using known.wait_returns [OF assms] by (fastforce simp: waitForKnownNodes_def)
  have ready: "\<exists>r t'. WaitForClusterReady cx c a d t = Some (r, t')" for a d t
    using ready.wait_returns [OF assms] by (fastforce simp: WaitForClusterReady_def)
  have join: "\<exists>r t'. joinReplicas cx c ms rs t = Some (r, t')" for t
  proof (cases "forErr (meetReplica c (hd ms)) rs t")
    case (Pair r1 t1)
    obtain r2 t2 where "waitForKnownNodes cx c (hd ms) (int (length ms + length rs)) (60 * second) t1 = Some (r2, t2)"
      using known by blast
    then show ?thesis using Pair by (cases r1; cases r2) (simp_all add: joinReplicas_def surj_pair)
  qed
  obtain r1 t1 where 1: "meetMasters c ms tr = (r1, t1)" by fastforce
  obtain r2 t2 where 2: "waitForKnownNodes cx c (hd ms) (int (length ms)) (30 * second) t1 = Some (r2, t2)"
    using known by blast
  obtain r3 t3 where 3: "AssignSlotsEvenly c ms t2 = (r3, t3)" by fastforce
  obtain r4 t4 where 4: "WaitForClusterReady cx c (hd ms) (60 * second) t3 = Some (r4, t4)"
    using ready by blast
  obtain r5 t5 where 5: "joinReplicas cx c ms rs t4 = Some (r5, t5)" using join by blast
  show ?thesis
    by (cases r1; cases r2; cases r3; cases r4) (simp_all add: FormCluster_def 1 2 3 4 5)
qed

text \<open>
  C17: Formation always returns: with a clock that advances while the program sleeps, no answer of
  the servers keeps it in one of its waiting loops.
\<close>

theorem FormCluster_returns:
  assumes "fair_clock cx"
  shows "\<exists>r tr'. FormCluster cx c ms rs replicasPerMaster tr = Some (r, tr')"
  using assms by (rule FormCluster_total)

theorem FormCluster_returns_witness:
  "\<exists>r tr'. FormCluster sampleCtx quietClient [''a:1'', ''b:1'', ''c:1''] [] 0 [] = Some (r, tr')"
  by (rule FormCluster_returns [OF fair_sampleCtx])

text \<open>
  Formation with replicas cannot succeed on a server that behaves as Redis does. A node that has
  only just met the cluster is a master, so the node table read before any \<open>CLUSTER REPLICATE\<close>
  lists the future replicas as masters too; the check that there are as many masters as master
  addresses then fails, and no replica is ever attached.
\<close>

theorem FormCluster_fails_while_replicas_are_masters:
  assumes "FormCluster cx c ms rs replicasPerMaster tr = Some (r, tr')" and "rs \<noteq> []" and "replicasPerMaster \<noteq> 0"
    and fresh: "\<And>t nodes. rc_ClusterNodes c t (hd ms) = Inr nodes \<Longrightarrow>
      length (masterNodeIDs nodes) = length ms + length rs"
  shows "r \<noteq> None"
proof
  assume "r = None"
  with assms(1) obtain t4 where
    "(if rs = [] \<or> replicasPerMaster = 0 then Some (None, t4) else joinReplicas cx c ms rs t4) = Some (None, tr')"
    using FormCluster_steps by metis
  then have "joinReplicas cx c ms rs t4 = Some (None, tr')" using assms(2,3) by simp
  from joinReplicas_done [OF this] obtain t nodes where
    "rc_ClusterNodes c t (hd ms) = Inr nodes" "length (masterNodeIDs nodes) = length ms" by blast
  with fresh [of t nodes] assms(2) show False by simp
qed

definition freshNodes :: "ClusterNode list" where
  "freshNodes =
     [node ''A'' ''a:1'' [''myself'', ''master''] [], node ''B'' ''b:1'' [''master''] [], node ''C'' ''c:1'' [''master''] [],
      node ''X'' ''x:1'' [''master''] [], node ''Y'' ''y:1'' [''master''] [], node ''Z'' ''z:1'' [''master''] []]"

theorem FormCluster_fails_while_replicas_are_masters_witness:
  "\<exists>r tr'. FormCluster sampleCtx (formingClient freshNodes) [''a:1'', ''b:1'', ''c:1''] [''x:1'', ''y:1'', ''z:1''] 1 []
      = Some (r, tr') \<and> r \<noteq> None"
proof -
  obtain r tr' where run: "FormCluster sampleCtx (formingClient freshNodes) [''a:1'', ''b:1'', ''c:1'']
    [''x:1'', ''y:1'', ''z:1''] 1 [] = Some (r, tr')" using FormCluster_sample [of freshNodes] by blast
  have "r \<noteq> None"
    by (rule FormCluster_fails_while_replicas_are_masters [OF run])
      (auto simp: formingClient_accepts freshNodes_def masterNodeIDs_def isMaster_def node_def)
  with run show ?thesis by blast
qed

end
