(* ===== verification/Trace_Extension.thy ===== *)
theory Trace_Extension
  imports Cluster_Formation Cluster_Controller
begin

text \<open>
  History is never rewritten: every operation of the cluster manager and of the cluster reconciler
  only adds events, and of these none is what only the top level of a run may do: write an object
  with \<open>CreateOrUpdate\<close>, delete a claim, update the resource itself, count the run, or
  use a metric that is idle or otherwise than declared. These lemmas
  let the theorems about a run speak of what it did and of nothing else.
\<close>

definition quiet :: "event set" where
  "quiet = {e. case e of
     Kube (Apply _) \<Rightarrow> False
   | Kube (DeletePVC _ _) \<Rightarrow> False
   | Kube (UpdateRedis _) \<Rightarrow> False
   | Kube (UpdateSentinel _) \<Rightarrow> False
   | Kube (UpdateCluster _) \<Rightarrow> False
   | Metric m \<Rightarrow> declaredMetric m \<and> metricVar m \<notin> set idleMetrics \<and> (\<forall>v ls. m = Inc v ls \<longrightarrow> v \<noteq> ''ReconcileTotal'')
   | _ \<Rightarrow> True}"

lemma quiet_simps [simp]:
  "Cmd x \<in> quiet" "ReadClock \<in> quiet" "Sleep d \<in> quiet" "Kube (ListPods ns sel) \<in> quiet"
  "Kube (StatusCluster rc) \<in> quiet" "Kube (PatchCluster rc) \<in> quiet" "Kube (RecordEvent a b m) \<in> quiet"
  "Kube (Fetch o1) \<in> quiet" "Kube (Apply o1) \<notin> quiet" "Kube (DeletePVC ns n) \<notin> quiet"
  "Kube (UpdateRedis obj) \<notin> quiet" "Kube (UpdateSentinel rs) \<notin> quiet" "Kube (UpdateCluster rc) \<notin> quiet" "Metric (Observe v ls d) \<in> quiet \<longleftrightarrow> declaredAs HistogramVec v ls \<and> v \<notin> set idleMetrics"
  "Metric (SetGauge v ls x2) \<in> quiet \<longleftrightarrow> declaredAs GaugeVec v ls \<and> v \<notin> set idleMetrics"
  "Metric (Inc v ls) \<in> quiet \<longleftrightarrow> declaredAs CounterVec v ls \<and> v \<notin> set idleMetrics \<and> v \<noteq> ''ReconcileTotal''"
  by (simp_all add: quiet_def)

abbreviation extends :: "trace \<Rightarrow> trace \<Rightarrow> bool" where
  "extends \<equiv> adds quiet"

lemma extends_weaken: "adds E tr tr' \<Longrightarrow> E \<subseteq> quiet \<Longrightarrow> extends tr tr'"
  by (rule adds_mono)

lemma waiting_quiet: "waiting addr \<subseteq> quiet"
  by (simp add: waiting_def)

lemmas extends_waiting = extends_weaken [OF waitForKnownNodes_adds waiting_quiet]
  extends_weaken [OF WaitForClusterReady_adds waiting_quiet]

section \<open>The cluster manager\<close>

lemma extends_meetMasters: "extends tr (snd (meetMasters c ms tr))"
proof -
  have "extends tr (snd (meetPeer c i a x tr))" for i a x tr
    by (auto simp: meetPeer_def trace_simps split: prod.split sum.split option.split)
  then show ?thesis unfolding meetMasters_def by (intro forErr_adds) (auto intro: forErr_adds)
qed

lemma extends_AssignSlotsEvenly: "extends tr (snd (AssignSlotsEvenly c ms tr))"
proof -
  have "extends tr (snd (assignShare c n x tr))" for n x tr
    by (auto simp: assignShare_def trace_simps Let_def split: prod.split option.split)
  then show ?thesis by (auto simp: AssignSlotsEvenly_def Let_def intro: forErr_adds)
qed

lemma extends_assignReplicas: "extends tr (snd (assignReplicas c ms rs tr))"
proof -
  have r: "extends tr (snd (replicateTo c ids x tr))" for ids x tr
    by (auto simp: replicateTo_def trace_simps Let_def split: prod.split option.split)
  have f: "extends tr (snd (forErr (replicateTo c ids) xs tr))" for ids xs tr
    by (rule forErr_adds) (rule r)
  have "extends tr (snd (forErr (replicateTo c ids) xs (tr @ [Cmd e])))" for ids xs e
    by (rule adds_trans [OF _ f]) simp
  then show ?thesis by (auto simp: assignReplicas_def trace_simps Let_def split: sum.split)
qed

lemma extends_joinReplicas: "joinReplicas cx c ms rs tr = Some (r, tr') \<Longrightarrow> extends tr tr'"
proof -
  assume run: "joinReplicas cx c ms rs tr = Some (r, tr')"
  have "extends tr (snd (meetReplica c m x tr))" for m x tr
    by (auto simp: meetReplica_def trace_simps split: sum.split option.split)
  then have meet: "extends tr (snd (forErr (meetReplica c (hd ms)) rs tr))" by (intro forErr_adds)
  obtain r1 t1 where 1: "forErr (meetReplica c (hd ms)) rs tr = (r1, t1)" by fastforce
  show ?thesis
  proof (cases r1)
    case (Some e)
    then show ?thesis using run meet 1 by (simp add: joinReplicas_def)
  next
    case None
    then obtain r2 t2 where 2: "waitForKnownNodes cx c (hd ms) (int (length ms + length rs)) (60 * second) t1 = Some (r2, t2)"
      and t': "tr' = t2 \<or> tr' = snd (assignReplicas c ms rs t2)"
      using run 1 by (auto simp: joinReplicas_def Option.bind_eq_Some_conv split: option.splits)
    have "extends tr t1" using meet 1 by simp
    also have "extends t1 t2" using 2 by (rule extends_waiting)
    also have "extends t2 tr'" using t' extends_assignReplicas [of t2] by auto
    finally show ?thesis .
  qed
qed

lemma extends_FormCluster:
  assumes run: "FormCluster cx c ms rs rpm tr = Some (r, tr')"
  shows "extends tr tr'"
proof (cases "length ms < 3")
  case False
  obtain r1 t1 where 1: "meetMasters c ms tr = (r1, t1)" by fastforce
  have e1: "extends tr t1" using extends_meetMasters [of tr c ms] 1 by simp
  show ?thesis
  proof (cases r1)
    case r1: None
    from run False 1 r1 obtain r2 t2
      where 2: "waitForKnownNodes cx c (hd ms) (int (length ms)) (30 * second) t1 = Some (r2, t2)"
      by (cases "waitForKnownNodes cx c (hd ms) (int (length ms)) (30 * second) t1") (auto simp: FormCluster_def)
    have e2: "extends tr t2" using adds_trans [OF e1 extends_waiting(1) [OF 2]] .
    obtain r3 t3 where 3: "AssignSlotsEvenly c ms t2 = (r3, t3)" by fastforce
    have e3: "extends tr t3" using adds_trans [OF e2 extends_AssignSlotsEvenly [of t2 c ms]] 3 by simp
    show ?thesis
    proof (cases "r2 = None \<and> r3 = None")
      case True
      from run False 1 r1 2 3 True obtain r4 t4
        where 4: "WaitForClusterReady cx c (hd ms) (60 * second) t3 = Some (r4, t4)"
        by (cases "WaitForClusterReady cx c (hd ms) (60 * second) t3") (auto simp: FormCluster_def)
      have e4: "extends tr t4" using adds_trans [OF e3 extends_waiting(2) [OF 4]] .
      have "tr' = t4 \<or> joinReplicas cx c ms rs t4 = Some (r, tr')"
        using run False 1 r1 2 3 True 4 by (auto simp: FormCluster_def split: option.splits if_splits)
      then show ?thesis using e4 extends_joinReplicas adds_trans by blast
    next
      case False2: False
      then show ?thesis using run False 1 r1 2 3 e2 e3
        by (auto simp: FormCluster_def split: option.splits)
    qed
  next
    case (Some e)
    then show ?thesis using run False 1 e1 by (simp add: FormCluster_def)
  qed
qed (use run in \<open>simp add: FormCluster_def\<close>)

lemma extends_MigrateSlot:
  assumes "MigrateSlot c s d slot tr = Some (r, tr')"
  shows "extends tr tr'"
  using assms
proof (cases rule: MigrateSlot_steps)
  case (1 look)
  have "set look \<subseteq> quiet" using 1(1) by auto
  then show ?thesis using 1(2) by simp
next
  case (2 look src dst ip p keys m)
  have "set keys \<subseteq> quiet" using 2(3) by (rule subset_trans) (auto simp: keyEvents_def)
  then have "set (protocol s d slot src dst keys m) \<subseteq> quiet" by (cases m) (auto simp: setslot_defs)
  moreover have "set look \<subseteq> quiet" using 2(1) by auto
  ultimately show ?thesis using 2(2) by simp
qed

lemma extends_donate:
  "donate c target counts dn did da excess rs tr = Some (r, tr') \<Longrightarrow> extends tr tr'"
proof (induction rs arbitrary: excess tr)
  case (Cons a rs)
  show ?case
  proof (cases "a = da \<or> excess \<le> 0 \<or> nodeIDForAddr dn a = [] \<or> countOf counts (nodeIDForAddr dn a) \<ge> target")
    case True
    then have "donate c target counts dn did da excess rs tr = Some (r, tr')"
      using Cons.prems by (simp only: donate_skip)
    then show ?thesis by (rule Cons.IH)
  next
    case False
    let ?n = "min excess (target - countOf counts (nodeIDForAddr dn a))"
    from Cons.prems obtain r1 tr1 where
      run: "forErrO (MigrateSlot c da a) (collectSlots dn did ?n) tr = Some (r1, tr1)"
      and rest: "r1 = None \<Longrightarrow> donate c target counts dn did da (excess - ?n) rs tr1 = Some (r, tr')"
        "r1 \<noteq> None \<Longrightarrow> tr' = tr1"
      unfolding donate_take [OF False refl] by (auto split: option.splits prod.splits)
    have "extends tr tr1" by (rule forErrO_adds [OF run]) (rule extends_MigrateSlot)
    moreover have "extends tr1 tr'" using rest Cons.IH by (cases r1) auto
    ultimately show ?thesis by (rule adds_trans)
  qed
qed simp

lemma extends_drainDonor:
  assumes "drainDonor c ms target nodes did tr = Some (r, tr')"
  shows "extends tr tr'"
proof -
  let ?t = "tr @ [Cmd (ClusterNodes (mget (nodeAddrByID nodes) did))]"
  have "tr' = tr \<or> extends ?t tr'"
    using assms by (auto simp: drainDonor_def trace_simps Let_def split: if_splits sum.splits dest!: extends_donate)
  then show ?thesis using adds_trans [of quiet tr ?t tr'] by auto
qed

lemma extends_RebalanceSlots:
  assumes "RebalanceSlots cx c ms tr = Some (r, tr')"
  shows "extends tr tr'"
proof -
  let ?t1 = "tr @ [Cmd (ClusterNodes (hd ms))]"
  have e1: "extends tr ?t1" by simp
  consider "tr' = ?t1"
    | nodes where "forErrO (drainDonor c ms (totalHashSlots div int (length ms)) nodes)
        (map_order cx ?t1 (map fst (slotCounts nodes))) ?t1 = Some (r, tr')"
    using assms by (auto simp: RebalanceSlots_def trace_simps Let_def split: if_splits sum.splits)
  then show ?thesis
  proof cases
    case 2
    then have "extends ?t1 tr'" by (rule forErrO_adds) (rule extends_drainDonor)
    with e1 show ?thesis by (rule adds_trans)
  qed (use e1 in simp)
qed

lemma extends_GetClusterState: "extends tr (snd (GetClusterState c a tr))"
  by (auto simp: GetClusterState_def trace_simps split: sum.split)

lemma extends_AddMaster: "extends tr (snd (AddMaster c a b tr))"
  by (auto simp: AddMaster_def trace_simps split: sum.split)

lemma extends_AddReplica: "extends tr (snd (AddReplica c a b tr))"
  by (auto simp: AddReplica_def trace_simps Let_def split: sum.split option.split)

lemma extends_forgetAll: "extends tr (forgetAll c nodes a i tr)"
  unfolding forgetAll_def by (rule forIgnore_adds) (simp add: trace_simps)

lemma extends_forgetAll_after: "set es \<subseteq> quiet \<Longrightarrow> extends tr (forgetAll c nodes a i (tr @ es))"
  by (rule adds_trans [OF _ extends_forgetAll]) simp

lemma extends_RemoveMaster: "extends tr (snd (RemoveMaster c a b tr))"
  using extends_forgetAll_after by (auto simp: RemoveMaster_def trace_simps Let_def split: sum.split option.split)

lemma extends_RemoveReplica: "extends tr (snd (RemoveReplica c a b tr))"
  using extends_forgetAll_after by (auto simp: RemoveReplica_def trace_simps Let_def split: sum.split option.split)

section \<open>The cluster reconciler\<close>

lemma extends_podsOf: "extends tr (snd (podsOf r rc part tr))"
  by (simp add: podsOf_def listPods_def)

lemma extends_allMasterPodsReady: "extends tr (snd (allMasterPodsReady r rc tr))"
  by (auto simp: allMasterPodsReady_def podsOf_def listPods_def split: sum.split)

lemma extends_allPodsReady: "extends tr (snd (allPodsReady r rc tr))"
  by (auto simp: allPodsReady_def allMasterPodsReady_def podsOf_def listPods_def split: sum.split bool.split)

lemma extends_statusUpdate: "extends tr (snd (snd (statusUpdate r rc tr)))"
  by (auto simp: statusUpdate_def split: sum.split)

lemma extends_setClusterFailedStatus: "extends tr (snd (setClusterFailedStatus r rc reason msg tr))"
  by (auto simp: setClusterFailedStatus_def time_Now_def statusUpdate_def Let_def split: sum.split)

lemma extends_attachReplicas: "extends tr (attachReplicas cm rc cur tr)"
  unfolding attachReplicas_def Let_def by (rule forIgnore_adds) (auto simp: extends_AddReplica)

lemma extends_meetNewMasters: "extends tr (snd (meetNewMasters cm rc cur tr))"
  unfolding meetNewMasters_def by (rule forErr_adds) (rule extends_AddMaster)

lemma extends_removeExcess: "extends tr (snd (removeExcess cm rc cur tr))"
  unfolding removeExcess_def
proof (rule forErr_adds)
  fix i tr
  have "extends tr (removeReplicasOf cm rc i tr)"
    unfolding removeReplicasOf_def Let_def by (rule forIgnore_adds) (rule extends_RemoveReplica)
  then show "extends tr (snd (RemoveMaster cm (clusterMasterAddr rc 0) (clusterMasterAddr rc i) (removeReplicasOf cm rc i tr)))"
    using extends_RemoveMaster by (rule adds_trans)
qed

lemma extends_events:
  "extends tr (recordEvent ty re ms tr)" "extends tr (scaledEvent re f t tr)"
  "extends tr (RecordClusterScaling cx n ns d st tr)" "extends tr (RecordClusterFailover n ns tr)"
  by (simp_all add: recordEvent_def scaledEvent_def metric_defs time_Now_def Let_def)

lemma extends_reconcileScaleOut:
  assumes "reconcileScaleOut r cm rc cur tr = Some (res, tr')"
  shows "extends tr tr'"
proof -
  let ?rc = "setPhase PhaseScaling rc" and ?t0 = "tr @ [ReadClock]"
  obtain b t1 where 1: "allMasterPodsReady r ?rc ?t0 = (b, t1)" by fastforce
  have e1: "extends tr t1"
    by (rule adds_trans [of _ _ ?t0]) (use extends_allMasterPodsReady [of ?t0 r ?rc] 1 in simp_all)
  obtain m t2 where 2: "meetNewMasters cm ?rc cur t1 = (m, t2)" by fastforce
  have e2: "extends tr t2" using adds_trans [OF e1 extends_meetNewMasters [of t1 cm ?rc cur]] 2 by simp
  show ?thesis
  proof (cases "b \<and> m = None")
    case True
    then obtain err t3 where 3: "RebalanceSlots (rec_Ctx r) cm (allMasterAddrs ?rc) t2 = Some (err, t3)"
      using assms 1 2 by (auto simp: reconcileScaleOut_def time_Now_def Let_def Option.bind_eq_Some_conv)
    have e3: "extends tr t3" using adds_trans [OF e2 extends_RebalanceSlots [OF 3]] .
    have "extends t3 (scaledEvent x y z (RecordClusterScaling cx n ns d st (attachReplicas cm ?rc cur t3)))"
      for x y z cx n ns d st
      by (meson extends_events(2,3) extends_attachReplicas adds_trans)
    then show ?thesis using assms 1 2 3 True e3
      by (auto simp: reconcileScaleOut_def time_Now_def Let_def split: if_splits intro: adds_trans)
  next
    case False
    then show ?thesis using assms 1 2 e1 e2
      by (auto simp: reconcileScaleOut_def time_Now_def Let_def split: bool.splits option.splits)
  qed
qed

lemma extends_reconcileScaleIn:
  assumes "reconcileScaleIn r cm rc cur tr = Some (res, tr')"
  shows "extends tr tr'"
proof -
  let ?rc = "setPhase PhaseScaling rc" and ?t0 = "tr @ [ReadClock]"
  obtain err t1 where 1: "RebalanceSlots (rec_Ctx r) cm (allMasterAddrs ?rc) ?t0 = Some (err, t1)"
    using assms by (auto simp: reconcileScaleIn_def time_Now_def Option.bind_eq_Some_conv Let_def split: if_splits)
  have e1: "extends tr t1" by (rule adds_trans [OF _ extends_RebalanceSlots [OF 1]]) simp
  obtain x t2 where 2: "removeExcess cm ?rc cur t1 = (x, t2)" by fastforce
  have e2: "extends tr t2" using adds_trans [OF e1 extends_removeExcess [of t1 cm ?rc cur]] 2 by simp
  have "extends t2 (scaledEvent a y z (RecordClusterScaling cx n ns d st t2))" for a y z cx n ns d st
    by (meson extends_events(2,3) adds_trans)
  then show ?thesis using assms 1 2 e1 e2
    by (auto simp: reconcileScaleIn_def time_Now_def Let_def split: if_splits option.splits intro: adds_trans)
qed

lemma extends_formOnce:
  assumes "formOnce r cm rc tr = Some (res, tr')"
  shows "extends tr tr'"
proof -
  obtain b t1 where 1: "allPodsReady r rc tr = (b, t1)" by fastforce
  have e1: "extends tr t1" using extends_allPodsReady [of tr r rc] 1 by simp
  show ?thesis
  proof (cases b)
    case True
    then obtain err t2 where 2: "FormCluster (rec_Ctx r) cm (allMasterAddrs rc) (allReplicaAddrs rc)
        (sint (c_ReplicasPerMaster (c_Spec rc))) t1 = Some (err, t2)"
      using assms 1 by (auto simp: formOnce_def Option.bind_eq_Some_conv split: if_splits)
    have e2: "extends tr t2" using adds_trans [OF e1 extends_FormCluster [OF 2]] .
    have "tr' = recordEvent ''Normal'' ''ClusterFormed'' ''Redis Cluster formed successfully'' t2 \<or>
      (\<exists>e. tr' = recordEvent ''Warning'' ''ClusterFormationFailed'' (Error e)
         (snd (setClusterFailedStatus r rc ''ClusterFormationFailed'' (Error e) t2)))"
      using assms 1 True 2 by (auto simp: formOnce_def Let_def case_prod_unfold split: if_splits option.splits)
    then have "extends t2 tr'"
      by (elim disjE exE, simp_all only: extends_events)
        (rule adds_trans [OF extends_setClusterFailedStatus extends_events(1)])
    with e2 show ?thesis by (rule adds_trans)
  next
    case False
    then show ?thesis using assms 1 e1 by (simp add: formOnce_def)
  qed
qed

lemma extends_reconcileClusterLifecycle:
  assumes "reconcileClusterLifecycle r rc tr = Some (res, tr')"
  shows "extends tr tr'"
proof (cases "rec_ClusterManager r")
  case None
  then show ?thesis using assms by (simp add: reconcileClusterLifecycle_def)
next
  case (Some cm)
  obtain s t1 where 1: "GetClusterState cm (clusterMasterAddr rc 0) tr = (s, t1)" by fastforce
  have e1: "extends tr t1" using extends_GetClusterState [of tr cm "clusterMasterAddr rc 0"] 1 by simp
  have "extends t1 tr'"
  proof (cases s)
    case (Inl e)
    obtain b t2 where 2: "allMasterPodsReady r rc t1 = (b, t2)" by fastforce
    then have "tr' = t2" using assms Some 1 Inl by (auto simp: reconcileClusterLifecycle_def split: bool.splits)
    then show ?thesis using 2 extends_allMasterPodsReady [of t1 r rc] by simp
  next
    case (Inr st)
    consider "formOnce r cm rc t1 = Some (res, tr')" | "Some (failState rc t1) = Some (res, tr')"
      | rc2 t2 where "recovered rc (cst_State st) t1 = (rc2, t2)"
          "scaleIfNeeded r cm rc2 (word_of_int (cst_Size st)) t2 = Some (res, tr')"
      using assms Some 1 Inr by (auto simp: reconcileClusterLifecycle_def split: if_splits prod.splits)
    then show ?thesis
    proof cases
      case 1
      then show ?thesis by (rule extends_formOnce)
    next
      case 2
      then show ?thesis
        by (auto simp: failState_def recordEvent_def RecordClusterFailover_def split: if_splits)
    next
      case (3 rc2 t2)
      have "extends t1 t2" using 3(1) by (auto simp: recovered_def recordEvent_def split: if_splits)
      moreover have "extends t2 tr'"
        using 3(2) extends_reconcileScaleOut extends_reconcileScaleIn
        by (auto simp: scaleIfNeeded_def split: if_splits)
      ultimately show ?thesis by (rule adds_trans)
    qed
  qed
  with e1 show ?thesis by (rule adds_trans)
qed

end
