(* ===== verification/Controllers_Correct.thy ===== *)
theory Controllers_Correct
  imports Controller_Objects Trace_Extension
begin

text \<open>
  Correctness of the three reconcilers: a successful run brings about exactly the desired objects, up to
  the parts an existing object keeps.
\<close>

section \<open>A run writes the desired objects\<close>

lemma applied_quiet: "set es \<subseteq> quiet \<Longrightarrow> applied es = []"
  by (induction es) (auto simp: applied_def quiet_def List.map_filter_def split: event.splits kube_op.splits)

lemma extends_applied: "extends tr tr' \<Longrightarrow> \<exists>es. tr' = tr @ es \<and> applied es = []"
  by (auto simp: adds_def dest: applied_quiet)

lemma quiet_more [simp]:
  "Kube (GetSecret ns n) \<in> quiet" "Kube (PatchPod ns p) \<in> quiet" "Kube (StatusRedis obj) \<in> quiet"
  "Kube (StatusSentinel rs) \<in> quiet"
  by (simp_all add: quiet_def)

lemma extends_pushConfig: "extends tr (pushConfig cx c addr conf tr)"
  unfolding pushConfig_def by (rule forIgnore_adds) (simp add: trace_simps)

lemma extends_fold: "(\<And>x tr. extends tr (f x tr)) \<Longrightarrow> extends tr (fold f xs tr)"
proof (induction xs arbitrary: tr)
  case (Cons x xs)
  have "extends tr (f x tr)" by (rule Cons.prems)
  also have "extends (f x tr) (fold f xs (f x tr))" using Cons by blast
  finally show ?case by simp
qed simp

lemma extends_tryClusterHotReload: "extends tr (tryClusterHotReload r rc tr)"
  by (auto simp: tryClusterHotReload_def intro: extends_fold extends_pushConfig split: option.split)

lemma extends_recordLastConfigHash: "extends tr (snd (recordLastConfigHash r rc h tr))"
  by (simp add: recordLastConfigHash_def Let_def)

lemma extends_tryClusterRollingFailover: "extends tr (snd (tryClusterRollingFailover r rc h tr))"
proof -
  have f: "extends tr (forIgnore (failoverReplica c nodes) ids tr)" for c nodes ids tr
    by (rule forIgnore_adds) (simp add: failoverReplica_def trace_simps split: option.split)
  have g: "extends tr (snd (recordLastConfigHash r rc h (recordEvent a b m (forIgnore (failoverReplica c nodes) ids tr))))"
    for a b m c nodes ids tr
    by (rule adds_trans [OF f]) (rule adds_trans [OF extends_events(1) extends_recordLastConfigHash])
  show ?thesis
  proof (cases "rec_RedisClient r", goal_cases)
    case (2 c)
    show ?thesis
    proof (cases "rec_ClusterManager r")
      case (Some cm)
      obtain s t1 where 1: "GetClusterState cm (clusterMasterAddr rc 0) tr = (s, t1)" by fastforce
      then have "extends tr t1" using extends_GetClusterState [of tr cm "clusterMasterAddr rc 0"] by simp
      then show ?thesis
        using 2 Some 1 adds_trans [OF _ g] adds_trans [OF _ extends_recordLastConfigHash] extends_recordLastConfigHash
        by (auto simp: tryClusterRollingFailover_def Let_def split: sum.split)
    qed (simp add: tryClusterRollingFailover_def 2)
  qed (simp add: tryClusterRollingFailover_def)
qed

lemma extends_updateClusterStatus: "extends tr (snd (updateClusterStatus r rc tr))"
proof -
  obtain m t1 where 1: "podsOf r rc ComponentMaster tr = (m, t1)" by fastforce
  obtain p t2 where 2: "podsOf r rc ComponentReplica t1 = (p, t2)" by fastforce
  obtain seen t3 where seen: "observe r rc t2 = (seen, t3)" by fastforce
  obtain st slots nodes where 3: "observe r rc t2 = ((st, slots, nodes), t3)" using seen by (cases seen) simp
  have "extends tr t1" using extends_podsOf [of tr r rc ComponentMaster] 1 by simp
  also have "extends t1 t2" using extends_podsOf [of t1 r rc ComponentReplica] 2 by simp
  also have "extends t2 t3" using 3
    by (auto simp: observe_def GetClusterState_def trace_simps split: option.splits sum.splits)
  also have "extends t3 (snd (updateClusterStatus r rc tr))"
    by (simp add: updateClusterStatus_def 1 2 3 time_Now_def SetClusterMetrics_def statusUpdate_def Let_def split: sum.split)
  finally show ?thesis .
qed

text \<open>
  The spine the three runs share: the fatal steps, the optional service monitor, and a rest that
  writes no object.
\<close>

definition monitorStep :: "Kube \<Rightarrow> ObjectMeta \<Rightarrow> bool option \<Rightarrow> ServiceMonitor \<Rightarrow> trace \<Rightarrow> trace" where
  "monitorStep k ow on sm tr = (if on = Some True then snd (applyServiceMonitor k ow sm tr) else tr)"

definition writes ::
  "Kube \<Rightarrow> ObjectMeta \<Rightarrow> target list \<Rightarrow> bool option \<Rightarrow> ServiceMonitor \<Rightarrow> trace \<Rightarrow> trace \<Rightarrow> bool" where
  "writes k ow ts on sm tr tr' \<longleftrightarrow> (\<exists>t1 t2 es. brought k ow ts tr t1 \<and>
     (if on = Some True then tried k ow (True, KServiceMonitor sm) t1 t2 else t2 = t1) \<and>
     tr' = t2 @ es \<and> applied es = [])"

lemma monitorStep_tried:
  assumes "createsOrUpdates k"
  shows "if on = Some True then tried k ow (True, KServiceMonitor sm) tr (monitorStep k ow on sm tr)
    else monitorStep k ow on sm tr = tr"
proof -
  have "createOrUpdate k (k_FetchServiceMonitor k) KServiceMonitor (keyServiceMonitor sm) (mutateServiceMonitor k ow sm) tr =
      (fst (applyServiceMonitor k ow sm tr), snd (applyServiceMonitor k ow sm tr))"
    by (simp add: applyServiceMonitor_def)
  from sm.step_tried [OF assms this] show ?thesis by (simp add: monitorStep_def)
qed

lemma spine_writes:
  assumes lib: "createsOrUpdates k" "ownsOnly k" and steps: "list_all2 (achieves k ow) steps ts"
    and run: "forErr (\<lambda>step. step) steps tr = (None, t1)" and rest: "extends (monitorStep k ow on sm t1) tr'"
  shows "writes k ow ts on sm tr tr'"
proof -
  obtain es where "tr' = monitorStep k ow on sm t1 @ es" "applied es = []" using extends_applied [OF rest] by blast
  then show ?thesis unfolding writes_def
    using steps_achieve [OF lib steps run] monitorStep_tried [OF lib(1), of on ow sm t1] by blast
qed

lemma cluster_run_spine:
  assumes run: "cluster_converge r rc tr = Some ((res, None), tr')"
  obtains t1 where
    "forErr (\<lambda>step. step) (applyConfigMap (rec_Kube r) (c_Meta rc) (BuildClusterConfigMap rc) #
       cluster_steps r rc (configDataHash (rec_Kube r) (cm_Data (BuildClusterConfigMap rc)))) tr = (None, t1)"
    and "extends (monitorStep (rec_Kube r) (c_Meta rc) (c_EnableExporter (c_Spec rc)) (BuildClusterServiceMonitor rc) t1) tr'"
proof -
  let ?cm = "BuildClusterConfigMap rc" and ?k = "rec_Kube r"
  let ?h = "configDataHash ?k (cm_Data ?cm)"
  obtain e0 t0 where 0: "applyConfigMap ?k (c_Meta rc) ?cm tr = (e0, t0)" by fastforce
  have [simp]: "e0 = None" using run 0
    by (cases e0) (auto simp: cluster_converge_eq reconcileClusterConfigMap_def Let_def)
  obtain e1 t1 where 1: "forErr (\<lambda>step. step) (cluster_steps r rc ?h) t0 = (e1, t1)" by fastforce
  have [simp]: "e1 = None" using run 0 1
    by (cases e1) (auto simp: cluster_converge_eq reconcileClusterConfigMap_def Let_def)
  let ?t2 = "monitorStep ?k (c_Meta rc) (c_EnableExporter (c_Spec rc)) (BuildClusterServiceMonitor rc) t1"
  have rest: "do { ((res, rc), tr) \<leftarrow> reconcileClusterLifecycle r rc ?t2;
                  Some (case tryClusterRollingFailover r rc ?h tr of (rc, tr) \<Rightarrow>
                    (case updateClusterStatus r rc (tryClusterHotReload r rc tr) of
                       (Some e, tr) \<Rightarrow> ((noResult, Some e), tr)
                     | (None, tr) \<Rightarrow> (finishReconcile res, tr))) } = Some ((res, None), tr')"
    using run 0 1 by (simp add: cluster_converge_eq reconcileClusterConfigMap_def Let_def monitorStep_def)
  then obtain lres rc' t3 where 3: "reconcileClusterLifecycle r rc ?t2 = Some ((lres, rc'), t3)"
    by (auto simp: Option.bind_eq_Some_conv)
  obtain rc2 t4 where 4: "tryClusterRollingFailover r rc' ?h t3 = (rc2, t4)" by fastforce
  have "tr' = snd (updateClusterStatus r rc2 (tryClusterHotReload r rc2 t4))"
    using rest 3 4 by (auto split: prod.splits option.splits)
  moreover have "extends ?t2 t3" using 3 by (rule extends_reconcileClusterLifecycle)
  moreover have "extends t3 t4" using extends_tryClusterRollingFailover [of t3 r rc' ?h] 4 by simp
  ultimately have "extends ?t2 tr'"
    using extends_tryClusterHotReload extends_updateClusterStatus by (metis adds_trans)
  with 0 1 show thesis by (intro that [of t1]) simp_all
qed

lemma cluster_writes:
  assumes "createsOrUpdates (rec_Kube r)" and "ownsOnly (rec_Kube r)"
    and "cluster_converge r rc tr = Some ((res, None), tr')"
  shows "writes (rec_Kube r) (c_Meta rc) (clusterObjects (rec_Kube r) rc) (c_EnableExporter (c_Spec rc))
    (BuildClusterServiceMonitor rc) tr tr'"
  by (rule cluster_run_spine [OF assms(3)]) (rule spine_writes [OF assms(1,2) cluster_steps_achieve])

text \<open>
  C4: A reconciler run of a cluster that returns no error has brought about exactly the desired objects, in
  order: the config map, the StatefulSet of the masters and, with replicas, of the replicas, both
  stamped with the hash of the configuration, the three services and the two disruption budgets; and
  it has tried the service monitor if and only if the exporter is enabled. For each, the object with the desired
  namespace and name is read; either it is already as wanted, or the wanted object is written, successfully: with
  the desired labels and the owner reference of the cluster, with the fields the operator manages
  (data of a config map; replicas and pod template; selector, ports and publication of unready addresses; budget) as
  desired, and with the fields Kubernetes does not let change (service name, selector and claim templates of a
  StatefulSet, type and IP of a service) as desired if the object is new and untouched if it exists. Nothing in the
  rest of the run (lifecycle, failover, hot reload, status) writes an object.
\<close>

theorem cluster_run_writes:
  assumes "createsOrUpdates (rec_Kube r)" and "ownsOnly (rec_Kube r)"
    and "cluster_converge r rc tr = Some ((res, None), tr')"
  shows "writes (rec_Kube r) (c_Meta rc) (clusterObjects (rec_Kube r) rc) (c_EnableExporter (c_Spec rc))
    (BuildClusterServiceMonitor rc) tr tr'"
  using assms by (rule cluster_writes)

lemma extends_redis_tryHotReload: "extends tr (redis_tryHotReload r obj tr)"
proof -
  have "extends tr (pushConfig cx c a conf (tr @ [Kube (GetSecret ns n)]))" for cx c a conf ns n
    by (rule adds_trans [OF _ extends_pushConfig]) simp
  then show ?thesis
    by (auto simp: redis_tryHotReload_def Let_def extends_pushConfig split: option.split)
qed

lemma extends_redis_updateStatus: "extends tr (snd (redis_updateStatus r obj tr))"
  by (simp add: redis_updateStatus_def listPods_def time_Now_def Let_def split: sum.split)

lemma redis_steps_achieve:
  "list_all2 (achieves (rec_Kube r) (r_Meta obj)) (applyConfigMap (rec_Kube r) (r_Meta obj) (BuildRedisConfigMap obj) #
     redis_steps r obj (configDataHash (rec_Kube r) (cm_Data (BuildRedisConfigMap obj)))) (redisObjects (rec_Kube r) obj)"
  by (simp add: redis_steps_eq redisObjects_def Let_def apply_achieves)

lemma redis_run_spine:
  assumes run: "redis_converge r obj tr = ((res, None), tr')"
  obtains t1 where
    "forErr (\<lambda>step. step) (applyConfigMap (rec_Kube r) (r_Meta obj) (BuildRedisConfigMap obj) #
       redis_steps r obj (configDataHash (rec_Kube r) (cm_Data (BuildRedisConfigMap obj)))) tr = (None, t1)"
    and "extends (monitorStep (rec_Kube r) (r_Meta obj) (r_EnableExporter (r_Spec obj)) (BuildRedisServiceMonitor obj) t1) tr'"
proof -
  let ?cm = "BuildRedisConfigMap obj" and ?k = "rec_Kube r"
  let ?h = "configDataHash ?k (cm_Data ?cm)"
  obtain e0 t0 where 0: "applyConfigMap ?k (r_Meta obj) ?cm tr = (e0, t0)" by fastforce
  have [simp]: "e0 = None" using run 0
    by (cases e0) (auto simp: redis_converge_eq redis_reconcileConfigMap_def Let_def)
  obtain e1 t1 where 1: "forErr (\<lambda>step. step) (redis_steps r obj ?h) t0 = (e1, t1)" by fastforce
  have [simp]: "e1 = None" using run 0 1
    by (cases e1) (auto simp: redis_converge_eq redis_reconcileConfigMap_def Let_def)
  let ?t2 = "monitorStep ?k (r_Meta obj) (r_EnableExporter (r_Spec obj)) (BuildRedisServiceMonitor obj) t1"
  have "tr' = snd (redis_updateStatus r obj (redis_tryHotReload r obj ?t2))"
    using run 0 1 by (auto simp: redis_converge_eq redis_reconcileConfigMap_def Let_def monitorStep_def
        split: prod.splits option.splits)
  then have "extends ?t2 tr'" using extends_redis_tryHotReload extends_redis_updateStatus by (metis adds_trans)
  with 0 1 show thesis by (intro that [of t1]) simp_all
qed

lemma redis_writes:
  assumes "createsOrUpdates (rec_Kube r)" and "ownsOnly (rec_Kube r)"
    and "redis_converge r obj tr = ((res, None), tr')"
  shows "writes (rec_Kube r) (r_Meta obj) (redisObjects (rec_Kube r) obj) (r_EnableExporter (r_Spec obj))
    (BuildRedisServiceMonitor obj) tr tr'"
  by (rule redis_run_spine [OF assms(3)]) (rule spine_writes [OF assms(1,2) redis_steps_achieve])

text \<open>
  C13: The same for a standalone Redis: config map, then headless service and StatefulSet if it has
  storage and otherwise a Deployment, then the client service, of which annotations and the publication of unready
  addresses are left to others once it exists.
\<close>

theorem redis_run_writes:
  assumes "createsOrUpdates (rec_Kube r)" and "ownsOnly (rec_Kube r)"
    and "redis_converge r obj tr = ((res, None), tr')"
  shows "writes (rec_Kube r) (r_Meta obj) (redisObjects (rec_Kube r) obj) (r_EnableExporter (r_Spec obj))
    (BuildRedisServiceMonitor obj) tr tr'"
  using assms by (rule redis_writes)

lemma extends_reconcileRoleLabels: "extends tr (snd (reconcileRoleLabels r rs tr))"
proof -
  have p: "extends tr (forIgnore (patchRole k ns m) pods tr)" for k ns m pods tr
    by (rule forIgnore_adds) (simp add: patchRole_def Let_def)
  have q: "extends tr (forIgnore (patchRole k ns m) pods (tr @ [Kube (ListPods ns sel)]))" for k ns m pods tr sel
    by (rule adds_trans [OF _ p]) simp
  obtain m t1 where 1: "findMasterPod r rs tr = (m, t1)" by fastforce
  then have "extends tr t1"
    by (auto simp: findMasterPod_def Let_def trace_simps listPods_def split: option.splits sum.splits if_splits)
  also have "extends t1 (snd (reconcileRoleLabels r rs tr))"
    by (simp add: reconcileRoleLabels_def 1 listPods_def Let_def q split: sum.split)
  finally show ?thesis .
qed

lemma extends_updateSentinelStatus: "extends tr (snd (updateSentinelStatus r rs tr))"
  by (simp add: updateSentinelStatus_def listPods_def time_Now_def Let_def split: sum.split)

lemma sentinel_steps_achieve:
  "list_all2 (achieves (rec_Kube r) (s_Meta rs)) (applyConfigMap (rec_Kube r) (s_Meta rs) (BuildSentinelRedisConfigMap rs) #
     sentinel_steps r rs (configDataHash (rec_Kube r) (cm_Data (BuildSentinelRedisConfigMap rs)))) (sentinelObjects (rec_Kube r) rs)"
  unfolding sentinel_steps_eq sentinelObjects_def Let_def map_append
  by (simp only: append_Cons append_Nil list.map, intro list_all2_appendI list.rel_intros apply_maps_achieve apply_achieves)

lemma sentinel_run_spine:
  assumes run: "sentinel_converge r rs tr = ((res, None), tr')"
  obtains t1 where
    "forErr (\<lambda>step. step) (applyConfigMap (rec_Kube r) (s_Meta rs) (BuildSentinelRedisConfigMap rs) #
       sentinel_steps r rs (configDataHash (rec_Kube r) (cm_Data (BuildSentinelRedisConfigMap rs)))) tr = (None, t1)"
    and "extends (monitorStep (rec_Kube r) (s_Meta rs) (s_EnableExporter (s_Spec rs)) (BuildSentinelServiceMonitor rs) t1) tr'"
proof -
  let ?cm = "BuildSentinelRedisConfigMap rs" and ?k = "rec_Kube r"
  let ?h = "configDataHash ?k (cm_Data ?cm)"
  obtain e0 t0 where 0: "applyConfigMap ?k (s_Meta rs) ?cm tr = (e0, t0)" by fastforce
  have [simp]: "e0 = None" using run 0
    by (cases e0) (auto simp: sentinel_converge_eq reconcileRedisConfigMap_def Let_def)
  obtain e1 t1 where 1: "forErr (\<lambda>step. step) (sentinel_steps r rs ?h) t0 = (e1, t1)" by fastforce
  have [simp]: "e1 = None" using run 0 1
    by (cases e1) (auto simp: sentinel_converge_eq reconcileRedisConfigMap_def Let_def)
  let ?t2 = "monitorStep ?k (s_Meta rs) (s_EnableExporter (s_Spec rs)) (BuildSentinelServiceMonitor rs) t1"
  obtain rs' t3 where 3: "reconcileRoleLabels r rs ?t2 = (rs', t3)" by fastforce
  have "tr' = snd (updateSentinelStatus r rs' t3)"
    using run 0 1 3 by (auto simp: sentinel_converge_eq reconcileRedisConfigMap_def Let_def monitorStep_def
        split: prod.splits option.splits)
  moreover have "extends ?t2 t3" using extends_reconcileRoleLabels [of ?t2 r rs] 3 by simp
  ultimately have "extends ?t2 tr'" using extends_updateSentinelStatus by (metis adds_trans)
  with 0 1 show thesis by (intro that [of t1]) simp_all
qed

lemma sentinel_writes:
  assumes "createsOrUpdates (rec_Kube r)" and "ownsOnly (rec_Kube r)"
    and "sentinel_converge r rs tr = ((res, None), tr')"
  shows "writes (rec_Kube r) (s_Meta rs) (sentinelObjects (rec_Kube r) rs) (s_EnableExporter (s_Spec rs))
    (BuildSentinelServiceMonitor rs) tr tr'"
  by (rule sentinel_run_spine [OF assms(3)]) (rule spine_writes [OF assms(1,2) sentinel_steps_achieve])

text \<open>
  C12: The same for a \<open>RedisSentinel\<close>: two config maps, the StatefulSet of the Redis pods, the
  Deployment of the Sentinels, four services and two disruption budgets.
\<close>

theorem sentinel_run_writes:
  assumes "createsOrUpdates (rec_Kube r)" and "ownsOnly (rec_Kube r)"
    and "sentinel_converge r rs tr = ((res, None), tr')"
  shows "writes (rec_Kube r) (s_Meta rs) (sentinelObjects (rec_Kube r) rs) (s_EnableExporter (s_Spec rs))
    (BuildSentinelServiceMonitor rs) tr tr'"
  using assms by (rule sentinel_writes)

section \<open>A sample environment\<close>

text \<open>
  An API server that has no object yet, accepts every write and returns it unchanged, the helpers
  of controller-runtime for finalizers, and a reconciler without Redis client and cluster manager,
  as the unit tests of the repository run it.
\<close>

definition notFound :: error where
  "notFound = StatusError ''NotFound'' ''not found''"

definition sampleKube :: Kube where
  "sampleKube =
     \<lparr>k_GetRedis = \<lambda>tr ns n. Inr (zeroRedis n ns),
      k_GetSentinel = \<lambda>tr ns n. Inr (zeroRedisSentinel n ns),
      k_GetCluster = \<lambda>tr ns n. Inr (zeroRedisCluster n ns),
      k_GetSecret = \<lambda>tr ns n. Some notFound,
      k_GetPVC = \<lambda>tr ns n. Some notFound,
      k_ListPVCs = \<lambda>tr ns sel. Inr [],
      k_DeletePVC = \<lambda>tr ns n. None,
      k_ListPods = \<lambda>tr ns sel. Inr [],
      k_PatchPod = \<lambda>tr ns p. None,
      k_UpdateRedis = \<lambda>tr x. Inr x, k_UpdateSentinel = \<lambda>tr x. Inr x, k_UpdateCluster = \<lambda>tr x. Inr x,
      k_StatusRedis = \<lambda>tr x. Inr x, k_StatusSentinel = \<lambda>tr x. Inr x, k_StatusCluster = \<lambda>tr x. Inr x,
      k_PatchCluster = \<lambda>tr x. Inr x,
      k_FetchConfigMap = \<lambda>tr x. Inr x, k_FetchStatefulSet = \<lambda>tr x. Inr x, k_FetchDeployment = \<lambda>tr x. Inr x,
      k_FetchService = \<lambda>tr x. Inr x, k_FetchPDB = \<lambda>tr x. Inr x, k_FetchServiceMonitor = \<lambda>tr x. Inr x,
      k_Unchanged = \<lambda>tr ex x. x = ex \<and> \<not> isNew (kMeta ex),
      k_Apply = \<lambda>tr x. None,
      k_SetControllerReference = \<lambda>owner m. Inr (m\<lparr>om_OwnerReferences := [om_Name owner]\<rparr>),
      k_ContainsFinalizer = \<lambda>m fin. fin \<in> set (om_Finalizers m),
      k_AddFinalizer = \<lambda>m fin. m\<lparr>om_Finalizers := List.insert fin (om_Finalizers m)\<rparr>,
      k_RemoveFinalizer = \<lambda>m fin. m\<lparr>om_Finalizers := removeAll fin (om_Finalizers m)\<rparr>,
      k_SetStatusCondition = \<lambda>cs c. c # filter (\<lambda>d. cd_Type d \<noteq> cd_Type c) cs,
      k_ParseQuantity = \<lambda>q. Inr 0,
      k_sha256 = id\<rparr>"

lemma sampleKube_contract: "createsOrUpdates sampleKube" "ownsOnly sampleKube"
proof -
  have "fetchObj sampleKube tr key = Inr key" for tr key by (cases key) (simp_all add: sampleKube_def)
  then show "createsOrUpdates sampleKube" by (auto simp: createsOrUpdates_def) (simp_all add: sampleKube_def)
  show "ownsOnly sampleKube" by (auto simp: ownsOnly_def sampleKube_def)
qed

definition sampleReconciler :: Reconciler where
  "sampleReconciler = \<lparr>rec_Kube = sampleKube, rec_Ctx = sampleCtx, rec_RedisClient = None, rec_ClusterManager = None\<rparr>"

lemma sampleReconciler_simps [simp]:
  "rec_Kube sampleReconciler = sampleKube" "rec_Ctx sampleReconciler = sampleCtx"
  "rec_RedisClient sampleReconciler = None" "rec_ClusterManager sampleReconciler = None"
  by (simp_all add: sampleReconciler_def)

definition succeeds :: "(trace \<Rightarrow> error option \<times> trace) \<Rightarrow> bool" where
  "succeeds step \<longleftrightarrow> (\<forall>tr. fst (step tr) = None)"

lemma sample_apply_succeeds [simp]:
  "succeeds (applyConfigMap sampleKube ow cm)" "succeeds (applyStatefulSet sampleKube ow st)"
  "succeeds (applyDeployment sampleKube ow dp)" "succeeds (applyService sampleKube ow sv)"
  "succeeds (applyClientService sampleKube ow sv)" "succeeds (applyPDB sampleKube ow pd)"
  by (simp_all add: succeeds_def applyConfigMap_def applyStatefulSet_def applyDeployment_def applyService_def
      applyClientService_def applyPDB_def createOrUpdate_def sampleKube_def mutateConfigMap_def mutateStatefulSet_def
      mutateDeployment_def mutateService_def mutateClientService_def mutatePDB_def ownedMeta_def Let_def)

lemma succeeds_forErr: "\<forall>step \<in> set steps. succeeds step \<Longrightarrow> \<exists>t. forErr (\<lambda>step. step) steps tr = (None, t)"
proof (induction steps arbitrary: tr)
  case (Cons step steps)
  then have "step tr = (None, snd (step tr))" by (simp add: succeeds_def prod_eq_iff)
  with Cons show ?case by (auto split: prod.split)
qed simp

lemma succeedsD: "succeeds step \<Longrightarrow> \<exists>t. step tr = (None, t)"
  by (metis prod.collapse succeeds_def)

definition threeByOne :: RedisCluster where
  "threeByOne = (let rc = zeroRedisCluster ''c'' ''ns'' in
     rc\<lparr>c_Spec := (c_Spec rc)\<lparr>c_Masters := 3, c_ReplicasPerMaster := 1, c_EnableExporter := Some True\<rparr>\<rparr>)"

theorem cluster_run_writes_witness:
  "\<exists>res tr'. cluster_converge sampleReconciler threeByOne [] = Some ((res, None), tr') \<and>
    writes sampleKube (c_Meta threeByOne) (clusterObjects sampleKube threeByOne) (c_EnableExporter (c_Spec threeByOne))
      (BuildClusterServiceMonitor threeByOne) [] tr'"
proof -
  let ?rc = threeByOne and ?r = sampleReconciler
  obtain t0 where 0: "applyConfigMap sampleKube (c_Meta ?rc) (BuildClusterConfigMap ?rc) [] = (None, t0)"
    using succeedsD [OF sample_apply_succeeds(1)] by blast
  let ?h = "configDataHash sampleKube (cm_Data (BuildClusterConfigMap ?rc))"
  have "\<forall>step \<in> set (cluster_steps ?r ?rc ?h). succeeds step"
    by (auto simp: cluster_steps_eq Let_def split: if_splits)
  from succeeds_forErr [OF this] obtain t1 where 1: "forErr (\<lambda>step. step) (cluster_steps ?r ?rc ?h) t0 = (None, t1)"
    by blast
  let ?t2 = "snd (applyServiceMonitor sampleKube (c_Meta ?rc) (BuildClusterServiceMonitor ?rc) t1)"
  have "succeeds (updateClusterStatus ?r ?rc)"
    by (simp add: succeeds_def updateClusterStatus_def podsOf_def listPods_def observe_def time_Now_def
        statusUpdate_def Let_def sampleKube_def)
  from succeedsD [OF this] obtain t3 where 3: "updateClusterStatus ?r ?rc ?t2 = (None, t3)" by blast
  have "c_EnableExporter (c_Spec ?rc) = Some True" by (simp add: threeByOne_def Let_def)
  then have "cluster_converge ?r ?rc [] = Some ((requeueIn 30, None), t3)"
    using 0 1 3 by (simp add: cluster_converge_eq reconcileClusterConfigMap_def Let_def reconcileClusterLifecycle_def
        tryClusterRollingFailover_def tryClusterHotReload_def finishReconcile_def noResult_def)
  with cluster_run_writes [OF _ _ this] show ?thesis by (auto simp: sampleKube_contract)
qed

theorem redis_run_writes_witness:
  "\<exists>res tr'. redis_converge sampleReconciler (zeroRedis ''r'' ''ns'') [] = ((res, None), tr') \<and>
    writes sampleKube (r_Meta (zeroRedis ''r'' ''ns'')) (redisObjects sampleKube (zeroRedis ''r'' ''ns''))
      (r_EnableExporter (r_Spec (zeroRedis ''r'' ''ns''))) (BuildRedisServiceMonitor (zeroRedis ''r'' ''ns'')) [] tr'"
proof -
  let ?rd = "zeroRedis ''r'' ''ns''" and ?r = sampleReconciler
  obtain t0 where 0: "applyConfigMap sampleKube (r_Meta ?rd) (BuildRedisConfigMap ?rd) [] = (None, t0)"
    using succeedsD [OF sample_apply_succeeds(1)] by blast
  let ?h = "configDataHash sampleKube (cm_Data (BuildRedisConfigMap ?rd))"
  have "\<forall>step \<in> set (redis_steps ?r ?rd ?h). succeeds step"
    by (auto simp: redis_steps_eq Let_def split: if_splits)
  from succeeds_forErr [OF this] obtain t1 where 1: "forErr (\<lambda>step. step) (redis_steps ?r ?rd ?h) t0 = (None, t1)"
    by blast
  have "succeeds (redis_updateStatus ?r ?rd)"
    by (simp add: succeeds_def redis_updateStatus_def listPods_def time_Now_def errOf_def Let_def sampleKube_def)
  from succeedsD [OF this] obtain t3 where 3: "redis_updateStatus ?r ?rd t1 = (None, t3)" by blast
  have "r_EnableExporter (r_Spec ?rd) = None" by (simp add: zeroRedis_def)
  then have "redis_converge ?r ?rd [] = ((requeueIn 30, None), t3)"
    using 0 1 3 by (simp add: redis_converge_eq redis_reconcileConfigMap_def Let_def redis_tryHotReload_def)
  with redis_run_writes [OF _ _ this] show ?thesis by (auto simp: sampleKube_contract)
qed

theorem sentinel_run_writes_witness:
  "\<exists>res tr'. sentinel_converge sampleReconciler (zeroRedisSentinel ''s'' ''ns'') [] = ((res, None), tr') \<and>
    writes sampleKube (s_Meta (zeroRedisSentinel ''s'' ''ns'')) (sentinelObjects sampleKube (zeroRedisSentinel ''s'' ''ns''))
      (s_EnableExporter (s_Spec (zeroRedisSentinel ''s'' ''ns'')))
      (BuildSentinelServiceMonitor (zeroRedisSentinel ''s'' ''ns'')) [] tr'"
proof -
  let ?rs = "zeroRedisSentinel ''s'' ''ns''" and ?r = sampleReconciler
  obtain t0 where 0: "applyConfigMap sampleKube (s_Meta ?rs) (BuildSentinelRedisConfigMap ?rs) [] = (None, t0)"
    using succeedsD [OF sample_apply_succeeds(1)] by blast
  let ?h = "configDataHash sampleKube (cm_Data (BuildSentinelRedisConfigMap ?rs))"
  have "\<forall>step \<in> set (sentinel_steps ?r ?rs ?h). succeeds step"
    by (auto simp: sentinel_steps_eq Let_def)
  from succeeds_forErr [OF this] obtain t1 where 1: "forErr (\<lambda>step. step) (sentinel_steps ?r ?rs ?h) t0 = (None, t1)"
    by blast
  obtain rs2 t2 where 2: "reconcileRoleLabels ?r ?rs t1 = (rs2, t2)" by fastforce
  have "succeeds (updateSentinelStatus ?r rs2)"
    by (simp add: succeeds_def updateSentinelStatus_def listPods_def time_Now_def errOf_def Let_def sampleKube_def)
  from succeedsD [OF this] obtain t3 where 3: "updateSentinelStatus ?r rs2 t2 = (None, t3)" by blast
  have "s_EnableExporter (s_Spec ?rs) = None" by (simp add: zeroRedisSentinel_def)
  then have "sentinel_converge ?r ?rs [] = ((requeueIn 30, None), t3)"
    using 0 1 2 3 by (simp add: sentinel_converge_eq reconcileRedisConfigMap_def Let_def)
  with sentinel_run_writes [OF _ _ this] show ?thesis by (auto simp: sampleKube_contract)
qed

end
