(* ===== verification/Claim_Deletion.thy ===== *)
theory Claim_Deletion
  imports Controllers_Correct
begin

text \<open>
  The deletion of a resource. The three handlers are the same abstract procedure: find the volume claims unless they
  are to be kept, delete them one by one, tidy up, and take the finalizer off last. The theorems say when
  the finalizer comes off, which claims are asked for, and whose claims these are.
\<close>

section \<open>Deleting claims\<close>

lemma deletePVCs_done:
  assumes "deletePVCs k ns names tr = (None, tr')"
  shows "tr' = tr @ map (\<lambda>n. Kube (DeletePVC ns n)) names"
proof -
  have "tr' = tr @ concat (map (\<lambda>n. [Kube (DeletePVC ns n)]) names)"
    using assms unfolding deletePVCs_def
    by (rule forErr_done) (auto simp: deletePVC_def split: option.splits if_splits)
  then show ?thesis by (simp add: concat_map_singleton)
qed

lemma deletePVCs_failed:
  assumes "deletePVCs k ns names tr = (Some e, tr')"
  shows "\<exists>ys n zs. names = ys @ n # zs \<and> tr' = tr @ map (\<lambda>n. Kube (DeletePVC ns n)) (ys @ [n]) \<and>
    k_DeletePVC k (tr @ map (\<lambda>n. Kube (DeletePVC ns n)) ys) ns n = Some e \<and> \<not> IsNotFound e"
proof -
  have "\<exists>ys n zs. names = ys @ n # zs \<and>
      (case deletePVC k ns n (tr @ concat (map (\<lambda>n. [Kube (DeletePVC ns n)]) ys)) of
         (Some e, tr) \<Rightarrow> (if IsNotFound e then None else Some e, tr) | (None, tr) \<Rightarrow> (None, tr)) = (Some e, tr')"
    using assms unfolding deletePVCs_def
    by (rule forErr_failed) (auto simp: deletePVC_def split: option.splits if_splits)
  then obtain ys n zs where "names = ys @ n # zs"
    "(case deletePVC k ns n (tr @ map (\<lambda>n. Kube (DeletePVC ns n)) ys) of
       (Some e, tr) \<Rightarrow> (if IsNotFound e then None else Some e, tr) | (None, tr) \<Rightarrow> (None, tr)) = (Some e, tr')"
    unfolding concat_map_singleton by blast
  then show ?thesis
    by (intro exI [of _ ys] exI [of _ n] exI [of _ zs]) (auto simp: deletePVC_def split: option.splits if_splits)
qed

lemma deletePVCs_answers:
  "deletePVCs k ns names tr = (None, tr') \<Longrightarrow> names = ys @ n # zs \<Longrightarrow>
     k_DeletePVC k (tr @ map (\<lambda>n. Kube (DeletePVC ns n)) ys) ns n = None \<or>
     (\<exists>e. k_DeletePVC k (tr @ map (\<lambda>n. Kube (DeletePVC ns n)) ys) ns n = Some e \<and> IsNotFound e)"
proof (induction ys arbitrary: names tr)
  case Nil
  then show ?case by (auto simp: deletePVCs_def deletePVC_def split: option.splits if_splits)
next
  case (Cons y ys)
  then have "deletePVCs k ns (ys @ n # zs) (tr @ [Kube (DeletePVC ns y)]) = (None, tr')"
    by (auto simp: deletePVCs_def deletePVC_def split: option.splits if_splits)
  from Cons.IH [OF this refl] show ?case by simp
qed

definition claimsGone :: "Kube \<Rightarrow> string \<Rightarrow> string list \<Rightarrow> trace \<Rightarrow> bool" where
  "claimsGone k ns names tr \<longleftrightarrow> (\<forall>i < length names.
     case k_DeletePVC k (tr @ map (\<lambda>n. Kube (DeletePVC ns n)) (take i names)) ns (names ! i) of
       None \<Rightarrow> True | Some e \<Rightarrow> IsNotFound e)"

lemma deletePVCs_gone: "deletePVCs k ns names tr = (None, tr') \<Longrightarrow> claimsGone k ns names tr"
  unfolding claimsGone_def
proof (intro allI impI)
  fix i assume "deletePVCs k ns names tr = (None, tr')" and "i < length names"
  then show "case k_DeletePVC k (tr @ map (\<lambda>n. Kube (DeletePVC ns n)) (take i names)) ns (names ! i) of
      None \<Rightarrow> True | Some e \<Rightarrow> IsNotFound e"
    using deletePVCs_answers [of k ns names tr tr' "take i names" "names ! i" "drop (Suc i) names"]
    by (auto simp: id_take_nth_drop)
qed

section \<open>The handlers as one procedure\<close>

text \<open>Asking for the claims, and deleting those the answer names; a failing request counts as no claims.\<close>

definition deleteClaims ::
  "Kube \<Rightarrow> string \<Rightarrow> StorageSpec option \<Rightarrow> event \<Rightarrow> string list result \<Rightarrow> trace \<Rightarrow> error option \<times> trace" where
  "deleteClaims k ns storage ask answer tr =
     (case storage of
        Some st \<Rightarrow>
          if KeepAfterDeletion st then (None, tr)
          else (case answer of Inl _ \<Rightarrow> (None, tr @ [ask]) | Inr names \<Rightarrow> deletePVCs k ns names (tr @ [ask]))
      | None \<Rightarrow> (None, tr))"

definition asked :: "StorageSpec option \<Rightarrow> event \<Rightarrow> event list" where
  "asked storage ask = (case storage of Some st \<Rightarrow> if KeepAfterDeletion st then [] else [ask] | None \<Rightarrow> [])"

definition claimsToDelete :: "StorageSpec option \<Rightarrow> string list result \<Rightarrow> string list" where
  "claimsToDelete storage answer =
     (case storage of
        Some st \<Rightarrow> if KeepAfterDeletion st then [] else (case answer of Inl _ \<Rightarrow> [] | Inr names \<Rightarrow> names)
      | None \<Rightarrow> [])"

text \<open>
  What a handler that starts with the trace \<open>t\<close> may end with: all claims gone and the \<open>release\<close>, or a deletion that
  failed otherwise than by not finding the claim, with which it stops.
\<close>

definition cleanedUp :: "Kube \<Rightarrow> string \<Rightarrow> string list \<Rightarrow> trace \<Rightarrow> (trace \<Rightarrow> error option \<times> trace) \<Rightarrow> outcome2 \<times> trace \<Rightarrow> bool" where
  "cleanedUp k ns claims t release out \<longleftrightarrow>
     (let deletions = map (\<lambda>n. Kube (DeletePVC ns n)) in
      claimsGone k ns claims t \<and> out = (let (e, tr) = release (t @ deletions claims) in ((noResult, e), tr)) \<or>
      (\<exists>ys n zs e. claims = ys @ n # zs \<and> k_DeletePVC k (t @ deletions ys) ns n = Some e \<and> \<not> IsNotFound e \<and>
         out = ((noResult, Some e), t @ deletions (ys @ [n]))))"

definition deletion ::
  "Kube \<Rightarrow> string \<Rightarrow> StorageSpec option \<Rightarrow> event \<Rightarrow> string list result \<Rightarrow> (trace \<Rightarrow> error option \<times> trace) \<Rightarrow> trace \<Rightarrow> outcome2 \<times> trace" where
  "deletion k ns storage ask answer release tr =
     (case deleteClaims k ns storage ask answer tr of
        (Some e, tr) \<Rightarrow> ((noResult, Some e), tr)
      | (None, tr) \<Rightarrow> (let (e, tr) = release tr in ((noResult, e), tr)))"

lemma deletion_cleanedUp:
  "cleanedUp k ns (claimsToDelete storage answer) (tr @ asked storage ask) release (deletion k ns storage ask answer release tr)"
proof (cases "\<exists>st names. storage = Some st \<and> \<not> KeepAfterDeletion st \<and> answer = Inr names")
  case True
  then obtain st names where st: "storage = Some st" "\<not> KeepAfterDeletion st" "answer = Inr names" by blast
  obtain e t where del: "deletePVCs k ns names (tr @ [ask]) = (e, t)" by fastforce
  show ?thesis
  proof (cases e)
    case None
    show ?thesis using deletePVCs_done [OF del [unfolded None]] deletePVCs_gone [OF del [unfolded None]] del None
      by (simp add: st cleanedUp_def deletion_def deleteClaims_def asked_def claimsToDelete_def Let_def)
  next
    case (Some e)
    show ?thesis using deletePVCs_failed [OF del [unfolded Some]] del Some
      by (simp add: st cleanedUp_def deletion_def deleteClaims_def asked_def claimsToDelete_def Let_def) blast
  qed
next
  case False
  then have "deleteClaims k ns storage ask answer tr = (None, tr @ asked storage ask)" "claimsToDelete storage answer = []"
    by (auto simp: deleteClaims_def asked_def claimsToDelete_def split: option.splits sum.splits)
  then show ?thesis by (simp add: cleanedUp_def deletion_def claimsGone_def)
qed

text \<open>What is left once the claims are gone: metrics, the event, and the update without finalizer.\<close>

definition releaseRedis :: "Kube \<Rightarrow> Redis \<Rightarrow> trace \<Rightarrow> error option \<times> trace" where
  "releaseRedis k obj tr =
     (let tr = tr @ [Kube (RecordEvent ''Normal'' ''Deleted'' ''Redis instance cleaned up'')];
          x = obj\<lparr>r_Meta := k_RemoveFinalizer k (r_Meta obj) FinalizerName\<rparr>
      in (errOf (k_UpdateRedis k tr x), tr @ [Kube (UpdateRedis x)]))"

definition releaseSentinel :: "Kube \<Rightarrow> RedisSentinel \<Rightarrow> trace \<Rightarrow> error option \<times> trace" where
  "releaseSentinel k rs tr =
     (let tr = tr @ [Kube (RecordEvent ''Normal'' ''Deleted'' ''RedisSentinel instance cleaned up'')];
          x = rs\<lparr>s_Meta := k_RemoveFinalizer k (s_Meta rs) FinalizerName\<rparr>
      in (errOf (k_UpdateSentinel k tr x), tr @ [Kube (UpdateSentinel x)]))"

definition releaseCluster :: "Kube \<Rightarrow> RedisCluster \<Rightarrow> trace \<Rightarrow> error option \<times> trace" where
  "releaseCluster k rc tr =
     (let tr = DeleteClusterMetrics (om_Name (c_Meta rc)) (om_Namespace (c_Meta rc)) tr @
            [Kube (RecordEvent ''Normal'' ''Deleted'' ''RedisCluster instance cleaned up'')];
          x = rc\<lparr>c_Meta := k_RemoveFinalizer k (c_Meta rc) FinalizerName\<rparr>
      in (errOf (k_UpdateCluster k tr x), tr @ [Kube (UpdateCluster x)]))"

lemmas release_defs = releaseRedis_def releaseSentinel_def releaseCluster_def

text \<open>The requests for the claims: the one of a standalone Redis by name, the others by label.\<close>

definition redisClaim :: "Redis \<Rightarrow> string" where
  "redisClaim obj = ''data-'' @ om_Name (r_Meta obj) @ ''-0''"

definition redisClaims :: "Kube \<Rightarrow> Redis \<Rightarrow> trace \<Rightarrow> string list result" where
  "redisClaims k obj tr =
     (case k_GetPVC k tr (om_Namespace (r_Meta obj)) (redisClaim obj) of Some e \<Rightarrow> Inl e | None \<Rightarrow> Inr [redisClaim obj])"

definition sentinelSelector :: "RedisSentinel \<Rightarrow> gomap" where
  "sentinelSelector rs = PodLabels (om_Name (s_Meta rs)) ComponentRedis"

definition clusterSelector :: "RedisCluster \<Rightarrow> gomap" where
  "clusterSelector rc = [(labelCluster, om_Name (c_Meta rc))]"

text \<open>A Sentinel is told to forget its masters first, if the reconciler has a client.\<close>

definition sentinelReset :: "Reconciler \<Rightarrow> RedisSentinel \<Rightarrow> trace" where
  "sentinelReset r rs = (if rec_RedisClient r = None then [] else [Cmd (SentinelReset (sentinelAddr rs) ''*'')])"

lemma redis_handleDeletion_eq:
  "redis_handleDeletion r obj tr =
     (let k = rec_Kube r; m = r_Meta obj in
      if \<not> k_ContainsFinalizer k m FinalizerName then ((noResult, None), tr)
      else deletion k (om_Namespace m) (r_Storage (r_Spec obj)) (Kube (GetPVC (om_Namespace m) (redisClaim obj)))
        (redisClaims k obj tr) (releaseRedis k obj) tr)"
  by (auto simp: redis_handleDeletion_def deletion_def deleteClaims_def redisClaims_def redisClaim_def releaseRedis_def
      recordEvent_def Let_def split: option.split prod.split)

lemma sentinel_handleDeletion_eq:
  "sentinel_handleDeletion r rs tr =
     (let k = rec_Kube r; m = s_Meta rs; ns = om_Namespace m; sel = sentinelSelector rs; t = tr @ sentinelReset r rs in
      if \<not> k_ContainsFinalizer k m FinalizerName then ((noResult, None), tr)
      else deletion k ns (s_Storage (s_Spec rs)) (Kube (ListPVCs ns sel)) (k_ListPVCs k t ns sel) (releaseSentinel k rs) t)"
  by (auto simp: sentinel_handleDeletion_def deletion_def deleteClaims_def releaseSentinel_def sentinelSelector_def
      sentinelReset_def trace_simps recordEvent_def Let_def split: option.split sum.split prod.split)

lemma cluster_handleDeletion_eq:
  "cluster_handleDeletion r rc tr =
     (let k = rec_Kube r; m = c_Meta rc; ns = om_Namespace m; sel = clusterSelector rc in
      if \<not> k_ContainsFinalizer k m FinalizerName then ((noResult, None), tr)
      else deletion k ns (c_Storage (c_Spec rc)) (Kube (ListPVCs ns sel)) (k_ListPVCs k tr ns sel) (releaseCluster k rc) tr)"
  by (auto simp: cluster_handleDeletion_def deletion_def deleteClaims_def releaseCluster_def clusterSelector_def
      recordEvent_def Let_def split: option.split sum.split prod.split)

section \<open>Properties\<close>

text \<open>
  C9: Deletion, of any kind of resource. Without the finalizer the handler does nothing. With it, and unless the storage
  is to be kept, it asks for the claims and deletes those named by the answer one by one, none if the request
  fails. Either every deletion succeeds or finds the claim gone, and then metrics and event follow and the
  finalizer is taken off last; or a deletion fails with another error, and then the handler stops there
  with that error and the finalizer stays, so that the deletion is tried again.
\<close>

theorem deletion_cleans_up:
  "let k = rec_Kube r in
   (if k_ContainsFinalizer k (r_Meta obj) FinalizerName
    then cleanedUp k (om_Namespace (r_Meta obj)) (claimsToDelete (r_Storage (r_Spec obj)) (redisClaims k obj tr))
      (tr @ asked (r_Storage (r_Spec obj)) (Kube (GetPVC (om_Namespace (r_Meta obj)) (redisClaim obj))))
      (releaseRedis k obj) (redis_handleDeletion r obj tr)
    else redis_handleDeletion r obj tr = ((noResult, None), tr)) \<and>
   (if k_ContainsFinalizer k (s_Meta rs) FinalizerName
    then let t = tr @ sentinelReset r rs; ns = om_Namespace (s_Meta rs) in
      cleanedUp k ns (claimsToDelete (s_Storage (s_Spec rs)) (k_ListPVCs k t ns (sentinelSelector rs)))
        (t @ asked (s_Storage (s_Spec rs)) (Kube (ListPVCs ns (sentinelSelector rs))))
        (releaseSentinel k rs) (sentinel_handleDeletion r rs tr)
    else sentinel_handleDeletion r rs tr = ((noResult, None), tr)) \<and>
   (if k_ContainsFinalizer k (c_Meta rc) FinalizerName
    then let ns = om_Namespace (c_Meta rc) in
      cleanedUp k ns (claimsToDelete (c_Storage (c_Spec rc)) (k_ListPVCs k tr ns (clusterSelector rc)))
        (tr @ asked (c_Storage (c_Spec rc)) (Kube (ListPVCs ns (clusterSelector rc))))
        (releaseCluster k rc) (cluster_handleDeletion r rc tr)
    else cluster_handleDeletion r rc tr = ((noResult, None), tr))"
  by (simp add: redis_handleDeletion_eq sentinel_handleDeletion_eq cluster_handleDeletion_eq deletion_cleanedUp Let_def
      flip: append_assoc)

text \<open>The names Kubernetes gives the claims of a StatefulSet: template, set and ordinal.\<close>

definition claimNames :: "StatefulSet \<Rightarrow> string list" where
  "claimNames st = concat (map (\<lambda>t. map (\<lambda>i. pvc_Name t @ ''-'' @ om_Name (sts_Meta st) @ ''-'' @ Itoa (int i))
     [0..<nat (sint (ss_Replicas (sts_Spec st)))]) (ss_VolumeClaimTemplates (sts_Spec st)))"

text \<open>
  Kubernetes labels a claim with the labels its StatefulSet selects by. Every selector of this operator carries the name
  of the resource, but no kind.
\<close>

lemma set_selectors:
  "ss_Selector (sts_Spec (BuildRedisStatefulSet pq obj)) = PodLabels (om_Name (r_Meta obj)) ComponentRedis"
  "ss_Selector (sts_Spec (BuildSentinelRedisStatefulSet pq rs)) = PodLabels (om_Name (s_Meta rs)) ComponentRedis"
  "ss_Selector (sts_Spec (BuildClusterMasterStatefulSet pq rc)) = PodLabels (om_Name (c_Meta rc)) ComponentMaster"
  "ss_Selector (sts_Spec (BuildClusterReplicaStatefulSet pq rc)) = PodLabels (om_Name (c_Meta rc)) ComponentReplica"
  by (simp_all add: builder_defs mkStatefulSet_def Let_def)

lemma clusterSelector_PodLabels: "selects (clusterSelector rc) (PodLabels n c) \<longleftrightarrow> n = om_Name (c_Meta rc)"
  by (auto simp: selects_def clusterSelector_def PodLabels_def map_of_CommonLabels)

lemma clusterSelector_sub: "selects (PodLabels (om_Name (c_Meta rc)) c) labels \<Longrightarrow> selects (clusterSelector rc) labels"
  by (simp add: selects_def clusterSelector_def PodLabels_def CommonLabels_def)

lemma deletePVCs_adds: "adds {Kube (DeletePVC ns n) | ns n. True} tr (snd (deletePVCs k ns names tr))"
  unfolding deletePVCs_def by (rule forErr_adds) (auto simp: deletePVC_def split: option.split)

text \<open>The requests for claims a handler has sent, of whatever kind.\<close>

fun isClaimRequest :: "event \<Rightarrow> bool" where
  "isClaimRequest (Kube (GetPVC _ _)) = True"
| "isClaimRequest (Kube (ListPVCs _ _)) = True"
| "isClaimRequest _ = False"

definition claimRequests :: "trace \<Rightarrow> trace \<Rightarrow> event list \<Rightarrow> bool" where
  "claimRequests tr tr' rs \<longleftrightarrow> (\<exists>es. tr' = tr @ es \<and> filter isClaimRequest es = rs)"

definition cleansClaims :: "Kube \<Rightarrow> ObjectMeta \<Rightarrow> StorageSpec option \<Rightarrow> bool" where
  "cleansClaims k m storage \<longleftrightarrow> k_ContainsFinalizer k m FinalizerName \<and>
     (case storage of Some st \<Rightarrow> \<not> KeepAfterDeletion st | None \<Rightarrow> False)"

abbreviation noClaimRequests :: "trace \<Rightarrow> trace \<Rightarrow> bool" where
  "noClaimRequests \<equiv> adds {e. \<not> isClaimRequest e}"

lemma deletion_requests:
  assumes "isClaimRequest ask" and "\<And>t. noClaimRequests t (snd (release t))"
  shows "claimRequests tr (snd (deletion k ns storage ask answer release tr)) (asked storage ask)"
proof -
  have del: "noClaimRequests t (snd (deletePVCs k ns names t))" for names t
    by (rule adds_mono [OF deletePVCs_adds]) auto
  obtain e t where run: "deleteClaims k ns storage ask answer tr = (e, t)" by fastforce
  then have "noClaimRequests (tr @ asked storage ask) t"
    using del [of "tr @ [ask]"] by (auto simp: deleteClaims_def asked_def split: option.splits sum.splits if_splits)
      (metis snd_conv)
  moreover have "noClaimRequests t (snd (deletion k ns storage ask answer release tr))"
    using run assms(2) by (cases e) (simp_all add: deletion_def split_beta)
  ultimately have "noClaimRequests (tr @ asked storage ask) (snd (deletion k ns storage ask answer release tr))"
    by (rule adds_trans)
  then obtain es where "snd (deletion k ns storage ask answer release tr) = tr @ asked storage ask @ es"
    "set es \<subseteq> {e. \<not> isClaimRequest e}" by (auto elim: addsE)
  moreover have "filter isClaimRequest (asked storage ask) = asked storage ask"
    using assms(1) by (simp add: asked_def split: option.split)
  ultimately show ?thesis unfolding claimRequests_def by (auto simp: filter_empty_conv)
qed

lemma release_requests:
  "noClaimRequests t (snd (releaseRedis k obj t))" "noClaimRequests t (snd (releaseSentinel k rs t))"
  "noClaimRequests t (snd (releaseCluster k rc t))"
  by (simp_all add: release_defs DeleteClusterMetrics_def Let_def)

lemma claimRequests_after: "filter isClaimRequest us = [] \<Longrightarrow> claimRequests (tr @ us) tr' rs \<Longrightarrow> claimRequests tr tr' rs"
  by (auto simp: claimRequests_def)

lemma asked_cleans:
  "k_ContainsFinalizer k m FinalizerName \<Longrightarrow> asked storage ask = (if cleansClaims k m storage then [ask] else [])"
  by (simp add: asked_def cleansClaims_def split: option.split)

lemma not_cleans: "\<not> k_ContainsFinalizer k m FinalizerName \<Longrightarrow> \<not> cleansClaims k m storage"
  by (simp add: cleansClaims_def)

lemma handler_requests:
  "claimRequests tr (snd (redis_handleDeletion r obj tr)) (if cleansClaims (rec_Kube r) (r_Meta obj) (r_Storage (r_Spec obj))
     then [Kube (GetPVC (om_Namespace (r_Meta obj)) (redisClaim obj))] else [])"
  "claimRequests tr (snd (sentinel_handleDeletion r rs tr)) (if cleansClaims (rec_Kube r) (s_Meta rs) (s_Storage (s_Spec rs))
     then [Kube (ListPVCs (om_Namespace (s_Meta rs)) (sentinelSelector rs))] else [])"
  "claimRequests tr (snd (cluster_handleDeletion r rc tr)) (if cleansClaims (rec_Kube r) (c_Meta rc) (c_Storage (c_Spec rc))
     then [Kube (ListPVCs (om_Namespace (c_Meta rc)) (clusterSelector rc))] else [])"
proof -
  have unasked: "claimRequests t t []" for t by (simp add: claimRequests_def)
  note req = deletion_requests [OF _ release_requests(1)] deletion_requests [OF _ release_requests(2)]
    deletion_requests [OF _ release_requests(3)]
  show "claimRequests tr (snd (redis_handleDeletion r obj tr)) (if cleansClaims (rec_Kube r) (r_Meta obj) (r_Storage (r_Spec obj))
     then [Kube (GetPVC (om_Namespace (r_Meta obj)) (redisClaim obj))] else [])"
  proof (cases "k_ContainsFinalizer (rec_Kube r) (r_Meta obj) FinalizerName")
    case True
    then show ?thesis unfolding asked_cleans [OF True, symmetric] by (simp add: redis_handleDeletion_eq Let_def req(1))
  qed (simp add: redis_handleDeletion_eq Let_def not_cleans unasked)
  show "claimRequests tr (snd (cluster_handleDeletion r rc tr)) (if cleansClaims (rec_Kube r) (c_Meta rc) (c_Storage (c_Spec rc))
     then [Kube (ListPVCs (om_Namespace (c_Meta rc)) (clusterSelector rc))] else [])"
  proof (cases "k_ContainsFinalizer (rec_Kube r) (c_Meta rc) FinalizerName")
    case True
    then show ?thesis unfolding asked_cleans [OF True, symmetric] by (simp add: cluster_handleDeletion_eq Let_def req(3))
  qed (simp add: cluster_handleDeletion_eq Let_def not_cleans unasked)
  have reset: "filter isClaimRequest (sentinelReset r rs) = []" by (simp add: sentinelReset_def)
  show "claimRequests tr (snd (sentinel_handleDeletion r rs tr)) (if cleansClaims (rec_Kube r) (s_Meta rs) (s_Storage (s_Spec rs))
     then [Kube (ListPVCs (om_Namespace (s_Meta rs)) (sentinelSelector rs))] else [])"
  proof (cases "k_ContainsFinalizer (rec_Kube r) (s_Meta rs) FinalizerName")
    case True
    then show ?thesis unfolding asked_cleans [OF True, symmetric]
      by (simp add: sentinel_handleDeletion_eq Let_def claimRequests_after [OF reset req(2)])
  qed (simp add: sentinel_handleDeletion_eq Let_def not_cleans unasked)
qed

lemma redis_claim_name:
  "claimNames (BuildRedisStatefulSet pq obj) = (if r_Storage (r_Spec obj) = None then [] else [redisClaim obj])"
proof -
  have "show_nat 0 = ''0''" by code_simp
  then show ?thesis
    by (auto simp: claimNames_def redisClaim_def BuildRedisStatefulSet_def mkStatefulSet_def claimsFor_def
        buildPVCTemplates_def newMeta_def Itoa_def Let_def)
qed

text \<open>
  C11: Which claims a deletion asks for. Without the finalizer, without storage or if that is to be kept, no handler
  asks for claims. Otherwise the handler of a standalone Redis asks for the claims of its StatefulSet by name, which is
  one; and those of the other kinds list claims in the namespace by one selector, once. That of a \<open>RedisCluster\<close>
  finds the claims of its masters and replicas and those of no resource of another name, and that of a
  \<open>RedisSentinel\<close> those of its Redis pods and of no cluster; but the first finds the claims of every Redis and
  \<open>RedisSentinel\<close> of the same name as well, and the second those of the Redis of that name. (A claim has the labels
  its StatefulSet selects by.)
\<close>

theorem deletion_finds_claims_by_name:
  "claimRequests tr (snd (redis_handleDeletion r obj tr))
     (if cleansClaims (rec_Kube r) (r_Meta obj) (r_Storage (r_Spec obj))
      then map (\<lambda>n. Kube (GetPVC (om_Namespace (r_Meta obj)) n)) (claimNames (BuildRedisStatefulSet pq obj)) else []) \<and>
   (\<exists>sel. claimRequests tr (snd (cluster_handleDeletion r rc tr))
        (if cleansClaims (rec_Kube r) (c_Meta rc) (c_Storage (c_Spec rc)) then [Kube (ListPVCs (om_Namespace (c_Meta rc)) sel)] else []) \<and>
      (\<forall>rc' obj' rs'.
        (selects sel (ss_Selector (sts_Spec (BuildClusterMasterStatefulSet pq rc'))) \<longleftrightarrow> om_Name (c_Meta rc) = om_Name (c_Meta rc')) \<and>
        (selects sel (ss_Selector (sts_Spec (BuildClusterReplicaStatefulSet pq rc'))) \<longleftrightarrow> om_Name (c_Meta rc) = om_Name (c_Meta rc')) \<and>
        (selects sel (ss_Selector (sts_Spec (BuildRedisStatefulSet pq obj'))) \<longleftrightarrow> om_Name (c_Meta rc) = om_Name (r_Meta obj')) \<and>
        (selects sel (ss_Selector (sts_Spec (BuildSentinelRedisStatefulSet pq rs'))) \<longleftrightarrow> om_Name (c_Meta rc) = om_Name (s_Meta rs')))) \<and>
   (\<exists>sel. claimRequests tr (snd (sentinel_handleDeletion r rs tr))
        (if cleansClaims (rec_Kube r) (s_Meta rs) (s_Storage (s_Spec rs)) then [Kube (ListPVCs (om_Namespace (s_Meta rs)) sel)] else []) \<and>
      (\<forall>rc' obj' rs'.
        (selects sel (ss_Selector (sts_Spec (BuildSentinelRedisStatefulSet pq rs'))) \<longleftrightarrow> om_Name (s_Meta rs) = om_Name (s_Meta rs')) \<and>
        (selects sel (ss_Selector (sts_Spec (BuildRedisStatefulSet pq obj'))) \<longleftrightarrow> om_Name (s_Meta rs) = om_Name (r_Meta obj')) \<and>
        \<not> selects sel (ss_Selector (sts_Spec (BuildClusterMasterStatefulSet pq rc'))) \<and>
        \<not> selects sel (ss_Selector (sts_Spec (BuildClusterReplicaStatefulSet pq rc')))))"
proof (intro conjI)
  have "(if cleansClaims (rec_Kube r) (r_Meta obj) (r_Storage (r_Spec obj))
      then map (\<lambda>n. Kube (GetPVC (om_Namespace (r_Meta obj)) n)) (claimNames (BuildRedisStatefulSet pq obj)) else []) =
    (if cleansClaims (rec_Kube r) (r_Meta obj) (r_Storage (r_Spec obj))
      then [Kube (GetPVC (om_Namespace (r_Meta obj)) (redisClaim obj))] else [])"
    by (auto simp: redis_claim_name cleansClaims_def split: option.splits)
  then show "claimRequests tr (snd (redis_handleDeletion r obj tr)) (if cleansClaims (rec_Kube r) (r_Meta obj) (r_Storage (r_Spec obj))
      then map (\<lambda>n. Kube (GetPVC (om_Namespace (r_Meta obj)) n)) (claimNames (BuildRedisStatefulSet pq obj)) else [])"
    using handler_requests(1) [of tr r obj] by simp
qed (rule exI [of _ "clusterSelector rc"], use handler_requests(3) [of tr r rc] in \<open>auto simp: set_selectors clusterSelector_PodLabels\<close>,
    rule exI [of _ "sentinelSelector rs"], use handler_requests(2) [of tr r rs, unfolded sentinelSelector_def] in \<open>auto simp: set_selectors sentinelSelector_def
      selects_PodLabels_iff component_defs split: if_splits\<close>)

text \<open>
  C10: Deleting a \<open>RedisCluster\<close> destroys data of its namesakes. If the API server answers the request for claims by
  label, then a deletion that ends without error has deleted every claim that carries the labels of the
  StatefulSet of any standalone Redis of the same name in the namespace, also when that Redis is to
  keep its storage, is still running, or is itself gone and its claim was kept.
\<close>

theorem cluster_deletion_takes_namesakes:
  assumes "k_ContainsFinalizer (rec_Kube r) (c_Meta rc) FinalizerName"
    and "c_Storage (c_Spec rc) = Some st" and "\<not> KeepAfterDeletion st"
    and "k_ListPVCs (rec_Kube r) tr (om_Namespace (c_Meta rc)) (clusterSelector rc) =
      Inr (map fst (filter (\<lambda>(n, labels). selects (clusterSelector rc) labels) stored))"
    and "(claim, labels) \<in> set stored" and "selects (ss_Selector (sts_Spec (BuildRedisStatefulSet pq obj))) labels"
    and "om_Name (r_Meta obj) = om_Name (c_Meta rc)"
    and "cluster_handleDeletion r rc tr = ((res, None), tr')"
  shows "Kube (DeletePVC (om_Namespace (c_Meta rc)) claim) \<in> set tr'"
proof -
  let ?k = "rec_Kube r" and ?ns = "om_Namespace (c_Meta rc)"
  let ?names = "map fst (filter (\<lambda>(n, labels). selects (clusterSelector rc) labels) stored)"
  have "selects (clusterSelector rc) labels"
    using assms(6) unfolding set_selectors assms(7) by (rule clusterSelector_sub)
  with assms(5) have n: "claim \<in> set ?names" by force
  have "cleanedUp ?k ?ns (claimsToDelete (Some st) (Inr ?names)) (tr @ asked (Some st) (Kube (ListPVCs ?ns (clusterSelector rc))))
      (releaseCluster ?k rc) ((res, None), tr')"
    using deletion_cleanedUp [of ?k ?ns "Some st" "Inr ?names" tr "Kube (ListPVCs ?ns (clusterSelector rc))" "releaseCluster ?k rc"]
      assms(1,2,4,8) by (simp add: cluster_handleDeletion_eq Let_def)
  then have "tr' = snd (releaseCluster ?k rc (tr @ asked (Some st) (Kube (ListPVCs ?ns (clusterSelector rc))) @
      map (\<lambda>n. Kube (DeletePVC ?ns n)) ?names))"
    using assms(3) by (auto simp: cleanedUp_def claimsToDelete_def Let_def split: prod.splits)
  then show ?thesis using n by (auto simp: releaseCluster_def DeleteClusterMetrics_def Let_def)
qed

text \<open>A standalone Redis that is to keep its storage, and a dying cluster of the same name.\<close>

definition keptRedis :: Redis where
  "keptRedis = (zeroRedis ''c'' ''ns'')\<lparr>r_Spec := (r_Spec (zeroRedis ''c'' ''ns''))\<lparr>
     r_Storage := Some \<lparr>ClassName = None, Size = ''1Gi'', KeepAfterDeletion = True\<rparr>\<rparr>\<rparr>"

definition namesake :: RedisCluster where
  "namesake = (zeroRedisCluster ''c'' ''ns'')\<lparr>
     c_Meta := (c_Meta (zeroRedisCluster ''c'' ''ns''))\<lparr>om_Finalizers := [FinalizerName], om_DeletionTimestamp := Some 1\<rparr>,
     c_Spec := (c_Spec (zeroRedisCluster ''c'' ''ns''))\<lparr>
       c_Storage := Some \<lparr>ClassName = None, Size = ''1Gi'', KeepAfterDeletion = False\<rparr>\<rparr>\<rparr>"

definition labelledClaims :: "(string \<times> gomap) list" where
  "labelledClaims = [(''data-c-0'', PodLabels ''c'' ComponentRedis), (''data-d-0'', PodLabels ''d'' ComponentRedis)]"

definition labelReconciler :: Reconciler where
  "labelReconciler = sampleReconciler\<lparr>rec_Kube := sampleKube\<lparr>k_ListPVCs := \<lambda>tr ns sel.
     Inr (map fst (filter (\<lambda>(n, labels). selects sel labels) labelledClaims))\<rparr>\<rparr>"

theorem cluster_deletion_takes_namesakes_witness:
  "\<exists>tr'. cluster_handleDeletion labelReconciler namesake [] = ((noResult, None), tr') \<and>
    Kube (DeletePVC ''ns'' (redisClaim keptRedis)) \<in> set tr'"
proof -
  have m: "om_Namespace (c_Meta namesake) = ''ns''" "om_Name (c_Meta namesake) = ''c''"
    "om_Name (r_Meta keptRedis) = ''c''" "redisClaim keptRedis = ''data-c-0''"
    by (simp_all add: namesake_def keptRedis_def redisClaim_def zero_defs)
  have f: "k_ContainsFinalizer (rec_Kube labelReconciler) (c_Meta namesake) FinalizerName"
    by (simp add: labelReconciler_def sampleKube_def namesake_def)
  have st: "c_Storage (c_Spec namesake) = Some \<lparr>ClassName = None, Size = ''1Gi'', KeepAfterDeletion = False\<rparr>"
    by (simp add: namesake_def)
  have l: "k_ListPVCs (rec_Kube labelReconciler) [] ''ns'' sel =
      Inr (map fst (filter (\<lambda>(n, labels). selects sel labels) labelledClaims))" for sel
    by (simp add: labelReconciler_def)
  have "IsNotFound notFound" by (simp add: notFound_def)
  then have "\<exists>tr'. cluster_handleDeletion labelReconciler namesake [] = ((noResult, None), tr')"
    using f by (simp add: cluster_handleDeletion_eq deletion_def deleteClaims_def deletePVCs_def deletePVC_def st l m
        releaseCluster_def labelledClaims_def clusterSelector_PodLabels Let_def)
      (simp add: labelReconciler_def sampleKube_def releaseCluster_def errOf_def Let_def)
  then obtain tr' where run: "cluster_handleDeletion labelReconciler namesake [] = ((noResult, None), tr')" ..
  from cluster_deletion_takes_namesakes [OF f st _ l [of "clusterSelector namesake", folded m(1)], where claim = "''data-c-0''"
      and labels = "PodLabels ''c'' ComponentRedis" and obj = keptRedis, OF _ _ _ _ run]
  have "Kube (DeletePVC ''ns'' ''data-c-0'') \<in> set tr'"
    by (simp add: labelledClaims_def set_selectors m selects_refl)
  with run show ?thesis unfolding m by blast
qed

end
