(* ===== verification/Run_Safety.thy ===== *)
theory Run_Safety
  imports Claim_Deletion
begin

text \<open>
  Safety of whole runs of the three reconcilers: when a run may write, delete and talk to Redis at all, and that
  its use of metrics cannot panic and that it is counted once.
\<close>

section \<open>What the parts of a run add\<close>

definition writing :: "event set" where
  "writing = quiet \<union> range (\<lambda>x. Kube (Apply x))"

lemma quiet_writing: "quiet \<subseteq> writing"
  by (simp add: writing_def)

lemma applies_writing: "applies \<subseteq> writing"
  by (auto simp: applies_def writing_def)

lemma status_writing [simp]:
  "Kube (StatusRedis x) \<in> writing" "Kube (StatusSentinel y) \<in> writing" "Kube (StatusCluster z) \<in> writing"
  by (simp_all add: writing_def)

lemmas apply_writing = apply_adds [THEN adds_mono, OF applies_writing]
lemmas extends_writing = adds_mono [OF _ quiet_writing]

lemma monitorStep_writing: "adds writing tr (monitorStep k ow on sm tr)"
  by (simp add: monitorStep_def apply_writing)

lemma cluster_steps_writing: "\<forall>step \<in> set (cluster_steps r rc h). \<forall>tr. adds writing tr (snd (step tr))"
  by (auto simp: cluster_steps_eq Let_def apply_writing split: if_splits)

text \<open>
  Whatever the outcome of the part of a run that writes objects: its events are of a kind \<open>E\<close> if those of its
  steps are.
\<close>

lemma cluster_converge_adds:
  assumes run: "cluster_converge r rc tr = Some (out, tr')" and E: "quiet \<subseteq> E"
    and cm: "\<And>tr. adds E tr (snd (applyConfigMap (rec_Kube r) (c_Meta rc) (BuildClusterConfigMap rc) tr))"
    and steps: "\<And>h. \<forall>step \<in> set (cluster_steps r rc h). \<forall>tr. adds E tr (snd (step tr))"
    and mon: "\<And>tr. adds E tr (monitorStep (rec_Kube r) (c_Meta rc) (c_EnableExporter (c_Spec rc)) (BuildClusterServiceMonitor rc) tr)"
  shows "adds E tr tr'"
proof -
  let ?k = "rec_Kube r" and ?cm = "BuildClusterConfigMap rc"
  let ?h = "configDataHash ?k (cm_Data ?cm)"
  obtain e0 t0 where 0: "applyConfigMap ?k (c_Meta rc) ?cm tr = (e0, t0)" by fastforce
  have w0: "adds E tr t0" using cm [of tr] 0 by simp
  obtain e1 t1 where 1: "forErr (\<lambda>step. step) (cluster_steps r rc ?h) t0 = (e1, t1)" by fastforce
  have "adds E t0 t1" using forErr_adds [of "cluster_steps r rc ?h" E "\<lambda>step. step" t0] steps 1 by simp
  with w0 have w1: "adds E tr t1" by (rule adds_trans)
  show ?thesis
  proof (cases "e0 = None \<and> e1 = None")
    case True
    let ?t2 = "monitorStep ?k (c_Meta rc) (c_EnableExporter (c_Spec rc)) (BuildClusterServiceMonitor rc) t1"
    have w2: "adds E tr ?t2" using w1 mon by (rule adds_trans)
    from run True 0 1 obtain lres rc' t3 where 3: "reconcileClusterLifecycle r rc ?t2 = Some ((lres, rc'), t3)"
      by (auto simp: cluster_converge_eq reconcileClusterConfigMap_def monitorStep_def Let_def
          Option.bind_eq_Some_conv)
    obtain rc2 t4 where 4: "tryClusterRollingFailover r rc' ?h t3 = (rc2, t4)" by fastforce
    have "tr' = snd (updateClusterStatus r rc2 (tryClusterHotReload r rc2 t4))"
      using run True 0 1 3 4 by (auto simp: cluster_converge_eq reconcileClusterConfigMap_def monitorStep_def Let_def
          split: prod.splits option.splits)
    moreover have "extends ?t2 t3" using 3 by (rule extends_reconcileClusterLifecycle)
    moreover have "extends t3 t4" using extends_tryClusterRollingFailover [of t3 r rc' ?h] 4 by simp
    ultimately have "extends ?t2 tr'"
      using extends_tryClusterHotReload extends_updateClusterStatus by (metis adds_trans)
    from w2 adds_mono [OF this E] show ?thesis by (rule adds_trans)
  next
    case False
    have "adds E t0 (snd (setClusterFailedStatus r rc a m t0))" for a m
      by (rule adds_mono [OF _ E]) (rule extends_setClusterFailedStatus)
    then show ?thesis using run False 0 1 w0 w1 adds_trans [OF w0]
      by (cases e0) (auto simp: cluster_converge_eq reconcileClusterConfigMap_def Let_def)
  qed
qed

lemma cluster_converge_writing: "cluster_converge r rc tr = Some (out, tr') \<Longrightarrow> adds writing tr tr'"
  by (erule cluster_converge_adds) (simp_all add: quiet_writing apply_writing cluster_steps_writing monitorStep_writing)

lemma redis_converge_adds:
  assumes E: "quiet \<subseteq> E"
    and cm: "\<And>tr. adds E tr (snd (applyConfigMap (rec_Kube r) (r_Meta obj) (BuildRedisConfigMap obj) tr))"
    and steps: "\<And>h. \<forall>step \<in> set (redis_steps r obj h). \<forall>tr. adds E tr (snd (step tr))"
    and mon: "\<And>tr. adds E tr (monitorStep (rec_Kube r) (r_Meta obj) (r_EnableExporter (r_Spec obj)) (BuildRedisServiceMonitor obj) tr)"
  shows "adds E tr (snd (redis_converge r obj tr))"
proof -
  let ?cm = "BuildRedisConfigMap obj"
  let ?h = "configDataHash (rec_Kube r) (cm_Data ?cm)"
  obtain e0 t0 where 0: "applyConfigMap (rec_Kube r) (r_Meta obj) ?cm tr = (e0, t0)" by fastforce
  have w0: "adds E tr t0" using cm [of tr] 0 by simp
  obtain e1 t1 where 1: "forErr (\<lambda>step. step) (redis_steps r obj ?h) t0 = (e1, t1)" by fastforce
  have "adds E t0 t1" using forErr_adds [of "redis_steps r obj ?h" E "\<lambda>step. step" t0] steps 1 by simp
  with w0 have w1: "adds E tr t1" by (rule adds_trans)
  let ?t2 = "monitorStep (rec_Kube r) (r_Meta obj) (r_EnableExporter (r_Spec obj)) (BuildRedisServiceMonitor obj) t1"
  have w2: "adds E tr ?t2" using w1 mon by (rule adds_trans)
  have "extends ?t2 (snd (redis_updateStatus r obj (redis_tryHotReload r obj ?t2)))"
    using extends_redis_tryHotReload extends_redis_updateStatus by (metis adds_trans)
  then have w3: "adds E tr (snd (redis_updateStatus r obj (redis_tryHotReload r obj ?t2)))"
    using w2 adds_mono [OF _ E] by (metis adds_trans)
  have "extends t0 (redisFailedStatus r obj a m t0)" for a m
    by (simp add: redisFailedStatus_def time_Now_def Let_def)
  then have "adds E tr (redisFailedStatus r obj a m t0)" for a m
    using w0 adds_mono [OF _ E] by (metis adds_trans)
  then show ?thesis using 0 1 w1 w3
    by (cases e0; cases e1)
      (auto simp: redis_converge_eq redis_reconcileConfigMap_def Let_def monitorStep_def split: prod.split option.split)
qed

lemma sentinel_converge_adds:
  assumes E: "quiet \<subseteq> E"
    and cm: "\<And>tr. adds E tr (snd (applyConfigMap (rec_Kube r) (s_Meta rs) (BuildSentinelRedisConfigMap rs) tr))"
    and steps: "\<And>h. \<forall>step \<in> set (sentinel_steps r rs h). \<forall>tr. adds E tr (snd (step tr))"
    and mon: "\<And>tr. adds E tr (monitorStep (rec_Kube r) (s_Meta rs) (s_EnableExporter (s_Spec rs)) (BuildSentinelServiceMonitor rs) tr)"
  shows "adds E tr (snd (sentinel_converge r rs tr))"
proof -
  let ?cm = "BuildSentinelRedisConfigMap rs"
  let ?h = "configDataHash (rec_Kube r) (cm_Data ?cm)"
  obtain e0 t0 where 0: "applyConfigMap (rec_Kube r) (s_Meta rs) ?cm tr = (e0, t0)" by fastforce
  have w0: "adds E tr t0" using cm [of tr] 0 by simp
  obtain e1 t1 where 1: "forErr (\<lambda>step. step) (sentinel_steps r rs ?h) t0 = (e1, t1)" by fastforce
  have "adds E t0 t1" using forErr_adds [of "sentinel_steps r rs ?h" E "\<lambda>step. step" t0] steps 1 by simp
  with w0 have w1: "adds E tr t1" by (rule adds_trans)
  let ?t2 = "monitorStep (rec_Kube r) (s_Meta rs) (s_EnableExporter (s_Spec rs)) (BuildSentinelServiceMonitor rs) t1"
  have w2: "adds E tr ?t2" using w1 mon by (rule adds_trans)
  obtain rs' t3 where 3: "reconcileRoleLabels r rs ?t2 = (rs', t3)" by fastforce
  have "extends ?t2 (snd (updateSentinelStatus r rs' t3))"
    using extends_reconcileRoleLabels [of ?t2 r rs] extends_updateSentinelStatus 3 by (metis adds_trans snd_conv)
  then have w3: "adds E tr (snd (updateSentinelStatus r rs' t3))"
    using w2 adds_mono [OF _ E] by (metis adds_trans)
  have "extends t0 (setSentinelFailedStatus r rs a m t0)" for a m
    by (simp add: setSentinelFailedStatus_def time_Now_def Let_def)
  then have "adds E tr (setSentinelFailedStatus r rs a m t0)" for a m
    using w0 adds_mono [OF _ E] by (metis adds_trans)
  then show ?thesis using 0 1 3 w1 w3
    by (cases e0; cases e1)
      (auto simp: sentinel_converge_eq reconcileRedisConfigMap_def Let_def monitorStep_def split: prod.split option.split)
qed

lemma redis_converge_writing: "adds writing tr (snd (redis_converge r obj tr))"
  by (rule redis_converge_adds) (auto simp: quiet_writing redis_steps_eq Let_def apply_writing monitorStep_writing split: if_splits)

lemma sentinel_converge_writing: "adds writing tr (snd (sentinel_converge r rs tr))"
  by (rule sentinel_converge_adds) (auto simp: quiet_writing sentinel_steps_eq Let_def apply_writing monitorStep_writing)

section \<open>Guards\<close>

text \<open>What the guards look at of a resource: its metadata, its storage, and how it is written back.\<close>

record ResourceView =
  rv_Meta :: ObjectMeta
  rv_Storage :: "StorageSpec option"
  rv_Update :: "ObjectMeta \<Rightarrow> kube_op"

definition redisView :: "Redis \<Rightarrow> ResourceView" where
  "redisView obj = \<lparr>rv_Meta = r_Meta obj, rv_Storage = r_Storage (r_Spec obj), rv_Update = \<lambda>m. UpdateRedis (obj\<lparr>r_Meta := m\<rparr>)\<rparr>"

definition sentinelView :: "RedisSentinel \<Rightarrow> ResourceView" where
  "sentinelView rs = \<lparr>rv_Meta = s_Meta rs, rv_Storage = s_Storage (s_Spec rs), rv_Update = \<lambda>m. UpdateSentinel (rs\<lparr>s_Meta := m\<rparr>)\<rparr>"

definition clusterView :: "RedisCluster \<Rightarrow> ResourceView" where
  "clusterView rc = \<lparr>rv_Meta = c_Meta rc, rv_Storage = c_Storage (c_Spec rc), rv_Update = \<lambda>m. UpdateCluster (rc\<lparr>c_Meta := m\<rparr>)\<rparr>"

lemmas view_defs = redisView_def sentinelView_def clusterView_def

definition viewOf :: "('a \<Rightarrow> ResourceView) \<Rightarrow> 'a result \<Rightarrow> ResourceView option" where
  "viewOf view got = (case got of Inl _ \<Rightarrow> None | Inr x \<Rightarrow> Some (view x))"

lemma viewOf_simps [simp]: "viewOf view (Inl e) = None" "viewOf view (Inr x) = Some (view x)"
  by (simp_all add: viewOf_def)

definition live :: "Kube \<Rightarrow> ResourceView option \<Rightarrow> bool" where
  "live k got \<longleftrightarrow> (\<exists>v. got = Some v \<and> om_DeletionTimestamp (rv_Meta v) = None \<and> k_ContainsFinalizer k (rv_Meta v) FinalizerName)"

definition dying :: "Kube \<Rightarrow> ResourceView option \<Rightarrow> bool" where
  "dying k got \<longleftrightarrow> (\<exists>v. got = Some v \<and> om_DeletionTimestamp (rv_Meta v) \<noteq> None \<and> k_ContainsFinalizer k (rv_Meta v) FinalizerName)"

definition disposable :: "ResourceView option \<Rightarrow> bool" where
  "disposable got \<longleftrightarrow> (\<exists>v st. got = Some v \<and> rv_Storage v = Some st \<and> \<not> KeepAfterDeletion st)"

definition finalizerWrite :: "Kube \<Rightarrow> ResourceView option \<Rightarrow> kube_op \<Rightarrow> bool" where
  "finalizerWrite k got q \<longleftrightarrow> (\<exists>v. got = Some v \<and>
     (if om_DeletionTimestamp (rv_Meta v) = None
      then \<not> k_ContainsFinalizer k (rv_Meta v) FinalizerName \<and> q = rv_Update v (k_AddFinalizer k (rv_Meta v) FinalizerName)
      else k_ContainsFinalizer k (rv_Meta v) FinalizerName \<and> q = rv_Update v (k_RemoveFinalizer k (rv_Meta v) FinalizerName)))"

text \<open>
  When an event may happen, given what the API server returned for the resource: an object, a status, a label or an
  annotation is written and a Redis server is talked to only for a live resource that carries the
  finalizer, but for the reset of the Sentinels of a dying one; a claim is deleted only for a dying one that
  carries it and asks for its storage to be deleted; the resource itself is only updated to put the
  finalizer on, or to take it off.
\<close>

fun guarded :: "Kube \<Rightarrow> ResourceView option \<Rightarrow> event \<Rightarrow> bool" where
  "guarded k got (Kube (Apply x)) \<longleftrightarrow> live k got"
| "guarded k got (Kube (StatusRedis x)) \<longleftrightarrow> live k got"
| "guarded k got (Kube (StatusSentinel x)) \<longleftrightarrow> live k got"
| "guarded k got (Kube (StatusCluster x)) \<longleftrightarrow> live k got"
| "guarded k got (Kube (PatchCluster x)) \<longleftrightarrow> live k got"
| "guarded k got (Kube (PatchPod ns p)) \<longleftrightarrow> live k got"
| "guarded k got (Cmd (SentinelReset a p)) \<longleftrightarrow> live k got \<or> dying k got"
| "guarded k got (Cmd c) \<longleftrightarrow> live k got"
| "guarded k got (Kube (DeletePVC ns n)) \<longleftrightarrow> dying k got \<and> disposable got"
| "guarded k got (Kube (UpdateRedis x)) \<longleftrightarrow> finalizerWrite k got (UpdateRedis x)"
| "guarded k got (Kube (UpdateSentinel x)) \<longleftrightarrow> finalizerWrite k got (UpdateSentinel x)"
| "guarded k got (Kube (UpdateCluster x)) \<longleftrightarrow> finalizerWrite k got (UpdateCluster x)"
| "guarded k got _ \<longleftrightarrow> True"

text \<open>The event with which a run is counted, and the events of a run before it is counted.\<close>

fun isCount :: "event \<Rightarrow> bool" where
  "isCount (Metric (Inc v ls)) \<longleftrightarrow> v = ''ReconcileTotal''"
| "isCount _ \<longleftrightarrow> False"

definition body :: "Kube \<Rightarrow> ResourceView option \<Rightarrow> event set" where
  "body k got = {e. guarded k got e \<and> recorded e \<and> \<not> isCount e}"

lemma mem_body [simp]: "e \<in> body k got \<longleftrightarrow> guarded k got e \<and> recorded e \<and> \<not> isCount e"
  by (simp add: body_def)

lemma body_events: "adds (body k got) tr t \<Longrightarrow>
    \<exists>es. t = tr @ es \<and> list_all (guarded k got) es \<and> list_all recorded es \<and> filter isCount es = []"
  by (auto simp: adds_def body_def list_all_iff filter_empty_conv)

lemma guarded_quiet: "live k got \<Longrightarrow> e \<in> quiet \<Longrightarrow> guarded k got e \<and> recorded e \<and> \<not> isCount e"
  by (cases "(k, got, e)" rule: guarded.cases; cases e rule: isCount.cases) (auto simp: quiet_def)

lemma guarded_writing: "live k got \<Longrightarrow> writing \<subseteq> body k got"
  by (auto simp: writing_def guarded_quiet)

text \<open>The deletion of a dying resource with finalizer.\<close>

lemma deletion_guarded:
  assumes "dying k (Some v)" and "ask \<in> body k (Some v)" and "\<And>t. adds (body k (Some v)) t (snd (release t))"
  shows "adds (body k (Some v)) tr (snd (deletion k ns (rv_Storage v) ask answer release tr))"
proof -
  let ?E = "body k (Some v)"
  have "adds ?E tr (snd (deleteClaims k ns (rv_Storage v) ask answer tr))"
  proof (cases "disposable (Some v)")
    case True
    then have "{Kube (DeletePVC ns n) | ns n. True} \<subseteq> ?E" using assms(1) by auto
    from adds_mono [OF deletePVCs_adds this] have "adds ?E t (snd (deletePVCs k ns names t))" for names t .
    moreover have "adds ?E tr (tr @ [ask])" using assms(2) by simp
    ultimately have "adds ?E tr (snd (deletePVCs k ns names (tr @ [ask])))" for names by (rule adds_trans [rotated])
    then show ?thesis using assms(2) by (simp add: deleteClaims_def split: option.split sum.split)
  next
    case False
    then show ?thesis by (auto simp: deleteClaims_def disposable_def split: option.split)
  qed
  moreover from this have "adds ?E tr (snd (release (snd (deleteClaims k ns (rv_Storage v) ask answer tr))))"
    by (rule adds_trans) (rule assms(3))
  ultimately show ?thesis by (auto simp: deletion_def split: prod.split option.split)
qed

lemma adds_prefix [simp]:
  "adds E (tr @ xs) (tr @ ys) \<longleftrightarrow> adds E xs ys" "adds E (e # xs) (e # ys) \<longleftrightarrow> adds E xs ys"
  "adds E [] ys \<longleftrightarrow> set ys \<subseteq> E"
  by (auto simp: adds_def)

lemma RecordReconcile_events:
  "\<exists>es. RecordReconcile cx kind start err tr = tr @ es \<and>
    set es \<subseteq> insert ReadClock (Metric ` {m. recorded (Metric m)})"
  by (auto simp: metric_defs time_Now_def Let_def)

lemma redis_handleDeletion_guarded:
  assumes "om_DeletionTimestamp (r_Meta obj) \<noteq> None"
  shows "adds (body (rec_Kube r) (Some (redisView obj))) tr (snd (redis_handleDeletion r obj tr))"
proof (cases "k_ContainsFinalizer (rec_Kube r) (r_Meta obj) FinalizerName")
  case True
  then have d: "dying (rec_Kube r) (Some (redisView obj))" using assms by (simp add: dying_def redisView_def)
  have "adds (body (rec_Kube r) (Some (redisView obj))) t (snd (releaseRedis (rec_Kube r) obj t))" for t
    using True assms by (simp add: releaseRedis_def finalizerWrite_def redisView_def Let_def)
  from deletion_guarded [OF d _ this] True show ?thesis by (simp add: redis_handleDeletion_eq Let_def view_defs)
qed (simp add: redis_handleDeletion_eq Let_def)

lemma sentinel_handleDeletion_guarded:
  assumes "om_DeletionTimestamp (s_Meta rs) \<noteq> None"
  shows "adds (body (rec_Kube r) (Some (sentinelView rs))) tr (snd (sentinel_handleDeletion r rs tr))"
proof (cases "k_ContainsFinalizer (rec_Kube r) (s_Meta rs) FinalizerName")
  case True
  then have d: "dying (rec_Kube r) (Some (sentinelView rs))" using assms by (simp add: dying_def sentinelView_def)
  have "adds (body (rec_Kube r) (Some (sentinelView rs))) t (snd (releaseSentinel (rec_Kube r) rs t))" for t
    using True assms by (simp add: releaseSentinel_def finalizerWrite_def sentinelView_def Let_def)
  note del = deletion_guarded [OF d _ this]
  have "adds (body (rec_Kube r) (Some (sentinelView rs))) tr (tr @ sentinelReset r rs)" using d by (simp add: sentinelReset_def)
  from adds_trans [OF this del] True show ?thesis by (simp add: sentinel_handleDeletion_eq Let_def view_defs)
qed (simp add: sentinel_handleDeletion_eq Let_def)

lemma cluster_handleDeletion_guarded:
  assumes "om_DeletionTimestamp (c_Meta rc) \<noteq> None"
  shows "adds (body (rec_Kube r) (Some (clusterView rc))) tr (snd (cluster_handleDeletion r rc tr))"
proof (cases "k_ContainsFinalizer (rec_Kube r) (c_Meta rc) FinalizerName")
  case True
  then have d: "dying (rec_Kube r) (Some (clusterView rc))" using assms by (simp add: dying_def clusterView_def)
  have "adds (body (rec_Kube r) (Some (clusterView rc))) t (snd (releaseCluster (rec_Kube r) rc t))" for t
    using True assms by (simp add: releaseCluster_def DeleteClusterMetrics_def finalizerWrite_def clusterView_def Let_def)
  from deletion_guarded [OF d _ this] True show ?thesis by (simp add: cluster_handleDeletion_eq Let_def view_defs)
qed (simp add: cluster_handleDeletion_eq Let_def)

text \<open>The three cases of a run on a resource that was found.\<close>

lemma found_guarded:
  assumes "om_DeletionTimestamp (rv_Meta v) \<noteq> None \<Longrightarrow> adds (body k (Some v)) t tr'"
    and "om_DeletionTimestamp (rv_Meta v) = None \<Longrightarrow> \<not> k_ContainsFinalizer k (rv_Meta v) FinalizerName \<Longrightarrow>
      finalizerWrite k (Some v) (rv_Update v (k_AddFinalizer k (rv_Meta v) FinalizerName)) \<Longrightarrow> adds (body k (Some v)) t tr'"
    and "live k (Some v) \<Longrightarrow> adds writing t tr'"
  shows "adds (body k (Some v)) t tr'"
proof -
  consider "om_DeletionTimestamp (rv_Meta v) \<noteq> None"
    | (fresh) "om_DeletionTimestamp (rv_Meta v) = None" "\<not> k_ContainsFinalizer k (rv_Meta v) FinalizerName"
    | (live) "live k (Some v)"
    by (cases "om_DeletionTimestamp (rv_Meta v) = None \<and> k_ContainsFinalizer k (rv_Meta v) FinalizerName")
      (simp add: live_def, argo)
  then show ?thesis
  proof cases
    case fresh
    then show ?thesis by (intro assms(2)) (simp_all add: finalizerWrite_def)
  next
    case live
    show ?thesis by (rule adds_mono [OF assms(3) [OF live] guarded_writing [OF live]])
  qed (rule assms(1))
qed

lemma redis_doReconcile_guarded:
  "adds (body (rec_Kube r) (viewOf redisView (k_GetRedis (rec_Kube r) tr ns name))) tr (snd (redis_doReconcile r ns name tr))"
proof (cases "k_GetRedis (rec_Kube r) tr ns name")
  case (Inl e)
  then show ?thesis by (simp add: redis_doReconcile_def Let_def)
next
  case (Inr obj)
  let ?k = "rec_Kube r" and ?t = "tr @ [Kube (GetRedis ns name)]"
  have "adds (body ?k (Some (redisView obj))) ?t (snd (redis_doReconcile r ns name tr))"
  proof (rule found_guarded)
    assume "om_DeletionTimestamp (rv_Meta (redisView obj)) \<noteq> None"
    then show "adds (body ?k (Some (redisView obj))) ?t (snd (redis_doReconcile r ns name tr))"
      using redis_handleDeletion_guarded [of obj r ?t] by (auto simp: redis_doReconcile_def Inr Let_def redisView_def)
  next
    assume "live ?k (Some (redisView obj))"
    moreover have "adds writing ?t (snd (redis_converge r x (?t @ [Kube (StatusRedis y)])))" for x y
      by (rule adds_trans [OF _ redis_converge_writing]) simp
    ultimately show "adds writing ?t (snd (redis_doReconcile r ns name tr))"
      by (auto simp: redis_doReconcile_def Inr Let_def live_def redisView_def redis_converge_writing split: sum.split)
  qed (simp add: redis_doReconcile_def Inr Let_def redisView_def)
  then show ?thesis unfolding Inr viewOf_simps by (rule adds_trans [rotated]) simp
qed

lemma sentinel_doReconcile_guarded:
  "adds (body (rec_Kube r) (viewOf sentinelView (k_GetSentinel (rec_Kube r) tr ns name))) tr (snd (sentinel_doReconcile r ns name tr))"
proof (cases "k_GetSentinel (rec_Kube r) tr ns name")
  case (Inl e)
  then show ?thesis by (simp add: sentinel_doReconcile_def Let_def)
next
  case (Inr rs)
  let ?k = "rec_Kube r" and ?t = "tr @ [Kube (GetSentinel ns name)]"
  have "adds (body ?k (Some (sentinelView rs))) ?t (snd (sentinel_doReconcile r ns name tr))"
  proof (rule found_guarded)
    assume "om_DeletionTimestamp (rv_Meta (sentinelView rs)) \<noteq> None"
    then show "adds (body ?k (Some (sentinelView rs))) ?t (snd (sentinel_doReconcile r ns name tr))"
      using sentinel_handleDeletion_guarded [of rs r ?t] by (auto simp: sentinel_doReconcile_def Inr Let_def sentinelView_def)
  next
    assume "live ?k (Some (sentinelView rs))"
    moreover have "adds writing ?t (snd (sentinel_converge r x (?t @ [Kube (StatusSentinel y)])))" for x y
      by (rule adds_trans [OF _ sentinel_converge_writing]) simp
    ultimately show "adds writing ?t (snd (sentinel_doReconcile r ns name tr))"
      by (auto simp: sentinel_doReconcile_def Inr Let_def live_def sentinelView_def sentinel_converge_writing split: sum.split)
  qed (simp add: sentinel_doReconcile_def Inr Let_def sentinelView_def)
  then show ?thesis unfolding Inr viewOf_simps by (rule adds_trans [rotated]) simp
qed

lemma cluster_doReconcile_guarded:
  assumes run: "cluster_doReconcile r ns name tr = Some (out, tr')"
  shows "adds (body (rec_Kube r) (viewOf clusterView (k_GetCluster (rec_Kube r) tr ns name))) tr tr'"
proof (cases "k_GetCluster (rec_Kube r) tr ns name")
  case (Inl e)
  then show ?thesis using run by (auto simp: cluster_doReconcile_def Let_def)
next
  case (Inr rc)
  let ?k = "rec_Kube r" and ?t = "tr @ [Kube (GetCluster ns name)]"
  have "adds (body ?k (Some (clusterView rc))) ?t tr'"
  proof (rule found_guarded)
    assume "om_DeletionTimestamp (rv_Meta (clusterView rc)) \<noteq> None"
    then show "adds (body ?k (Some (clusterView rc))) ?t tr'"
      using run cluster_handleDeletion_guarded [of rc r ?t] by (auto simp: cluster_doReconcile_def Inr Let_def clusterView_def)
  next
    assume "live ?k (Some (clusterView rc))"
    moreover have "adds writing ?t tr'" if "cluster_converge r x (?t @ [Kube (StatusCluster y)]) = Some (out, tr')" for x y
      by (rule adds_trans [OF _ cluster_converge_writing [OF that]]) simp
    ultimately show "adds writing ?t tr'" using run
      by (auto simp: cluster_doReconcile_def Inr Let_def live_def clusterView_def statusUpdate_def
          dest: cluster_converge_writing split: sum.splits if_splits)
  qed (use run in \<open>auto simp: cluster_doReconcile_def Inr Let_def clusterView_def\<close>)
  then show ?thesis unfolding Inr viewOf_simps by (rule adds_trans [rotated]) simp
qed

text \<open>What every run is: guarded events, then the events that count it.\<close>

definition guardedRun :: "Kube \<Rightarrow> ResourceView option \<Rightarrow> trace \<Rightarrow> trace \<Rightarrow> bool" where
  "guardedRun k got tr tr' \<longleftrightarrow> (\<exists>es. tr' = tr @ es \<and> list_all (guarded k got) es)"

definition countedRun :: "string \<Rightarrow> error option \<Rightarrow> trace \<Rightarrow> trace \<Rightarrow> bool" where
  "countedRun kind err tr tr' \<longleftrightarrow> (\<exists>es. tr' = tr @ es \<and> list_all recorded es \<and>
     filter isCount es = [Metric (Inc ''ReconcileTotal'' [kind, if err = None then ''success'' else ''error''])])"

lemma recorded_run:
  assumes "adds (body k got) (tr @ [ReadClock]) t"
  shows "guardedRun k got tr (RecordReconcile cx kind start err t)" "countedRun kind err tr (RecordReconcile cx kind start err t)"
proof -
  from body_events [OF assms] obtain es where es: "t = (tr @ [ReadClock]) @ es" "list_all (guarded k got) es"
    "list_all recorded es" "filter isCount es = []" by blast
  obtain ms where ms: "RecordReconcile cx kind start err t = t @ ms" "set ms \<subseteq> insert ReadClock (Metric ` {m. recorded (Metric m)})"
    using RecordReconcile_events by blast
  then have "list_all (guarded k got) ms" "list_all recorded ms" by (auto simp: list_all_iff)
  moreover have "filter isCount ms = [Metric (Inc ''ReconcileTotal'' [kind, if err = None then ''success'' else ''error''])]"
    using ms(1) by (cases err) (auto simp: RecordReconcile_def observeSince_def time_Now_def Let_def)
  ultimately show "guardedRun k got tr (RecordReconcile cx kind start err t)"
    "countedRun kind err tr (RecordReconcile cx kind start err t)"
    unfolding guardedRun_def countedRun_def using es ms by (intro exI [of _ "ReadClock # es @ ms"], simp)+
qed

lemma redis_run:
  "guardedRun (rec_Kube r) (viewOf redisView (k_GetRedis (rec_Kube r) (tr @ [ReadClock]) ns name)) tr (snd (redis_Reconcile r ns name tr))"
  "countedRun KindRedis (snd (fst (redis_Reconcile r ns name tr))) tr (snd (redis_Reconcile r ns name tr))"
  using recorded_run [OF redis_doReconcile_guarded [of r "tr @ [ReadClock]" ns name]]
  by (auto simp: redis_Reconcile_def time_Now_def Let_def split: prod.split)

lemma sentinel_run:
  "guardedRun (rec_Kube r) (viewOf sentinelView (k_GetSentinel (rec_Kube r) (tr @ [ReadClock]) ns name)) tr (snd (sentinel_Reconcile r ns name tr))"
  "countedRun KindSentinel (snd (fst (sentinel_Reconcile r ns name tr))) tr (snd (sentinel_Reconcile r ns name tr))"
  using recorded_run [OF sentinel_doReconcile_guarded [of r "tr @ [ReadClock]" ns name]]
  by (auto simp: sentinel_Reconcile_def time_Now_def Let_def split: prod.split)

lemma cluster_run:
  assumes "cluster_Reconcile r ns name tr = Some ((res, err), tr')"
  shows "guardedRun (rec_Kube r) (viewOf clusterView (k_GetCluster (rec_Kube r) (tr @ [ReadClock]) ns name)) tr tr'"
    and "countedRun KindCluster err tr tr'"
  using assms recorded_run [OF cluster_doReconcile_guarded [of r ns name "tr @ [ReadClock]"]]
  by (auto simp: cluster_Reconcile_def time_Now_def Option.bind_eq_Some_conv Let_def)

section \<open>Properties\<close>

text \<open>
  C8: In a run of any of the three reconcilers, whatever the API server, the Redis servers and the clock
  answer, every effect is guarded: objects, status, labels and annotations are written and Redis servers are sent
  commands only for a live resource that carries the finalizer (a dying one has its Sentinels reset),
  claims are deleted only for a dying one that carries it and does not keep its storage, and the resource is updated
  only to put the finalizer on a live one without it or to take it off a dying one.
\<close>

theorem runs_guarded:
  assumes "cluster_Reconcile r ns name tr = Some ((res, err), tr')"
  shows "guardedRun (rec_Kube r) (viewOf clusterView (k_GetCluster (rec_Kube r) (tr @ [ReadClock]) ns name)) tr tr' \<and>
    guardedRun (rec_Kube r) (viewOf sentinelView (k_GetSentinel (rec_Kube r) (tr @ [ReadClock]) ns name)) tr
      (snd (sentinel_Reconcile r ns name tr)) \<and>
    guardedRun (rec_Kube r) (viewOf redisView (k_GetRedis (rec_Kube r) (tr @ [ReadClock]) ns name)) tr
      (snd (redis_Reconcile r ns name tr))"
  by (intro conjI cluster_run(1) [OF assms] sentinel_run redis_run)

text \<open>
  C35: Every run of a reconciler that returns is counted exactly once, as an error exactly when it returned one; and no
  use of a metric in it can panic: every metric it increments, observes, sets or deletes is registered, as a
  metric of that kind, and is given as many label values as it declares; and registering them cannot panic,
  since no two share a name. None of the numbers of managed resources, the figures on slot migrations and the
  duration of failovers is ever recorded, although they are registered.
\<close>

theorem runs_counted:
  assumes "cluster_Reconcile r ns name tr = Some ((res, err), tr')"
  shows "countedRun KindCluster err tr tr' \<and>
    countedRun KindSentinel (snd (fst (sentinel_Reconcile r ns name tr))) tr (snd (sentinel_Reconcile r ns name tr)) \<and>
    countedRun KindRedis (snd (fst (redis_Reconcile r ns name tr))) tr (snd (redis_Reconcile r ns name tr)) \<and>
    distinct (map md_Name registeredMetrics)"
  by (intro conjI cluster_run(2) [OF assms] sentinel_run redis_run registered_names_distinct)

section \<open>Examples\<close>

text \<open>A dying cluster with two claims, the second of which cannot be deleted.\<close>

definition dyingCluster :: RedisCluster where
  "dyingCluster = (let rc = threeByOne in
     rc\<lparr>c_Meta := (c_Meta rc)\<lparr>om_Finalizers := [FinalizerName], om_DeletionTimestamp := Some 1\<rparr>,
        c_Spec := (c_Spec rc)\<lparr>c_Storage := Some \<lparr>ClassName = None, Size = ''1Gi'', KeepAfterDeletion = False\<rparr>\<rparr>\<rparr>)"

definition busyKube :: Kube where
  "busyKube = sampleKube\<lparr>k_GetCluster := \<lambda>tr ns n. Inr dyingCluster, k_ListPVCs := \<lambda>tr ns sel. Inr [''p0'', ''p1''],
     k_DeletePVC := \<lambda>tr ns n. if n = ''p1'' then Some (Errorf ''busy'') else Some notFound\<rparr>"

definition busyReconciler :: Reconciler where
  "busyReconciler = sampleReconciler\<lparr>rec_Kube := busyKube\<rparr>"

lemma busy_run:
  "cluster_handleDeletion busyReconciler dyingCluster tr = ((noResult, Some (Errorf ''busy'')),
     tr @ [Kube (ListPVCs ''ns'' [(labelCluster, ''c'')]), Kube (DeletePVC ''ns'' ''p0''), Kube (DeletePVC ''ns'' ''p1'')])"
  by (simp add: cluster_handleDeletion_def busyReconciler_def busyKube_def dyingCluster_def threeByOne_def
      sampleReconciler_def sampleKube_def zero_defs deletePVCs_def deletePVC_def notFound_def Let_def)

lemma busy_Reconcile:
  "\<exists>tr'. cluster_Reconcile busyReconciler ''ns'' ''c'' [] = Some ((noResult, Some (Errorf ''busy'')), tr')"
proof -
  have "k_GetCluster (rec_Kube busyReconciler) tr ns n = Inr dyingCluster" for tr ns n
    by (simp add: busyReconciler_def busyKube_def)
  moreover have "om_DeletionTimestamp (c_Meta dyingCluster) \<noteq> None" by (simp add: dyingCluster_def Let_def)
  ultimately show ?thesis
    by (simp add: cluster_Reconcile_def cluster_doReconcile_def time_Now_def busy_run Let_def)
qed

theorem runs_guarded_witness:
  "\<exists>tr'. cluster_Reconcile busyReconciler ''ns'' ''c'' [] = Some ((noResult, Some (Errorf ''busy'')), tr') \<and>
    guardedRun (rec_Kube busyReconciler)
      (viewOf clusterView (k_GetCluster (rec_Kube busyReconciler) ([] @ [ReadClock]) ''ns'' ''c'')) [] tr'"
proof -
  obtain tr' where run: "cluster_Reconcile busyReconciler ''ns'' ''c'' [] = Some ((noResult, Some (Errorf ''busy'')), tr')"
    using busy_Reconcile by (elim exE)
  show ?thesis by (rule exI, rule conjI, rule run, rule conjunct1 [OF runs_guarded [OF run]])
qed

theorem runs_counted_witness:
  "\<exists>tr'. cluster_Reconcile busyReconciler ''ns'' ''c'' [] = Some ((noResult, Some (Errorf ''busy'')), tr') \<and>
    countedRun KindCluster (Some (Errorf ''busy'')) [] tr'"
proof -
  obtain tr' where run: "cluster_Reconcile busyReconciler ''ns'' ''c'' [] = Some ((noResult, Some (Errorf ''busy'')), tr')"
    using busy_Reconcile by (elim exE)
  show ?thesis by (rule exI, rule conjI, rule run, rule conjunct1 [OF runs_counted [OF run]])
qed

end
