(* ===== verification/Lifecycle_Correct.thy ===== *)
theory Lifecycle_Correct
  imports Run_Safety
begin

text \<open>
  The cluster reconciler and the cluster manager together: the addresses it uses are those of the
  pods, the lifecycle step always returns, and what scaling in a balanced cluster does.
\<close>

section \<open>Addresses\<close>

text \<open>The names Kubernetes gives the pods of a StatefulSet through its headless service.\<close>

definition podAddrs :: "StatefulSet \<Rightarrow> string list" where
  "podAddrs s = map (\<lambda>i. PodFQDN (om_Name (sts_Meta s) @ ''-'' @ Itoa i) (ss_ServiceName (sts_Spec s))
     (om_Namespace (sts_Meta s)) @ '':6379'') [0..sint (ss_Replicas (sts_Spec s)) - 1]"

lemma redis_port: "Itoa (sint RedisPort) = ''6379''"
  by (simp add: RedisPort_def Itoa_def show_nat.simps digit_char_def char_of_eq_iff)

lemma sint_loop: "0 \<le> i \<Longrightarrow> i < sint (b :: int32) \<Longrightarrow> sint (word_of_int i :: int32) = i"
  using sint_lt [of b] by (simp add: sint_sbintrunc' signed_take_bit_int_eq_self)

lemma loop32_map: "map (\<lambda>i. f (sint i)) (loop32 0 b) = map f [0..sint b - 1]"
  by (auto simp: loop32_def sint_loop)

lemma master_addr_inject:
  "int64_ok i \<Longrightarrow> int64_ok j \<Longrightarrow> a @ ''-'' @ Itoa i @ b = a @ ''-'' @ Itoa j @ b \<Longrightarrow> i = j"
  using Itoa_inject by simp

lemma distinct_pod_addrs: "distinct (podAddrs s)"
proof -
  have "inj_on (\<lambda>i. PodFQDN (om_Name (sts_Meta s) @ ''-'' @ Itoa i) (ss_ServiceName (sts_Spec s))
     (om_Namespace (sts_Meta s)) @ '':6379'') (set [0..sint (ss_Replicas (sts_Spec s)) - 1])"
  proof (rule inj_onI)
    fix i j
    assume ij: "i \<in> set [0..sint (ss_Replicas (sts_Spec s)) - 1]" "j \<in> set [0..sint (ss_Replicas (sts_Spec s)) - 1]"
      and eq: "PodFQDN (om_Name (sts_Meta s) @ ''-'' @ Itoa i) (ss_ServiceName (sts_Spec s)) (om_Namespace (sts_Meta s)) @ '':6379''
        = PodFQDN (om_Name (sts_Meta s) @ ''-'' @ Itoa j) (ss_ServiceName (sts_Spec s)) (om_Namespace (sts_Meta s)) @ '':6379''"
    have "int64_ok i" "int64_ok j"
      using ij sint_lt [of "ss_Replicas (sts_Spec s)"] by (auto simp: int64_ok_def)
    moreover have "Itoa i = Itoa j" using eq by (simp add: PodFQDN_def)
    ultimately show "i = j" by (rule Itoa_inject)
  qed
  then show ?thesis by (simp add: podAddrs_def distinct_map)
qed

lemma cluster_addrs_are_pods:
  "allMasterAddrs rc = podAddrs (BuildClusterMasterStatefulSet pq rc)"
  "allReplicaAddrs rc = podAddrs (BuildClusterReplicaStatefulSet pq rc)"
  by (simp_all add: allMasterAddrs_def allReplicaAddrs_def podAddrs_def clusterMasterAddr_def clusterReplicaAddr_def
      BuildClusterMasterStatefulSet_def BuildClusterReplicaStatefulSet_def mkStatefulSet_def newMeta_def Let_def
      PodFQDN_def redis_port replicaTotal_def loop32_map [symmetric])

lemma masters_are_not_replicas:
  "set (podAddrs (BuildClusterMasterStatefulSet pq rc)) \<inter> set (podAddrs (BuildClusterReplicaStatefulSet pq rc)) = {}"
  by (auto simp: podAddrs_def BuildClusterMasterStatefulSet_def BuildClusterReplicaStatefulSet_def mkStatefulSet_def
      newMeta_def Let_def PodFQDN_def ClusterMasterStatefulSetName_def ClusterReplicaStatefulSetName_def)

text \<open>
  C32: The addresses the cluster reconciler talks to are the stable DNS names Kubernetes gives the pods of
  the two StatefulSets it builds: one per replica of the set, under the service name of the set, in
  the order of the pods. No two of them are the same, and the services with these names are among
  those the reconciler writes.
\<close>

theorem cluster_addresses_are_pods:
  "allMasterAddrs rc = podAddrs (BuildClusterMasterStatefulSet pq rc) \<and>
   allReplicaAddrs rc = podAddrs (BuildClusterReplicaStatefulSet pq rc) \<and>
   distinct (allMasterAddrs rc @ allReplicaAddrs rc) \<and>
   {ss_ServiceName (sts_Spec (BuildClusterMasterStatefulSet pq rc)), ss_ServiceName (sts_Spec (BuildClusterReplicaStatefulSet pq rc))}
     \<subseteq> set (map (\<lambda>s. om_Name (svc_Meta s)) (clusterServices rc))"
  unfolding cluster_addrs_are_pods [of rc pq]
  by (simp add: distinct_pod_addrs masters_are_not_replicas)
    (simp add: clusterServices_def BuildHeadlessService_def newMeta_def BuildClusterMasterStatefulSet_def
      BuildClusterReplicaStatefulSet_def mkStatefulSet_def Let_def)

section \<open>The lifecycle step returns\<close>

text \<open>
  While a source has a slot in the state \<open>MIGRATING\<close> and no command but those of the key loop has reached it for this
  slot, it holds finitely many keys of the slot, and gets no new one, since it redirects the clients that would create
  one. What it lists are keys it holds, and a \<open>MIGRATE\<close> that succeeds, to wherever, takes the key away. Nothing is said
  about how many keys there are, where they come from (a node may first have received them itself), or which
  commands succeed.
\<close>

definition draining :: "string \<Rightarrow> string \<Rightarrow> int \<Rightarrow> int \<Rightarrow> trace \<Rightarrow> bool" where
  "draining s ip p slot tr \<longleftrightarrow>
     (\<exists>us dst vs. tr = us @ migrating s slot dst # vs \<and> set vs \<subseteq> keyEvents s ip p slot)"

definition keysMove :: "RedisClient \<Rightarrow> bool" where
  "keysMove c \<longleftrightarrow> (\<exists>holds :: trace \<Rightarrow> string \<Rightarrow> int \<Rightarrow> string set. \<forall>s ip p slot tr. draining s ip p slot tr \<longrightarrow>
     finite (holds tr s slot) \<and>
     (\<forall>ks. rc_ClusterGetKeysInSlot c tr s slot migrateBatch = Inr ks \<longrightarrow> set ks \<subseteq> holds tr s slot) \<and>
     holds (tr @ [Cmd (ClusterGetKeysInSlot s slot migrateBatch)]) s slot \<subseteq> holds tr s slot \<and>
     (\<forall>k. rc_Migrate c tr s ip p k 0 migrateTimeout = None \<longrightarrow>
        holds (tr @ [migrateEvent s ip p k]) s slot \<subseteq> holds tr s slot - {k}))"

lemma draining_more: "draining s ip p slot tr \<Longrightarrow> e \<in> keyEvents s ip p slot \<Longrightarrow> draining s ip p slot (tr @ [e])"
proof -
  assume "draining s ip p slot tr" and e: "e \<in> keyEvents s ip p slot"
  then obtain us dst vs where "tr = us @ migrating s slot dst # vs" "set vs \<subseteq> keyEvents s ip p slot"
    unfolding draining_def by blast
  then show ?thesis unfolding draining_def using e
    by (intro exI [of _ us] exI [of _ dst] exI [of _ "vs @ [e]"]) simp
qed

lemma key_event_simps [simp]:
  "Cmd (ClusterGetKeysInSlot s slot migrateBatch) \<in> keyEvents s ip p slot" "migrateEvent s ip p k \<in> keyEvents s ip p slot"
  by (simp_all add: keyEvents_def migrateEvent_def)

lemma migrateKeys_returns:
  assumes "keysMove c" and "draining s ip p slot tr"
  shows "\<exists>y. migrateKeys c s ip p slot tr = Some y"
proof -
  let ?get = "Cmd (ClusterGetKeysInSlot s slot migrateBatch)"
  obtain holds :: "trace \<Rightarrow> string \<Rightarrow> int \<Rightarrow> string set" where
    fin: "\<And>tr. draining s ip p slot tr \<Longrightarrow> finite (holds tr s slot)"
    and lists: "\<And>tr ks. draining s ip p slot tr \<Longrightarrow> rc_ClusterGetKeysInSlot c tr s slot migrateBatch = Inr ks \<Longrightarrow>
      set ks \<subseteq> holds tr s slot"
    and get: "\<And>tr. draining s ip p slot tr \<Longrightarrow> holds (tr @ [?get]) s slot \<subseteq> holds tr s slot"
    and take_away: "\<And>tr k. draining s ip p slot tr \<Longrightarrow> rc_Migrate c tr s ip p k 0 migrateTimeout = None \<Longrightarrow>
      holds (tr @ [migrateEvent s ip p k]) s slot \<subseteq> holds tr s slot - {k}"
    using assms(1) unfolding keysMove_def by metis
  have batch: "draining s ip p slot t' \<and> holds t' s slot \<subseteq> holds t s slot - set ks"
    if "draining s ip p slot t" and "forErr (migrateKey c s ip p) ks t = (None, t')" for ks t t'
    using that
  proof (induction ks arbitrary: t)
    case (Cons k ks)
    have key: "fst (migrateKey c s ip p k t) = None \<longleftrightarrow> rc_Migrate c t s ip p k 0 migrateTimeout = None"
      by (simp add: migrateKey_def trace_simps split: option.split)
    obtain r1 t1 where one: "migrateKey c s ip p k t = (r1, t1)" by fastforce
    then have t1: "t1 = t @ [migrateEvent s ip p k]" using migrateKey_events [of c s ip p k t] by simp
    have ok: "rc_Migrate c t s ip p k 0 migrateTimeout = None"
      and rest: "forErr (migrateKey c s ip p) ks (t @ [migrateEvent s ip p k]) = (None, t')"
      using Cons.prems(2) one t1 key by (cases r1; simp)+
    show ?case
      using Cons.IH [OF draining_more [OF Cons.prems(1) key_event_simps(2)] rest] take_away [OF Cons.prems(1) ok] by auto
  qed simp
  show ?thesis
    using assms(2)
  proof (induction "card (holds tr s slot)" arbitrary: tr rule: less_induct)
    case less
    have d: "draining s ip p slot (tr @ [?get])" using less.prems by (rule draining_more) simp
    show ?case
    proof (cases "rc_ClusterGetKeysInSlot c tr s slot migrateBatch")
      case (Inl e)
      then show ?thesis by (subst migrateKeys.simps) (simp add: trace_simps)
    next
      case (Inr ks)
      obtain r t' where run: "forErr (migrateKey c s ip p) ks (tr @ [?get]) = (r, t')" by fastforce
      show ?thesis
      proof (cases "ks \<noteq> [] \<and> r = None")
        case True
        then have b: "draining s ip p slot t'" "holds t' s slot \<subseteq> holds (tr @ [?get]) s slot - set ks"
          using batch [OF d] run by auto
        moreover have "hd ks \<in> holds tr s slot" using lists [OF less.prems Inr] True by auto
        moreover have "hd ks \<in> set ks" using True by simp
        ultimately have "holds t' s slot \<subset> holds tr s slot" using get [OF less.prems] by blast
        then have "card (holds t' s slot) < card (holds tr s slot)" using fin [OF less.prems] psubset_card_mono by blast
        from less.hyps [OF this b(1)] show ?thesis
          using True Inr run by (subst migrateKeys.simps) (simp add: trace_simps)
      next
        case False
        then show ?thesis using Inr run by (subst migrateKeys.simps) (auto simp: trace_simps)
      qed
    qed
  qed
qed

lemma MigrateSlot_returns:
  assumes "keysMove c"
  shows "\<exists>y. MigrateSlot c s d slot tr = Some y"
proof -
  have "\<exists>y. moveSlot c s d ip p a b slot tr = Some y" for ip p a b tr
  proof -
    have "draining s ip p slot (tr @ [importing d slot a, migrating s slot b])"
      unfolding draining_def by (intro exI [of _ "tr @ [importing d slot a]"] exI [of _ b] exI [of _ "[]"]) simp
    from migrateKeys_returns [OF assms this] obtain r t
      where "migrateKeys c s ip p slot (tr @ [importing d slot a, migrating s slot b]) = Some (r, t)" by fastforce
    then show ?thesis by (simp add: moveSlot_def trace_simps setslot_defs split: option.split)
  qed
  then show ?thesis
    by (auto simp: MigrateSlot_def trace_simps split: sum.split)
qed

lemma donate_returns: "keysMove c \<Longrightarrow> \<exists>y. donate c target counts dn did da excess rs tr = Some y"
proof (induction rs arbitrary: excess tr)
  case (Cons a rs)
  show ?case
  proof (cases "a = da \<or> excess \<le> 0 \<or> nodeIDForAddr dn a = [] \<or> countOf counts (nodeIDForAddr dn a) \<ge> target")
    case True
    then show ?thesis using Cons by (simp only: donate_skip)
  next
    case False
    have "\<exists>y. forErrO (MigrateSlot c da a) (collectSlots dn did n) tr = Some y" for n
      by (rule forErrO_total) (rule MigrateSlot_returns [OF Cons.prems])
    then obtain r t where "forErrO (MigrateSlot c da a)
        (collectSlots dn did (min excess (target - countOf counts (nodeIDForAddr dn a)))) tr = Some (r, t)"
      by (metis surj_pair)
    then show ?thesis using Cons unfolding donate_take [OF False refl] by (cases r) auto
  qed
qed simp

lemma RebalanceSlots_returns:
  assumes "keysMove c" and "ms \<noteq> []"
  shows "\<exists>y. RebalanceSlots cx c ms tr = Some y"
proof -
  have "\<exists>y. drainDonor c ms target nodes did tr = Some y" for target nodes did tr
    using donate_returns [OF assms(1)] by (auto simp: drainDonor_def trace_simps Let_def split: sum.split)
  then have "\<exists>y. forErrO (drainDonor c ms target nodes) ids tr = Some y" for target nodes ids tr
    by (intro forErrO_total)
  then show ?thesis using assms(2)
    by (simp add: RebalanceSlots_def trace_simps Let_def split: sum.split)
qed

lemma allMasterAddrs_nonempty: "1 \<le> sint (c_Masters (c_Spec rc)) \<Longrightarrow> allMasterAddrs rc \<noteq> []"
  by (simp add: allMasterAddrs_def loop32_def)

lemma setPhase_simps [simp]:
  "c_Spec (setPhase p rc) = c_Spec rc" "c_Meta (setPhase p rc) = c_Meta rc"
  "c_Phase (c_Status (setPhase p rc)) = p"
  by (simp_all add: setPhase_def)

lemma scaleOut_returns:
  assumes "keysMove cm" and "1 \<le> sint (c_Masters (c_Spec rc))"
  shows "\<exists>y. reconcileScaleOut r cm rc cur tr = Some y"
proof -
  let ?rc = "setPhase PhaseScaling rc"
  obtain b t1 where 1: "allMasterPodsReady r ?rc (tr @ [ReadClock]) = (b, t1)" by fastforce
  obtain m t2 where 2: "meetNewMasters cm ?rc cur t1 = (m, t2)" by fastforce
  obtain err t3 where 3: "RebalanceSlots (rec_Ctx r) cm (allMasterAddrs ?rc) t2 = Some (err, t3)"
    using RebalanceSlots_returns [OF assms(1) allMasterAddrs_nonempty [of ?rc]] assms(2) by fastforce
  show ?thesis
    by (cases b; cases m) (simp_all add: reconcileScaleOut_def time_Now_def Let_def 1 2 3)
qed

lemma scaleIn_returns:
  assumes "keysMove cm" and "1 \<le> sint (c_Masters (c_Spec rc))"
  shows "\<exists>y. reconcileScaleIn r cm rc cur tr = Some y"
proof -
  let ?rc = "setPhase PhaseScaling rc"
  obtain err t3 where "RebalanceSlots (rec_Ctx r) cm (allMasterAddrs ?rc) (tr @ [ReadClock]) = Some (err, t3)"
    using RebalanceSlots_returns [OF assms(1) allMasterAddrs_nonempty [of ?rc]] assms(2) by fastforce
  then show ?thesis using assms(2) by (simp add: reconcileScaleIn_def time_Now_def Let_def)
qed

lemma formOnce_returns:
  assumes "fair_clock (rec_Ctx r)" and "0 \<le> sint (c_Masters (c_Spec rc))" and "0 \<le> sint (replicaTotal rc)"
  shows "\<exists>y. formOnce r cm rc tr = Some y"
proof -
  obtain b t1 where 1: "allPodsReady r rc tr = (b, t1)" by fastforce
  obtain err t2 where "FormCluster (rec_Ctx r) cm (allMasterAddrs rc) (allReplicaAddrs rc)
      (sint (c_ReplicasPerMaster (c_Spec rc))) t1 = Some (err, t2)"
    using FormCluster_total [OF assms(1)] by blast
  then show ?thesis using assms(2,3) 1 by (cases b) (simp_all add: formOnce_def)
qed

text \<open>
  C7: The lifecycle step of a reconciler run returns, whatever phase the cluster is in and whatever the
  API server and the Redis servers answer, as long as time passes while the program sleeps, a key that \<open>MIGRATE\<close> has
  moved is gone from the slot that is being migrated (\<open>keysMove\<close>), and the resource asks for at least one master
  and a number of replicas that fits 32 bits: formation, recovery, scaling out and scaling in all end, with
  however many keys in the slots.
\<close>

theorem lifecycle_returns:
  assumes "fair_clock (rec_Ctx r)" and "\<And>cm. rec_ClusterManager r = Some cm \<Longrightarrow> keysMove cm"
    and "1 \<le> sint (c_Masters (c_Spec rc))" and "0 \<le> sint (replicaTotal rc)"
  shows "\<exists>res rc' tr'. reconcileClusterLifecycle r rc tr = Some ((res, rc'), tr')"
proof (cases "rec_ClusterManager r")
  case (Some cm)
  obtain st t1 where 1: "GetClusterState cm (clusterMasterAddr rc 0) tr = (st, t1)" by fastforce
  have form: "\<exists>y. formOnce r cm rc t = Some y" for t using formOnce_returns assms(1,3,4) by force
  have scale: "\<exists>y. scaleIfNeeded r cm (fst (recovered rc s t)) n t' = Some y" for s n t t'
    using scaleOut_returns [OF assms(2) [OF Some]] scaleIn_returns [OF assms(2) [OF Some]] assms(3)
    by (simp add: scaleIfNeeded_def recovered_def)
  have "\<exists>y. reconcileClusterLifecycle r rc tr = Some y"
    using form scale Some 1
    by (cases st) (simp_all add: reconcileClusterLifecycle_def failState_def split_beta)
  then show ?thesis by (metis surj_pair)
qed (simp add: reconcileClusterLifecycle_def)

text \<open>
  A server on which each slot of each node starts with the same 250 keys, so that a slot takes three batches.
  The listing is by what has been migrated away.
\<close>

definition movedFrom :: "string \<Rightarrow> trace \<Rightarrow> string list" where
  "movedFrom s tr = List.map_filter (\<lambda>e. case e of Cmd (Migrate a _ _ k _ _) \<Rightarrow> if a = s then Some k else None | _ \<Rightarrow> None) tr"

definition manyKeys :: "string list" where
  "manyKeys = map (\<lambda>n. ''key:'' @ replicate n (CHR ''x'')) [0..<250]"

definition keysClient :: RedisClient where
  "keysClient = quietClient\<lparr>rc_ClusterGetKeysInSlot :=
     \<lambda>tr a slot n. Inr (take 100 (filter (\<lambda>k. k \<notin> set (movedFrom a tr)) manyKeys))\<rparr>"

lemma movedFrom_simps [simp]:
  "movedFrom s (tr @ [Cmd (ClusterGetKeysInSlot a slot n)]) = movedFrom s tr"
  "movedFrom s (tr @ [migrateEvent s ip p k]) = movedFrom s tr @ [k]"
  by (simp_all add: movedFrom_def migrateEvent_def List.map_filter_def)

lemma keysMove_keysClient: "keysMove keysClient"
  unfolding keysMove_def
  by (rule exI [of _ "\<lambda>tr s slot. set manyKeys - set (movedFrom s tr)"])
    (auto simp: keysClient_def quietClient_def dest: in_set_takeD)

definition managedReconciler :: Reconciler where
  "managedReconciler = sampleReconciler\<lparr>rec_RedisClient := Some quietClient, rec_ClusterManager := Some quietClient\<rparr>"

lemma managedReconciler_simps [simp]:
  "rec_Kube managedReconciler = sampleKube" "rec_Ctx managedReconciler = sampleCtx"
  "rec_RedisClient managedReconciler = Some quietClient" "rec_ClusterManager managedReconciler = Some quietClient"
  by (simp_all add: managedReconciler_def)

lemma threeByOne_simps [simp]:
  "c_Masters (c_Spec threeByOne) = 3" "c_ReplicasPerMaster (c_Spec threeByOne) = 1"
  "om_Name (c_Meta threeByOne) = ''c''" "om_Namespace (c_Meta threeByOne) = ''ns''"
  "replicaTotal threeByOne = 3" "c_RedisConfig (c_Spec threeByOne) = []"
  by (simp_all add: threeByOne_def zero_defs replicaTotal_def Let_def)

theorem lifecycle_returns_witness:
  "\<exists>res rc' tr'. reconcileClusterLifecycle (managedReconciler\<lparr>rec_ClusterManager := Some keysClient\<rparr>) threeByOne [] =
    Some ((res, rc'), tr')"
  by (rule lifecycle_returns) (simp_all add: fair_sampleCtx keysMove_keysClient)

section \<open>Scaling in a balanced cluster\<close>

fun resetOf :: "event \<Rightarrow> string set" where
  "resetOf (Cmd (ClusterReset a _)) = {a}"
| "resetOf _ = {}"

definition resets :: "trace \<Rightarrow> string set" where
  "resets es = \<Union> (resetOf ` set es)"

lemma resets_simps [simp]: "resets (xs @ ys) = resets xs \<union> resets ys" "resets (e # es) = resetOf e \<union> resets es"
  by (auto simp: resets_def)

fun isSetSlot :: "event \<Rightarrow> bool" where
  "isSetSlot (Cmd (ClusterSetSlot _ _ _ _)) \<longleftrightarrow> True"
| "isSetSlot _ \<longleftrightarrow> False"

abbreviation unmoved :: "trace \<Rightarrow> trace \<Rightarrow> bool" where
  "unmoved \<equiv> adds {e. \<not> isSetSlot e}"

lemma unmoved_RemoveReplica: "unmoved tr (snd (RemoveReplica c a b tr))"
proof -
  have "unmoved tr (forgetAll c nodes x i (tr @ es))" if "set es \<subseteq> {e. \<not> isSetSlot e}" for nodes x i es
    by (rule adds_trans [of _ _ "tr @ es"], simp add: that)
      (simp add: forgetAll_def, rule forIgnore_adds, simp add: trace_simps)
  then show ?thesis by (auto simp: RemoveReplica_def trace_simps Let_def split: sum.split option.split)
qed

lemma RemoveMaster_done:
  assumes "RemoveMaster c a b tr = (None, tr')"
  shows "\<exists>es. tr' = tr @ es \<and> set es \<subseteq> {e. \<not> isSetSlot e} \<and> b \<in> resets es"
proof -
  let ?t = "tr @ [Cmd (ClusterNodes a), Cmd (ClusterReset b False)]"
  from assms obtain nodes i where t: "tr' = forgetAll c nodes b i ?t"
    by (auto simp: RemoveMaster_def trace_simps Let_def split: sum.splits if_splits option.splits)
  have "unmoved ?t tr'" unfolding t forgetAll_def by (rule forIgnore_adds) (simp add: trace_simps)
  then obtain es where "tr' = ?t @ es" "set es \<subseteq> {e. \<not> isSetSlot e}" by (rule addsE)
  then show ?thesis
    by (intro exI [of _ "Cmd (ClusterNodes a) # Cmd (ClusterReset b False) # es"]) simp
qed

lemma removeExcess_done:
  assumes "removeExcess cm rc cur tr = (None, tr')"
  shows "\<exists>es. tr' = tr @ es \<and> set es \<subseteq> {e. \<not> isSetSlot e} \<and>
    clusterMasterAddr rc ` set (loop32 (c_Masters (c_Spec rc)) cur) \<subseteq> resets es"
proof -
  let ?f = "\<lambda>i tr. RemoveMaster cm (clusterMasterAddr rc 0) (clusterMasterAddr rc i) (removeReplicasOf cm rc i tr)"
  have "\<exists>es. tr' = tr @ es \<and> set es \<subseteq> {e. \<not> isSetSlot e} \<and> clusterMasterAddr rc ` set is \<subseteq> resets es"
    if "forErr ?f is tr = (None, tr')" for "is" tr
    using that
  proof (induction "is" arbitrary: tr)
    case (Cons i "is")
    then obtain t1 where one: "?f i tr = (None, t1)" and rest: "forErr ?f is t1 = (None, tr')"
      by (auto split: prod.splits option.splits)
    have "unmoved tr (removeReplicasOf cm rc i tr)"
      unfolding removeReplicasOf_def Let_def by (rule forIgnore_adds) (rule unmoved_RemoveReplica)
    then obtain es0 where "removeReplicasOf cm rc i tr = tr @ es0" "set es0 \<subseteq> {e. \<not> isSetSlot e}" by (rule addsE)
    with RemoveMaster_done [OF one] obtain es1 where "t1 = tr @ es1" "set es1 \<subseteq> {e. \<not> isSetSlot e}"
      "clusterMasterAddr rc i \<in> resets es1" by fastforce
    moreover from Cons.IH [OF rest] obtain es2 where "tr' = t1 @ es2" "set es2 \<subseteq> {e. \<not> isSetSlot e}"
      "clusterMasterAddr rc ` set is \<subseteq> resets es2" by blast
    ultimately show ?case by (intro exI [of _ "es1 @ es2"]) auto
  qed simp
  from this [OF assms [unfolded removeExcess_def]] show ?thesis by simp
qed

text \<open>
  C30: Scaling in a balanced cluster loses the slots of the masters it removes. The rebalancing before the
  removal aims at the share of each remaining master, which no master exceeds while the cluster is
  still balanced, so it moves nothing; the run then resets every excess master, although each still
  serves its slots, and reports success. Between start and end no \<open>CLUSTER SETSLOT\<close> is sent at all.
\<close>

theorem balanced_scale_in_moves_no_slot:
  assumes run: "reconcileScaleIn r cm rc cur tr = Some (((requeueNow, None), rc'), tr')"
    and asked: "rc_ClusterNodes cm (tr @ [ReadClock]) (hd (allMasterAddrs rc)) = Inr nodes"
    and balanced: "list_all (\<lambda>(_, n). n \<le> 16384 div int (length (allMasterAddrs rc))) (slotCounts nodes)"
    and "1 \<le> sint (c_Masters (c_Spec rc))"
  shows "\<exists>es. tr' = tr @ es \<and> set es \<subseteq> {e. \<not> isSetSlot e} \<and>
    clusterMasterAddr rc ` set (loop32 (c_Masters (c_Spec rc)) cur) \<subseteq> resets es"
proof -
  let ?rc = "setPhase PhaseScaling rc"
  have same: "allMasterAddrs ?rc = allMasterAddrs rc" "clusterMasterAddr ?rc = clusterMasterAddr rc"
    by (simp_all add: allMasterAddrs_def clusterMasterAddr_def fun_eq_iff)
  let ?t1 = "(tr @ [ReadClock]) @ [Cmd (ClusterNodes (hd (allMasterAddrs rc)))]"
  have "RebalanceSlots (rec_Ctx r) cm (allMasterAddrs rc) (tr @ [ReadClock]) = Some (None, ?t1)"
    using allMasterAddrs_nonempty [OF assms(4)] asked balanced by (rule RebalanceSlots_balanced)
  then obtain x t2 where x: "removeExcess cm ?rc cur ?t1 = (x, t2)" and "x = None"
    and tr': "tr' = scaledEvent ''ScaleIn'' cur (c_Masters (c_Spec rc))
      (RecordClusterScaling (rec_Ctx r) (om_Name (c_Meta rc)) (om_Namespace (c_Meta rc)) ''in'' (Now (rec_Ctx r) tr) t2)"
    using run assms(4) same(1)
    by (cases "removeExcess cm ?rc cur ?t1")
      (auto simp: reconcileScaleIn_def time_Now_def Let_def requeueNow_def requeueIn_def split: option.splits)
  with removeExcess_done [of cm ?rc cur ?t1 t2] obtain es where "t2 = ?t1 @ es" "set es \<subseteq> {e. \<not> isSetSlot e}"
    "clusterMasterAddr rc ` set (loop32 (c_Masters (c_Spec rc)) cur) \<subseteq> resets es" by (auto simp: same)
  moreover obtain late where "tr' = t2 @ late" "set late \<subseteq> {e. \<not> isSetSlot e}"
    unfolding tr' by (simp add: scaledEvent_def recordEvent_def metric_defs time_Now_def Let_def)
  ultimately show ?thesis
    by (intro exI [of _ "[ReadClock, Cmd (ClusterNodes (hd (allMasterAddrs rc)))] @ es @ late"]) auto
qed

definition announcedMasters :: "ClusterNode list" where
  "announcedMasters =
     [node ''A'' (clusterMasterAddr threeByOne 0) [''myself'', ''master''] [slotRange 0 4095],
      node ''B'' (clusterMasterAddr threeByOne 1) [''master''] [slotRange 4096 8191],
      node ''C'' (clusterMasterAddr threeByOne 2) [''master''] [slotRange 8192 12287],
      node ''D'' (clusterMasterAddr threeByOne 3) [''master''] [slotRange 12288 16383]]"

definition announcingClient :: RedisClient where
  "announcingClient = quietClient\<lparr>rc_ClusterNodes := \<lambda>tr a. Inr announcedMasters\<rparr>"

lemma loop32_samples [simp]: "loop32 (3::int32) 4 = [3]" "length (loop32 (0::int32) 3) = 3"
  by (simp_all add: loop32_def upto_rec1)

lemma clusterMasterAddr_inject [simp]: "clusterMasterAddr rc i = clusterMasterAddr rc j \<longleftrightarrow> i = j"
proof
  assume "clusterMasterAddr rc i = clusterMasterAddr rc j"
  then have "Itoa (sint i) = Itoa (sint j)" by (simp add: clusterMasterAddr_def)
  moreover have "int64_ok (sint i)" "int64_ok (sint j)"
    using sint_lt [of i] sint_ge [of i] sint_lt [of j] sint_ge [of j] by (simp_all add: int64_ok_def)
  ultimately have "sint i = sint j" by (intro Itoa_inject)
  then show "i = j" by (rule signed_word_eqI)
qed simp

lemma announced_simps [simp]:
  "rc_ClusterNodes announcingClient t a = Inr announcedMasters"
  "rc_ClusterReset announcingClient t a h = None"
  "nodeIDForAddr announcedMasters (clusterMasterAddr threeByOne 3) = ''D''"
  by (simp_all add: announcingClient_def quietClient_def announcedMasters_def nodeIDForAddr_def node_def)

lemma announced_RemoveMaster:
  "\<exists>t. RemoveMaster announcingClient a (clusterMasterAddr threeByOne 3) tr = (None, t)"
  by (simp add: RemoveMaster_def trace_simps)

lemma announced_balanced:
  "list_all (\<lambda>(_, n). n \<le> 16384 div int (length (allMasterAddrs threeByOne))) (slotCounts announcedMasters)"
  by (simp add: announcedMasters_def node_def slotRange_def slotCounts_def slotTotal_def isMaster_def allMasterAddrs_def)

theorem balanced_scale_in_moves_no_slot_witness:
  "\<exists>rc' tr'. reconcileScaleIn managedReconciler announcingClient threeByOne 4 [] = Some (((requeueNow, None), rc'), tr') \<and>
    (\<exists>es. tr' = [] @ es \<and> set es \<subseteq> {e. \<not> isSetSlot e} \<and>
      clusterMasterAddr threeByOne ` set (loop32 (c_Masters (c_Spec threeByOne)) 4) \<subseteq> resets es)"
proof -
  let ?rc = "setPhase PhaseScaling threeByOne" and ?cm = announcingClient
  have same: "allMasterAddrs ?rc = allMasterAddrs threeByOne" "clusterMasterAddr ?rc = clusterMasterAddr threeByOne"
    by (simp_all add: allMasterAddrs_def clusterMasterAddr_def fun_eq_iff)
  have "RebalanceSlots sampleCtx ?cm (allMasterAddrs threeByOne) [ReadClock] =
      Some (None, [ReadClock] @ [Cmd (ClusterNodes (hd (allMasterAddrs threeByOne)))])"
    by (rule RebalanceSlots_balanced [OF allMasterAddrs_nonempty announced_simps(1) announced_balanced]) simp
  moreover have "\<exists>t. removeExcess ?cm ?rc 4 tr = (None, t)" for tr
    using announced_RemoveMaster [of "clusterMasterAddr threeByOne 0" "removeReplicasOf ?cm ?rc 3 tr"]
    by (auto simp: removeExcess_def same)
  ultimately obtain t where "RebalanceSlots sampleCtx ?cm (allMasterAddrs threeByOne) [ReadClock] =
      Some (None, [ReadClock] @ [Cmd (ClusterNodes (hd (allMasterAddrs threeByOne)))])"
    "removeExcess ?cm ?rc 4 ([ReadClock] @ [Cmd (ClusterNodes (hd (allMasterAddrs threeByOne)))]) = (None, t)"
    by blast
  then have "\<exists>rc' tr'. reconcileScaleIn managedReconciler ?cm threeByOne 4 [] = Some (((requeueNow, None), rc'), tr')"
    by (simp add: reconcileScaleIn_def time_Now_def Let_def same)
  then obtain rc' tr' where run:
    "reconcileScaleIn managedReconciler ?cm threeByOne 4 [] = Some (((requeueNow, None), rc'), tr')" by blast
  show ?thesis
    by (rule exI, rule exI, rule conjI, rule run, rule balanced_scale_in_moves_no_slot [OF run])
      (use announced_balanced in simp_all)
qed

end
