(* ===== verification/Rollout_Correct.thy ===== *)
theory Rollout_Correct
  imports Lifecycle_Correct Webhooks
begin

text \<open>
  What the cluster reconciler does with a changed configuration, and where the phase of a healthy
  cluster goes: the parameters pushed to running masters, the replicas promoted for a restart,
  and the phase the status of a healthy run carries.
\<close>

section \<open>Hot reload\<close>

text \<open>The parameters Redis lets change at runtime, as far as the operator uses this.\<close>

definition reloadable :: "string set" where
  "reloadable = {''maxmemory'', ''maxmemory-policy'', ''hz'', ''loglevel'', ''save'', ''timeout'', ''tcp-keepalive'',
     ''slowlog-log-slower-than'', ''slowlog-max-len''}"

lemma reloadable_params: "set hotReloadableParams = reloadable"
  by (simp add: hotReloadableParams_def reloadable_def)

definition hotEntries :: "gomap \<Rightarrow> gomap" where
  "hotEntries conf = filter (\<lambda>(k, _). k \<in> reloadable) conf"

definition settings :: "string \<Rightarrow> gomap \<Rightarrow> trace" where
  "settings addr conf = map (\<lambda>(k, v). Cmd (ConfigSet addr k v)) (hotEntries conf)"

lemma concat_map_if: "concat (map (\<lambda>x. if P x then [f x] else []) xs) = map f (filter P xs)"
  by (induction xs) simp_all

lemma pushConfig_events:
  "pushConfig cx c addr conf tr = tr @ map (\<lambda>k. Cmd (ConfigSet addr k (mget conf k)))
     (filter (\<lambda>k. k \<in> set hotReloadableParams) (map_order cx tr (map fst conf)))"
  unfolding pushConfig_def
  by (subst forIgnore_events [where ev = "\<lambda>k. if k \<in> set hotReloadableParams then [Cmd (ConfigSet addr k (mget conf k))] else []"])
    (simp_all add: trace_simps concat_map_if)

lemma mset_settings:
  assumes "is_gomap conf"
  shows "mset (map (\<lambda>k. Cmd (ConfigSet addr k (mget conf k)))
      (filter (\<lambda>k. k \<in> set hotReloadableParams) (map_order cx tr (map fst conf)))) = mset (settings addr conf)"
proof -
  have "map (\<lambda>k. Cmd (ConfigSet addr k (mget conf k))) (filter (\<lambda>k. k \<in> set hotReloadableParams) (map fst conf))
      = settings addr conf"
    using assms unfolding settings_def hotEntries_def reloadable_params filter_map comp_def map_map is_gomap_def mget_def case_prod_beta
    by (intro map_cong refl) auto
  then show ?thesis by (metis mset_filter mset_map mset_map_order)
qed

lemma pushConfig_settings:
  assumes "is_gomap conf"
  shows "\<exists>es. pushConfig cx c addr conf tr = tr @ es \<and> mset es = mset (settings addr conf)"
  using mset_settings [OF assms] by (auto simp: pushConfig_events)

text \<open>
  C28: Hot reload sends every master of the cluster, one after the other, a \<open>CONFIG SET\<close> for exactly the
  parameters of the configuration that Redis can change while it runs, each once with the value of
  the resource, whatever the servers answer and in whatever order Go visits the map. No replica is sent anything, although
  the comment on the function speaks of every cluster node.
\<close>

theorem hot_reload_pushes:
  assumes "rec_RedisClient r = Some c" and "is_gomap (c_RedisConfig (c_Spec rc))"
  shows "\<exists>ess. tryClusterHotReload r rc tr = tr @ concat ess \<and>
    list_all2 (\<lambda>addr es. mset es = mset (settings addr (c_RedisConfig (c_Spec rc)))) (allMasterAddrs rc) ess"
proof -
  let ?conf = "c_RedisConfig (c_Spec rc)"
  have "\<exists>ess. fold (\<lambda>i. pushConfig (rec_Ctx r) c (clusterMasterAddr rc i) ?conf) is tr = tr @ concat ess \<and>
      list_all2 (\<lambda>addr es. mset es = mset (settings addr ?conf)) (map (clusterMasterAddr rc) is) ess" for "is"
  proof (induction "is" arbitrary: tr)
    case (Cons i "is")
    obtain es where es: "pushConfig (rec_Ctx r) c (clusterMasterAddr rc i) ?conf tr = tr @ es"
      "mset es = mset (settings (clusterMasterAddr rc i) ?conf)"
      using pushConfig_settings [OF assms(2)] by blast
    from Cons.IH [of "tr @ es"] obtain ess where "fold (\<lambda>i. pushConfig (rec_Ctx r) c (clusterMasterAddr rc i) ?conf) is (tr @ es)
        = (tr @ es) @ concat ess"
      "list_all2 (\<lambda>addr es. mset es = mset (settings addr ?conf)) (map (clusterMasterAddr rc) is) ess" by blast
    then show ?case using es by (intro exI [of _ "es # ess"]) simp
  qed simp
  then show ?thesis by (simp add: tryClusterHotReload_def assms(1) allMasterAddrs_def)
qed

definition tunedCluster :: RedisCluster where
  "tunedCluster = threeByOne\<lparr>c_Spec := (c_Spec threeByOne)\<lparr>c_RedisConfig := [(''hz'', ''20''), (''appendonly'', ''no'')]\<rparr>\<rparr>"

theorem hot_reload_pushes_witness:
  "\<exists>ess. tryClusterHotReload managedReconciler tunedCluster [] = [] @ concat ess \<and>
    list_all2 (\<lambda>addr es. mset es = mset (settings addr (c_RedisConfig (c_Spec tunedCluster)))) (allMasterAddrs tunedCluster) ess"
  by (rule hot_reload_pushes) (simp_all add: tunedCluster_def is_gomap_def)

section \<open>Rolling failover\<close>

fun promotedBy :: "event \<Rightarrow> string option" where
  "promotedBy (Cmd (ClusterFailover a)) = Some a"
| "promotedBy _ = None"

definition promoted :: "trace \<Rightarrow> string list" where
  "promoted es = List.map_filter promotedBy es"

lemma promoted_simps [simp]:
  "promoted [] = []" "promoted (xs @ ys) = promoted xs @ promoted ys"
  "promoted (e # es) = (case promotedBy e of None \<Rightarrow> promoted es | Some a \<Rightarrow> a # promoted es)"
  by (simp_all add: promoted_def List.map_filter_def split: option.split)

definition firstReplica :: "ClusterNode list \<Rightarrow> string \<Rightarrow> ClusterNode option" where
  "firstReplica nodes m = find (\<lambda>n. cn_MasterID n = m \<and> \<not> isMaster n) nodes"

lemma failover_events:
  "forIgnore (failoverReplica c nodes) ids tr =
     tr @ concat (map (\<lambda>m. case firstReplica nodes m of None \<Rightarrow> [] | Some n \<Rightarrow> [Cmd (ClusterFailover (cn_Addr n))]) ids)"
  by (rule forIgnore_events) (simp add: failoverReplica_def firstReplica_def trace_simps split: option.split)

lemma promoted_failovers:
  "promoted (concat (map (\<lambda>m. case firstReplica nodes m of None \<Rightarrow> [] | Some n \<Rightarrow> [Cmd (ClusterFailover (cn_Addr n))]) ids))
     = map cn_Addr (List.map_filter (firstReplica nodes) ids)"
  by (induction ids) (auto simp: List.map_filter_def split: option.split)

lemma firstReplica_Some:
  "firstReplica nodes m = Some n \<Longrightarrow> n \<in> set nodes \<and> cn_MasterID n = m \<and> \<not> isMaster n"
  by (auto simp: firstReplica_def find_Some_iff)

lemma recordLastConfigHash_promotes: "\<exists>es. snd (recordLastConfigHash r rc h tr) = tr @ es \<and> promoted es = []"
  by (simp add: recordLastConfigHash_def Let_def)

lemma first_replicas:
  fixes nodes :: "ClusterNode list"
  assumes "distinct ids"
  defines "ns \<equiv> List.map_filter (firstReplica nodes) ids"
  shows "distinct (map cn_MasterID ns)" and "set ns \<subseteq> {n \<in> set nodes. \<not> isMaster n}"
    and "cn_MasterID ` set ns = set ids \<inter> cn_MasterID ` {n \<in> set nodes. \<not> isMaster n}"
proof -
  have ids: "map cn_MasterID ns = filter (\<lambda>m. firstReplica nodes m \<noteq> None) ids"
    unfolding ns_def by (induction ids) (auto simp: List.map_filter_def dest: firstReplica_Some)
  with assms(1) show "distinct (map cn_MasterID ns)" by simp
  show "set ns \<subseteq> {n \<in> set nodes. \<not> isMaster n}"
    unfolding ns_def by (auto simp: List.map_filter_def dest: firstReplica_Some)
  have "firstReplica nodes m \<noteq> None \<longleftrightarrow> m \<in> cn_MasterID ` {n \<in> set nodes. \<not> isMaster n}" for m
    by (auto simp: firstReplica_def find_None_iff)
  then show "cn_MasterID ` set ns = set ids \<inter> cn_MasterID ` {n \<in> set nodes. \<not> isMaster n}"
    unfolding set_map [symmetric] ids by auto
qed

lemma GetClusterState_promotes: "\<exists>es. snd (GetClusterState c a tr) = tr @ es \<and> promoted es = []"
  by (simp add: GetClusterState_def trace_simps split: sum.split)

text \<open>A run may promote replicas only after a first configuration was recorded, and for a change that needs a restart.\<close>

definition mayRestart :: "RedisCluster \<Rightarrow> string \<Rightarrow> bool" where
  "mayRestart rc hash \<longleftrightarrow> mget (om_Annotations (c_Meta rc)) lastConfigHashAnnotation \<notin> {[], hash} \<and>
     \<not> fst ` set (c_RedisConfig (c_Spec rc)) \<subseteq> reloadable"

lemma mayRestart_needed:
  "mayRestart rc hash \<longleftrightarrow> \<not> (mget (om_Annotations (c_Meta rc)) lastConfigHashAnnotation = [] \<or>
     mget (om_Annotations (c_Meta rc)) lastConfigHashAnnotation = hash \<or> \<not> needsRestart (c_RedisConfig (c_Spec rc)))"
  by (auto simp: mayRestart_def needsRestart_def reloadable_params list_ex_iff)

text \<open>
  C27: When the recorded hash differs from that of the configuration and the configuration has a parameter that cannot
  be changed at runtime, the failover step promotes one replica of each master that has one, each a node that
  reports itself as a replica of a master of the observed cluster, and no master's replicas twice. Nothing is
  promoted on the first run, when the configuration is unchanged, when every parameter of it can be changed without a
  restart, or when the cluster state is unknown. (The StatefulSets with the new hash have been written earlier in the same
  run, so that the restart may be under way by then.)
\<close>

theorem rolling_failover_promotes_replicas:
  assumes "rec_RedisClient r = Some c" and "rec_ClusterManager r = Some cm"
    and "GetClusterState cm (clusterMasterAddr rc 0) tr = (state, t)"
  shows "\<exists>rc' es ns. tryClusterRollingFailover r rc hash tr = (rc', tr @ es) \<and> promoted es = map cn_Addr ns \<and>
    (case state of
       Inl _ \<Rightarrow> ns = []
     | Inr st \<Rightarrow>
         if mayRestart rc hash
         then distinct (map cn_MasterID ns) \<and>
              set ns \<subseteq> {n \<in> set (cst_Nodes st). \<not> isMaster n} \<and>
              cn_MasterID ` set ns = set (masterNodeIDs (cst_Nodes st)) \<inter> cn_MasterID ` {n \<in> set (cst_Nodes st). \<not> isMaster n}
         else ns = [])"
proof (cases "mayRestart rc hash")
  case False
  then have "tryClusterRollingFailover r rc hash tr = recordLastConfigHash r rc hash tr"
    using assms(1,2) by (auto simp: tryClusterRollingFailover_def mayRestart_needed)
  moreover obtain es where "snd (recordLastConfigHash r rc hash tr) = tr @ es" "promoted es = []"
    using recordLastConfigHash_promotes by blast
  ultimately show ?thesis using False
    by (cases "recordLastConfigHash r rc hash tr") (auto split: sum.split)
next
  case True
  obtain es0 where es0: "t = tr @ es0" "promoted es0 = []"
    using GetClusterState_promotes [of cm "clusterMasterAddr rc 0" tr] assms(3) by auto
  show ?thesis
  proof (cases state)
    case (Inl e)
    then have "tryClusterRollingFailover r rc hash tr = recordLastConfigHash r rc hash t"
      using assms True by (auto simp: tryClusterRollingFailover_def mayRestart_needed)
    moreover obtain es where "snd (recordLastConfigHash r rc hash t) = t @ es" "promoted es = []"
      using recordLastConfigHash_promotes by blast
    ultimately show ?thesis using Inl es0
      by (cases "recordLastConfigHash r rc hash t") (auto intro!: exI [of _ "es0 @ es"])
  next
    case (Inr st)
    let ?ids = "map_order (rec_Ctx r) t (remdups (masterNodeIDs (cst_Nodes st)))"
    let ?ns = "List.map_filter (firstReplica (cst_Nodes st)) ?ids"
    let ?told = "Kube (RecordEvent ''Normal'' ''RollingFailover''
      ''Pre-triggered CLUSTER FAILOVER on replicas before config-driven pod restart'')"
    obtain es1 where es1: "forIgnore (failoverReplica c (cst_Nodes st)) ?ids t = t @ es1" "promoted es1 = map cn_Addr ?ns"
      unfolding failover_events using promoted_failovers by blast
    have run: "tryClusterRollingFailover r rc hash tr = recordLastConfigHash r rc hash (t @ es1 @ [?told])"
      using assms True es1(1) Inr by (simp add: tryClusterRollingFailover_def mayRestart_needed recordEvent_def Let_def)
    obtain es2 where es2: "snd (recordLastConfigHash r rc hash (t @ es1 @ [?told])) = (t @ es1 @ [?told]) @ es2" "promoted es2 = []"
      using recordLastConfigHash_promotes by blast
    have ids: "distinct ?ids" "set ?ids = set (masterNodeIDs (cst_Nodes st))"
      by (simp_all add: map_order_def)
    show ?thesis
      by (rule exI [of _ "fst (recordLastConfigHash r rc hash (t @ es1 @ [?told]))"],
          rule exI [of _ "es0 @ es1 @ [?told] @ es2"], rule exI [of _ ?ns])
        (use run es0 es1 es2 True Inr first_replicas [OF ids(1), of "cst_Nodes st"] ids(2) in
          \<open>simp add: prod_eq_iff\<close>)
  qed
qed

text \<open>A cluster of one master with one replica, whose configuration changed since the last run.\<close>

definition changedCluster :: RedisCluster where
  "changedCluster = tunedCluster\<lparr>c_Meta := (c_Meta tunedCluster)\<lparr>om_Annotations := [(lastConfigHashAnnotation, ''old'')]\<rparr>\<rparr>"

definition pairNodes :: "ClusterNode list" where
  "pairNodes = [node ''A'' ''10.0.0.1:6379'' [''myself'', ''master''] [slotRange 0 16383],
     (node ''B'' ''10.0.0.2:6379'' [''slave''] [])\<lparr>cn_MasterID := ''A''\<rparr>]"

definition pairClient :: RedisClient where
  "pairClient = quietClient\<lparr>rc_ClusterNodes := \<lambda>tr a. Inr pairNodes\<rparr>"

lemma changedCluster_mayRestart: "mayRestart changedCluster ''new''"
  by (simp add: mayRestart_def changedCluster_def tunedCluster_def reloadable_def mget_def)

theorem rolling_failover_promotes_replicas_witness:
  "\<exists>st rc' es ns. tryClusterRollingFailover (managedReconciler\<lparr>rec_ClusterManager := Some pairClient\<rparr>) changedCluster ''new'' []
       = (rc', [] @ es) \<and> promoted es = map cn_Addr ns \<and>
    (case (Inr st :: ClusterState result) of
       Inl _ \<Rightarrow> ns = []
     | Inr st \<Rightarrow>
         if mayRestart changedCluster ''new''
         then distinct (map cn_MasterID ns) \<and>
              set ns \<subseteq> {n \<in> set (cst_Nodes st). \<not> isMaster n} \<and>
              cn_MasterID ` set ns = set (masterNodeIDs (cst_Nodes st)) \<inter> cn_MasterID ` {n \<in> set (cst_Nodes st). \<not> isMaster n}
         else ns = [])"
proof -
  obtain st t where st: "GetClusterState pairClient (clusterMasterAddr changedCluster 0) [] = (Inr st, t)"
    by (simp add: GetClusterState_def pairClient_def quietClient_def trace_simps)
  show ?thesis
    by (rule exI [of _ st], rule rolling_failover_promotes_replicas [where c = quietClient and cm = pairClient, OF _ _ st])
      simp_all
qed

text \<open>
  Recording the hash writes the whole resource back from the API server's answer, so a phase that the
  same run has set before is replaced by the stored one.
\<close>

lemma recorded_hash_takes_stored_status:
  assumes "mget (om_Annotations (c_Meta rc)) lastConfigHashAnnotation \<noteq> hash"
    and "\<And>x. k_PatchCluster (rec_Kube r) tr x = Inr stored"
  shows "c_Status (fst (recordLastConfigHash r rc hash tr)) = c_Status stored"
  using assms by (simp add: recordLastConfigHash_def Let_def)

section \<open>The phase of a healthy cluster\<close>

text \<open>
  The status looks at the first flag of a node only, which is \<open>myself\<close> for the node that was asked: pod 0
  is reported as a replica while it is a master.
\<close>

lemma asked_master_reported_as_replica:
  "cn_Flags n = [''myself'', ''master''] \<Longrightarrow> isMaster n \<and> ns_Role (nodeStatus n) = ''replica''"
  by (simp add: nodeStatus_def isMaster_def)

text \<open>The phase the status of a healthy run carries.\<close>

definition healthyPhase :: "bool \<Rightarrow> string \<Rightarrow> string" where
  "healthyPhase ready p =
     (if p = PhaseRecovering \<or> p = PhaseInitializing \<and> ready then PhaseReady else p)"

text \<open>Every slot is assigned, the state is ok, and the cluster has as many masters as the resource asks for.\<close>

definition healthyState :: "RedisCluster \<Rightarrow> ClusterState \<Rightarrow> bool" where
  "healthyState rc st \<longleftrightarrow> cst_State st = ''ok'' \<and> cst_SlotsAssigned st \<noteq> 0 \<and>
     word_of_int (cst_Size st) = c_Masters (c_Spec rc)"

lemma statusOf_phase:
  assumes "c_Phase (c_Status rc) \<noteq> []"
  shows "c_Phase (cluster_statusOf k rc rm rr ''ok'' n nodes now) =
    (if c_Phase (c_Status rc) = PhaseInitializing \<and> clusterAllReady rc rm rr then PhaseReady else c_Phase (c_Status rc))"
  and "c_ReadyMasters (cluster_statusOf k rc rm rr cs n nodes now) = rm"
  and "c_ReadyReplicas (cluster_statusOf k rc rm rr cs n nodes now) = rr"
  using assms by (simp_all add: cluster_statusOf_def Let_def)

lemma updateClusterStatus_phase:
  assumes "rec_ClusterManager r = Some cm" and "c_Phase (c_Status rc) \<noteq> []"
    and "\<And>t. \<exists>st. fst (GetClusterState cm (clusterMasterAddr rc 0) t) = Inr st \<and> cst_State st = ''ok''"
  shows "\<exists>rc' t. updateClusterStatus r rc tr = (errOf (k_StatusCluster (rec_Kube r) t rc'), t @ [Kube (StatusCluster rc')]) \<and>
    c_Phase (c_Status rc') =
      (if c_Phase (c_Status rc) = PhaseInitializing \<and>
          clusterAllReady rc (c_ReadyMasters (c_Status rc')) (c_ReadyReplicas (c_Status rc'))
       then PhaseReady else c_Phase (c_Status rc))"
proof -
  obtain mp t1 where 1: "podsOf r rc ComponentMaster tr = (mp, t1)" by fastforce
  obtain rp t2 where 2: "podsOf r rc ComponentReplica t1 = (rp, t2)" by fastforce
  obtain st t3 where 3: "GetClusterState cm (clusterMasterAddr rc 0) t2 = (Inr st, t3)" and ok: "cst_State st = ''ok''"
    using assms(3) [of t2] by (metis prod.collapse)
  have seen: "observe r rc t2 = ((''ok'', word_of_int (cst_SlotsAssigned st), map nodeStatus (cst_Nodes st)), t3)"
    by (simp add: observe_def assms(1) 3 ok)
  let ?rc' = "rc\<lparr>c_Status := cluster_statusOf (rec_Kube r) rc (ready32 (listedPods mp)) (ready32 (listedPods rp)) ''ok''
      (word_of_int (cst_SlotsAssigned st)) (map nodeStatus (cst_Nodes st)) (Now (rec_Ctx r) t3)\<rparr>"
  let ?t = "SetClusterMetrics (om_Name (c_Meta rc)) (om_Namespace (c_Meta rc)) ''ok'' (word_of_int (cst_SlotsAssigned st))
      (word_of_nat (length (cst_Nodes st))) (ready32 (listedPods mp)) (ready32 (listedPods rp)) (t3 @ [ReadClock])"
  from seen have "updateClusterStatus r rc tr = (errOf (k_StatusCluster (rec_Kube r) ?t ?rc'), ?t @ [Kube (StatusCluster ?rc')])"
    using 1 2 by (simp add: updateClusterStatus_def statusUpdate_def time_Now_def Let_def errOf_def split: sum.split)
  then show ?thesis using statusOf_phase [OF assms(2)]
    by (intro exI [of _ ?rc'] exI [of _ ?t]) simp
qed

lemma lifecycle_healthy:
  assumes "rec_ClusterManager r = Some cm"
    and "GetClusterState cm (clusterMasterAddr rc 0) tr = (Inr st, t)" and "healthyState rc st"
  shows "\<exists>t'. reconcileClusterLifecycle r rc tr =
    Some (((noResult, None), if c_Phase (c_Status rc) = PhaseRecovering then setPhase PhaseReady rc else rc), t')"
  using assms by (auto simp: reconcileClusterLifecycle_def healthyState_def recovered_def scaleIfNeeded_def setPhase_def)

lemma steady_failover:
  assumes "mget (om_Annotations (c_Meta rc)) lastConfigHashAnnotation = hash"
  shows "tryClusterRollingFailover r rc hash tr = (rc, tr)"
  using assms by (auto simp: tryClusterRollingFailover_def recordLastConfigHash_def split: option.split)

lemma healthy_run:
  assumes run: "cluster_converge r rc tr = Some ((res, None), tr')"
    and cm: "rec_ClusterManager r = Some cm"
    and healthy: "\<And>t. \<exists>st. fst (GetClusterState cm (clusterMasterAddr rc 0) t) = Inr st \<and> healthyState rc st"
    and steady: "mget (om_Annotations (c_Meta rc)) lastConfigHashAnnotation =
        configDataHash (rec_Kube r) (cm_Data (BuildClusterConfigMap rc))"
    and phase: "c_Phase (c_Status rc) \<noteq> []"
  shows "\<exists>rc' t. tr' = t @ [Kube (StatusCluster rc')] \<and>
    c_Phase (c_Status rc') =
      healthyPhase (clusterAllReady rc (c_ReadyMasters (c_Status rc')) (c_ReadyReplicas (c_Status rc'))) (c_Phase (c_Status rc))"
proof -
  let ?h = "configDataHash (rec_Kube r) (cm_Data (BuildClusterConfigMap rc))"
  let ?rc = "if c_Phase (c_Status rc) = PhaseRecovering then setPhase PhaseReady rc else rc"
  obtain e0 t0 where 0: "applyConfigMap (rec_Kube r) (c_Meta rc) (BuildClusterConfigMap rc) tr = (e0, t0)" by fastforce
  have [simp]: "e0 = None" using run 0
    by (cases e0) (auto simp: cluster_converge_eq reconcileClusterConfigMap_def Let_def)
  obtain e1 t1 where 1: "forErr (\<lambda>step. step) (cluster_steps r rc ?h) t0 = (e1, t1)" by fastforce
  have [simp]: "e1 = None" using run 0 1
    by (cases e1) (auto simp: cluster_converge_eq reconcileClusterConfigMap_def Let_def)
  let ?t2 = "if c_EnableExporter (c_Spec rc) = Some True
    then snd (applyServiceMonitor (rec_Kube r) (c_Meta rc) (BuildClusterServiceMonitor rc) t1) else t1"
  obtain st t3 where "GetClusterState cm (clusterMasterAddr rc 0) ?t2 = (Inr st, t3)" "healthyState rc st"
    using healthy [of ?t2] by (metis prod.collapse)
  then obtain t4 where life: "reconcileClusterLifecycle r rc ?t2 = Some (((noResult, None), ?rc), t4)"
    using lifecycle_healthy [OF cm] by blast
  have fail: "tryClusterRollingFailover r ?rc ?h t4 = (?rc, t4)"
    using steady by (intro steady_failover) (simp add: setPhase_def)
  let ?t5 = "tryClusterHotReload r ?rc t4"
  have same: "clusterMasterAddr ?rc = clusterMasterAddr rc" "c_Phase (c_Status ?rc) \<noteq> []"
    using phase by (simp_all add: clusterMasterAddr_def setPhase_def PhaseReady_def fun_eq_iff)
  have ok: "\<exists>st. fst (GetClusterState cm (clusterMasterAddr ?rc 0) t) = Inr st \<and> cst_State st = ''ok''" for t
    unfolding same using healthy by (auto simp: healthyState_def)
  obtain rc' t where up: "updateClusterStatus r ?rc ?t5 = (errOf (k_StatusCluster (rec_Kube r) t rc'), t @ [Kube (StatusCluster rc')])"
    and ph: "c_Phase (c_Status rc') =
      (if c_Phase (c_Status ?rc) = PhaseInitializing \<and>
          clusterAllReady ?rc (c_ReadyMasters (c_Status rc')) (c_ReadyReplicas (c_Status rc'))
       then PhaseReady else c_Phase (c_Status ?rc))"
    using updateClusterStatus_phase [OF cm same(2) ok, of ?t5] by blast
  have "tr' = t @ [Kube (StatusCluster rc')]"
    using run 0 1 life fail up
    by (auto simp: cluster_converge_eq reconcileClusterConfigMap_def Let_def split: option.splits)
  then show ?thesis using ph
    by (auto simp: healthyPhase_def setPhase_def clusterAllReady_def replicaTotal_def PhaseReady_def PhaseRecovering_def
        PhaseInitializing_def)
qed

text \<open>
  C29: Where a run on a healthy cluster whose configuration has not changed leaves the phase: Recovering
  becomes Ready, Initializing becomes Ready once enough pods are ready, and every other phase stays.
  So a cluster that was left in phase Scaling when its size came to match again stays there: the
  webhook then refuses every change of it and its deletion, and no later run frees it.
\<close>

theorem healthy_run_phase:
  assumes "cluster_converge r rc tr = Some ((res, None), tr')"
    and "rec_ClusterManager r = Some cm"
    and "\<And>t. \<exists>st. fst (GetClusterState cm (clusterMasterAddr rc 0) t) = Inr st \<and> healthyState rc st"
    and "mget (om_Annotations (c_Meta rc)) lastConfigHashAnnotation =
        configDataHash (rec_Kube r) (cm_Data (BuildClusterConfigMap rc))"
    and "c_Phase (c_Status rc) \<noteq> []"
  shows "\<exists>rc' t. tr' = t @ [Kube (StatusCluster rc')] \<and>
    c_Phase (c_Status rc') =
      healthyPhase (clusterAllReady rc (c_ReadyMasters (c_Status rc')) (c_ReadyReplicas (c_Status rc'))) (c_Phase (c_Status rc)) \<and>
    (c_Phase (c_Status rc) = PhaseScaling \<longrightarrow>
       (\<forall>pq new. \<not> admitted (RedisCluster_ValidateUpdate pq new (ClusterObj rc'))) \<and> \<not> admitted (RedisCluster_ValidateDelete rc'))"
proof -
  obtain rc' t where rc': "tr' = t @ [Kube (StatusCluster rc')]" "c_Phase (c_Status rc') =
      healthyPhase (clusterAllReady rc (c_ReadyMasters (c_Status rc')) (c_ReadyReplicas (c_Status rc'))) (c_Phase (c_Status rc))"
    using healthy_run [OF assms] by blast
  have "c_Phase (c_Status rc') = PhaseScaling" if "c_Phase (c_Status rc) = PhaseScaling"
    using rc'(2) that by (simp add: healthyPhase_def PhaseScaling_def PhaseRecovering_def PhaseInitializing_def)
  then have "(\<forall>pq new. \<not> admitted (RedisCluster_ValidateUpdate pq new (ClusterObj rc'))) \<and> \<not> admitted (RedisCluster_ValidateDelete rc')"
    if "c_Phase (c_Status rc) = PhaseScaling"
    using that cluster_update_admittedD(3) by (auto simp: RedisCluster_ValidateDelete_def admitted_def)
  with rc' show ?thesis by blast
qed

text \<open>A healthy cluster of three masters, with no Redis client for reloads, left in phase Scaling.\<close>

definition healthyClient :: RedisClient where
  "healthyClient = quietClient\<lparr>rc_ClusterInfo := \<lambda>tr a. Inr (zeroClusterInfo\<lparr>
     ci_State := ''ok'', ci_SlotsAssigned := 16384, ci_ClusterSize := 3\<rparr>)\<rparr>"

definition healthyReconciler :: Reconciler where
  "healthyReconciler = sampleReconciler\<lparr>rec_ClusterManager := Some healthyClient\<rparr>"

definition stuckCluster :: RedisCluster where
  "stuckCluster = setPhase PhaseScaling (threeByOne\<lparr>c_Meta := (c_Meta threeByOne)\<lparr>om_Annotations :=
     [(lastConfigHashAnnotation, configDataHash sampleKube (cm_Data (BuildClusterConfigMap threeByOne)))]\<rparr>\<rparr>)"

lemma healthyReconciler_simps [simp]:
  "rec_Kube healthyReconciler = sampleKube" "rec_Ctx healthyReconciler = sampleCtx"
  "rec_RedisClient healthyReconciler = None" "rec_ClusterManager healthyReconciler = Some healthyClient"
  by (simp_all add: healthyReconciler_def)

lemma stuckCluster_simps [simp]:
  "c_Phase (c_Status stuckCluster) = PhaseScaling" "c_Spec stuckCluster = c_Spec threeByOne"
  "mget (om_Annotations (c_Meta stuckCluster)) lastConfigHashAnnotation =
     configDataHash sampleKube (cm_Data (BuildClusterConfigMap stuckCluster))"
  by (simp_all add: stuckCluster_def setPhase_def mget_def BuildClusterConfigMap_def Let_def)

lemma healthyClient_state:
  "\<exists>st t'. GetClusterState healthyClient a t = (Inr st, t') \<and> healthyState stuckCluster st"
  by (simp add: GetClusterState_def healthyClient_def quietClient_def trace_simps healthyState_def)

theorem healthy_run_phase_witness:
  "\<exists>res tr'. cluster_converge healthyReconciler stuckCluster [] = Some ((res, None), tr') \<and>
    (\<exists>rc' t. tr' = t @ [Kube (StatusCluster rc')] \<and>
    c_Phase (c_Status rc') =
      healthyPhase (clusterAllReady stuckCluster (c_ReadyMasters (c_Status rc')) (c_ReadyReplicas (c_Status rc')))
        (c_Phase (c_Status stuckCluster)) \<and>
    (c_Phase (c_Status stuckCluster) = PhaseScaling \<longrightarrow>
       (\<forall>pq new. \<not> admitted (RedisCluster_ValidateUpdate pq new (ClusterObj rc'))) \<and> \<not> admitted (RedisCluster_ValidateDelete rc')))"
proof -
  let ?rc = stuckCluster and ?r = healthyReconciler
  obtain t0 where 0: "applyConfigMap sampleKube (c_Meta ?rc) (BuildClusterConfigMap ?rc) [] = (None, t0)"
    using succeedsD [OF sample_apply_succeeds(1)] by blast
  let ?h = "configDataHash sampleKube (cm_Data (BuildClusterConfigMap ?rc))"
  have "\<forall>step \<in> set (cluster_steps ?r ?rc ?h). succeeds step"
    by (auto simp: cluster_steps_eq Let_def split: if_splits)
  from succeeds_forErr [OF this] obtain t1 where 1: "forErr (\<lambda>step. step) (cluster_steps ?r ?rc ?h) t0 = (None, t1)"
    by blast
  let ?t2 = "snd (applyServiceMonitor sampleKube (c_Meta ?rc) (BuildClusterServiceMonitor ?rc) t1)"
  obtain st t3 where "GetClusterState healthyClient (clusterMasterAddr ?rc 0) ?t2 = (Inr st, t3)" "healthyState ?rc st"
    using healthyClient_state by blast
  then obtain t4 where 4: "reconcileClusterLifecycle ?r ?rc ?t2 = Some (((noResult, None), ?rc), t4)"
    using lifecycle_healthy [of ?r healthyClient ?rc ?t2 st t3] by (auto simp: PhaseScaling_def PhaseRecovering_def)
  have healthy: "\<exists>st. fst (GetClusterState healthyClient (clusterMasterAddr ?rc 0) t) = Inr st \<and> healthyState ?rc st" for t
    using healthyClient_state [of "clusterMasterAddr ?rc 0" t] by auto
  have ok: "\<exists>st. fst (GetClusterState healthyClient (clusterMasterAddr ?rc 0) t) = Inr st \<and> cst_State st = ''ok''" for t
    using healthy [of t] by (auto simp: healthyState_def)
  have "c_Phase (c_Status ?rc) \<noteq> []" by (simp add: PhaseScaling_def)
  then obtain rc' t where "updateClusterStatus ?r ?rc t4 = (errOf (k_StatusCluster sampleKube t rc'), t @ [Kube (StatusCluster rc')])"
    using updateClusterStatus_phase [OF healthyReconciler_simps(4) _ ok, of t4] by auto
  then have "fst (updateClusterStatus ?r ?rc t4) = None" by (simp add: errOf_def sampleKube_def)
  then obtain t5 where 5: "updateClusterStatus ?r ?rc t4 = (None, t5)" by (metis prod.collapse)
  have "c_EnableExporter (c_Spec ?rc) = Some True" by (simp add: threeByOne_def Let_def)
  then have run: "cluster_converge ?r ?rc [] = Some ((requeueIn 30, None), t5)"
    using 0 1 4 5 by (simp add: cluster_converge_eq reconcileClusterConfigMap_def Let_def
        tryClusterRollingFailover_def tryClusterHotReload_def finishReconcile_def noResult_def)
  show ?thesis
    by (rule exI, rule exI, rule conjI, rule run, rule healthy_run_phase [OF run healthyReconciler_simps(4) healthy])
      (simp, simp add: PhaseScaling_def)
qed

end
