(* ===== verification/Go_Store.thy ===== *)
theory Go_Store
  imports Prelude
begin

text \<open>
  A store for Go values that share memory, and the building blocks of generated deep copies.

  A value is a string, boolean or 32-bit integer, a nil, a reference (a pointer or a map) to a cell, a
  slice (backing array, offset, length) or a struct. A cell holds the pointed-to value, the entries of a
  map, or the elements of an array. What a value means depends on its Go type, so the predicates and
  the reading of a value follow a type: \<open>hasType\<close> says the store holds a value of the type,
  \<open>deref\<close> is the value with every reference followed, \<open>reach\<close> the addresses followed on the way.

  The locale \<open>deep_copier\<close> is the contract of \<open>DeepCopyInto\<close>: the copy reads like the original,
  every cell it reaches is newly allocated, and no cell that was there before is written. The rules
  \<open>copier_rules\<close> give the contract for pointers, maps, slices and structs from that of their parts.
\<close>

named_theorems copier_rules \<open>the contract of deep copies, per type constructor\<close>

section \<open>Values, types, store\<close>

datatype prim = PString string | PBool bool | PInt int32 | PZero

datatype gval =
    VPrim prim
  | VNil
  | VRef nat
  | VSlice nat nat nat
  | VStruct "(string \<times> gval) list"
  | VTable gomap
  | VArray "gval list"

datatype gtype =
    TPrim
  | TPointer gtype
  | TMap
  | TSlice gtype
  | TStruct "(string \<times> gtype) list"

datatype gtree =
    LPrim prim
  | LNil
  | LPointer gtree
  | LMap gomap
  | LSlice "gtree list"
  | LStruct "(string \<times> gtree) list"

record Store =
  st_next :: nat
  st_mem :: "nat \<Rightarrow> gval"

definition alloc :: "gval \<Rightarrow> Store \<Rightarrow> nat \<times> Store" where
  "alloc v s = (st_next s, \<lparr>st_next = Suc (st_next s), st_mem = (st_mem s)(st_next s := v)\<rparr>)"

definition store :: "nat \<Rightarrow> gval \<Rightarrow> Store \<Rightarrow> Store" where
  "store a v s = s\<lparr>st_mem := (st_mem s)(a := v)\<rparr>"

lemma store_simps [simp]:
  "st_next (store a v s) = st_next s"
  "st_mem (store a v s) a = v"
  "b \<noteq> a \<Longrightarrow> st_mem (store a v s) b = st_mem s b"
  by (simp_all add: store_def)

lemma alloc_simps [simp]:
  "fst (alloc v s) = st_next s"
  "st_next (snd (alloc v s)) = Suc (st_next s)"
  "st_mem (snd (alloc v s)) (st_next s) = v"
  "b \<noteq> st_next s \<Longrightarrow> st_mem (snd (alloc v s)) b = st_mem s b"
  by (simp_all add: alloc_def)

fun fields :: "gval \<Rightarrow> (string \<times> gval) list" where
  "fields (VStruct fs) = fs"
| "fields _ = []"

fun table :: "gval \<Rightarrow> gomap" where
  "table (VTable m) = m"
| "table _ = []"

fun elements :: "gval \<Rightarrow> gval list" where
  "elements (VArray xs) = xs"
| "elements _ = []"

definition field :: "string \<Rightarrow> gval \<Rightarrow> gval" where
  "field f v = (case map_of (fields v) f of Some x \<Rightarrow> x | None \<Rightarrow> VNil)"

definition setField :: "string \<Rightarrow> gval \<Rightarrow> gval \<Rightarrow> gval" where
  "setField f x v = VStruct (AList.update f x (fields v))"

definition window :: "Store \<Rightarrow> nat \<Rightarrow> nat \<Rightarrow> nat \<Rightarrow> gval list" where
  "window s a off n = take n (drop off (elements (st_mem s a)))"

lemma field_setField [simp]: "field g (setField f x v) = (if g = f then x else field g v)"
  by (simp add: field_def setField_def update_conv')

lemma window_cong: "st_mem s' a = st_mem s a \<Longrightarrow> window s' a off n = window s a off n"
  by (simp add: window_def)

section \<open>Typing, reading, reach\<close>

fun hasType :: "Store \<Rightarrow> gtype \<Rightarrow> gval \<Rightarrow> bool" where
  "hasType s TPrim v = (case v of VPrim _ \<Rightarrow> True | _ \<Rightarrow> False)"
| "hasType s (TPointer t) v =
     (case v of VNil \<Rightarrow> True | VRef a \<Rightarrow> a < st_next s \<and> hasType s t (st_mem s a) | _ \<Rightarrow> False)"
| "hasType s TMap v =
     (case v of VNil \<Rightarrow> True
      | VRef a \<Rightarrow> a < st_next s \<and> (case st_mem s a of VTable m \<Rightarrow> is_gomap m | _ \<Rightarrow> False) | _ \<Rightarrow> False)"
| "hasType s (TSlice t) v =
     (case v of VNil \<Rightarrow> True
      | VSlice a off n \<Rightarrow> a < st_next s \<and> off + n \<le> length (elements (st_mem s a)) \<and>
          (\<forall>x \<in> set (window s a off n). hasType s t x)
      | _ \<Rightarrow> False)"
| "hasType s (TStruct fts) v =
     ((case v of VStruct fs \<Rightarrow> map fst fs = map fst fts | _ \<Rightarrow> False) \<and>
      (\<forall>p \<in> set fts. hasType s (snd p) (field (fst p) v)))"

fun deref :: "Store \<Rightarrow> gtype \<Rightarrow> gval \<Rightarrow> gtree" where
  "deref s TPrim v = (case v of VPrim p \<Rightarrow> LPrim p | _ \<Rightarrow> LNil)"
| "deref s (TPointer t) v = (case v of VRef a \<Rightarrow> LPointer (deref s t (st_mem s a)) | _ \<Rightarrow> LNil)"
| "deref s TMap v = (case v of VRef a \<Rightarrow> LMap (table (st_mem s a)) | _ \<Rightarrow> LNil)"
| "deref s (TSlice t) v =
     (case v of VSlice a off n \<Rightarrow> LSlice (map (deref s t) (window s a off n)) | _ \<Rightarrow> LNil)"
| "deref s (TStruct fts) v = LStruct (map (\<lambda>p. (fst p, deref s (snd p) (field (fst p) v))) fts)"

fun reach :: "Store \<Rightarrow> gtype \<Rightarrow> gval \<Rightarrow> nat list" where
  "reach s TPrim v = []"
| "reach s (TPointer t) v = (case v of VRef a \<Rightarrow> a # reach s t (st_mem s a) | _ \<Rightarrow> [])"
| "reach s TMap v = (case v of VRef a \<Rightarrow> [a] | _ \<Rightarrow> [])"
| "reach s (TSlice t) v =
     (case v of VSlice a off n \<Rightarrow> a # concat (map (reach s t) (window s a off n)) | _ \<Rightarrow> [])"
| "reach s (TStruct fts) v = concat (map (\<lambda>p. reach s (snd p) (field (fst p) v)) fts)"

text \<open>A type without references: assigning a value of it copies it whole.\<close>

fun flat :: "gtype \<Rightarrow> bool" where
  "flat TPrim \<longleftrightarrow> True"
| "flat (TStruct fts) \<longleftrightarrow> (\<forall>p \<in> set fts. flat (snd p))"
| "flat _ \<longleftrightarrow> False"

text \<open>Two stores that agree on what a value reaches read it alike.\<close>

lemma same_reach:
  assumes "\<And>a. a \<in> set (reach s t v) \<Longrightarrow> st_mem s' a = st_mem s a"
  shows "deref s' t v = deref s t v \<and> reach s' t v = reach s t v"
  using assms
proof (induction t arbitrary: v)
  case (TPointer t)
  show ?case
  proof (cases v)
    case (VRef a)
    then have "st_mem s' a = st_mem s a" using TPointer.prems by simp
    then show ?thesis using TPointer VRef by simp
  qed simp_all
next
  case (TSlice t)
  show ?case
  proof (cases v)
    case (VSlice a off n)
    have "st_mem s' a = st_mem s a" by (rule TSlice.prems) (simp add: VSlice)
    then have "window s' a off n = window s a off n" by (rule window_cong)
    moreover have "deref s' t x = deref s t x \<and> reach s' t x = reach s t x" if "x \<in> set (window s a off n)" for x
    proof (rule TSlice.IH)
      fix b assume "b \<in> set (reach s t x)"
      then show "st_mem s' b = st_mem s b" using VSlice that by (intro TSlice.prems) auto
    qed
    ultimately show ?thesis using VSlice by (simp cong: map_cong)
  qed simp_all
next
  case (TStruct fts)
  have "deref s' (snd p) (field (fst p) v) = deref s (snd p) (field (fst p) v) \<and>
      reach s' (snd p) (field (fst p) v) = reach s (snd p) (field (fst p) v)" if p: "p \<in> set fts" for p
  proof (rule TStruct.IH [OF p snds.intros])
    fix a assume "a \<in> set (reach s (snd p) (field (fst p) v))"
    with p show "st_mem s' a = st_mem s a" by (intro TStruct.prems) auto
  qed
  then show ?case by (simp cong: map_cong)
qed (auto split: gval.split)

lemmas deref_same = same_reach [THEN conjunct1]
lemmas reach_same = same_reach [THEN conjunct2]

lemma hasType_same:
  assumes "\<And>a. a \<in> set (reach s t v) \<Longrightarrow> st_mem s' a = st_mem s a" and "st_next s \<le> st_next s'"
    and "hasType s t v"
  shows "hasType s' t v"
  using assms(1,3)
proof (induction t arbitrary: v)
  case (TPointer t)
  then show ?case using assms(2) by (auto split: gval.splits)
next
  case TMap
  then show ?case using assms(2) by (auto split: gval.splits)
next
  case (TSlice t)
  show ?case
  proof (cases v)
    case (VSlice a off n)
    then have m: "st_mem s' a = st_mem s a" using TSlice.prems by simp
    have "hasType s' t x" if "x \<in> set (window s a off n)" for x
    proof (rule TSlice.IH)
      fix b assume "b \<in> set (reach s t x)"
      then show "st_mem s' b = st_mem s b" using VSlice that by (intro TSlice.prems(1)) auto
    qed (use TSlice.prems(2) VSlice that in simp)
    then show ?thesis using VSlice TSlice.prems(2) assms(2) m by (simp add: window_cong [OF m])
  qed (use TSlice.prems in simp_all)
next
  case (TStruct fts)
  have "hasType s' (snd p) (field (fst p) v)" if p: "p \<in> set fts" for p
  proof (rule TStruct.IH [OF p snds.intros])
    fix a assume "a \<in> set (reach s (snd p) (field (fst p) v))"
    with p show "st_mem s' a = st_mem s a" by (intro TStruct.prems(1)) auto
  qed (use TStruct.prems(2) p in simp)
  then show ?case using TStruct.prems(2) by simp
qed simp

lemma reach_allocated: "hasType s t v \<Longrightarrow> a \<in> set (reach s t v) \<Longrightarrow> a < st_next s"
proof (induction t arbitrary: v)
  case (TStruct fts)
  from TStruct.prems(2) obtain p where p: "p \<in> set fts" "a \<in> set (reach s (snd p) (field (fst p) v))" by auto
  with TStruct.prems(1) show ?case by (intro TStruct.IH [OF p(1) snds.intros]) simp_all
qed (auto split: gval.splits)

lemma flat_reach: "flat t \<Longrightarrow> reach s t v = []"
proof (induction t arbitrary: v)
  case (TStruct fts)
  then have "reach s (snd p) (field (fst p) v) = []" if "p \<in> set fts" for p
    by (intro TStruct.IH [OF that snds.intros]) (use TStruct.prems that in simp)
  then show ?case by simp
qed simp_all

section \<open>The contract of a deep copy\<close>

text \<open>
  A copier is given the value of \<open>*in\<close> and returns the value it leaves in \<open>*out\<close>. \<open>grows s s'\<close>: the
  store \<open>s'\<close> has all the cells of \<open>s\<close>, unchanged.
\<close>

type_synonym copier = "gval \<Rightarrow> Store \<Rightarrow> gval \<times> Store"

text \<open>Stores are preordered by growth: what was there is kept, and cells may be added.\<close>

instantiation Store_ext :: (type) preorder
begin

definition less_eq_Store_ext :: "'a Store_scheme \<Rightarrow> 'a Store_scheme \<Rightarrow> bool" where
  grows_def: "s \<le> s' \<longleftrightarrow> st_next s \<le> st_next s' \<and> (\<forall>a < st_next s. st_mem s' a = st_mem s a)"

definition less_Store_ext :: "'a Store_scheme \<Rightarrow> 'a Store_scheme \<Rightarrow> bool" where
  "s < s' \<longleftrightarrow> s \<le> s' \<and> \<not> s' \<le> (s :: 'a Store_scheme)"

instance
  by standard (auto simp: less_Store_ext_def grows_def)

end

abbreviation grows :: "Store \<Rightarrow> Store \<Rightarrow> bool" where
  "grows \<equiv> (\<le>)"

lemma grows_mem: "grows s s' \<Longrightarrow> a < st_next s \<Longrightarrow> st_mem s' a = st_mem s a"
  by (simp add: grows_def)

lemma grows_alloc [simp]: "grows s (snd (alloc v s))"
  by (simp add: grows_def)

lemma grows_store: "grows s s' \<Longrightarrow> st_next s \<le> a \<Longrightarrow> grows s (store a v s')"
  by (simp add: grows_def)

lemma grows_same:
  assumes "grows s s'" and "hasType s t v"
  shows "deref s' t v = deref s t v" and "reach s' t v = reach s t v" and "hasType s' t v"
proof -
  have agree: "st_mem s' a = st_mem s a" if "a \<in> set (reach s t v)" for a
    using grows_mem [OF assms(1)] reach_allocated [OF assms(2) that] .
  show "deref s' t v = deref s t v" by (rule deref_same) (rule agree)
  show "reach s' t v = reach s t v" by (rule reach_same) (rule agree)
  show "hasType s' t v"
    by (rule hasType_same [of s t v]) (use agree assms in \<open>auto simp: grows_def\<close>)
qed

locale deep_copier =
  fixes t :: gtype and copy :: copier
  assumes keeps: "hasType s t v \<Longrightarrow> grows s (snd (copy v s))"
    and typed: "hasType s t v \<Longrightarrow> hasType (snd (copy v s)) t (fst (copy v s))"
    and same: "hasType s t v \<Longrightarrow> deref (snd (copy v s)) t (fst (copy v s)) = deref s t v"
    and fresh: "hasType s t v \<Longrightarrow> a \<in> set (reach (snd (copy v s)) t (fst (copy v s))) \<Longrightarrow> st_next s \<le> a"
begin

text \<open>The copy shares no cell with any value that was there before, in particular not with the original.\<close>

lemma shares_nothing:
  assumes "hasType s t v" and "hasType s u w"
  shows "set (reach (snd (copy v s)) t (fst (copy v s))) \<inter> set (reach s u w) = {}"
  using fresh [OF assms(1)] reach_allocated [OF assms(2)] by (meson disjoint_iff leD)

text \<open>
  So whatever happens later to the cells that were there before the copy, and whatever is allocated
  after it, the copy reads as the original did.
\<close>

lemma snapshot:
  assumes "hasType s t v"
    and "\<And>a. st_next s \<le> a \<Longrightarrow> a < st_next (snd (copy v s)) \<Longrightarrow> st_mem s' a = st_mem (snd (copy v s)) a"
  shows "deref s' t (fst (copy v s)) = deref s t v"
proof -
  have "deref s' t (fst (copy v s)) = deref (snd (copy v s)) t (fst (copy v s))"
    by (rule deref_same) (use assms fresh reach_allocated [OF typed] in blast)
  then show ?thesis using same [OF assms(1)] by simp
qed

text \<open>And writing through the copy leaves the original alone.\<close>

lemma original_kept:
  assumes "hasType s t v" and "\<And>a. a < st_next s \<Longrightarrow> st_mem s' a = st_mem (snd (copy v s)) a"
  shows "deref s' t v = deref s t v"
  by (rule deref_same)
    (use assms grows_mem [OF keeps [OF assms(1)]] reach_allocated [OF assms(1)] in simp)

end

section \<open>Building blocks of the generated code\<close>

text \<open>\<open>*out = *in\<close>, and \<open>out.F = in.F\<close> for a field without references.\<close>

definition assign :: copier where
  "assign v s = (v, s)"

text \<open>
  \<open>if in.F != nil { *out = new(T); (*in).DeepCopyInto(*out) }\<close>. The same text makes the \<open>DeepCopy\<close>
  of a type: nil for nil, otherwise a new object filled by \<open>DeepCopyInto\<close>.
\<close>

definition copyPointer :: "copier \<Rightarrow> copier" where
  "copyPointer copy v s =
     (case v of
        VRef a \<Rightarrow>
          (let (b, s) = alloc (VPrim PZero) s;
               (x, s) = copy (st_mem s a) s
           in (VRef b, store b x s))
      | _ \<Rightarrow> (VNil, s))"

text \<open>\<open>*out = make(map[string]string, len(*in)); for key, val := range *in { (*out)[key] = val }\<close>\<close>

definition insertAt :: "nat \<Rightarrow> string \<times> string \<Rightarrow> Store \<Rightarrow> Store" where
  "insertAt b kv s = store b (VTable (AList.update (fst kv) (snd kv) (table (st_mem s b)))) s"

definition copyMap :: copier where
  "copyMap v s =
     (case v of
        VRef a \<Rightarrow> (let (b, s) = alloc (VTable []) s in (VRef b, fold (insertAt b) (table (st_mem s a)) s))
      | _ \<Rightarrow> (VNil, s))"

text \<open>\<open>*out = make([]T, len(*in)); for i := range *in { (*in)[i].DeepCopyInto(&(*out)[i]) }\<close>\<close>

definition copyElem :: "copier \<Rightarrow> nat \<Rightarrow> nat \<Rightarrow> nat \<Rightarrow> nat \<Rightarrow> Store \<Rightarrow> Store" where
  "copyElem copy a off b i s =
     (let (x, s) = copy (elements (st_mem s a) ! (off + i)) s
      in store b (VArray ((elements (st_mem s b))[i := x])) s)"

definition copySlice :: "copier \<Rightarrow> copier" where
  "copySlice copy v s =
     (case v of
        VSlice a off n \<Rightarrow>
          (let (b, s) = alloc (VArray (replicate n (VPrim PZero))) s
           in (VSlice b 0 n, fold (copyElem copy a off b) [0..<n] s))
      | _ \<Rightarrow> (VNil, s))"

text \<open>\<open>*out = make([]T, len(*in)); copy(*out, *in)\<close>, for elements without references.\<close>

definition copyFlatSlice :: copier where
  "copyFlatSlice v s =
     (case v of
        VSlice a off n \<Rightarrow>
          (let (b, s) = alloc (VArray (replicate n (VPrim PZero))) s
           in (VSlice b 0 n, store b (VArray (window s a off n)) s))
      | _ \<Rightarrow> (VNil, s))"

text \<open>\<open>*out = *in\<close>, then one action per field that needs one, in the order of the code.\<close>

fun copyFields :: "(string \<times> copier) list \<Rightarrow> gval \<Rightarrow> gval \<Rightarrow> Store \<Rightarrow> gval \<times> Store" where
  "copyFields [] src out s = (out, s)"
| "copyFields ((f, copy) # fcs) src out s =
     (let (x, s) = copy (field f src) s in copyFields fcs src (setField f x out) s)"

definition copyStruct :: "(string \<times> copier) list \<Rightarrow> copier" where
  "copyStruct fcs v s = copyFields fcs v v s"

section \<open>The blocks meet the contract\<close>

definition copied :: "gtype \<Rightarrow> gval \<Rightarrow> Store \<Rightarrow> gval \<times> Store \<Rightarrow> bool" where
  "copied t v s xs \<longleftrightarrow>
     grows s (snd xs) \<and> hasType (snd xs) t (fst xs) \<and> deref (snd xs) t (fst xs) = deref s t v \<and>
     (\<forall>a \<in> set (reach (snd xs) t (fst xs)). st_next s \<le> a)"

lemma deep_copier_iff: "deep_copier t copy \<longleftrightarrow> (\<forall>v s. hasType s t v \<longrightarrow> copied t v s (copy v s))"
  by (auto simp: deep_copier_def copied_def)

lemma deep_copierI: "(\<And>v s. hasType s t v \<Longrightarrow> copied t v s (copy v s)) \<Longrightarrow> deep_copier t copy"
  by (simp add: deep_copier_iff)

lemma deep_copierD: "deep_copier t copy \<Longrightarrow> hasType s t v \<Longrightarrow> copied t v s (copy v s)"
  by (simp add: deep_copier_iff)

text \<open>A copy is not disturbed by a write to a cell that was there before it.\<close>

lemma copied_store:
  assumes "copied t v s xs" and "b < st_next s"
  shows "hasType (store b y (snd xs)) t (fst xs)"
    and "deref (store b y (snd xs)) t (fst xs) = deref s t v"
    and "reach (store b y (snd xs)) t (fst xs) = reach (snd xs) t (fst xs)"
proof -
  have other: "st_mem (store b y (snd xs)) a = st_mem (snd xs) a" if "a \<in> set (reach (snd xs) t (fst xs))" for a
    using that assms by (intro store_simps) (auto simp: copied_def)
  show "hasType (store b y (snd xs)) t (fst xs)"
    by (rule hasType_same [of "snd xs"]) (use other assms in \<open>auto simp: copied_def\<close>)
  show "deref (store b y (snd xs)) t (fst xs) = deref s t v"
    using deref_same [of "snd xs" t "fst xs" "store b y (snd xs)"] other assms by (simp add: copied_def)
  show "reach (store b y (snd xs)) t (fst xs) = reach (snd xs) t (fst xs)"
    by (rule reach_same) (rule other)
qed

lemma deep_copier_assign [copier_rules]: "flat t \<Longrightarrow> deep_copier t assign"
  by (rule deep_copierI) (simp add: copied_def assign_def flat_reach)

lemma deep_copier_pointer [copier_rules]:
  assumes c: "deep_copier t copy"
  shows "deep_copier (TPointer t) (copyPointer copy)"
proof (rule deep_copierI)
  fix v s assume v: "hasType s (TPointer t) v"
  show "copied (TPointer t) v s (copyPointer copy v s)"
  proof (cases v)
    case (VRef a)
    define s1 where "s1 = snd (alloc (VPrim PZero) s)"
    have ext: "grows s s1" and next1: "st_next s1 = Suc (st_next s)" by (simp_all add: s1_def)
    have a: "a < st_next s" and ta: "hasType s t (st_mem s a)" using v VRef by simp_all
    have mem: "st_mem s1 a = st_mem s a" using ext a by (rule grows_mem)
    obtain x s2 where x: "copy (st_mem s1 a) s1 = (x, s2)" by fastforce
    have "hasType s1 t (st_mem s1 a)" using grows_same(3) [OF ext ta] mem by simp
    from deep_copierD [OF c this] have cp: "copied t (st_mem s1 a) s1 (x, s2)" using x by simp
    then have ext2: "grows s s2" and rs: "\<forall>b \<in> set (reach s2 t x). st_next s < b"
      and "st_next s1 \<le> st_next s2"
      using ext next1 by (auto simp: copied_def intro: order_trans) (auto simp: grows_def)
    moreover note copied_store [OF cp, of "st_next s" x]
    ultimately show ?thesis
      using VRef next1 x grows_same(1) [OF ext ta] mem
      by (auto simp: copied_def copyPointer_def alloc_def s1_def less_imp_le intro: grows_store)
  qed (use v in \<open>auto simp: copied_def copyPointer_def\<close>)
qed

lemma fold_insertAt:
  "st_mem s b = VTable m \<Longrightarrow> fold (insertAt b) kvs s = (if kvs = [] then s else store b (VTable (moverlay m kvs)) s)"
proof (induction kvs arbitrary: s m)
  case (Cons kv kvs)
  have "st_mem (insertAt b kv s) b = VTable (AList.update (fst kv) (snd kv) m)"
    using Cons.prems by (simp add: insertAt_def)
  from Cons.IH [OF this] show ?case
    using Cons.prems by (auto simp: insertAt_def moverlay_def store_def split_def)
qed simp

lemma update_new_key: "k \<notin> fst ` set m \<Longrightarrow> AList.update k v m = m @ [(k, v)]"
  by (induction m) auto

lemma moverlay_Nil: "is_gomap m \<Longrightarrow> moverlay [] m = m"
proof (induction m rule: rev_induct)
  case (snoc kv m)
  then have "is_gomap m" and "fst kv \<notin> fst ` set m" by (auto simp: is_gomap_def)
  then show ?case using snoc.IH by (simp add: moverlay_def split_def update_new_key)
qed (simp add: moverlay_def)

lemma deep_copier_map [copier_rules]: "deep_copier TMap copyMap"
proof (rule deep_copierI)
  fix v s assume v: "hasType s TMap v"
  show "copied TMap v s (copyMap v s)"
  proof (cases v)
    case (VRef a)
    define s1 where "s1 = snd (alloc (VTable []) s)"
    obtain m where m: "st_mem s a = VTable m" "is_gomap m" and a: "a < st_next s"
      using v VRef by (auto split: gval.splits)
    have "st_mem s1 a = VTable m" and b: "st_mem s1 (st_next s) = VTable []"
      using a m by (simp_all add: s1_def)
    then have "copyMap v s = (VRef (st_next s), if m = [] then s1 else store (st_next s) (VTable m) s1)"
      using VRef m by (simp add: copyMap_def Let_def alloc_def s1_def fold_insertAt moverlay_Nil)
    then show ?thesis using VRef m b a
      by (auto simp: copied_def s1_def grows_store)
  qed (use v in \<open>auto simp: copied_def copyMap_def\<close>)
qed

text \<open>A copy stays one while more is allocated, and counts from any earlier store.\<close>

lemma copied_extends:
  assumes "copied t v s xs" and "grows (snd xs) s'"
  shows "copied t v s (fst xs, s')"
  using assms grows_same [OF assms(2), of t "fst xs"] by (auto simp: copied_def intro: order_trans)

lemma copied_from:
  assumes "copied t v s1 xs" and "grows s s1" and "hasType s t v"
  shows "copied t v s xs"
  using assms grows_same [OF assms(2,3)] by (fastforce simp: copied_def grows_def)

text \<open>
  The loop over the elements of a slice: after \<open>i\<close> rounds the new array holds copies of the first \<open>i\<close>
  elements, none of which reaches the array itself.
\<close>

definition copying :: "gtype \<Rightarrow> gval list \<Rightarrow> Store \<Rightarrow> nat \<Rightarrow> nat \<Rightarrow> Store \<Rightarrow> bool" where
  "copying t xs s b i s' \<longleftrightarrow> grows s s' \<and> b < st_next s' \<and>
     length (elements (st_mem s' b)) = length xs \<and>
     (\<forall>j < i. let y = elements (st_mem s' b) ! j
       in copied t (xs ! j) s (y, s') \<and> b \<notin> set (reach s' t y))"

lemma copying_step:
  assumes c: "deep_copier t copy" and I: "copying t xs s b i s'" and b: "b = st_next s"
    and a: "a < b" and xs: "xs = window s a off n" and ty: "\<forall>x \<in> set xs. hasType s t x" and i: "i < length xs"
  shows "copying t xs s b (Suc i) (copyElem copy a off b i s')"
proof -
  have ext: "grows s s'" and b': "b < st_next s'" and len: "length (elements (st_mem s' b)) = length xs"
    using I by (simp_all add: copying_def)
  have "st_mem s' a = st_mem s a" using ext a b by (auto intro: grows_mem)
  then have elem: "elements (st_mem s' a) ! (off + i) = xs ! i"
    using i xs by (simp add: window_def nth_drop less_diff_conv)
  have tx: "hasType s t (xs ! i)" using ty i by simp
  obtain y s2 where y: "copy (xs ! i) s' = (y, s2)" by fastforce
  have cp: "copied t (xs ! i) s' (y, s2)"
    using deep_copierD [OF c grows_same(3) [OF ext tx]] y by simp
  then have ext2: "grows s' s2" and away: "b \<notin> set (reach s2 t y)"
    using b' by (auto simp: copied_def)
  have mem_b: "st_mem s2 b = st_mem s' b" using ext2 b' by (rule grows_mem)
  define s3 where "s3 = store b (VArray ((elements (st_mem s' b))[i := y])) s2"
  have eq: "copyElem copy a off b i s' = s3"
    by (simp add: copyElem_def elem y s3_def mem_b)
  have e3: "elements (st_mem s3 b) = (elements (st_mem s' b))[i := y]" by (simp add: s3_def)
  have ext3: "grows s s3"
    unfolding s3_def by (rule grows_store) (use ext ext2 b in \<open>auto intro: order_trans\<close>)
  have moved: "copied t w s (z, s3) \<and> b \<notin> set (reach s3 t z)"
    if z: "copied t w s (z, s2)" "b \<notin> set (reach s2 t z)" for w z
  proof -
    have agree: "st_mem s3 d = st_mem s2 d" if "d \<in> set (reach s2 t z)" for d
      unfolding s3_def by (rule store_simps) (use that z(2) in auto)
    have "st_next s2 \<le> st_next s3" by (simp add: s3_def)
    then show ?thesis
      using z ext3 hasType_same [OF agree] deref_same [OF agree] reach_same [OF agree]
      by (simp add: copied_def)
  qed
  have "copied t (xs ! j) s (elements (st_mem s3 b) ! j, s3) \<and> b \<notin> set (reach s3 t (elements (st_mem s3 b) ! j))"
    if "j < Suc i" for j
  proof (cases "j = i")
    case True
    have "copied t (xs ! i) s (y, s2)" using cp ext tx by (rule copied_from)
    with away show ?thesis using True i len e3 moved by simp
  next
    case False
    let ?z = "elements (st_mem s' b) ! j"
    have z: "copied t (xs ! j) s (?z, s')" "b \<notin> set (reach s' t ?z)"
      using I that False by (auto simp: copying_def Let_def)
    have "copied t (xs ! j) s (?z, s2)" using copied_extends [OF z(1)] ext2 by simp
    moreover have "b \<notin> set (reach s2 t ?z)"
      using z grows_same(2) [OF ext2, of t ?z] by (simp add: copied_def)
    ultimately show ?thesis using False e3 moved by simp
  qed
  moreover have "b < st_next s3" using b' ext2 by (simp add: s3_def grows_def)
  ultimately show ?thesis
    unfolding eq copying_def using ext3 len e3 by (simp add: Let_def)
qed

lemma deep_copier_slice [copier_rules]:
  assumes c: "deep_copier t copy"
  shows "deep_copier (TSlice t) (copySlice copy)"
proof (rule deep_copierI)
  fix v s assume v: "hasType s (TSlice t) v"
  show "copied (TSlice t) v s (copySlice copy v s)"
  proof (cases v)
    case (VSlice a off n)
    let ?xs = "window s a off n" and ?b = "st_next s"
    define s1 where "s1 = snd (alloc (VArray (replicate n (VPrim PZero))) s)"
    have a: "a < ?b" and len: "length ?xs = n" and ty: "\<forall>x \<in> set ?xs. hasType s t x"
      using v VSlice by (auto simp: window_def)
    have start: "copying t ?xs s ?b 0 s1"
      using len by (simp add: copying_def s1_def)
    have "copying t ?xs s ?b i (fold (copyElem copy a off ?b) [0..<i] s1)" if "i \<le> n" for i
      using that
    proof (induction i)
      case (Suc i)
      then have "copying t ?xs s ?b i (fold (copyElem copy a off ?b) [0..<i] s1)" by simp
      from copying_step [OF c this refl a refl ty] show ?case using Suc.prems len by simp
    qed (use start in simp)
    then have finished: "copying t ?xs s ?b n (fold (copyElem copy a off ?b) [0..<n] s1)" by simp
    define s2 where "s2 = fold (copyElem copy a off ?b) [0..<n] s1"
    let ?ys = "elements (st_mem s2 ?b)"
    have lys: "length ?ys = n" and cy: "\<And>j. j < n \<Longrightarrow> copied t (?xs ! j) s (?ys ! j, s2)"
      and ext: "grows s s2" and b2: "?b < st_next s2"
      using finished len by (auto simp: copying_def s2_def Let_def)
    have w: "window s2 ?b 0 n = ?ys" using lys by (simp add: window_def)
    have eq: "copySlice copy v s = (VSlice ?b 0 n, s2)"
      using VSlice by (simp add: copySlice_def alloc_def s1_def s2_def)
    have in_ys: "\<exists>j < n. y = ?ys ! j" if "y \<in> set ?ys" for y
      using that lys by (auto simp: in_set_conv_nth)
    have "map (deref s2 t) ?ys = map (deref s t) ?xs"
      by (rule nth_equalityI) (use lys len cy in \<open>auto simp: copied_def\<close>)
    moreover have "hasType s2 t y" "\<forall>d \<in> set (reach s2 t y). st_next s \<le> d" if "y \<in> set ?ys" for y
      using in_ys [OF that] cy by (auto simp: copied_def)
    ultimately show ?thesis
      unfolding eq copied_def using ext b2 lys VSlice w by auto
  qed (use v in \<open>auto simp: copied_def copySlice_def\<close>)
qed

lemma deep_copier_flat_slice [copier_rules]:
  assumes t: "flat t"
  shows "deep_copier (TSlice t) copyFlatSlice"
proof (rule deep_copierI)
  fix v s assume v: "hasType s (TSlice t) v"
  show "copied (TSlice t) v s (copyFlatSlice v s)"
  proof (cases v)
    case (VSlice a off n)
    define s1 where "s1 = snd (alloc (VArray (replicate n (VPrim PZero))) s)"
    let ?xs = "window s a off n"
    define s2 where "s2 = store (st_next s) (VArray ?xs) s1"
    have a: "a < st_next s" and len: "length ?xs = n" and ty: "\<forall>x \<in> set ?xs. hasType s t x"
      using v VSlice by (auto simp: window_def)
    have "window s1 a off n = ?xs" by (rule window_cong) (use a in \<open>simp add: s1_def\<close>)
    then have eq: "copyFlatSlice v s = (VSlice (st_next s) 0 n, s2)"
      using VSlice by (simp add: copyFlatSlice_def alloc_def s1_def s2_def)
    have ext: "grows s s2" by (simp add: s1_def s2_def grows_store)
    have w: "window s2 (st_next s) 0 n = ?xs" using len by (simp add: window_def s2_def)
    have "st_next s < st_next s2" "length (elements (st_mem s2 (st_next s))) = n"
      using len by (simp_all add: s1_def s2_def)
    then show ?thesis
      unfolding eq copied_def using VSlice ext ty grows_same [OF ext] by (auto simp: w flat_reach [OF t])
  qed (use v in \<open>auto simp: copied_def copyFlatSlice_def\<close>)
qed

text \<open>
  Structs. Every field of a type with references must have an action that copies it deeply; the fields
  without one are copied by the first assignment.
\<close>

definition covers :: "(string \<times> copier) list \<Rightarrow> (string \<times> gtype) list \<Rightarrow> bool" where
  "covers fcs fts \<longleftrightarrow> distinct (map fst fts) \<and> distinct (map fst fcs) \<and> set (map fst fcs) \<subseteq> set (map fst fts) \<and>
     (\<forall>p \<in> set fts. case map_of fcs (fst p) of None \<Rightarrow> flat (snd p) | Some copy \<Rightarrow> deep_copier (snd p) copy)"

definition hasFields :: "(string \<times> gtype) list \<Rightarrow> gval \<Rightarrow> bool" where
  "hasFields fts v \<longleftrightarrow> (case v of VStruct fs \<Rightarrow> map fst fs = map fst fts | _ \<Rightarrow> False)"

lemma hasType_struct:
  "hasType s (TStruct fts) v \<longleftrightarrow> hasFields fts v \<and> (\<forall>p \<in> set fts. hasType s (snd p) (field (fst p) v))"
  by (simp add: hasFields_def)

lemma hasFields_setField: "hasFields fts v \<Longrightarrow> f \<in> set (map fst fts) \<Longrightarrow> hasFields fts (setField f x v)"
  by (cases v) (auto simp: hasFields_def setField_def update_keys)

definition filled :: "(string \<times> gtype) list \<Rightarrow> gval \<Rightarrow> Store \<Rightarrow> string set \<Rightarrow> gval \<Rightarrow> Store \<Rightarrow> bool" where
  "filled fts v s D out s' \<longleftrightarrow> grows s s' \<and> hasFields fts out \<and>
     (\<forall>p \<in> set fts. if fst p \<in> D then copied (snd p) (field (fst p) v) s (field (fst p) out, s')
                    else field (fst p) out = field (fst p) v)"

lemma filled_copyFields:
  assumes "\<And>f copy. (f, copy) \<in> set fcs \<Longrightarrow> \<exists>t. (f, t) \<in> set fts \<and> deep_copier t copy"
    and fts: "distinct (map fst fts)" and v: "hasType s (TStruct fts) v"
    and "filled fts v s D out s'"
  shows "case copyFields fcs v out s' of (out', s2) \<Rightarrow> filled fts v s (D \<union> fst ` set fcs) out' s2"
  using assms(1,4)
proof (induction fcs arbitrary: D out s')
  case (Cons fc fcs)
  obtain f copy where fc: "fc = (f, copy)" by fastforce
  obtain t where t: "(f, t) \<in> set fts" and c: "deep_copier t copy" using Cons.prems(1) fc by auto
  let ?w = "field f v"
  have tw: "hasType s t ?w" using v t by fastforce
  have ext: "grows s s'" using Cons.prems(2) by (simp add: filled_def)
  obtain x s2 where x: "copy ?w s' = (x, s2)" by fastforce
  have "copied t ?w s' (x, s2)" using deep_copierD [OF c grows_same(3) [OF ext tw]] x by simp
  then have cp: "copied t ?w s (x, s2)" and ext2: "grows s' s2"
    using copied_from [OF _ ext tw] by (auto simp: copied_def)
  have "filled fts v s (insert f D) (setField f x out) s2"
    unfolding filled_def
  proof (intro conjI ballI)
    show "grows s s2" using ext ext2 by (auto intro: order_trans)
    show "hasFields fts (setField f x out)"
      using Cons.prems(2) t by (force simp: filled_def intro: hasFields_setField)
  next
    fix p assume p: "p \<in> set fts"
    have old: "if fst p \<in> D then copied (snd p) (field (fst p) v) s (field (fst p) out, s')
      else field (fst p) out = field (fst p) v"
      using Cons.prems(2) p by (simp add: filled_def)
    show "if fst p \<in> insert f D
      then copied (snd p) (field (fst p) v) s (field (fst p) (setField f x out), s2)
      else field (fst p) (setField f x out) = field (fst p) v"
    proof (cases "fst p = f")
      case True
      then have "snd p = t" using p t fts by (metis eq_key_imp_eq_value prod.collapse)
      then show ?thesis using True cp by simp
    next
      case False
      then show ?thesis using old ext2 copied_extends [of "snd p" "field (fst p) v" s "(field (fst p) out, s')" s2] by auto
    qed
  qed
  from Cons.IH [OF _ this] Cons.prems(1) show ?case by (simp add: fc x Let_def)
qed simp

lemma deep_copier_struct [copier_rules]:
  assumes cov: "covers fcs fts"
  shows "deep_copier (TStruct fts) (copyStruct fcs)"
proof (rule deep_copierI)
  fix v s assume v: "hasType s (TStruct fts) v"
  obtain out s' where r: "copyStruct fcs v s = (out, s')" by fastforce
  have "\<exists>t. (f, t) \<in> set fts \<and> deep_copier t copy" if fc: "(f, copy) \<in> set fcs" for f copy
  proof -
    have "f \<in> fst ` set fts" using cov fc by (force simp: covers_def)
    then obtain t where t: "(f, t) \<in> set fts" by auto
    have "map_of fcs f = Some copy" using cov fc by (simp add: covers_def)
    then have "deep_copier t copy" using cov t by (force simp: covers_def)
    with t show ?thesis by blast
  qed
  moreover have "filled fts v s {} v s" using v by (simp only: filled_def hasType_struct) simp
  ultimately have "case copyFields fcs v v s of (out', s2) \<Rightarrow> filled fts v s ({} \<union> fst ` set fcs) out' s2"
    using cov v by (intro filled_copyFields) (auto simp: covers_def simp del: hasType.simps)
  then have fill: "filled fts v s (fst ` set fcs) out s'" using r by (simp add: copyStruct_def)
  then have ext: "grows s s'" and hf: "hasFields fts out" by (simp_all add: filled_def)
  have each: "copied (snd p) (field (fst p) v) s (field (fst p) out, s')" if p: "p \<in> set fts" for p
  proof (cases "fst p \<in> fst ` set fcs")
    case True
    then show ?thesis using fill p by (auto simp: filled_def)
  next
    case False
    then have same: "field (fst p) out = field (fst p) v" using fill p by (auto simp: filled_def)
    have "map_of fcs (fst p) = None" using False by (simp add: map_of_eq_None_iff)
    then have "flat (snd p)" using cov p by (force simp: covers_def)
    moreover have "hasType s (snd p) (field (fst p) v)" using v p by simp
    ultimately show ?thesis
      using ext grows_same [OF ext] by (simp add: copied_def same flat_reach)
  qed
  show "copied (TStruct fts) v s (copyStruct fcs v s)"
    unfolding r copied_def hasType_struct using ext hf each by (auto simp: copied_def)
qed

end
