(* ===== verification/Deep_Copies.thy ===== *)
theory Deep_Copies
  imports Go_Store
begin

text \<open>
  \<open>zz_generated.deepcopy.go\<close>: the copies every custom resource is handed around by. The API machinery
  copies an object out of its cache with them, and a reconciler keeps one as the base of a merge patch
  before it changes the object in place. The types are those declared in \<open>*_types.go\<close> and
  \<open>common_types.go\<close>, field for field; each copying function lists the fields it treats beyond \<open>*out = *in\<close>, in
  the order of the code. Types of Kubernetes are a parameter, with their own copying functions.

  The theorem says that the generated file fits the declared types: a field with a reference that a
  function forgot, or copied flat, would break the contract of its type and of every type around it.
\<close>

record GoLib =
  lib_type :: "string \<Rightarrow> gtype"
  lib_copy :: "string \<Rightarrow> copier"

text \<open>
  What Kubernetes documents of its generated copies: they are deep. \<open>TypeMeta\<close> holds two strings and is
  assigned.
\<close>

definition libraryCopies :: "GoLib \<Rightarrow> bool" where
  "libraryCopies L \<longleftrightarrow>
     (\<forall>n \<in> set [''ObjectMeta'', ''ListMeta'', ''Condition'', ''ResourceRequirements'', ''Affinity'', ''Toleration''].
        deep_copier (lib_type L n) (lib_copy L n)) \<and> flat (lib_type L ''TypeMeta'')"

section \<open>The declared types\<close>

definition AuthSpec_T :: gtype where
  "AuthSpec_T = TStruct
     [(''SecretName'', TPrim)]"

definition TLSSpec_T :: gtype where
  "TLSSpec_T = TStruct
     [(''SecretName'', TPrim)]"

definition StorageSpec_T :: gtype where
  "StorageSpec_T = TStruct
     [(''ClassName'', TPointer TPrim), (''Size'', TPrim), (''KeepAfterDeletion'', TPrim)]"

definition RedisSpec_T :: "GoLib \<Rightarrow> gtype" where
  "RedisSpec_T L = TStruct
     [(''Image'', TPrim), (''Resources'', lib_type L ''ResourceRequirements''),
      (''Storage'', TPointer StorageSpec_T), (''RedisConfig'', TMap),
      (''Auth'', TPointer AuthSpec_T), (''TLS'', TPointer TLSSpec_T),
      (''EnableExporter'', TPointer TPrim), (''ExporterImage'', TPrim),
      (''Affinity'', TPointer (lib_type L ''Affinity'')),
      (''Tolerations'', TSlice (lib_type L ''Toleration'')), (''NodeSelector'', TMap)]"

definition RedisStatus_T :: "GoLib \<Rightarrow> gtype" where
  "RedisStatus_T L = TStruct
     [(''Phase'', TPrim), (''Message'', TPrim),
      (''Conditions'', TSlice (lib_type L ''Condition'')), (''RedisVersion'', TPrim),
      (''ReadyReplicas'', TPrim)]"

definition Redis_T :: "GoLib \<Rightarrow> gtype" where
  "Redis_T L = TStruct
     [(''TypeMeta'', lib_type L ''TypeMeta''), (''ObjectMeta'', lib_type L ''ObjectMeta''),
      (''Spec'', RedisSpec_T L), (''Status'', RedisStatus_T L)]"

definition RedisList_T :: "GoLib \<Rightarrow> gtype" where
  "RedisList_T L = TStruct
     [(''TypeMeta'', lib_type L ''TypeMeta''), (''ListMeta'', lib_type L ''ListMeta''),
      (''Items'', TSlice (Redis_T L))]"

definition RedisSentinelSpec_T :: "GoLib \<Rightarrow> gtype" where
  "RedisSentinelSpec_T L = TStruct
     [(''Replicas'', TPrim), (''SentinelReplicas'', TPrim), (''Image'', TPrim),
      (''SentinelImage'', TPrim), (''Resources'', lib_type L ''ResourceRequirements''),
      (''SentinelResources'', lib_type L ''ResourceRequirements''),
      (''Storage'', TPointer StorageSpec_T), (''RedisConfig'', TMap),
      (''SentinelConfig'', TMap), (''Auth'', TPointer AuthSpec_T),
      (''TLS'', TPointer TLSSpec_T), (''EnableExporter'', TPointer TPrim),
      (''ExporterImage'', TPrim), (''Affinity'', TPointer (lib_type L ''Affinity'')),
      (''Tolerations'', TSlice (lib_type L ''Toleration'')), (''NodeSelector'', TMap)]"

definition RedisSentinelStatus_T :: "GoLib \<Rightarrow> gtype" where
  "RedisSentinelStatus_T L = TStruct
     [(''Phase'', TPrim), (''Message'', TPrim),
      (''Conditions'', TSlice (lib_type L ''Condition'')), (''MasterNode'', TPrim),
      (''ReadyReplicas'', TPrim), (''ReadySentinels'', TPrim)]"

definition RedisSentinel_T :: "GoLib \<Rightarrow> gtype" where
  "RedisSentinel_T L = TStruct
     [(''TypeMeta'', lib_type L ''TypeMeta''), (''ObjectMeta'', lib_type L ''ObjectMeta''),
      (''Spec'', RedisSentinelSpec_T L), (''Status'', RedisSentinelStatus_T L)]"

definition RedisSentinelList_T :: "GoLib \<Rightarrow> gtype" where
  "RedisSentinelList_T L = TStruct
     [(''TypeMeta'', lib_type L ''TypeMeta''), (''ListMeta'', lib_type L ''ListMeta''),
      (''Items'', TSlice (RedisSentinel_T L))]"

definition RedisClusterSpec_T :: "GoLib \<Rightarrow> gtype" where
  "RedisClusterSpec_T L = TStruct
     [(''Masters'', TPrim), (''ReplicasPerMaster'', TPrim), (''Image'', TPrim),
      (''Resources'', lib_type L ''ResourceRequirements''),
      (''MasterResources'', TPointer (lib_type L ''ResourceRequirements'')),
      (''ReplicaResources'', TPointer (lib_type L ''ResourceRequirements'')),
      (''Storage'', TPointer StorageSpec_T), (''RedisConfig'', TMap),
      (''Auth'', TPointer AuthSpec_T), (''TLS'', TPointer TLSSpec_T),
      (''EnableExporter'', TPointer TPrim), (''ExporterImage'', TPrim),
      (''MasterAffinity'', TPointer (lib_type L ''Affinity'')),
      (''MasterTolerations'', TSlice (lib_type L ''Toleration'')),
      (''MasterNodeSelector'', TMap),
      (''ReplicaAffinity'', TPointer (lib_type L ''Affinity'')),
      (''ReplicaTolerations'', TSlice (lib_type L ''Toleration'')),
      (''ReplicaNodeSelector'', TMap)]"

definition RedisNodeStatus_T :: gtype where
  "RedisNodeStatus_T = TStruct
     [(''NodeID'', TPrim), (''PodName'', TPrim), (''IP'', TPrim), (''Role'', TPrim),
      (''Slots'', TPrim), (''MasterRef'', TPrim), (''Health'', TPrim)]"

definition RedisClusterStatus_T :: "GoLib \<Rightarrow> gtype" where
  "RedisClusterStatus_T L = TStruct
     [(''Phase'', TPrim), (''Message'', TPrim),
      (''Conditions'', TSlice (lib_type L ''Condition'')), (''ReadyMasters'', TPrim),
      (''ReadyReplicas'', TPrim), (''AssignedSlots'', TPrim), (''ClusterState'', TPrim),
      (''Nodes'', TSlice RedisNodeStatus_T)]"

definition RedisCluster_T :: "GoLib \<Rightarrow> gtype" where
  "RedisCluster_T L = TStruct
     [(''TypeMeta'', lib_type L ''TypeMeta''), (''ObjectMeta'', lib_type L ''ObjectMeta''),
      (''Spec'', RedisClusterSpec_T L), (''Status'', RedisClusterStatus_T L)]"

definition RedisClusterList_T :: "GoLib \<Rightarrow> gtype" where
  "RedisClusterList_T L = TStruct
     [(''TypeMeta'', lib_type L ''TypeMeta''), (''ListMeta'', lib_type L ''ListMeta''),
      (''Items'', TSlice (RedisCluster_T L))]"

section \<open>The copying functions\<close>

text \<open>
  \<open>DeepCopyObject\<close> returns an interface, nil for a nil pointer: an interface that holds a nil pointer
  would not be nil.
\<close>

datatype runtimeObject = NilObject | Object gval

definition asObject :: "gval \<times> Store \<Rightarrow> runtimeObject \<times> Store" where
  "asObject cs = (if fst cs \<noteq> VNil then Object (fst cs) else NilObject, snd cs)"

definition AuthSpec_DeepCopyInto :: copier where
  "AuthSpec_DeepCopyInto = assign"

definition AuthSpec_DeepCopy :: copier where
  "AuthSpec_DeepCopy = copyPointer AuthSpec_DeepCopyInto"

definition TLSSpec_DeepCopyInto :: copier where
  "TLSSpec_DeepCopyInto = assign"

definition TLSSpec_DeepCopy :: copier where
  "TLSSpec_DeepCopy = copyPointer TLSSpec_DeepCopyInto"

definition StorageSpec_DeepCopyInto :: copier where
  "StorageSpec_DeepCopyInto = copyStruct
     [(''ClassName'', copyPointer assign)]"

definition StorageSpec_DeepCopy :: copier where
  "StorageSpec_DeepCopy = copyPointer StorageSpec_DeepCopyInto"

definition RedisSpec_DeepCopyInto :: "GoLib \<Rightarrow> copier" where
  "RedisSpec_DeepCopyInto L = copyStruct
     [(''Resources'', lib_copy L ''ResourceRequirements''),
      (''Storage'', copyPointer StorageSpec_DeepCopyInto), (''RedisConfig'', copyMap),
      (''Auth'', copyPointer assign), (''TLS'', copyPointer assign),
      (''EnableExporter'', copyPointer assign),
      (''Affinity'', copyPointer (lib_copy L ''Affinity'')),
      (''Tolerations'', copySlice (lib_copy L ''Toleration'')), (''NodeSelector'', copyMap)]"

definition RedisSpec_DeepCopy :: "GoLib \<Rightarrow> copier" where
  "RedisSpec_DeepCopy L = copyPointer (RedisSpec_DeepCopyInto L)"

definition RedisStatus_DeepCopyInto :: "GoLib \<Rightarrow> copier" where
  "RedisStatus_DeepCopyInto L = copyStruct
     [(''Conditions'', copySlice (lib_copy L ''Condition''))]"

definition RedisStatus_DeepCopy :: "GoLib \<Rightarrow> copier" where
  "RedisStatus_DeepCopy L = copyPointer (RedisStatus_DeepCopyInto L)"

definition Redis_DeepCopyInto :: "GoLib \<Rightarrow> copier" where
  "Redis_DeepCopyInto L = copyStruct
     [(''TypeMeta'', assign), (''ObjectMeta'', lib_copy L ''ObjectMeta''),
      (''Spec'', RedisSpec_DeepCopyInto L), (''Status'', RedisStatus_DeepCopyInto L)]"

definition Redis_DeepCopy :: "GoLib \<Rightarrow> copier" where
  "Redis_DeepCopy L = copyPointer (Redis_DeepCopyInto L)"

definition Redis_DeepCopyObject :: "GoLib \<Rightarrow> gval \<Rightarrow> Store \<Rightarrow> runtimeObject \<times> Store" where
  "Redis_DeepCopyObject L v s = asObject (Redis_DeepCopy L v s)"

definition RedisList_DeepCopyInto :: "GoLib \<Rightarrow> copier" where
  "RedisList_DeepCopyInto L = copyStruct
     [(''TypeMeta'', assign), (''ListMeta'', lib_copy L ''ListMeta''),
      (''Items'', copySlice (Redis_DeepCopyInto L))]"

definition RedisList_DeepCopy :: "GoLib \<Rightarrow> copier" where
  "RedisList_DeepCopy L = copyPointer (RedisList_DeepCopyInto L)"

definition RedisList_DeepCopyObject :: "GoLib \<Rightarrow> gval \<Rightarrow> Store \<Rightarrow> runtimeObject \<times> Store" where
  "RedisList_DeepCopyObject L v s = asObject (RedisList_DeepCopy L v s)"

definition RedisSentinelSpec_DeepCopyInto :: "GoLib \<Rightarrow> copier" where
  "RedisSentinelSpec_DeepCopyInto L = copyStruct
     [(''Resources'', lib_copy L ''ResourceRequirements''),
      (''SentinelResources'', lib_copy L ''ResourceRequirements''),
      (''Storage'', copyPointer StorageSpec_DeepCopyInto), (''RedisConfig'', copyMap),
      (''SentinelConfig'', copyMap), (''Auth'', copyPointer assign),
      (''TLS'', copyPointer assign), (''EnableExporter'', copyPointer assign),
      (''Affinity'', copyPointer (lib_copy L ''Affinity'')),
      (''Tolerations'', copySlice (lib_copy L ''Toleration'')), (''NodeSelector'', copyMap)]"

definition RedisSentinelSpec_DeepCopy :: "GoLib \<Rightarrow> copier" where
  "RedisSentinelSpec_DeepCopy L = copyPointer (RedisSentinelSpec_DeepCopyInto L)"

definition RedisSentinelStatus_DeepCopyInto :: "GoLib \<Rightarrow> copier" where
  "RedisSentinelStatus_DeepCopyInto L = copyStruct
     [(''Conditions'', copySlice (lib_copy L ''Condition''))]"

definition RedisSentinelStatus_DeepCopy :: "GoLib \<Rightarrow> copier" where
  "RedisSentinelStatus_DeepCopy L = copyPointer (RedisSentinelStatus_DeepCopyInto L)"

definition RedisSentinel_DeepCopyInto :: "GoLib \<Rightarrow> copier" where
  "RedisSentinel_DeepCopyInto L = copyStruct
     [(''TypeMeta'', assign), (''ObjectMeta'', lib_copy L ''ObjectMeta''),
      (''Spec'', RedisSentinelSpec_DeepCopyInto L),
      (''Status'', RedisSentinelStatus_DeepCopyInto L)]"

definition RedisSentinel_DeepCopy :: "GoLib \<Rightarrow> copier" where
  "RedisSentinel_DeepCopy L = copyPointer (RedisSentinel_DeepCopyInto L)"

definition RedisSentinel_DeepCopyObject :: "GoLib \<Rightarrow> gval \<Rightarrow> Store \<Rightarrow> runtimeObject \<times> Store" where
  "RedisSentinel_DeepCopyObject L v s = asObject (RedisSentinel_DeepCopy L v s)"

definition RedisSentinelList_DeepCopyInto :: "GoLib \<Rightarrow> copier" where
  "RedisSentinelList_DeepCopyInto L = copyStruct
     [(''TypeMeta'', assign), (''ListMeta'', lib_copy L ''ListMeta''),
      (''Items'', copySlice (RedisSentinel_DeepCopyInto L))]"

definition RedisSentinelList_DeepCopy :: "GoLib \<Rightarrow> copier" where
  "RedisSentinelList_DeepCopy L = copyPointer (RedisSentinelList_DeepCopyInto L)"

definition RedisSentinelList_DeepCopyObject :: "GoLib \<Rightarrow> gval \<Rightarrow> Store \<Rightarrow> runtimeObject \<times> Store" where
  "RedisSentinelList_DeepCopyObject L v s = asObject (RedisSentinelList_DeepCopy L v s)"

definition RedisClusterSpec_DeepCopyInto :: "GoLib \<Rightarrow> copier" where
  "RedisClusterSpec_DeepCopyInto L = copyStruct
     [(''Resources'', lib_copy L ''ResourceRequirements''),
      (''MasterResources'', copyPointer (lib_copy L ''ResourceRequirements'')),
      (''ReplicaResources'', copyPointer (lib_copy L ''ResourceRequirements'')),
      (''Storage'', copyPointer StorageSpec_DeepCopyInto), (''RedisConfig'', copyMap),
      (''Auth'', copyPointer assign), (''TLS'', copyPointer assign),
      (''EnableExporter'', copyPointer assign),
      (''MasterAffinity'', copyPointer (lib_copy L ''Affinity'')),
      (''MasterTolerations'', copySlice (lib_copy L ''Toleration'')),
      (''MasterNodeSelector'', copyMap),
      (''ReplicaAffinity'', copyPointer (lib_copy L ''Affinity'')),
      (''ReplicaTolerations'', copySlice (lib_copy L ''Toleration'')),
      (''ReplicaNodeSelector'', copyMap)]"

definition RedisClusterSpec_DeepCopy :: "GoLib \<Rightarrow> copier" where
  "RedisClusterSpec_DeepCopy L = copyPointer (RedisClusterSpec_DeepCopyInto L)"

definition RedisNodeStatus_DeepCopyInto :: copier where
  "RedisNodeStatus_DeepCopyInto = assign"

definition RedisNodeStatus_DeepCopy :: copier where
  "RedisNodeStatus_DeepCopy = copyPointer RedisNodeStatus_DeepCopyInto"

definition RedisClusterStatus_DeepCopyInto :: "GoLib \<Rightarrow> copier" where
  "RedisClusterStatus_DeepCopyInto L = copyStruct
     [(''Conditions'', copySlice (lib_copy L ''Condition'')), (''Nodes'', copyFlatSlice)]"

definition RedisClusterStatus_DeepCopy :: "GoLib \<Rightarrow> copier" where
  "RedisClusterStatus_DeepCopy L = copyPointer (RedisClusterStatus_DeepCopyInto L)"

definition RedisCluster_DeepCopyInto :: "GoLib \<Rightarrow> copier" where
  "RedisCluster_DeepCopyInto L = copyStruct
     [(''TypeMeta'', assign), (''ObjectMeta'', lib_copy L ''ObjectMeta''),
      (''Spec'', RedisClusterSpec_DeepCopyInto L),
      (''Status'', RedisClusterStatus_DeepCopyInto L)]"

definition RedisCluster_DeepCopy :: "GoLib \<Rightarrow> copier" where
  "RedisCluster_DeepCopy L = copyPointer (RedisCluster_DeepCopyInto L)"

definition RedisCluster_DeepCopyObject :: "GoLib \<Rightarrow> gval \<Rightarrow> Store \<Rightarrow> runtimeObject \<times> Store" where
  "RedisCluster_DeepCopyObject L v s = asObject (RedisCluster_DeepCopy L v s)"

definition RedisClusterList_DeepCopyInto :: "GoLib \<Rightarrow> copier" where
  "RedisClusterList_DeepCopyInto L = copyStruct
     [(''TypeMeta'', assign), (''ListMeta'', lib_copy L ''ListMeta''),
      (''Items'', copySlice (RedisCluster_DeepCopyInto L))]"

definition RedisClusterList_DeepCopy :: "GoLib \<Rightarrow> copier" where
  "RedisClusterList_DeepCopy L = copyPointer (RedisClusterList_DeepCopyInto L)"

definition RedisClusterList_DeepCopyObject :: "GoLib \<Rightarrow> gval \<Rightarrow> Store \<Rightarrow> runtimeObject \<times> Store" where
  "RedisClusterList_DeepCopyObject L v s = asObject (RedisClusterList_DeepCopy L v s)"

lemmas copy_defs =
  AuthSpec_T_def TLSSpec_T_def StorageSpec_T_def RedisSpec_T_def RedisStatus_T_def Redis_T_def
  RedisList_T_def RedisSentinelSpec_T_def RedisSentinelStatus_T_def RedisSentinel_T_def
  RedisSentinelList_T_def RedisClusterSpec_T_def RedisNodeStatus_T_def RedisClusterStatus_T_def
  RedisCluster_T_def RedisClusterList_T_def
  AuthSpec_DeepCopyInto_def TLSSpec_DeepCopyInto_def StorageSpec_DeepCopyInto_def
  RedisSpec_DeepCopyInto_def RedisStatus_DeepCopyInto_def Redis_DeepCopyInto_def
  RedisList_DeepCopyInto_def RedisSentinelSpec_DeepCopyInto_def
  RedisSentinelStatus_DeepCopyInto_def RedisSentinel_DeepCopyInto_def
  RedisSentinelList_DeepCopyInto_def RedisClusterSpec_DeepCopyInto_def
  RedisNodeStatus_DeepCopyInto_def RedisClusterStatus_DeepCopyInto_def
  RedisCluster_DeepCopyInto_def RedisClusterList_DeepCopyInto_def
  AuthSpec_DeepCopy_def TLSSpec_DeepCopy_def StorageSpec_DeepCopy_def RedisSpec_DeepCopy_def
  RedisStatus_DeepCopy_def Redis_DeepCopy_def RedisList_DeepCopy_def RedisSentinelSpec_DeepCopy_def
  RedisSentinelStatus_DeepCopy_def RedisSentinel_DeepCopy_def RedisSentinelList_DeepCopy_def
  RedisClusterSpec_DeepCopy_def RedisNodeStatus_DeepCopy_def RedisClusterStatus_DeepCopy_def
  RedisCluster_DeepCopy_def RedisClusterList_DeepCopy_def

section \<open>They copy deeply\<close>

lemma AuthSpec_copier [copier_rules]: "deep_copier AuthSpec_T AuthSpec_DeepCopyInto"
  unfolding AuthSpec_T_def AuthSpec_DeepCopyInto_def by (rule deep_copier_assign) simp

lemma TLSSpec_copier [copier_rules]: "deep_copier TLSSpec_T TLSSpec_DeepCopyInto"
  unfolding TLSSpec_T_def TLSSpec_DeepCopyInto_def by (rule deep_copier_assign) simp

lemma StorageSpec_copier [copier_rules]: "deep_copier StorageSpec_T StorageSpec_DeepCopyInto"
  unfolding StorageSpec_T_def StorageSpec_DeepCopyInto_def by (rule deep_copier_struct) (simp add: covers_def copier_rules)

lemma RedisSpec_copier [copier_rules]:
  "libraryCopies L \<Longrightarrow> deep_copier (RedisSpec_T L) (RedisSpec_DeepCopyInto L)"
  unfolding RedisSpec_T_def RedisSpec_DeepCopyInto_def by (rule deep_copier_struct)
    (simp add: covers_def copier_rules libraryCopies_def AuthSpec_T_def TLSSpec_T_def)

lemma RedisStatus_copier [copier_rules]:
  "libraryCopies L \<Longrightarrow> deep_copier (RedisStatus_T L) (RedisStatus_DeepCopyInto L)"
  unfolding RedisStatus_T_def RedisStatus_DeepCopyInto_def by (rule deep_copier_struct) (simp add: covers_def copier_rules libraryCopies_def)

lemma Redis_copier [copier_rules]:
  "libraryCopies L \<Longrightarrow> deep_copier (Redis_T L) (Redis_DeepCopyInto L)"
  unfolding Redis_T_def Redis_DeepCopyInto_def by (rule deep_copier_struct) (simp add: covers_def copier_rules libraryCopies_def)

lemma RedisList_copier [copier_rules]:
  "libraryCopies L \<Longrightarrow> deep_copier (RedisList_T L) (RedisList_DeepCopyInto L)"
  unfolding RedisList_T_def RedisList_DeepCopyInto_def by (rule deep_copier_struct) (simp add: covers_def copier_rules libraryCopies_def)

lemma RedisSentinelSpec_copier [copier_rules]:
  "libraryCopies L \<Longrightarrow> deep_copier (RedisSentinelSpec_T L) (RedisSentinelSpec_DeepCopyInto L)"
  unfolding RedisSentinelSpec_T_def RedisSentinelSpec_DeepCopyInto_def by (rule deep_copier_struct)
    (simp add: covers_def copier_rules libraryCopies_def AuthSpec_T_def TLSSpec_T_def)

lemma RedisSentinelStatus_copier [copier_rules]:
  "libraryCopies L \<Longrightarrow> deep_copier (RedisSentinelStatus_T L) (RedisSentinelStatus_DeepCopyInto L)"
  unfolding RedisSentinelStatus_T_def RedisSentinelStatus_DeepCopyInto_def by (rule deep_copier_struct) (simp add: covers_def copier_rules libraryCopies_def)

lemma RedisSentinel_copier [copier_rules]:
  "libraryCopies L \<Longrightarrow> deep_copier (RedisSentinel_T L) (RedisSentinel_DeepCopyInto L)"
  unfolding RedisSentinel_T_def RedisSentinel_DeepCopyInto_def by (rule deep_copier_struct) (simp add: covers_def copier_rules libraryCopies_def)

lemma RedisSentinelList_copier [copier_rules]:
  "libraryCopies L \<Longrightarrow> deep_copier (RedisSentinelList_T L) (RedisSentinelList_DeepCopyInto L)"
  unfolding RedisSentinelList_T_def RedisSentinelList_DeepCopyInto_def by (rule deep_copier_struct) (simp add: covers_def copier_rules libraryCopies_def)

lemma RedisClusterSpec_copier [copier_rules]:
  "libraryCopies L \<Longrightarrow> deep_copier (RedisClusterSpec_T L) (RedisClusterSpec_DeepCopyInto L)"
  unfolding RedisClusterSpec_T_def RedisClusterSpec_DeepCopyInto_def by (rule deep_copier_struct)
    (simp add: covers_def copier_rules libraryCopies_def AuthSpec_T_def TLSSpec_T_def)

lemma RedisNodeStatus_copier [copier_rules]: "deep_copier RedisNodeStatus_T RedisNodeStatus_DeepCopyInto"
  unfolding RedisNodeStatus_T_def RedisNodeStatus_DeepCopyInto_def by (rule deep_copier_assign) simp

lemma RedisClusterStatus_copier [copier_rules]:
  "libraryCopies L \<Longrightarrow> deep_copier (RedisClusterStatus_T L) (RedisClusterStatus_DeepCopyInto L)"
  unfolding RedisClusterStatus_T_def RedisClusterStatus_DeepCopyInto_def by (rule deep_copier_struct)
    (simp add: covers_def copier_rules libraryCopies_def RedisNodeStatus_T_def)

lemma RedisCluster_copier [copier_rules]:
  "libraryCopies L \<Longrightarrow> deep_copier (RedisCluster_T L) (RedisCluster_DeepCopyInto L)"
  unfolding RedisCluster_T_def RedisCluster_DeepCopyInto_def by (rule deep_copier_struct) (simp add: covers_def copier_rules libraryCopies_def)

lemma RedisClusterList_copier [copier_rules]:
  "libraryCopies L \<Longrightarrow> deep_copier (RedisClusterList_T L) (RedisClusterList_DeepCopyInto L)"
  unfolding RedisClusterList_T_def RedisClusterList_DeepCopyInto_def by (rule deep_copier_struct) (simp add: covers_def copier_rules libraryCopies_def)

interpretation storageSpec: deep_copier StorageSpec_T StorageSpec_DeepCopyInto
  by (rule StorageSpec_copier)

interpretation nodeStatus: deep_copier "TPointer RedisNodeStatus_T" RedisNodeStatus_DeepCopy
  unfolding RedisNodeStatus_DeepCopy_def by (rule copier_rules)+

text \<open>Every type with its \<open>DeepCopy\<close>.\<close>

definition generatedCopies :: "GoLib \<Rightarrow> (gtype \<times> copier) list" where
  "generatedCopies L =
     [(AuthSpec_T, AuthSpec_DeepCopy),
      (TLSSpec_T, TLSSpec_DeepCopy),
      (StorageSpec_T, StorageSpec_DeepCopy),
      (RedisSpec_T L, RedisSpec_DeepCopy L),
      (RedisStatus_T L, RedisStatus_DeepCopy L),
      (Redis_T L, Redis_DeepCopy L),
      (RedisList_T L, RedisList_DeepCopy L),
      (RedisSentinelSpec_T L, RedisSentinelSpec_DeepCopy L),
      (RedisSentinelStatus_T L, RedisSentinelStatus_DeepCopy L),
      (RedisSentinel_T L, RedisSentinel_DeepCopy L),
      (RedisSentinelList_T L, RedisSentinelList_DeepCopy L),
      (RedisClusterSpec_T L, RedisClusterSpec_DeepCopy L),
      (RedisNodeStatus_T, RedisNodeStatus_DeepCopy),
      (RedisClusterStatus_T L, RedisClusterStatus_DeepCopy L),
      (RedisCluster_T L, RedisCluster_DeepCopy L),
      (RedisClusterList_T L, RedisClusterList_DeepCopy L)]"

lemma generatedCopies_deep: "libraryCopies L \<Longrightarrow> (t, copy) \<in> set (generatedCopies L) \<Longrightarrow> deep_copier (TPointer t) copy"
  by (auto simp: generatedCopies_def copier_rules AuthSpec_DeepCopy_def TLSSpec_DeepCopy_def StorageSpec_DeepCopy_def RedisSpec_DeepCopy_def
    RedisStatus_DeepCopy_def Redis_DeepCopy_def RedisList_DeepCopy_def RedisSentinelSpec_DeepCopy_def
    RedisSentinelStatus_DeepCopy_def RedisSentinel_DeepCopy_def RedisSentinelList_DeepCopy_def RedisClusterSpec_DeepCopy_def
    RedisNodeStatus_DeepCopy_def RedisClusterStatus_DeepCopy_def RedisCluster_DeepCopy_def RedisClusterList_DeepCopy_def)

text \<open>
  C16: Every generated deep copy is one. For each type of the API the copy a \<open>DeepCopy\<close> returns has the type and
  reads like the original; the two share no cell; whatever is later written to the cells that were
  there before, the copy keeps reading as the original did; and whatever is written to the cells the
  copy brought, the original keeps reading as it did. (The copying functions of Kubernetes' own types are
  assumed to be deep.)
\<close>

theorem generated_copies_are_deep:
  assumes "libraryCopies L" and "(t, copy) \<in> set (generatedCopies L)" and "hasType s (TPointer t) v"
    and "copy v s = (c, s1)"
  shows "hasType s1 (TPointer t) c \<and> deref s1 (TPointer t) c = deref s (TPointer t) v \<and>
    set (reach s1 (TPointer t) c) \<inter> set (reach s (TPointer t) v) = {} \<and>
    (\<forall>s2. (\<forall>a. st_next s \<le> a \<and> a < st_next s1 \<longrightarrow> st_mem s2 a = st_mem s1 a) \<longrightarrow>
       deref s2 (TPointer t) c = deref s (TPointer t) v) \<and>
    (\<forall>s2. (\<forall>a < st_next s. st_mem s2 a = st_mem s1 a) \<longrightarrow> deref s2 (TPointer t) v = deref s (TPointer t) v)"
proof -
  have d: "deep_copier (TPointer t) copy" using assms(1,2) by (rule generatedCopies_deep)
  show ?thesis
    using deep_copier.typed [OF d assms(3)] deep_copier.same [OF d assms(3)]
      deep_copier.shares_nothing [OF d assms(3,3)] deep_copier.snapshot [OF d assms(3)]
      deep_copier.original_kept [OF d assms(3)] assms(4)
    by simp
qed

text \<open>A cluster with an annotation, a storage class, a configuration and a node in its status.\<close>

definition sampleLib :: GoLib where
  "sampleLib =
     \<lparr>lib_type = (\<lambda>n. if n = ''ObjectMeta'' then TStruct [(''Name'', TPrim), (''Annotations'', TMap)]
                     else if n = ''ResourceRequirements'' then TStruct [(''Limits'', TMap)]
                     else TStruct [(''Kind'', TPrim)]),
      lib_copy = (\<lambda>n. if n = ''ObjectMeta'' then copyStruct [(''Annotations'', copyMap)]
                     else if n = ''ResourceRequirements'' then copyStruct [(''Limits'', copyMap)]
                     else assign)\<rparr>"

definition str :: "string \<Rightarrow> gval" where
  "str x = VPrim (PString x)"

definition sampleStore :: Store where
  "sampleStore = \<lparr>st_next = 6, st_mem = (\<lambda>a. [
     VStruct [(''TypeMeta'', VStruct [(''Kind'', str ''RedisCluster'')]),
       (''ObjectMeta'', VStruct [(''Name'', str ''c''), (''Annotations'', VRef 1)]),
       (''Spec'', VStruct [(''Masters'', VPrim (PInt 3)), (''ReplicasPerMaster'', VPrim (PInt 1)),
          (''Image'', str ''redis''), (''Resources'', VStruct [(''Limits'', VNil)]), (''MasterResources'', VNil),
          (''ReplicaResources'', VNil), (''Storage'', VRef 2), (''RedisConfig'', VRef 4), (''Auth'', VNil),
          (''TLS'', VNil), (''EnableExporter'', VNil), (''ExporterImage'', str []), (''MasterAffinity'', VNil),
          (''MasterTolerations'', VNil), (''MasterNodeSelector'', VNil), (''ReplicaAffinity'', VNil),
          (''ReplicaTolerations'', VNil), (''ReplicaNodeSelector'', VNil)]),
       (''Status'', VStruct [(''Phase'', str ''Ready''), (''Message'', str []), (''Conditions'', VNil),
          (''ReadyMasters'', VPrim (PInt 3)), (''ReadyReplicas'', VPrim (PInt 3)),
          (''AssignedSlots'', VPrim (PInt 16384)), (''ClusterState'', str ''ok''), (''Nodes'', VSlice 5 0 1)])],
     VTable [(''owner'', ''me'')],
     VStruct [(''ClassName'', VRef 3), (''Size'', str ''1Gi''), (''KeepAfterDeletion'', VPrim (PBool False))],
     str ''fast'',
     VTable [(''maxmemory'', ''1gb'')],
     VArray [VStruct [(''NodeID'', str ''n''), (''PodName'', str []), (''IP'', str ''10.0.0.1:6379''),
       (''Role'', str ''master''), (''Slots'', str ''0-16383''), (''MasterRef'', str []), (''Health'', str ''ok'')]]] ! a)\<rparr>"

lemma sampleLib_copies: "libraryCopies sampleLib"
  by (simp add: libraryCopies_def sampleLib_def copier_rules covers_def)

lemma sampleStore_typed: "hasType sampleStore (TPointer (RedisCluster_T sampleLib)) (VRef 0)"
  by (simp add: copy_defs sampleStore_def sampleLib_def field_def window_def str_def is_gomap_def)

theorem generated_copies_are_deep_witness:
  "\<exists>c s1. RedisCluster_DeepCopy sampleLib (VRef 0) sampleStore = (c, s1) \<and>
    deref s1 (TPointer (RedisCluster_T sampleLib)) c = deref sampleStore (TPointer (RedisCluster_T sampleLib)) (VRef 0)"
proof -
  obtain c s1 where c: "RedisCluster_DeepCopy sampleLib (VRef 0) sampleStore = (c, s1)" by fastforce
  have "(RedisCluster_T sampleLib, RedisCluster_DeepCopy sampleLib) \<in> set (generatedCopies sampleLib)"
    by (simp add: generatedCopies_def)
  from generated_copies_are_deep [OF sampleLib_copies this sampleStore_typed c] c show ?thesis by blast
qed

section \<open>The base of a merge patch\<close>

text \<open>
  \<open>recordLastConfigHash\<close> on shared memory: the copy it hands to \<open>MergeFrom\<close>, then the annotation written in
  place, into the map the object has or into a new one.
\<close>

definition setAnnotation :: "nat \<Rightarrow> string \<Rightarrow> string \<Rightarrow> Store \<Rightarrow> Store" where
  "setAnnotation p key val s =
     (let obj = st_mem s p; m = field ''ObjectMeta'' obj in
      case field ''Annotations'' m of
        VRef a \<Rightarrow> insertAt a (key, val) s
      | _ \<Rightarrow>
          (let (a, s) = alloc (VTable []) s;
               s = store p (setField ''ObjectMeta'' (setField ''Annotations'' (VRef a) m) obj) s
           in insertAt a (key, val) s))"

definition annotateWithBase :: "GoLib \<Rightarrow> nat \<Rightarrow> string \<Rightarrow> string \<Rightarrow> Store \<Rightarrow> gval \<times> Store" where
  "annotateWithBase L p key val s =
     (case RedisCluster_DeepCopy L (VRef p) s of (base, s) \<Rightarrow> (base, setAnnotation p key val s))"

definition annotations :: "Store \<Rightarrow> nat \<Rightarrow> gomap" where
  "annotations s p =
     (case field ''Annotations'' (field ''ObjectMeta'' (st_mem s p)) of VRef a \<Rightarrow> table (st_mem s a) | _ \<Rightarrow> [])"

lemma annotated:
  assumes obj: "hasType s (TStruct fs) (st_mem s p)" and p: "p < st_next s"
    and m: "(''ObjectMeta'', TStruct fts) \<in> set fs" and a: "(''Annotations'', TMap) \<in> set fts"
    and ext: "grows s s1"
  shows "map_of (annotations (setAnnotation p key val s1) p) = (map_of (annotations s p))(key \<mapsto> val) \<and>
    (\<forall>b. st_next s \<le> b \<longrightarrow> b < st_next s1 \<longrightarrow> st_mem (setAnnotation p key val s1) b = st_mem s1 b)"
proof -
  let ?m = "field ''ObjectMeta'' (st_mem s p)"
  have "hasType s (TStruct fts) ?m" using obj m by force
  then have ta: "hasType s TMap (field ''Annotations'' ?m)" using a by force
  have mp: "st_mem s1 p = st_mem s p" using ext p by (rule grows_mem)
  obtain fvs where vs: "st_mem s p = VStruct fvs" using obj by (auto split: gval.splits)
  consider (nil) "field ''Annotations'' ?m = VNil"
    | (ref) b where "field ''Annotations'' ?m = VRef b" "b < st_next s" "\<exists>kvs. st_mem s b = VTable kvs"
    using ta by (auto split: gval.splits)
  then show ?thesis
  proof cases
    case nil
    have "p \<noteq> st_next s1" using ext p by (simp add: grows_def)
    then show ?thesis
      using nil mp p by (simp add: setAnnotation_def annotations_def insertAt_def alloc_def Let_def)
  next
    case (ref b)
    have "b \<noteq> p" using ref vs by auto
    moreover have "st_mem s1 b = st_mem s b" using ext ref(2) by (rule grows_mem)
    ultimately show ?thesis
      using ref mp by (simp add: setAnnotation_def annotations_def insertAt_def Let_def update_conv')
  qed
qed

text \<open>
  C20: The merge patch of \<open>recordLastConfigHash\<close> says exactly the new annotation. The base of the patch is read
  when the patch is sent, after the object was annotated in place; being a deep copy it still reads as the
  whole object did before, while the annotations of the object are the old ones with the one entry set,
  whether the object had a map of annotations or none.
\<close>

theorem patch_base_survives_annotation:
  assumes "libraryCopies L" and "lib_type L ''ObjectMeta'' = TStruct fts" and "(''Annotations'', TMap) \<in> set fts"
    and "hasType s (TPointer (RedisCluster_T L)) (VRef p)" and "annotateWithBase L p key val s = (base, s2)"
  shows "deref s2 (TPointer (RedisCluster_T L)) base = deref s (TPointer (RedisCluster_T L)) (VRef p) \<and>
    map_of (annotations s2 p) = (map_of (annotations s p))(key \<mapsto> val)"
proof -
  obtain s1 where c: "RedisCluster_DeepCopy L (VRef p) s = (base, s1)" and s2: "s2 = setAnnotation p key val s1"
    using assms(5) by (auto simp: annotateWithBase_def split: prod.splits)
  have d: "deep_copier (TPointer (RedisCluster_T L)) (RedisCluster_DeepCopy L)"
    using assms(1) by (rule generatedCopies_deep) (simp add: generatedCopies_def)
  have ext: "grows s s1" using deep_copier.keeps [OF d assms(4)] c by simp
  have obj: "hasType s (RedisCluster_T L) (st_mem s p)" and p: "p < st_next s" using assms(4) by simp_all
  have m: "(''ObjectMeta'', TStruct fts) \<in> set
     [(''TypeMeta'', lib_type L ''TypeMeta''), (''ObjectMeta'', lib_type L ''ObjectMeta''),
      (''Spec'', RedisClusterSpec_T L), (''Status'', RedisClusterStatus_T L)]"
    using assms(2) by simp
  note ann = annotated [OF obj [unfolded RedisCluster_T_def] p m assms(3) ext]
  show ?thesis using deep_copier.snapshot [OF d assms(4), of s2] ann c s2 by simp
qed

theorem patch_base_survives_annotation_witness:
  "\<exists>base s2. annotateWithBase sampleLib 0 ''k'' ''v'' sampleStore = (base, s2) \<and>
    deref s2 (TPointer (RedisCluster_T sampleLib)) base = deref sampleStore (TPointer (RedisCluster_T sampleLib)) (VRef 0) \<and>
    map_of (annotations s2 0) = [''owner'' \<mapsto> ''me'', ''k'' \<mapsto> ''v'']"
proof -
  obtain base s2 where r: "annotateWithBase sampleLib 0 ''k'' ''v'' sampleStore = (base, s2)" by fastforce
  have m: "lib_type sampleLib ''ObjectMeta'' = TStruct [(''Name'', TPrim), (''Annotations'', TMap)]"
    by (simp add: sampleLib_def)
  have "annotations sampleStore 0 = [(''owner'', ''me'')]"
    by (simp add: annotations_def sampleStore_def field_def)
  with patch_base_survives_annotation [OF sampleLib_copies m _ sampleStore_typed r] r show ?thesis by auto
qed

end
