(* ===== verification/Role_Labels.thy ===== *)
theory Role_Labels
  imports Resources_Correct Controllers_Correct
begin

text \<open>
  The role labels of the Redis pods of a \<open>RedisSentinel\<close>
  (\<open>reconcileRoleLabels\<close>, \<open>findMasterPod\<close> of \<open>redissentinel_controller.go\<close>) together with the services
  that select by them: what the pods look like once the patches of a run have been applied.
\<close>

section \<open>Applying patches\<close>

fun patchOf :: "event \<Rightarrow> Pod option" where
  "patchOf (Kube (PatchPod _ p)) = Some p"
| "patchOf _ = None"

definition patches :: "trace \<Rightarrow> Pod list" where
  "patches es = List.map_filter patchOf es"

text \<open>
  The pods the API server has after the events \<open>es\<close> that follow \<open>tr\<close>: a patch names the pod it changes, and takes effect
  if the server has answered that it succeeded.
\<close>

fun patched :: "Kube \<Rightarrow> trace \<Rightarrow> event list \<Rightarrow> Pod list \<Rightarrow> Pod list" where
  "patched k tr [] pods = pods"
| "patched k tr (e # es) pods = patched k (tr @ [e]) es
     (case e of
        Kube (PatchPod ns p) \<Rightarrow>
          if k_PatchPod k tr ns p = None then map (\<lambda>q. if po_Name q = po_Name p then p else q) pods else pods
      | _ \<Rightarrow> pods)"

definition patchesSucceed :: "Kube \<Rightarrow> trace \<Rightarrow> event list \<Rightarrow> bool" where
  "patchesSucceed k tr es \<longleftrightarrow> (\<forall>us ns p vs. es = us @ Kube (PatchPod ns p) # vs \<longrightarrow> k_PatchPod k (tr @ us) ns p = None)"

lemma patches_simps [simp]:
  "patches [] = []" "patches (xs @ ys) = patches xs @ patches ys"
  "patches [Kube (PatchPod ns p)] = [p]"
  by (simp_all add: patches_def List.map_filter_def)

abbreviation roleOf :: "Pod \<Rightarrow> string" where
  "roleOf p \<equiv> mget (po_Labels p) RoleLabelKey"

lemma withRole_simps [simp]:
  "po_Name (withRole role p) = po_Name p" "po_PodIP (withRole role p) = po_PodIP p"
  "map_of (po_Labels (withRole role p)) = (map_of (po_Labels p))(RoleLabelKey \<mapsto> role)"
  by (simp_all add: withRole_def update_conv')

lemma desiredRole_withRole [simp]: "desiredRole m (withRole role p) = desiredRole m p"
  by (simp add: desiredRole_def)

text \<open>The loop of patches leaves out the pods whose label is right already.\<close>

definition mislabelled :: "string \<Rightarrow> Pod \<Rightarrow> bool" where
  "mislabelled m p \<longleftrightarrow> roleOf p \<noteq> desiredRole m p"

lemma patchRole_events:
  "forIgnore (patchRole k ns m) pods tr =
     tr @ concat (map (\<lambda>p. if mislabelled m p then [Kube (PatchPod ns (withRole (desiredRole m p) p))] else []) pods)"
  by (rule forIgnore_events) (simp add: patchRole_def mislabelled_def Let_def)

lemma patches_patchRole:
  "patches (concat (map (\<lambda>p. if mislabelled m p then [Kube (PatchPod ns (withRole (desiredRole m p) p))] else []) pods)) =
     map (\<lambda>p. withRole (desiredRole m p) p) (filter (mislabelled m) pods)"
  by (induction pods) simp_all

text \<open>The pods the loop leaves, one after the other.\<close>

fun relabelled :: "Kube \<Rightarrow> string \<Rightarrow> string \<Rightarrow> trace \<Rightarrow> Pod list \<Rightarrow> Pod list" where
  "relabelled k ns m tr [] = []"
| "relabelled k ns m tr (p # ps) =
     (if mislabelled m p
      then (if k_PatchPod k tr ns (withRole (desiredRole m p) p) = None then withRole (desiredRole m p) p else p) #
        relabelled k ns m (tr @ [Kube (PatchPod ns (withRole (desiredRole m p) p))]) ps
      else p # relabelled k ns m tr ps)"

abbreviation relabelEvents :: "string \<Rightarrow> string \<Rightarrow> Pod list \<Rightarrow> event list" where
  "relabelEvents ns m pods \<equiv>
     concat (map (\<lambda>p. if mislabelled m p then [Kube (PatchPod ns (withRole (desiredRole m p) p))] else []) pods)"

lemma patched_relabelled:
  "distinct (map po_Name (ds @ pods)) \<Longrightarrow> patched k tr (relabelEvents ns m pods) (ds @ pods) = ds @ relabelled k ns m tr pods"
proof (induction pods arbitrary: tr ds)
  case (Cons p ps)
  let ?p = "if k_PatchPod k tr ns (withRole (desiredRole m p) p) = None then withRole (desiredRole m p) p else p"
  have other: "map (\<lambda>q. if po_Name q = po_Name p then x else q) qs = qs" if "po_Name p \<notin> po_Name ` set qs" for qs x
    using that by (intro map_idI) (auto simp: image_iff)
  have "po_Name p \<notin> po_Name ` set ds" "po_Name p \<notin> po_Name ` set ps" using Cons.prems by auto
  then have new: "map (\<lambda>q. if po_Name q = po_Name p then withRole (desiredRole m p) p else q) (ds @ p # ps)
      = ds @ withRole (desiredRole m p) p # ps"
    by (simp only: map_append list.map other simp_thms if_True)
  show ?case
  proof (cases "mislabelled m p")
    case True
    have "distinct (map po_Name ((ds @ [?p]) @ ps))" using Cons.prems by auto
    from Cons.IH [OF this] show ?thesis using True new by auto
  next
    case False
    have "distinct (map po_Name ((ds @ [p]) @ ps))" using Cons.prems by auto
    from Cons.IH [OF this] show ?thesis using False by simp
  qed
qed simp

text \<open>What becomes of one pod: its patch is among the events and decides, or it needs none.\<close>

definition relabelOutcome :: "Kube \<Rightarrow> string \<Rightarrow> string \<Rightarrow> trace \<Rightarrow> event list \<Rightarrow> Pod \<Rightarrow> Pod \<Rightarrow> bool" where
  "relabelOutcome k ns m tr es p q \<longleftrightarrow>
     (if mislabelled m p
      then \<exists>us vs. es = us @ Kube (PatchPod ns (withRole (desiredRole m p) p)) # vs \<and>
        q = (if k_PatchPod k (tr @ us) ns (withRole (desiredRole m p) p) = None then withRole (desiredRole m p) p else p)
      else q = p)"

lemma relabelled_each:
  "list_all2 (relabelOutcome k ns m tr (pre @ relabelEvents ns m pods)) pods (relabelled k ns m (tr @ pre) pods)"
proof (induction pods arbitrary: pre)
  case (Cons p ps)
  show ?case
  proof (cases "mislabelled m p")
    case True
    let ?e = "Kube (PatchPod ns (withRole (desiredRole m p) p))"
    let ?q = "if k_PatchPod k (tr @ pre) ns (withRole (desiredRole m p) p) = None then withRole (desiredRole m p) p else p"
    have "relabelOutcome k ns m tr (pre @ ?e # relabelEvents ns m ps) p ?q"
      unfolding relabelOutcome_def if_P [OF True] by blast
    moreover have "list_all2 (relabelOutcome k ns m tr (pre @ ?e # relabelEvents ns m ps)) ps (relabelled k ns m (tr @ pre @ [?e]) ps)"
      using Cons.IH [of "pre @ [?e]"] by (simp only: append_assoc append_Cons append_Nil)
    ultimately show ?thesis using True by simp
  next
    case False
    then show ?thesis using Cons.IH [of pre] by (simp add: relabelOutcome_def)
  qed
qed simp

lemma relabelled_success:
  assumes "patchesSucceed k tr (pre @ relabelEvents ns m pods)"
  shows "relabelled k ns m (tr @ pre) pods = map (\<lambda>p. if mislabelled m p then withRole (desiredRole m p) p else p) pods"
  using assms
proof (induction pods arbitrary: pre)
  case (Cons p ps)
  show ?case
  proof (cases "mislabelled m p")
    case True
    let ?e = "Kube (PatchPod ns (withRole (desiredRole m p) p))"
    have s: "patchesSucceed k tr ((pre @ [?e]) @ relabelEvents ns m ps)" using Cons.prems True by simp
    have "k_PatchPod k (tr @ pre) ns (withRole (desiredRole m p) p) = None"
      using Cons.prems True unfolding patchesSucceed_def by auto
    then show ?thesis using Cons.IH [OF s] True by simp
  next
    case False
    then show ?thesis using Cons by simp
  qed
qed simp

lemma role_after: "map_of (po_Labels (if mislabelled m p then withRole (desiredRole m p) p else p)) RoleLabelKey
    = Some (desiredRole m p)"
  by (auto simp: mislabelled_def mget_def desiredRole_def RoleMaster_def RoleReplica_def split: option.splits)

lemma other_labels_after: "k \<noteq> RoleLabelKey \<Longrightarrow>
    map_of (po_Labels (if mislabelled m p then withRole (desiredRole m p) p else p)) k = map_of (po_Labels p) k"
  by simp

lemma reconcileRoleLabels_listed:
  assumes "findMasterPod r rs tr = (m, t)"
    and "k_ListPods (rec_Kube r) t (om_Namespace (s_Meta rs)) (redisPodLabels rs) = Inr pods"
    and "distinct (map po_Name pods)"
  obtains es where "reconcileRoleLabels r rs tr = (rs\<lparr>s_Status := (s_Status rs)\<lparr>s_MasterNode := m\<rparr>\<rparr>, t @ es)"
    and "patches es = map (\<lambda>p. withRole (desiredRole m p) p) (filter (mislabelled m) pods)"
    and "list_all2 (relabelOutcome (rec_Kube r) (om_Namespace (s_Meta rs)) m t es) pods (patched (rec_Kube r) t es pods)"
    and "patchesSucceed (rec_Kube r) t es \<longrightarrow>
      patched (rec_Kube r) t es pods = map (\<lambda>p. if mislabelled m p then withRole (desiredRole m p) p else p) pods"
proof (rule that)
  let ?k = "rec_Kube r" and ?ns = "om_Namespace (s_Meta rs)"
  let ?list = "Kube (ListPods ?ns (redisPodLabels rs))" and ?es = "relabelEvents ?ns m pods"
  show "reconcileRoleLabels r rs tr = (rs\<lparr>s_Status := (s_Status rs)\<lparr>s_MasterNode := m\<rparr>\<rparr>, t @ ?list # ?es)"
    using assms(1,2) by (simp add: reconcileRoleLabels_def listPods_def Let_def patchRole_events)
  have "patches (?list # ?es) = patches ?es" by (simp add: patches_def List.map_filter_def)
  then show "patches (?list # ?es) = map (\<lambda>p. withRole (desiredRole m p) p) (filter (mislabelled m) pods)"
    by (simp only: patches_patchRole)
  have after: "patched ?k t (?list # ?es) pods = relabelled ?k ?ns m (t @ [?list]) pods"
    using patched_relabelled [where ds = "[]" and pods = pods and k = ?k and tr = "t @ [?list]" and ns = ?ns and m = m] assms(3) by simp
  show "list_all2 (relabelOutcome ?k ?ns m t (?list # ?es)) pods (patched ?k t (?list # ?es) pods)"
    unfolding after using relabelled_each [of ?k ?ns m t "[?list]" pods] by simp
  show "patchesSucceed ?k t (?list # ?es) \<longrightarrow>
      patched ?k t (?list # ?es) pods = map (\<lambda>p. if mislabelled m p then withRole (desiredRole m p) p else p) pods"
    unfolding after using relabelled_success [where k = ?k and tr = t and pre = "[?list]" and ns = ?ns and m = m and pods = pods] by simp
qed

section \<open>The labels after a run\<close>

lemma one_named: "distinct (map po_Name pods) \<Longrightarrow> length (filter (\<lambda>p. po_Name p = m) pods) \<le> 1"
  by (induction pods) (auto simp: filter_empty_conv image_iff)

lemma relabel_role: "roleOf (if mislabelled m p then withRole (desiredRole m p) p else p) = (if po_Name p = m then ''master'' else ''replica'')"
  using role_after [of m p] unfolding mget_def by (simp add: desiredRole_def RoleMaster_def RoleReplica_def)

lemma relabel_masters:
  assumes "distinct (map po_Name pods)"
  shows "length (filter (\<lambda>p. roleOf p = ''master'') (map (\<lambda>p. if mislabelled m p then withRole (desiredRole m p) p else p) pods)) \<le> 1"
  using one_named [OF assms] by (simp only: filter_map comp_def relabel_role length_map) (simp add: if_distrib)

text \<open>
  C26: A run that can list the Redis pods records the master it determined in the status and gives every
  pod its role label, that pod master and all others replica. A pod the run leaves with another label is unchanged and its
  patch has been refused, which the run ignores; if no patch is refused, every label is right and no two pods are
  labelled master. No other label changes, and only pods with a wrong label are patched.
\<close>

theorem role_labels_single_master:
  assumes "findMasterPod r rs tr = (m, t)"
    and "k_ListPods (rec_Kube r) t (om_Namespace (s_Meta rs)) (redisPodLabels rs) = Inr pods"
    and "distinct (map po_Name pods)"
  shows "\<exists>rs' es. reconcileRoleLabels r rs tr = (rs', t @ es) \<and> s_MasterNode (s_Status rs') = m \<and>
    list_all2 (\<lambda>p q. po_Name q = po_Name p \<and>
        (map_of (po_Labels q))(RoleLabelKey := None) = (map_of (po_Labels p))(RoleLabelKey := None) \<and>
        (roleOf q = (if po_Name p = m then ''master'' else ''replica'') \<or>
         q = p \<and> (\<exists>us x vs. es = us @ Kube (PatchPod (om_Namespace (s_Meta rs)) x) # vs \<and> po_Name x = po_Name p \<and>
           k_PatchPod (rec_Kube r) (t @ us) (om_Namespace (s_Meta rs)) x \<noteq> None)))
      pods (patched (rec_Kube r) t es pods) \<and>
    length (patches es) = length (filter (\<lambda>p. roleOf p \<noteq> (if po_Name p = m then ''master'' else ''replica'')) pods) \<and>
    (patchesSucceed (rec_Kube r) t es \<longrightarrow>
      list_all (\<lambda>p. roleOf p = (if po_Name p = m then ''master'' else ''replica'')) (patched (rec_Kube r) t es pods) \<and>
      length (filter (\<lambda>p. roleOf p = ''master'') (patched (rec_Kube r) t es pods)) \<le> 1)"
proof -
  let ?f = "\<lambda>p. if mislabelled m p then withRole (desiredRole m p) p else p"
  let ?k = "rec_Kube r" and ?ns = "om_Namespace (s_Meta rs)"
  from assms obtain es where es: "reconcileRoleLabels r rs tr = (rs\<lparr>s_Status := (s_Status rs)\<lparr>s_MasterNode := m\<rparr>\<rparr>, t @ es)"
    and sent: "patches es = map (\<lambda>p. withRole (desiredRole m p) p) (filter (mislabelled m) pods)"
    and each: "list_all2 (relabelOutcome ?k ?ns m t es) pods (patched ?k t es pods)"
    and ok: "patchesSucceed ?k t es \<longrightarrow> patched ?k t es pods = map ?f pods"
    by (rule reconcileRoleLabels_listed)
  have mis: "mislabelled m = (\<lambda>p. roleOf p \<noteq> (if po_Name p = m then ''master'' else ''replica''))"
    by (simp add: fun_eq_iff mislabelled_def desiredRole_def RoleMaster_def RoleReplica_def)
  have one: "po_Name q = po_Name p \<and>
        (map_of (po_Labels q))(RoleLabelKey := None) = (map_of (po_Labels p))(RoleLabelKey := None) \<and>
        (roleOf q = (if po_Name p = m then ''master'' else ''replica'') \<or>
         q = p \<and> (\<exists>us x vs. es = us @ Kube (PatchPod ?ns x) # vs \<and> po_Name x = po_Name p \<and> k_PatchPod ?k (t @ us) ?ns x \<noteq> None))"
    if out: "relabelOutcome ?k ?ns m t es p q" for p q
  proof (cases "mislabelled m p")
    case True
    let ?p = "withRole (desiredRole m p) p"
    from out obtain us vs where u: "es = us @ Kube (PatchPod ?ns ?p) # vs"
      "q = (if k_PatchPod ?k (t @ us) ?ns ?p = None then ?p else p)"
      unfolding relabelOutcome_def if_P [OF True] by blast
    show ?thesis
    proof (cases "k_PatchPod ?k (t @ us) ?ns ?p = None")
      case ok: True
      then show ?thesis using u(2) True relabel_role [of m p] by simp
    next
      case False
      have "q = p" using u(2) unfolding if_not_P [OF False] .
      moreover have "\<exists>us x vs. es = us @ Kube (PatchPod ?ns x) # vs \<and> po_Name x = po_Name p \<and> k_PatchPod ?k (t @ us) ?ns x \<noteq> None"
        using u(1) False withRole_simps(1) by blast
      ultimately show ?thesis by blast
    qed
  next
    case False
    then show ?thesis using out relabel_role [of m p] by (simp add: relabelOutcome_def)
  qed
  have right: "list_all (\<lambda>p. roleOf p = (if po_Name p = m then ''master'' else ''replica'')) (map ?f pods)"
    by (simp only: list_all_iff set_map ball_simps relabel_role) simp
  note outcome = list_all2_mono [OF each one]
  show ?thesis
    by (rule exI [of _ "rs\<lparr>s_Status := (s_Status rs)\<lparr>s_MasterNode := m\<rparr>\<rparr>"], rule exI [of _ es], intro conjI es impI, simp, rule outcome)
      (assumption, simp add: sent flip: mis, simp only: ok [rule_format] right, simp only: ok [rule_format] relabel_masters [OF assms(3)])
qed

section \<open>The services follow the master Sentinel names\<close>

lemma selects_role_after:
  assumes "map_of (po_Labels p) labelInstance = Some (om_Name (s_Meta rs))"
  shows "selects (sv_Selector (svc_Spec (BuildSentinelMasterService rs)))
      (po_Labels (if mislabelled m p then withRole (desiredRole m p) p else p)) \<longleftrightarrow> po_Name p = m"
    and "selects (sv_Selector (svc_Spec (BuildSentinelReplicaService rs)))
      (po_Labels (if mislabelled m p then withRole (desiredRole m p) p else p)) \<longleftrightarrow> po_Name p \<noteq> m"
proof -
  have i: "map_of (po_Labels (if mislabelled m p then withRole (desiredRole m p) p else p)) labelInstance
      = Some (om_Name (s_Meta rs))"
    using assms by (subst other_labels_after) (simp_all add: label_key_defs)
  show "selects (sv_Selector (svc_Spec (BuildSentinelMasterService rs)))
      (po_Labels (if mislabelled m p then withRole (desiredRole m p) p else p)) \<longleftrightarrow> po_Name p = m"
    "selects (sv_Selector (svc_Spec (BuildSentinelReplicaService rs)))
      (po_Labels (if mislabelled m p then withRole (desiredRole m p) p else p)) \<longleftrightarrow> po_Name p \<noteq> m"
    unfolding role_selectors [OF i] role_after by (simp_all add: desiredRole_def RoleMaster_def RoleReplica_def)
qed

lemma findMasterPod_found:
  assumes "rec_RedisClient r = Some c"
    and "rc_SentinelGetMasterAddr c tr (sentinelAddr rs) sentinelMasterName = Inr (host, port)" and "host \<noteq> []"
    and "\<And>t. k_ListPods (rec_Kube r) t (om_Namespace (s_Meta rs)) (redisPodLabels rs) = Inr pods"
    and "p \<in> set pods" and "\<And>q. q \<in> set pods \<Longrightarrow> po_PodIP q = host \<longleftrightarrow> q = p"
  shows "\<exists>t. findMasterPod r rs tr = (po_Name p, t)"
proof -
  have "find (\<lambda>q. po_PodIP q = host) pods = Some p"
    using assms(5,6) by (induction pods) auto
  then show ?thesis using assms(1-4) by (simp add: findMasterPod_def podWithIP_def listPods_def trace_simps)
qed

lemma role_services_after:
  assumes "findMasterPod r rs tr = (po_Name p, t)"
    and "k_ListPods (rec_Kube r) t (om_Namespace (s_Meta rs)) (redisPodLabels rs) = Inr pods"
    and "p \<in> set pods" and "distinct (map po_Name pods)"
    and labels: "\<And>q. q \<in> set pods \<Longrightarrow> map_of (po_Labels q) labelInstance = Some (om_Name (s_Meta rs))"
  shows "\<exists>rs' es. reconcileRoleLabels r rs tr = (rs', t @ es) \<and> (patchesSucceed (rec_Kube r) t es \<longrightarrow>
    map po_Name (filter (\<lambda>q. selects (sv_Selector (svc_Spec (BuildSentinelMasterService rs))) (po_Labels q))
      (patched (rec_Kube r) t es pods)) = [po_Name p] \<and>
    map po_Name (filter (\<lambda>q. selects (sv_Selector (svc_Spec (BuildSentinelReplicaService rs))) (po_Labels q))
      (patched (rec_Kube r) t es pods)) = filter (\<lambda>n. n \<noteq> po_Name p) (map po_Name pods))"
proof -
  let ?f = "\<lambda>q. if mislabelled (po_Name p) q then withRole (desiredRole (po_Name p) q) q else q"
  let ?rs' = "rs\<lparr>s_Status := (s_Status rs)\<lparr>s_MasterNode := po_Name p\<rparr>\<rparr>"
  obtain es where es: "reconcileRoleLabels r rs tr = (?rs', t @ es)"
    and ok: "patchesSucceed (rec_Kube r) t es \<longrightarrow> patched (rec_Kube r) t es pods = map ?f pods"
    using assms(1,2,4) by (rule reconcileRoleLabels_listed)
  have name: "po_Name (?f q) = po_Name q" for q by simp
  have m: "filter (\<lambda>q. selects (sv_Selector (svc_Spec (BuildSentinelMasterService rs))) (po_Labels q)) (map ?f pods)
      = map ?f (filter (\<lambda>q. po_Name q = po_Name p) pods)"
    unfolding filter_map comp_def by (intro arg_cong [of _ _ "map ?f"] filter_cong refl selects_role_after labels)
  have s: "filter (\<lambda>q. selects (sv_Selector (svc_Spec (BuildSentinelReplicaService rs))) (po_Labels q)) (map ?f pods)
      = map ?f (filter (\<lambda>q. po_Name q \<noteq> po_Name p) pods)"
    unfolding filter_map comp_def by (intro arg_cong [of _ _ "map ?f"] filter_cong refl selects_role_after labels)
  have one: "filter (\<lambda>q. po_Name q = po_Name p) pods = [p]"
    using assms(3,4) by (induction pods) (auto simp: filter_empty_conv image_iff)
  have "map po_Name (map ?f (filter (\<lambda>q. po_Name q \<noteq> po_Name p) pods)) = filter (\<lambda>n. n \<noteq> po_Name p) (map po_Name pods)"
    by (simp add: filter_map comp_def if_distrib)
  then show ?thesis
    by (intro exI [of _ ?rs'] exI [of _ es] conjI es impI) (simp only: ok [rule_format] m one, simp, simp only: ok [rule_format] s)
qed

text \<open>
  C25: When Sentinel names the address of one of the Redis pods as the master and none of the patches of the run is
  refused, then after the run the master service selects exactly that pod and the replica service exactly the
  others, whatever roles the pods were labelled with before. (A refused patch is ignored by the run.)
\<close>

theorem role_services_follow_sentinel:
  assumes "rec_RedisClient r = Some c"
    and "rc_SentinelGetMasterAddr c tr (sentinelAddr rs) sentinelMasterName = Inr (host, port)" and "host \<noteq> []"
    and "\<And>t. k_ListPods (rec_Kube r) t (om_Namespace (s_Meta rs)) (redisPodLabels rs) = Inr pods"
    and "p \<in> set pods" and "\<And>q. q \<in> set pods \<Longrightarrow> po_PodIP q = host \<longleftrightarrow> q = p"
    and "distinct (map po_Name pods)"
    and "\<And>q. q \<in> set pods \<Longrightarrow> map_of (po_Labels q) labelInstance = Some (om_Name (s_Meta rs))"
  shows "\<exists>t rs' es. reconcileRoleLabels r rs tr = (rs', t @ es) \<and> (patchesSucceed (rec_Kube r) t es \<longrightarrow>
    map po_Name (filter (\<lambda>q. selects (sv_Selector (svc_Spec (BuildSentinelMasterService rs))) (po_Labels q))
      (patched (rec_Kube r) t es pods)) = [po_Name p] \<and>
    map po_Name (filter (\<lambda>q. selects (sv_Selector (svc_Spec (BuildSentinelReplicaService rs))) (po_Labels q))
      (patched (rec_Kube r) t es pods)) = filter (\<lambda>n. n \<noteq> po_Name p) (map po_Name pods))"
proof -
  obtain t where "findMasterPod r rs tr = (po_Name p, t)" using findMasterPod_found [OF assms(1-6)] by blast
  then have "\<exists>rs' es. reconcileRoleLabels r rs tr = (rs', t @ es) \<and> (patchesSucceed (rec_Kube r) t es \<longrightarrow>
    map po_Name (filter (\<lambda>q. selects (sv_Selector (svc_Spec (BuildSentinelMasterService rs))) (po_Labels q))
      (patched (rec_Kube r) t es pods)) = [po_Name p] \<and>
    map po_Name (filter (\<lambda>q. selects (sv_Selector (svc_Spec (BuildSentinelReplicaService rs))) (po_Labels q))
      (patched (rec_Kube r) t es pods)) = filter (\<lambda>n. n \<noteq> po_Name p) (map po_Name pods))"
    using assms(4,5,7,8) by (rule role_services_after)
  then show ?thesis by (rule exI)
qed

text \<open>Two pods, the first labelled master, while Sentinel has promoted the second.\<close>

definition stalePods :: "Pod list" where
  "stalePods =
     [\<lparr>po_Name = ''s-0'', po_Labels = [(labelInstance, ''s''), (RoleLabelKey, RoleMaster)], po_PodIP = ''10.0.0.1'', po_Conditions = []\<rparr>,
      \<lparr>po_Name = ''s-1'', po_Labels = [(labelInstance, ''s''), (RoleLabelKey, RoleReplica)], po_PodIP = ''10.0.0.2'', po_Conditions = []\<rparr>]"

definition promotedReconciler :: Reconciler where
  "promotedReconciler = sampleReconciler\<lparr>
     rec_Kube := sampleKube\<lparr>k_ListPods := \<lambda>tr ns sel. Inr stalePods\<rparr>,
     rec_RedisClient := Some (quietClient\<lparr>rc_SentinelGetMasterAddr := \<lambda>tr a n. Inr (''10.0.0.2'', 6379)\<rparr>)\<rparr>"

lemma promotedReconciler_simps [simp]:
  "k_ListPods (rec_Kube promotedReconciler) t ns sel = Inr stalePods"
  "rec_RedisClient promotedReconciler = Some (quietClient\<lparr>rc_SentinelGetMasterAddr := \<lambda>tr a n. Inr (''10.0.0.2'', 6379)\<rparr>)"
  by (simp_all add: promotedReconciler_def)

abbreviation plainSentinel :: RedisSentinel where
  "plainSentinel \<equiv> zeroRedisSentinel ''s'' ''ns''"

lemma promoted_patches: "patchesSucceed (rec_Kube promotedReconciler) tr es"
  by (simp add: patchesSucceed_def promotedReconciler_def sampleKube_def)

theorem role_labels_single_master_witness:
  "\<exists>t rs' es. reconcileRoleLabels promotedReconciler plainSentinel [] = (rs', t @ es) \<and> s_MasterNode (s_Status rs') = ''s-1'' \<and>
    length (patches es) = 2 \<and> length (filter (\<lambda>p. roleOf p = ''master'') (patched (rec_Kube promotedReconciler) t es stalePods)) \<le> 1"
proof -
  have "\<exists>t. findMasterPod promotedReconciler plainSentinel [] = (''s-1'', t)"
    by (simp add: findMasterPod_def listPods_def trace_simps podWithIP_def stalePods_def)
  then obtain t where t: "findMasterPod promotedReconciler plainSentinel [] = (''s-1'', t)" ..
  have two: "length (filter (\<lambda>p. roleOf p \<noteq> (if po_Name p = ''s-1'' then ''master'' else ''replica'')) stalePods) = 2"
    by (simp add: stalePods_def mget_def label_key_defs RoleMaster_def RoleReplica_def)
  have "k_ListPods (rec_Kube promotedReconciler) t (om_Namespace (s_Meta plainSentinel)) (redisPodLabels plainSentinel) = Inr stalePods"
    and "distinct (map po_Name stalePods)" by (simp_all add: stalePods_def)
  from role_labels_single_master [OF t this] show ?thesis unfolding two using promoted_patches by blast
qed

theorem role_services_follow_sentinel_witness:
  "\<exists>t rs' es. reconcileRoleLabels promotedReconciler plainSentinel [] = (rs', t @ es) \<and>
    map po_Name (filter (\<lambda>q. selects (sv_Selector (svc_Spec (BuildSentinelMasterService plainSentinel))) (po_Labels q))
      (patched (rec_Kube promotedReconciler) t es stalePods)) = [po_Name (stalePods ! 1)] \<and>
    map po_Name (filter (\<lambda>q. selects (sv_Selector (svc_Spec (BuildSentinelReplicaService plainSentinel))) (po_Labels q))
      (patched (rec_Kube promotedReconciler) t es stalePods)) = filter (\<lambda>n. n \<noteq> po_Name (stalePods ! 1)) (map po_Name stalePods)"
proof -
  let ?k = "rec_Kube promotedReconciler"
  have "\<exists>t rs' es. reconcileRoleLabels promotedReconciler plainSentinel [] = (rs', t @ es) \<and> (patchesSucceed ?k t es \<longrightarrow>
    map po_Name (filter (\<lambda>q. selects (sv_Selector (svc_Spec (BuildSentinelMasterService plainSentinel))) (po_Labels q))
      (patched ?k t es stalePods)) = [po_Name (stalePods ! 1)] \<and>
    map po_Name (filter (\<lambda>q. selects (sv_Selector (svc_Spec (BuildSentinelReplicaService plainSentinel))) (po_Labels q))
      (patched ?k t es stalePods)) = filter (\<lambda>n. n \<noteq> po_Name (stalePods ! 1)) (map po_Name stalePods))"
    by (rule role_services_follow_sentinel [where host = "''10.0.0.2''" and port = 6379])
      (auto simp: stalePods_def zero_defs)
  then show ?thesis by (simp only: promoted_patches simp_thms)
qed

end
