(* ===== verification/Operator_Main.thy ===== *)
theory Operator_Main
  imports Role_Labels
begin

text \<open>
  The wiring of \<open>cmd/main.go\<close>: which reconciler is given which client, and which webhooks are registered.
  The flags, the order of the steps of \<open>main\<close> and its exits are in theory \<open>Operator_Setup\<close>.
\<close>

record Operator =
  op_Redis :: Reconciler
  op_Sentinel :: Reconciler
  op_Cluster :: Reconciler
  op_Webhooks :: "string list"

text \<open>
  \<open>k\<close> is the manager's client with its scheme and recorder, \<open>rc\<close> the Redis client; the cluster manager is
  built on the same client. Only the cluster reconciler is given the two.
\<close>

definition registerControllers :: "Kube \<Rightarrow> Ctx \<Rightarrow> RedisClient \<Rightarrow> bool \<Rightarrow> Operator" where
  "registerControllers k cx rc enableWebhooks =
     \<lparr>op_Redis = \<lparr>rec_Kube = k, rec_Ctx = cx, rec_RedisClient = None, rec_ClusterManager = None\<rparr>,
      op_Sentinel = \<lparr>rec_Kube = k, rec_Ctx = cx, rec_RedisClient = None, rec_ClusterManager = None\<rparr>,
      op_Cluster = \<lparr>rec_Kube = k, rec_Ctx = cx, rec_RedisClient = Some rc, rec_ClusterManager = Some rc\<rparr>,
      op_Webhooks = (if enableWebhooks then [KindRedis, KindSentinel, KindCluster] else [])\<rparr>"

lemma registerControllers_simps [simp]:
  "rec_Kube (op_Sentinel (registerControllers k cx rc w)) = k"
  "rec_RedisClient (op_Redis (registerControllers k cx rc w)) = None"
  "rec_RedisClient (op_Sentinel (registerControllers k cx rc w)) = None"
  by (simp_all add: registerControllers_def)

lemma shipped_no_reload: "redis_tryHotReload (op_Redis (registerControllers k cx rc w)) obj tr = tr"
  by (simp add: redis_tryHotReload_def Let_def)

lemma shipped_master_default:
  "findMasterPod (op_Sentinel (registerControllers k cx rc w)) rs tr = (om_Name (s_Meta rs) @ ''-0'', tr)"
  by (simp add: findMasterPod_def Let_def)

text \<open>
  The operator as \<open>main\<close> wires it does not follow a Sentinel failover: whatever master Sentinel has
  elected, every run labels pod 0 as the master, so, where its patches succeed, the master service selects pod 0
  and the replica service all the others. It never pushes a parameter to a running standalone Redis either.
\<close>

theorem shipped_operator_labels_pod_zero:
  fixes k :: Kube and cx :: Ctx and rc :: RedisClient and w :: bool
  defines "op \<equiv> registerControllers k cx rc w"
  assumes "k_ListPods k tr (om_Namespace (s_Meta rs)) (redisPodLabels rs) = Inr pods"
    and "p \<in> set pods" and "po_Name p = om_Name (s_Meta rs) @ ''-0''" and "distinct (map po_Name pods)"
    and "\<And>q. q \<in> set pods \<Longrightarrow> map_of (po_Labels q) labelInstance = Some (om_Name (s_Meta rs))"
  shows "(\<exists>rs' es. reconcileRoleLabels (op_Sentinel op) rs tr = (rs', tr @ es) \<and> (patchesSucceed k tr es \<longrightarrow>
    map po_Name (filter (\<lambda>q. selects (sv_Selector (svc_Spec (BuildSentinelMasterService rs))) (po_Labels q))
      (patched k tr es pods)) = [po_Name p] \<and>
    map po_Name (filter (\<lambda>q. selects (sv_Selector (svc_Spec (BuildSentinelReplicaService rs))) (po_Labels q))
      (patched k tr es pods)) = filter (\<lambda>n. n \<noteq> po_Name p) (map po_Name pods))) \<and>
    redis_tryHotReload (op_Redis op) obj tr = tr"
  unfolding op_def shipped_no_reload
  using role_services_after [of "op_Sentinel (registerControllers k cx rc w)" rs tr p tr pods]
  by (simp add: assms(2-6) shipped_master_default)

theorem shipped_operator_labels_pod_zero_witness:
  "\<exists>rs' es. reconcileRoleLabels (op_Sentinel (registerControllers (rec_Kube promotedReconciler) sampleCtx quietClient False))
      plainSentinel [] = (rs', [] @ es) \<and>
    map po_Name (filter (\<lambda>q. selects (sv_Selector (svc_Spec (BuildSentinelMasterService plainSentinel))) (po_Labels q))
      (patched (rec_Kube promotedReconciler) [] es stalePods)) = [po_Name (stalePods ! 0)]"
proof -
  let ?k = "rec_Kube promotedReconciler" and ?op = "registerControllers (rec_Kube promotedReconciler) sampleCtx quietClient False"
  have "(\<exists>rs' es. reconcileRoleLabels (op_Sentinel ?op) plainSentinel [] = (rs', [] @ es) \<and> (patchesSucceed ?k [] es \<longrightarrow>
    map po_Name (filter (\<lambda>q. selects (sv_Selector (svc_Spec (BuildSentinelMasterService plainSentinel))) (po_Labels q))
      (patched ?k [] es stalePods)) = [po_Name (stalePods ! 0)] \<and>
    map po_Name (filter (\<lambda>q. selects (sv_Selector (svc_Spec (BuildSentinelReplicaService plainSentinel))) (po_Labels q))
      (patched ?k [] es stalePods)) = filter (\<lambda>n. n \<noteq> po_Name (stalePods ! 0)) (map po_Name stalePods))) \<and>
    redis_tryHotReload (op_Redis ?op) (zeroRedis ''r'' ''ns'') [] = []"
    by (rule shipped_operator_labels_pod_zero) (auto simp: stalePods_def zero_defs)
  then show ?thesis by (simp only: promoted_patches simp_thms) (elim conjE exE, intro exI conjI, assumption+)
qed

end
