(* ===== verification/Convergence.thy ===== *)
theory Convergence
  imports Controllers_Correct
begin

text \<open>
  Reconciliation is level-triggered: a run brings the objects to their desired state, and on objects that
  are there already it changes nothing. Of the API server it is assumed only that it keeps the parts of an
  object the operator manages, but for filling in defaults (\<open>keepsManaged\<close>); every other field it may change as it
  likes. All this is about the fields modelled. Where the server fills in a default, the operator writes the field
  without it and the library sends the update; it has no effect.
\<close>

section \<open>What the server keeps\<close>

text \<open>
  Two objects agree on the metadata the operator manages: key, labels, owner references, the annotations of a service.
\<close>

definition sameManagedMeta :: "kobj \<Rightarrow> kobj \<Rightarrow> bool" where
  "sameManagedMeta x y \<longleftrightarrow> keyId x = keyId y \<and> om_Labels (kMeta x) = om_Labels (kMeta y) \<and>
     om_OwnerReferences (kMeta x) = om_OwnerReferences (kMeta y) \<and>
     (kindOf x = ''Service'' \<longrightarrow> om_Annotations (kMeta x) = om_Annotations (kMeta y))"

definition noWrite :: "event list \<Rightarrow> kobj \<Rightarrow> bool" where
  "noWrite es key \<longleftrightarrow> (\<forall>x. Kube (Apply x) \<in> set es \<longrightarrow> keyId x \<noteq> keyId key)"

text \<open>
  While the operator does not write an object, nobody else changes what it manages of it: a read returns what was
  managed when it was last written, successfully, and what was managed when it was last read. Of the managed part of
  what is written the server may make what \<open>dflt\<close> makes of it: the probes of the Sentinel pods, for one, have
  no failure threshold, and get one. What exists has a creation time.
\<close>

definition keepsManaged :: "(kobj \<Rightarrow> kobj) \<Rightarrow> Kube \<Rightarrow> bool" where
  "keepsManaged dflt k \<longleftrightarrow> (\<forall>tr es key ex. noWrite es key \<longrightarrow> fetchObj k (tr @ es) key = Inr ex \<longrightarrow>
     (\<forall>tr0 x. tr = tr0 @ [Kube (Apply x)] \<longrightarrow> keyId x = keyId key \<longrightarrow> k_Apply k tr0 x = None \<longrightarrow>
        \<not> isNew (kMeta ex) \<and> sameManagedMeta ex x \<and> (\<forall>full. managedPart full ex = dflt (managedPart full x))) \<and>
     (\<forall>ex0. fetchObj k tr key = Inr ex0 \<longrightarrow> \<not> isNew (kMeta ex0) \<longrightarrow>
        \<not> isNew (kMeta ex) \<and> sameManagedMeta ex ex0 \<and> (\<forall>full. managedPart full ex = managedPart full ex0)))"

text \<open>
  A target is settled: as long as nothing is written under its key, it is read as it is wanted, up to defaults.
\<close>

definition settled :: "(kobj \<Rightarrow> kobj) \<Rightarrow> Kube \<Rightarrow> ObjectMeta \<Rightarrow> target \<Rightarrow> trace \<Rightarrow> bool" where
  "settled dflt k ow t tr \<longleftrightarrow> (\<forall>es ex. noWrite es (snd t) \<longrightarrow> fetchObj k (tr @ es) (keyObj (snd t)) = Inr ex \<longrightarrow>
     \<not> isNew (kMeta ex) \<and> (\<exists>ex0 x. wanted k ow t ex0 x \<and> sameManagedMeta ex x \<and>
       managedPart (fst t) ex \<in> {managedPart (fst t) x, dflt (managedPart (fst t) x)}))"

text \<open>
  Writing \<open>x\<close> where \<open>ex\<close> is changes nothing: all metadata and the fixed part are those of \<open>ex\<close>, and so is the managed part,
  once defaults have been filled in.
\<close>

definition leaves :: "(kobj \<Rightarrow> kobj) \<Rightarrow> kobj \<Rightarrow> kobj \<Rightarrow> bool" where
  "leaves dflt x ex \<longleftrightarrow> kMeta x = kMeta ex \<and> (\<exists>full. fixedPart full x = fixedPart full ex \<and>
     managedPart full ex \<in> {managedPart full x, dflt (managedPart full x)})"

lemma leaves_id: "leaves id x ex \<longleftrightarrow> x = ex"
proof
  assume "leaves id x ex"
  then obtain full where "kMeta x = kMeta ex" "fixedPart full x = fixedPart full ex" "managedPart full x = managedPart full ex"
    by (auto simp: leaves_def)
  then show "x = ex" by (metis parts_determine)
qed (simp add: leaves_def)

lemma noWrite_simps [simp]:
  "noWrite [] key" "noWrite (xs @ ys) key \<longleftrightarrow> noWrite xs key \<and> noWrite ys key"
  "noWrite (Kube (Fetch y) # es) key \<longleftrightarrow> noWrite es key"
  "noWrite (Kube (Apply x) # es) key \<longleftrightarrow> keyId x \<noteq> keyId key \<and> noWrite es key"
  "noWrite es (keyObj d) \<longleftrightarrow> noWrite es d"
  by (auto simp: noWrite_def)

lemma brings_settles:
  assumes "keepsManaged dflt k" and "brings k ow t tr tr1"
  shows "settled dflt k ow t tr1"
proof -
  let ?key = "keyObj (snd t)"
  from assms(2) obtain ex x where f: "fetchObj k tr ?key = Inr ex" and w: "wanted k ow t ex x"
    and id: "keyId x = keyId ?key"
    and out: "tr1 = tr @ [Kube (Fetch ?key)] \<and> x = ex \<and> \<not> isNew (kMeta ex) \<or>
      tr1 = tr @ [Kube (Fetch ?key), Kube (Apply x)] \<and> k_Apply k (tr @ [Kube (Fetch ?key)]) x = None"
    unfolding brings_def by auto
  have "\<not> isNew (kMeta e) \<and> sameManagedMeta e x \<and>
      (managedPart (fst t) e = managedPart (fst t) x \<or> managedPart (fst t) e = dflt (managedPart (fst t) x))"
    if es: "noWrite es (snd t)" and e: "fetchObj k (tr1 @ es) ?key = Inr e" for es e
    using out
  proof
    assume left: "tr1 = tr @ [Kube (Fetch ?key)] \<and> x = ex \<and> \<not> isNew (kMeta ex)"
    have "noWrite (Kube (Fetch ?key) # es) ?key" using es by simp
    moreover have "fetchObj k (tr @ Kube (Fetch ?key) # es) ?key = Inr e" using e left by simp
    ultimately show ?thesis using assms(1) f left unfolding keepsManaged_def by blast
  next
    assume "tr1 = tr @ [Kube (Fetch ?key), Kube (Apply x)] \<and> k_Apply k (tr @ [Kube (Fetch ?key)]) x = None"
    then have "tr1 = (tr @ [Kube (Fetch ?key)]) @ [Kube (Apply x)]" "k_Apply k (tr @ [Kube (Fetch ?key)]) x = None" by simp_all
    moreover have "noWrite es ?key" using es by simp
    ultimately show ?thesis using assms(1) e id unfolding keepsManaged_def by blast
  qed
  then show ?thesis using w unfolding settled_def insert_iff by blast
qed

lemma settled_stays: "settled dflt k ow t tr \<Longrightarrow> noWrite es (snd t) \<Longrightarrow> settled dflt k ow t (tr @ es)"
  by (simp add: settled_def) (metis append_assoc noWrite_simps(2))

lemma settled_wanted:
  assumes own: "ownsOnly k" and s: "settled dflt k ow t tr" and f: "fetchObj k tr (keyObj (snd t)) = Inr ex" and w: "wanted k ow t ex x"
  shows "leaves dflt x ex"
proof -
  obtain full d where t: "t = (full, d)" by fastforce
  have "fetchObj k (tr @ []) (keyObj (snd t)) = Inr ex" using f by simp
  then obtain ex0 x0 where old: "\<not> isNew (kMeta ex)" and w0: "wanted k ow t ex0 x0" and same: "sameManagedMeta ex x0"
    and part: "managedPart full ex \<in> {managedPart full x0, dflt (managedPart full x0)}"
    using s noWrite_simps(1) unfolding settled_def t fst_conv by blast
  note same = same [unfolded sameManagedMeta_def]
  have r0: "k_SetControllerReference k ow (managedMeta full d (kMeta ex0)) = Inr (kMeta x0)"
    and p0: "managedPart full x0 = managedPart full d" using w0 by (simp_all add: wanted_def t)
  have r: "k_SetControllerReference k ow (managedMeta full d (kMeta ex)) = Inr (kMeta x)"
    and p: "managedPart full x = managedPart full d" and q: "fixedPart full x = fixedPart full ex"
    using w old by (simp_all add: wanted_def t)
  note m0 = ownsOnly_meta [OF own r0]
  have kind: "kindOf d = kindOf ex" using managedPart_kind [OF p0] same by (simp add: keyId_def)
  have "om_Annotations (kMeta ex) = om_Annotations (kMeta d)" if "full" "kindOf d = ''Service''"
    using that same kind m0(4) by (simp add: managedMeta_def)
  then have m: "managedMeta full d (kMeta ex) = kMeta ex" using same m0(1) by (auto simp: managedMeta_def)
  have "om_Namespace (kMeta ex) = om_Namespace (managedMeta full d (kMeta ex0))"
    and "om_OwnerReferences (kMeta ex) = om_OwnerReferences (kMeta x0)" using same m0(3) by (simp_all add: keyId_def)
  then have "k_SetControllerReference k ow (kMeta ex) = Inr (kMeta ex)" using own r0 unfolding ownsOnly_def by blast
  then have "kMeta x = kMeta ex" using r m by simp
  moreover have "managedPart full x = managedPart full x0" using p p0 by simp
  ultimately show ?thesis using part q unfolding leaves_def by auto
qed

section \<open>A second run\<close>

text \<open>
  In \<open>unchanged\<close> events every object written, service monitors aside, leaves what the read right before has returned.
\<close>

definition unchanged :: "(kobj \<Rightarrow> kobj) \<Rightarrow> Kube \<Rightarrow> trace \<Rightarrow> event list \<Rightarrow> bool" where
  "unchanged dflt k tr es \<longleftrightarrow> (\<forall>us x vs. es = us @ Kube (Apply x) # vs \<longrightarrow> kindOf x \<noteq> ''ServiceMonitor'' \<longrightarrow>
     (\<exists>us' key ex. us = us' @ [Kube (Fetch key)] \<and> fetchObj k (tr @ us') key = Inr ex \<and> leaves dflt x ex))"

lemma applied_none: "applied es = [] \<Longrightarrow> Kube (Apply x) \<notin> set es"
  by (induction es) (auto simp: applied_def List.map_filter_def split: event.splits kube_op.splits)

lemma unchanged_quiet: "(\<And>x. Kube (Apply x) \<in> set es \<Longrightarrow> kindOf x = ''ServiceMonitor'') \<Longrightarrow> unchanged dflt k tr es"
  by (auto simp: unchanged_def)

lemma unchanged_append:
  assumes "unchanged dflt k tr es" and "unchanged dflt k (tr @ es) fs"
  shows "unchanged dflt k tr (es @ fs)"
  unfolding unchanged_def
proof (intro allI impI)
  fix us x vs
  assume eq: "es @ fs = us @ Kube (Apply x) # vs" and x: "kindOf x \<noteq> ''ServiceMonitor''"
  from eq consider (left) ws where "es = us @ Kube (Apply x) # ws" | (right) ws where "us = es @ ws" "fs = ws @ Kube (Apply x) # vs"
    by (auto simp: append_eq_append_conv2 append_eq_Cons_conv)
  then show "\<exists>us' key ex. us = us' @ [Kube (Fetch key)] \<and> fetchObj k (tr @ us') key = Inr ex \<and> leaves dflt x ex"
  proof cases
    case left
    then show ?thesis using assms(1) x unfolding unchanged_def by blast
  next
    case right
    then obtain ws' key ex where "ws = ws' @ [Kube (Fetch key)]" "fetchObj k ((tr @ es) @ ws') key = Inr ex" "leaves dflt x ex"
      using assms(2) x unfolding unchanged_def by blast
    then show ?thesis using right(1) by (intro exI [of _ "es @ ws'"] exI [of _ key] exI [of _ ex]) simp
  qed
qed

lemma unchanged_one:
  assumes "fetchObj k tr key = Inr ex" and "leaves dflt x ex"
  shows "unchanged dflt k tr [Kube (Fetch key), Kube (Apply x)]"
  using assms by (auto simp: unchanged_def Cons_eq_append_conv)

lemma brings_events:
  assumes "brings k ow t tr tr1"
  obtains es where "tr1 = tr @ es" and "\<And>d. keyId d \<noteq> keyId (snd t) \<Longrightarrow> noWrite es d"
proof -
  from assms obtain x where "keyId x = keyId (snd t)"
    and "tr1 = tr @ [Kube (Fetch (keyObj (snd t)))] \<or> tr1 = tr @ [Kube (Fetch (keyObj (snd t))), Kube (Apply x)]"
    unfolding brings_def by blast
  then show thesis using that by fastforce
qed

lemma brought_settles:
  assumes "keepsManaged dflt k" and "distinct (map (keyId \<circ> snd) ts)" and "brought k ow ts tr tr'"
  shows "\<exists>es. tr' = tr @ es \<and> (\<forall>d. keyId d \<notin> (keyId \<circ> snd) ` set ts \<longrightarrow> noWrite es d) \<and> (\<forall>t \<in> set ts. settled dflt k ow t tr')"
  using assms(2,3)
proof (induction ts arbitrary: tr)
  case (Cons t ts)
  then obtain tr1 where b: "brings k ow t tr tr1" and rest: "brought k ow ts tr1 tr'" by auto
  obtain es where es: "tr1 = tr @ es" "\<And>d. keyId d \<noteq> keyId (snd t) \<Longrightarrow> noWrite es d" using b by (rule brings_events) blast
  from Cons.IH [OF _ rest] Cons.prems(1) obtain fs where fs: "tr' = tr1 @ fs"
    "\<forall>d. keyId d \<notin> (keyId \<circ> snd) ` set ts \<longrightarrow> noWrite fs d" "\<forall>t \<in> set ts. settled dflt k ow t tr'" by auto
  have "noWrite fs (snd t)" using fs(2) Cons.prems(1) by simp
  then have "settled dflt k ow t tr'" unfolding fs(1) by (rule settled_stays [OF brings_settles [OF assms(1) b]])
  then show ?case using es fs by (intro exI [of _ "es @ fs"]) auto
qed (simp add: noWrite_def)

lemma brings_settled:
  assumes "ownsOnly k" and "settled dflt k ow t tr" and "brings k ow t tr tr1"
  shows "\<exists>es. tr1 = tr @ es \<and> unchanged dflt k tr es"
proof -
  let ?key = "keyObj (snd t)"
  from assms(3) obtain ex x where f: "fetchObj k tr ?key = Inr ex" and w: "wanted k ow t ex x"
    and out: "tr1 = tr @ [Kube (Fetch ?key)] \<or> tr1 = tr @ [Kube (Fetch ?key), Kube (Apply x)]"
    unfolding brings_def by blast
  have "leaves dflt x ex" using assms(1,2) f w by (rule settled_wanted)
  with f have "unchanged dflt k tr [Kube (Fetch ?key), Kube (Apply x)]" by (rule unchanged_one)
  moreover have "unchanged dflt k tr [Kube (Fetch ?key)]" by (rule unchanged_quiet) simp
  ultimately show ?thesis using out by blast
qed

lemma settled_brought:
  assumes "ownsOnly k" and "distinct (map (keyId \<circ> snd) ts)" and "\<forall>t \<in> set ts. settled dflt k ow t tr" and "brought k ow ts tr tr'"
  shows "\<exists>es. tr' = tr @ es \<and> unchanged dflt k tr es"
  using assms(2-4)
proof (induction ts arbitrary: tr)
  case Nil
  then show ?case by (intro exI [of _ "[]"]) (simp add: unchanged_def)
next
  case (Cons t ts)
  then obtain tr1 where b: "brings k ow t tr tr1" and rest: "brought k ow ts tr1 tr'" by auto
  obtain es where es: "tr1 = tr @ es" "\<And>d. keyId d \<noteq> keyId (snd t) \<Longrightarrow> noWrite es d" using b by (rule brings_events) blast
  have u: "unchanged dflt k tr es" using brings_settled [OF assms(1) _ b] Cons.prems(2) es(1) by auto
  have "settled dflt k ow t' tr1" if "t' \<in> set ts" for t'
  proof -
    have "keyId (snd t') \<noteq> keyId (snd t)" using that Cons.prems(1) by (auto simp: image_iff)
    then show ?thesis unfolding es(1) using that Cons.prems(2) by (intro settled_stays es(2)) simp_all
  qed
  then obtain fs where fs: "tr' = tr1 @ fs" "unchanged dflt k tr1 fs" using Cons.IH [OF _ _ rest] Cons.prems(1) by auto
  have "unchanged dflt k tr (es @ fs)" using u fs(2) es(1) by (intro unchanged_append) simp_all
  then show ?case using es(1) fs(1) by auto
qed

text \<open>What follows the fatal steps of a run writes service monitors only.\<close>

lemma tried_events:
  assumes "tried k ow (True, KServiceMonitor sm) tr tr'"
  shows "\<exists>es. tr' = tr @ es \<and> (\<forall>x. Kube (Apply x) \<in> set es \<longrightarrow> kindOf x = ''ServiceMonitor'')"
proof -
  have "kindOf x = ''ServiceMonitor''" if "wanted k ow (True, KServiceMonitor sm) ex x" for ex x
    using that managedPart_kind [of True x "KServiceMonitor sm"] by (simp add: wanted_def)
  then show ?thesis using assms by (fastforce simp: tried_def split: sum.splits)
qed

lemma writes_events:
  assumes "writes k ow ts on sm tr tr'"
  obtains t1 es where "brought k ow ts tr t1" and "tr' = t1 @ es"
    and "\<And>x. Kube (Apply x) \<in> set es \<Longrightarrow> kindOf x = ''ServiceMonitor''"
proof -
  from assms obtain t1 t2 es where 1: "brought k ow ts tr t1"
    and 2: "if on = Some True then tried k ow (True, KServiceMonitor sm) t1 t2 else t2 = t1"
    and 3: "tr' = t2 @ es" "applied es = []" unfolding writes_def by blast
  have "\<exists>us. t2 = t1 @ us \<and> (\<forall>x. Kube (Apply x) \<in> set us \<longrightarrow> kindOf x = ''ServiceMonitor'')"
    using 2 tried_events by (auto split: if_splits)
  moreover have "Kube (Apply x) \<notin> set es" for x using 3(2) by (rule applied_none)
  ultimately show thesis using that 1 3(1) by fastforce
qed

lemma writes_twice:
  assumes k: "keepsManaged dflt k" "ownsOnly k" and ts: "distinct (map (keyId \<circ> snd) ts)"
    and nm: "\<forall>t \<in> set ts. kindOf (snd t) \<noteq> ''ServiceMonitor''"
    and run1: "writes k ow ts on sm tr tr1" and between: "applied es0 = []"
    and run2: "writes k ow ts on sm (tr1 @ es0) tr2"
  shows "\<exists>es. tr2 = (tr1 @ es0) @ es \<and> unchanged dflt k (tr1 @ es0) es"
proof -
  obtain t1 us where 1: "brought k ow ts tr t1" "tr1 = t1 @ us"
    "\<And>x. Kube (Apply x) \<in> set us \<Longrightarrow> kindOf x = ''ServiceMonitor''" using run1 by (rule writes_events) blast
  have "settled dflt k ow t (t1 @ (us @ es0))" if "t \<in> set ts" for t
  proof (rule settled_stays)
    show "settled dflt k ow t t1" using brought_settles [OF k(1) ts 1(1)] that by blast
    show "noWrite (us @ es0) (snd t)"
      using 1(3) applied_none [OF between] nm that by (fastforce simp: noWrite_def keyId_def)
  qed
  then have s: "\<forall>t \<in> set ts. settled dflt k ow t (tr1 @ es0)" by (simp add: 1(2))
  obtain t2 vs where 2: "brought k ow ts (tr1 @ es0) t2" "tr2 = t2 @ vs"
    "\<And>x. Kube (Apply x) \<in> set vs \<Longrightarrow> kindOf x = ''ServiceMonitor''" using run2 by (rule writes_events) blast
  obtain ws where ws: "t2 = (tr1 @ es0) @ ws" "unchanged dflt k (tr1 @ es0) ws"
    using settled_brought [OF k(2) ts s 2(1)] by blast
  have "unchanged dflt k ((tr1 @ es0) @ ws) vs" using 2(3) by (rule unchanged_quiet)
  from unchanged_append [OF ws(2) this] show ?thesis using ws(1) 2(2) by auto
qed

section \<open>The three reconcilers\<close>

text \<open>The objects of one resource have different keys, none of them that of a service monitor.\<close>

lemma hash_meta [simp]: "sts_Meta (hashStatefulSet h st) = sts_Meta st" "dep_Meta (hashDeployment h dp) = dep_Meta dp"
  by (simp_all add: hashStatefulSet_def hashDeployment_def)

lemma workload_meta:
  "sts_Meta (BuildRedisStatefulSet pq obj) = newMeta (om_Name (r_Meta obj)) (om_Namespace (r_Meta obj))
     (CommonLabels (om_Name (r_Meta obj)) ComponentRedis)"
  "sts_Meta (BuildSentinelRedisStatefulSet pq rs) = newMeta (om_Name (s_Meta rs)) (om_Namespace (s_Meta rs))
     (CommonLabels (om_Name (s_Meta rs)) ComponentRedis)"
  "sts_Meta (BuildClusterMasterStatefulSet pq rc) = newMeta (ClusterMasterStatefulSetName (om_Name (c_Meta rc)))
     (om_Namespace (c_Meta rc)) (CommonLabels (om_Name (c_Meta rc)) ComponentMaster)"
  "sts_Meta (BuildClusterReplicaStatefulSet pq rc) = newMeta (ClusterReplicaStatefulSetName (om_Name (c_Meta rc)))
     (om_Namespace (c_Meta rc)) (CommonLabels (om_Name (c_Meta rc)) ComponentReplica)"
  "dep_Meta (BuildRedisDeployment pq obj) = newMeta (om_Name (r_Meta obj)) (om_Namespace (r_Meta obj))
     (CommonLabels (om_Name (r_Meta obj)) ComponentRedis)"
  "dep_Meta (BuildSentinelDeployment rs) = newMeta (om_Name (s_Meta rs) @ ''-sentinel'') (om_Namespace (s_Meta rs))
     (CommonLabels (om_Name (s_Meta rs)) ComponentSentinel)"
  by (simp_all add: BuildRedisStatefulSet_def BuildSentinelRedisStatefulSet_def BuildClusterMasterStatefulSet_def
      BuildClusterReplicaStatefulSet_def BuildRedisDeployment_def BuildSentinelDeployment_def Let_def
      mkStatefulSet_def mkDeployment_def)

lemma config_map_meta:
  "cm_Meta (BuildRedisConfigMap obj) = newMeta (ConfigMapNameForRedis (om_Name (r_Meta obj))) (om_Namespace (r_Meta obj))
     (CommonLabels (om_Name (r_Meta obj)) ComponentRedis)"
  "cm_Meta (BuildSentinelRedisConfigMap rs) = newMeta (ConfigMapNameForRedis (om_Name (s_Meta rs))) (om_Namespace (s_Meta rs))
     (CommonLabels (om_Name (s_Meta rs)) ComponentRedis)"
  "cm_Meta (BuildSentinelConfigMap rs m) = newMeta (ConfigMapNameForSentinel (om_Name (s_Meta rs)))
     (om_Namespace (s_Meta rs)) (CommonLabels (om_Name (s_Meta rs)) ComponentSentinel)"
  "cm_Meta (BuildClusterConfigMap rc) = newMeta (ConfigMapNameForRedis (om_Name (c_Meta rc))) (om_Namespace (c_Meta rc))
     (CommonLabels (om_Name (c_Meta rc)) ComponentRedis)"
  by (simp_all add: BuildRedisConfigMap_def BuildSentinelRedisConfigMap_def BuildSentinelConfigMap_def
      BuildClusterConfigMap_def Let_def mkConfigMap_def)

lemmas key_defs = workload_meta config_map_meta service_defs keyId_def newMeta_def HeadlessServiceName_def component_defs
  BuildClusterMasterPDB_def BuildClusterReplicaPDB_def BuildSentinelRedisPDB_def BuildSentinelPDB_def mkPDB_def
  ClusterMasterStatefulSetName_def ClusterReplicaStatefulSetName_def ConfigMapNameForRedis_def ConfigMapNameForSentinel_def

lemma keys_distinct:
  "distinct (map (keyId \<circ> snd) (clusterObjects k rc))" "distinct (map (keyId \<circ> snd) (redisObjects k obj))"
  "distinct (map (keyId \<circ> snd) (sentinelObjects k rs))"
  by (simp_all add: clusterObjects_def redisObjects_def sentinelObjects_def Let_def key_defs)

lemma no_monitor:
  "\<forall>t \<in> set (clusterObjects k rc). kindOf (snd t) \<noteq> ''ServiceMonitor''"
  "\<forall>t \<in> set (redisObjects k obj). kindOf (snd t) \<noteq> ''ServiceMonitor''"
  "\<forall>t \<in> set (sentinelObjects k rs). kindOf (snd t) \<noteq> ''ServiceMonitor''"
  by (auto simp: clusterObjects_def redisObjects_def sentinelObjects_def Let_def split: if_splits)

text \<open>The desired objects do not depend on the status of the resource.\<close>

lemma builders_status [simp]:
  "BuildClusterConfigMap (rc\<lparr>c_Status := st\<rparr>) = BuildClusterConfigMap rc"
  "BuildClusterMasterStatefulSet pq (rc\<lparr>c_Status := st\<rparr>) = BuildClusterMasterStatefulSet pq rc"
  "BuildClusterReplicaStatefulSet pq (rc\<lparr>c_Status := st\<rparr>) = BuildClusterReplicaStatefulSet pq rc"
  "BuildClusterMasterPDB (rc\<lparr>c_Status := st\<rparr>) = BuildClusterMasterPDB rc"
  "BuildClusterReplicaPDB (rc\<lparr>c_Status := st\<rparr>) = BuildClusterReplicaPDB rc"
  "BuildClusterServiceMonitor (rc\<lparr>c_Status := st\<rparr>) = BuildClusterServiceMonitor rc"
  "clusterServices (rc\<lparr>c_Status := st\<rparr>) = clusterServices rc"
  by (simp_all add: BuildClusterConfigMap_def BuildClusterMasterStatefulSet_def BuildClusterReplicaStatefulSet_def
      BuildClusterMasterPDB_def BuildClusterReplicaPDB_def clusterServices_def BuildClusterClientService_def
      BuildClusterServiceMonitor_def)

lemma cluster_status [simp]:
  "clusterObjects k (rc\<lparr>c_Status := st\<rparr>) = clusterObjects k rc"
  "cluster_steps r (rc\<lparr>c_Status := st\<rparr>) h = cluster_steps r rc h"
  by (simp_all add: clusterObjects_def cluster_steps_eq Let_def)

lemma redis_builders_status [simp]:
  "BuildRedisConfigMap (obj\<lparr>r_Status := rst\<rparr>) = BuildRedisConfigMap obj"
  "BuildRedisStatefulSet pq (obj\<lparr>r_Status := rst\<rparr>) = BuildRedisStatefulSet pq obj"
  "BuildRedisDeployment pq (obj\<lparr>r_Status := rst\<rparr>) = BuildRedisDeployment pq obj"
  "BuildRedisService (obj\<lparr>r_Status := rst\<rparr>) = BuildRedisService obj"
  "BuildRedisServiceMonitor (obj\<lparr>r_Status := rst\<rparr>) = BuildRedisServiceMonitor obj"
  by (simp_all add: BuildRedisConfigMap_def BuildRedisStatefulSet_def BuildRedisDeployment_def BuildRedisService_def
      BuildRedisServiceMonitor_def)

lemma redis_status [simp]:
  "redisObjects k (obj\<lparr>r_Status := rst\<rparr>) = redisObjects k obj"
  "redis_steps r (obj\<lparr>r_Status := rst\<rparr>) h = redis_steps r obj h"
  by (simp_all add: redisObjects_def redis_steps_eq Let_def)

lemma sentinel_builders_status [simp]:
  "BuildSentinelRedisConfigMap (rs\<lparr>s_Status := sst\<rparr>) = BuildSentinelRedisConfigMap rs"
  "BuildSentinelConfigMap (rs\<lparr>s_Status := sst\<rparr>) m = BuildSentinelConfigMap rs m"
  "BuildSentinelRedisStatefulSet pq (rs\<lparr>s_Status := sst\<rparr>) = BuildSentinelRedisStatefulSet pq rs"
  "BuildSentinelDeployment (rs\<lparr>s_Status := sst\<rparr>) = BuildSentinelDeployment rs"
  "BuildSentinelRedisPDB (rs\<lparr>s_Status := sst\<rparr>) = BuildSentinelRedisPDB rs"
  "BuildSentinelPDB (rs\<lparr>s_Status := sst\<rparr>) = BuildSentinelPDB rs"
  "BuildSentinelServiceMonitor (rs\<lparr>s_Status := sst\<rparr>) = BuildSentinelServiceMonitor rs"
  "sentinelServices (rs\<lparr>s_Status := sst\<rparr>) = sentinelServices rs"
  "masterFQDN (rs\<lparr>s_Status := sst\<rparr>) = masterFQDN rs"
  by (simp_all add: BuildSentinelRedisConfigMap_def BuildSentinelConfigMap_def BuildSentinelRedisStatefulSet_def
      BuildSentinelDeployment_def BuildSentinelRedisPDB_def BuildSentinelPDB_def BuildSentinelServiceMonitor_def
      sentinelServices_def BuildSentinelMasterService_def BuildSentinelReplicaService_def BuildSentinelService_def
      masterFQDN_def buildSentinelInitContainer_def)

lemma sentinel_status [simp]:
  "sentinelObjects k (rs\<lparr>s_Status := sst\<rparr>) = sentinelObjects k rs"
  "sentinel_steps r (rs\<lparr>s_Status := sst\<rparr>) h = sentinel_steps r rs h"
  by (simp_all add: sentinelObjects_def sentinel_steps_eq Let_def)

lemma cluster_second_run:
  assumes "keepsManaged dflt (rec_Kube r)" and "createsOrUpdates (rec_Kube r)" and "ownsOnly (rec_Kube r)"
    and "cluster_converge r rc tr = Some ((res1, None), tr1)" and "applied es0 = []"
    and "cluster_converge r (rc\<lparr>c_Status := st\<rparr>) (tr1 @ es0) = Some ((res2, None), tr2)"
  shows "\<exists>es. tr2 = (tr1 @ es0) @ es \<and> unchanged dflt (rec_Kube r) (tr1 @ es0) es"
proof -
  note w1 = cluster_writes [OF assms(2,3,4)]
  have w2: "writes (rec_Kube r) (c_Meta rc) (clusterObjects (rec_Kube r) rc) (c_EnableExporter (c_Spec rc))
      (BuildClusterServiceMonitor rc) (tr1 @ es0) tr2"
    using cluster_writes [OF assms(2,3,6)] by simp
  show ?thesis by (rule writes_twice [OF assms(1,3) keys_distinct(1) no_monitor(1) w1 assms(5) w2])
qed

lemma redis_second_run:
  assumes "keepsManaged dflt (rec_Kube r)" and "createsOrUpdates (rec_Kube r)" and "ownsOnly (rec_Kube r)"
    and "redis_converge r obj tr = ((res1, None), tr1)" and "applied es0 = []"
    and "redis_converge r (obj\<lparr>r_Status := st\<rparr>) (tr1 @ es0) = ((res2, None), tr2)"
  shows "\<exists>es. tr2 = (tr1 @ es0) @ es \<and> unchanged dflt (rec_Kube r) (tr1 @ es0) es"
proof -
  note w1 = redis_writes [OF assms(2,3,4)]
  have w2: "writes (rec_Kube r) (r_Meta obj) (redisObjects (rec_Kube r) obj) (r_EnableExporter (r_Spec obj))
      (BuildRedisServiceMonitor obj) (tr1 @ es0) tr2"
    using redis_writes [OF assms(2,3,6)] by simp
  show ?thesis by (rule writes_twice [OF assms(1,3) keys_distinct(2) no_monitor(2) w1 assms(5) w2])
qed

lemma sentinel_second_run:
  assumes "keepsManaged dflt (rec_Kube r)" and "createsOrUpdates (rec_Kube r)" and "ownsOnly (rec_Kube r)"
    and "sentinel_converge r rs tr = ((res1, None), tr1)" and "applied es0 = []"
    and "sentinel_converge r (rs\<lparr>s_Status := st\<rparr>) (tr1 @ es0) = ((res2, None), tr2)"
  shows "\<exists>es. tr2 = (tr1 @ es0) @ es \<and> unchanged dflt (rec_Kube r) (tr1 @ es0) es"
proof -
  note w1 = sentinel_writes [OF assms(2,3,4)]
  have w2: "writes (rec_Kube r) (s_Meta rs) (sentinelObjects (rec_Kube r) rs) (s_EnableExporter (s_Spec rs))
      (BuildSentinelServiceMonitor rs) (tr1 @ es0) tr2"
    using sentinel_writes [OF assms(2,3,6)] by simp
  show ?thesis by (rule writes_twice [OF assms(1,3) keys_distinct(3) no_monitor(3) w1 assms(5) w2])
qed

text \<open>The three kinds of resource, and the part of a run that writes objects.\<close>

datatype resource = ARedis Redis | ASentinel RedisSentinel | ACluster RedisCluster

fun converge :: "Reconciler \<Rightarrow> resource \<Rightarrow> trace \<Rightarrow> (outcome2 \<times> trace) option" where
  "converge r (ARedis obj) tr = Some (redis_converge r obj tr)"
| "converge r (ASentinel rs) tr = Some (sentinel_converge r rs tr)"
| "converge r (ACluster rc) tr = cluster_converge r rc tr"

fun sameButStatus :: "resource \<Rightarrow> resource \<Rightarrow> bool" where
  "sameButStatus (ARedis x) (ARedis y) \<longleftrightarrow> y = x\<lparr>r_Status := r_Status y\<rparr>"
| "sameButStatus (ASentinel x) (ASentinel y) \<longleftrightarrow> y = x\<lparr>s_Status := s_Status y\<rparr>"
| "sameButStatus (ACluster x) (ACluster y) \<longleftrightarrow> y = x\<lparr>c_Status := c_Status y\<rparr>"
| "sameButStatus _ _ \<longleftrightarrow> False"

text \<open>
  C14: A second run changes nothing. Let a run of a reconciler end without error, and so a later run on the same
  resource, of whatever kind, whose status may have changed, with no object written between them. If nobody else changes
  what the operator manages of an object, but for the API server's defaults (everything else, an object's cluster IP,
  annotations or claims, may be filled in and changed), and owner references are set the same way twice, then every
  object the second run writes, but for the service monitor, leaves what has been read right before as it is: all
  metadata and all fields the operator does not manage are in it as they were read, and the fields it manages are as
  read once the defaults are filled in. Config maps, workloads, services and budgets are stable under reconciliation.
\<close>

theorem second_run_changes_nothing:
  assumes "keepsManaged dflt (rec_Kube r)" and "createsOrUpdates (rec_Kube r)" and "ownsOnly (rec_Kube r)"
    and "converge r x tr = Some ((res1, None), tr1)" and "applied es0 = []" and "sameButStatus x y"
    and "converge r y (tr1 @ es0) = Some ((res2, None), tr2)"
  shows "\<exists>es. tr2 = (tr1 @ es0) @ es \<and> unchanged dflt (rec_Kube r) (tr1 @ es0) es"
proof (cases "(x, y)" rule: sameButStatus.cases)
  case (1 a b)
  then have b: "b = a\<lparr>r_Status := r_Status b\<rparr>" using assms(6) by simp
  show ?thesis by (rule redis_second_run [OF assms(1,2,3) _ assms(5), where obj = a and st = "r_Status b"])
    (use 1 assms(4,7) in \<open>simp_all flip: b\<close>)
next
  case (2 a b)
  then have b: "b = a\<lparr>s_Status := s_Status b\<rparr>" using assms(6) by simp
  show ?thesis by (rule sentinel_second_run [OF assms(1,2,3) _ assms(5), where rs = a and st = "s_Status b"])
    (use 2 assms(4,7) in \<open>simp_all flip: b\<close>)
next
  case (3 a b)
  then have b: "b = a\<lparr>c_Status := c_Status b\<rparr>" using assms(6) by simp
  show ?thesis by (rule cluster_second_run [OF assms(1,2,3) _ assms(5), where rc = a and st = "c_Status b"])
    (use 3 assms(4,7) in \<open>simp_all flip: b\<close>)
qed (use assms(6) in simp_all)

section \<open>A server that keeps what is written\<close>

text \<open>
  A server that returns what was last written under a key, stamps it with the time of its creation, allocates
  the IP of a service that has none, adds an annotation of its own to a Deployment, and gives a probe of a pod template
  without failure threshold the threshold 3.
\<close>

definition defaultedProbe :: "Probe \<Rightarrow> Probe" where
  "defaultedProbe p = (if pr_FailureThreshold p = 0 then p\<lparr>pr_FailureThreshold := 3\<rparr> else p)"

definition defaultedContainer :: "Container \<Rightarrow> Container" where
  "defaultedContainer c = c\<lparr>ct_LivenessProbe := map_option defaultedProbe (ct_LivenessProbe c),
     ct_ReadinessProbe := map_option defaultedProbe (ct_ReadinessProbe c)\<rparr>"

definition defaultedTemplate :: "PodTemplateSpec \<Rightarrow> PodTemplateSpec" where
  "defaultedTemplate t = t\<lparr>pt_Spec := (pt_Spec t)\<lparr>ps_Containers := map defaultedContainer (ps_Containers (pt_Spec t))\<rparr>\<rparr>"

fun defaulted :: "kobj \<Rightarrow> kobj" where
  "defaulted (KStatefulSet x) = KStatefulSet (x\<lparr>sts_Spec := (sts_Spec x)\<lparr>ss_Template := defaultedTemplate (ss_Template (sts_Spec x))\<rparr>\<rparr>)"
| "defaulted (KDeployment x) = KDeployment (x\<lparr>dep_Spec := (dep_Spec x)\<lparr>ds_Template := defaultedTemplate (ds_Template (dep_Spec x))\<rparr>\<rparr>)"
| "defaulted x = x"

fun lastWrite :: "event list \<Rightarrow> string \<times> string \<times> string \<Rightarrow> kobj option" where
  "lastWrite [] i = None"
| "lastWrite (e # es) i =
     (case e of Kube (Apply x) \<Rightarrow> if keyId x = i then Some x else lastWrite es i | _ \<Rightarrow> lastWrite es i)"

definition created :: "int \<Rightarrow> ObjectMeta \<Rightarrow> ObjectMeta" where
  "created t m = (if om_CreationTimestamp m = None then m\<lparr>om_CreationTimestamp := Some t\<rparr> else m)"

fun stamped :: "int \<Rightarrow> kobj \<Rightarrow> kobj" where
  "stamped t (KConfigMap x) = KConfigMap (x\<lparr>cm_Meta := created t (cm_Meta x)\<rparr>)"
| "stamped t (KStatefulSet x) = KStatefulSet (x\<lparr>sts_Meta := created t (sts_Meta x)\<rparr>)"
| "stamped t (KDeployment x) = KDeployment (x\<lparr>dep_Meta := (created t (dep_Meta x))\<lparr>om_Annotations :=
     [(''deployment.kubernetes.io/revision'', ''1'')]\<rparr>\<rparr>)"
| "stamped t (KService x) = KService (x\<lparr>svc_Meta := created t (svc_Meta x), svc_Spec := (svc_Spec x)\<lparr>sv_ClusterIP :=
     if sv_ClusterIP (svc_Spec x) = [] then ''10.0.0.7'' else sv_ClusterIP (svc_Spec x)\<rparr>\<rparr>)"
| "stamped t (KPDB x) = KPDB (x\<lparr>pdb_Meta := created t (pdb_Meta x)\<rparr>)"
| "stamped t (KServiceMonitor x) = KServiceMonitor (x\<lparr>sm_Meta := created t (sm_Meta x)\<rparr>)"

lemma keyId_stamped [simp]: "keyId (stamped t x) = keyId x"
  by (cases x) (simp_all add: keyId_def created_def)

definition stored :: "kobj \<Rightarrow> kobj" where
  "stored x = stamped 0 (defaulted x)"

lemma keyId_stored [simp]: "keyId (stored x) = keyId x"
  by (cases x) (simp_all add: stored_def keyId_def created_def)

lemma stored_managed:
  "sameManagedMeta (stored x) x" "\<not> isNew (kMeta (stored x))" "managedPart full (stored x) = defaulted (managedPart full x)"
  by (cases x; simp add: stored_def sameManagedMeta_def keyId_def created_def isNew_def)+

lemma lastWrite_other: "noWrite es key \<Longrightarrow> lastWrite (rev (tr @ es)) (keyId key) = lastWrite (rev tr) (keyId key)"
proof (induction es rule: rev_induct)
  case (snoc e es)
  then have "lastWrite (rev (tr @ es)) (keyId key) = lastWrite (rev tr) (keyId key)" by simp
  moreover have "lastWrite (e # rev es @ rev tr) (keyId key) = lastWrite (rev es @ rev tr) (keyId key)"
    using snoc.prems by (auto simp: noWrite_def split: event.split kube_op.split)
  ultimately show ?case by simp
qed simp

definition kept :: "trace \<Rightarrow> kobj \<Rightarrow> kobj" where
  "kept tr key = (case lastWrite (rev tr) (keyId key) of Some x \<Rightarrow> stored x | None \<Rightarrow> key)"

definition storeKube :: Kube where
  "storeKube = sampleKube
     \<lparr>k_FetchConfigMap := \<lambda>tr x. case kept tr (KConfigMap x) of KConfigMap y \<Rightarrow> Inr y | _ \<Rightarrow> Inr x,
      k_FetchStatefulSet := \<lambda>tr x. case kept tr (KStatefulSet x) of KStatefulSet y \<Rightarrow> Inr y | _ \<Rightarrow> Inr x,
      k_FetchDeployment := \<lambda>tr x. case kept tr (KDeployment x) of KDeployment y \<Rightarrow> Inr y | _ \<Rightarrow> Inr x,
      k_FetchService := \<lambda>tr x. case kept tr (KService x) of KService y \<Rightarrow> Inr y | _ \<Rightarrow> Inr x,
      k_FetchPDB := \<lambda>tr x. case kept tr (KPDB x) of KPDB y \<Rightarrow> Inr y | _ \<Rightarrow> Inr x,
      k_FetchServiceMonitor := \<lambda>tr x. case kept tr (KServiceMonitor x) of KServiceMonitor y \<Rightarrow> Inr y | _ \<Rightarrow> Inr x\<rparr>"

definition storeReconciler :: Reconciler where
  "storeReconciler = sampleReconciler\<lparr>rec_Kube := storeKube\<rparr>"

lemma lastWrite_id: "lastWrite es i = Some x \<Longrightarrow> keyId x = i"
  by (induction es) (auto split: event.splits kube_op.splits if_splits)

lemma keyId_kept [simp]: "keyId (kept tr key) = keyId key"
  by (auto simp: kept_def split: option.split dest: lastWrite_id)

lemma fetch_storeKube: "fetchObj storeKube tr key = Inr (kept tr key)"
proof -
  have "kindOf (kept tr key) = kindOf key" using keyId_kept [of tr key] by (simp add: keyId_def)
  then show ?thesis by (cases key; cases "kept tr key") (simp_all add: storeKube_def)
qed

lemma sameManagedMeta_refl [simp]: "sameManagedMeta x x"
  by (simp add: sameManagedMeta_def)

lemma storeKube_contract: "keepsManaged defaulted storeKube" "createsOrUpdates storeKube" "ownsOnly storeKube"
proof -
  have k: "kept (tr @ es) key = kept tr key" if "noWrite es key" for tr es key
    using lastWrite_other [OF that] by (simp add: kept_def)
  have w: "kept (tr @ [Kube (Apply x)]) key = stored x" if "keyId x = keyId key" for tr x key
    using that by (simp add: kept_def)
  show "keepsManaged defaulted storeKube"
    unfolding keepsManaged_def fetch_storeKube
  proof (intro allI impI)
    fix tr es key ex
    assume es: "noWrite es key" and "Inr (kept (tr @ es) key) = (Inr ex :: kobj result)"
    then have ex: "ex = kept tr key" by (simp add: k)
    show "(\<forall>tr0 x. tr = tr0 @ [Kube (Apply x)] \<longrightarrow> keyId x = keyId key \<longrightarrow> k_Apply storeKube tr0 x = None \<longrightarrow>
        \<not> isNew (kMeta ex) \<and> sameManagedMeta ex x \<and> (\<forall>full. managedPart full ex = defaulted (managedPart full x))) \<and>
      (\<forall>ex0. Inr (kept tr key) = (Inr ex0 :: kobj result) \<longrightarrow> \<not> isNew (kMeta ex0) \<longrightarrow>
        \<not> isNew (kMeta ex) \<and> sameManagedMeta ex ex0 \<and> (\<forall>full. managedPart full ex = managedPart full ex0))"
      unfolding ex by (auto simp only: w stored_managed) simp_all
  qed
  show "createsOrUpdates storeKube"
    using sampleKube_contract(1) by (auto simp: createsOrUpdates_def fetch_storeKube) (simp_all add: storeKube_def)
  show "ownsOnly storeKube" using sampleKube_contract(2) by (simp add: ownsOnly_def storeKube_def)
qed

lemma store_apply_succeeds:
  "succeeds (applyConfigMap storeKube ow cm)" "succeeds (applyStatefulSet storeKube ow st)"
  "succeeds (applyService storeKube ow sv)" "succeeds (applyPDB storeKube ow pd)"
  "succeeds (applyDeployment storeKube ow dp)"
  by (simp_all add: succeeds_def applyConfigMap_def applyStatefulSet_def applyService_def applyPDB_def
      applyDeployment_def createOrUpdate_def storeKube_def sampleKube_def mutate_defs ownedMeta_def Let_def split: kobj.split)

lemma store_run: "\<exists>t. cluster_converge storeReconciler threeByOne tr = Some ((requeueIn 30, None), t)"
proof -
  let ?rc = threeByOne and ?r = storeReconciler
  have [simp]: "rec_Kube ?r = storeKube" "rec_RedisClient ?r = None" "rec_ClusterManager ?r = None"
    by (simp_all add: storeReconciler_def)
  obtain t0 where 0: "applyConfigMap storeKube (c_Meta ?rc) (BuildClusterConfigMap ?rc) tr = (None, t0)"
    using succeedsD [OF store_apply_succeeds(1)] by blast
  let ?h = "configDataHash storeKube (cm_Data (BuildClusterConfigMap ?rc))"
  have "\<forall>step \<in> set (cluster_steps ?r ?rc ?h). succeeds step"
    by (auto simp: cluster_steps_eq Let_def store_apply_succeeds split: if_splits)
  from succeeds_forErr [OF this] obtain t1 where 1: "forErr (\<lambda>step. step) (cluster_steps ?r ?rc ?h) t0 = (None, t1)"
    by blast
  let ?t2 = "snd (applyServiceMonitor storeKube (c_Meta ?rc) (BuildClusterServiceMonitor ?rc) t1)"
  have "succeeds (updateClusterStatus ?r ?rc)"
    by (simp add: succeeds_def updateClusterStatus_def podsOf_def listPods_def observe_def time_Now_def
        statusUpdate_def Let_def storeKube_def sampleKube_def)
  from succeedsD [OF this] obtain t3 where 3: "updateClusterStatus ?r ?rc ?t2 = (None, t3)" by blast
  have "c_EnableExporter (c_Spec ?rc) = Some True" by (simp add: threeByOne_def Let_def)
  then have "cluster_converge ?r ?rc tr = Some ((requeueIn 30, None), t3)"
    using 0 1 3 by (simp add: cluster_converge_eq reconcileClusterConfigMap_def Let_def reconcileClusterLifecycle_def
        tryClusterRollingFailover_def tryClusterHotReload_def finishReconcile_def noResult_def)
  then show ?thesis by blast
qed

lemma store_sentinel_run:
  "\<exists>t. sentinel_converge storeReconciler (zeroRedisSentinel ''s'' ''ns'') tr = ((requeueIn 30, None), t)"
proof -
  let ?rs = "zeroRedisSentinel ''s'' ''ns''" and ?r = storeReconciler
  have [simp]: "rec_Kube ?r = storeKube" by (simp add: storeReconciler_def)
  obtain t0 where 0: "applyConfigMap storeKube (s_Meta ?rs) (BuildSentinelRedisConfigMap ?rs) tr = (None, t0)"
    using succeedsD [OF store_apply_succeeds(1)] by blast
  let ?h = "configDataHash storeKube (cm_Data (BuildSentinelRedisConfigMap ?rs))"
  have "\<forall>step \<in> set (sentinel_steps ?r ?rs ?h). succeeds step"
    by (auto simp: sentinel_steps_eq Let_def store_apply_succeeds)
  from succeeds_forErr [OF this] obtain t1 where 1: "forErr (\<lambda>step. step) (sentinel_steps ?r ?rs ?h) t0 = (None, t1)"
    by blast
  obtain rs2 t2 where 2: "reconcileRoleLabels ?r ?rs t1 = (rs2, t2)" by fastforce
  have "succeeds (updateSentinelStatus ?r rs2)"
    by (simp add: succeeds_def updateSentinelStatus_def listPods_def time_Now_def errOf_def Let_def storeKube_def sampleKube_def)
  from succeedsD [OF this] obtain t3 where 3: "updateSentinelStatus ?r rs2 t2 = (None, t3)" by blast
  have "s_EnableExporter (s_Spec ?rs) = None" by (simp add: zeroRedisSentinel_def)
  then have "sentinel_converge ?r ?rs tr = ((requeueIn 30, None), t3)"
    using 0 1 2 3 by (simp add: sentinel_converge_eq reconcileRedisConfigMap_def Let_def)
  then show ?thesis by blast
qed

text \<open>Two runs for a \<open>RedisSentinel\<close>; the second finds a Deployment whose probes have been completed.\<close>

theorem second_run_changes_nothing_witness:
  "\<exists>t1 t2 es. converge storeReconciler (ASentinel (zeroRedisSentinel ''s'' ''ns'')) [] = Some ((requeueIn 30, None), t1) \<and>
    converge storeReconciler (ASentinel (zeroRedisSentinel ''s'' ''ns'')) t1 = Some ((requeueIn 30, None), t2) \<and>
    t2 = t1 @ es \<and> unchanged defaulted storeKube t1 es"
proof -
  let ?x = "ASentinel (zeroRedisSentinel ''s'' ''ns'')"
  obtain t1 where 1: "converge storeReconciler ?x [] = Some ((requeueIn 30, None), t1)" using store_sentinel_run by force
  obtain t2 where 2: "converge storeReconciler ?x t1 = Some ((requeueIn 30, None), t2)" using store_sentinel_run by force
  have k: "rec_Kube storeReconciler = storeKube" by (simp add: storeReconciler_def)
  have s: "sameButStatus ?x ?x" by simp
  from second_run_changes_nothing [OF _ _ _ 1 _ s, of defaulted "[]" _ t2] show ?thesis
    using 1 2 by (auto simp: k storeKube_contract)
qed

end
