(* ===== verification/Operator_Setup.thy ===== *)
theory Operator_Setup
  imports Operator_Main Convergence
begin

text \<open>
  \<open>cmd/main.go\<close> from the flags to the running manager, \<open>SetupWithManager\<close> of the controllers and webhooks, and the
  scheme; and what this setting up has to fit: the objects the reconcilers write must be of kinds the manager
  watches and the scheme knows, and every request must be allowed by the cluster role of
  \<open>config/rbac/role.yaml\<close>.

  controller-runtime is a parameter: whether a step of the setup fails is a function of the step and of the steps
  done before.
\<close>

section \<open>Flags\<close>

record Flags =
  metricsAddr :: string
  enableLeaderElection :: bool
  probeAddr :: string
  webhookPort :: int
  enableWebhooks :: bool

text \<open>What package \<open>flag\<close> has read for a name from the command line, if the name was given.\<close>

record CommandLine =
  cl_String :: "string \<Rightarrow> string option"
  cl_Bool :: "string \<Rightarrow> bool option"
  cl_Int :: "string \<Rightarrow> int option"

definition flagVar :: "'a \<Rightarrow> 'a option \<Rightarrow> 'a" where
  "flagVar dflt given = (case given of None \<Rightarrow> dflt | Some v \<Rightarrow> v)"

definition parseFlags :: "CommandLine \<Rightarrow> Flags" where
  "parseFlags cl =
     \<lparr>metricsAddr = flagVar '':8080'' (cl_String cl ''metrics-bind-address''),
      enableLeaderElection = flagVar False (cl_Bool cl ''leader-elect''),
      probeAddr = flagVar '':8081'' (cl_String cl ''health-probe-bind-address''),
      webhookPort = flagVar 9443 (cl_Int cl ''webhook-port''),
      enableWebhooks = flagVar False (cl_Bool cl ''enable-webhooks'')\<rparr>"

section \<open>The steps of the setup\<close>

record ManagerOptions =
  mo_MetricsBindAddress :: string
  mo_WebhookPort :: int
  mo_HealthProbeBindAddress :: string
  mo_LeaderElection :: bool
  mo_LeaderElectionID :: string

text \<open>
  A controller is built for one kind; changes of objects of the other kinds lead to a run for their owner.
\<close>

record ControllerSetup =
  cs_For :: string
  cs_Owns :: "string list"

datatype setupStep =
    AddToScheme string
  | GetConfigOrDie
  | NewManager ManagerOptions
  | CompleteController ControllerSetup
  | CompleteWebhook string
  | AddHealthzCheck string
  | AddReadyzCheck string
  | StartManager

definition redis_SetupWithManager :: setupStep where
  "redis_SetupWithManager =
     CompleteController \<lparr>cs_For = KindRedis, cs_Owns = [''StatefulSet'', ''Deployment'', ''Service'', ''ConfigMap'']\<rparr>"

definition sentinel_SetupWithManager :: setupStep where
  "sentinel_SetupWithManager =
     CompleteController \<lparr>cs_For = KindSentinel,
       cs_Owns = [''StatefulSet'', ''Deployment'', ''Service'', ''ConfigMap'', ''PodDisruptionBudget'']\<rparr>"

definition cluster_SetupWithManager :: setupStep where
  "cluster_SetupWithManager =
     CompleteController \<lparr>cs_For = KindCluster,
       cs_Owns = [''StatefulSet'', ''Service'', ''ConfigMap'', ''PodDisruptionBudget'']\<rparr>"

definition Redis_SetupWebhookWithManager :: setupStep where
  "Redis_SetupWebhookWithManager = CompleteWebhook KindRedis"

definition RedisSentinel_SetupWebhookWithManager :: setupStep where
  "RedisSentinel_SetupWebhookWithManager = CompleteWebhook KindSentinel"

definition RedisCluster_SetupWebhookWithManager :: setupStep where
  "RedisCluster_SetupWebhookWithManager = CompleteWebhook KindCluster"

text \<open>
  \<open>groupversion_info.go\<close> with the \<open>init\<close> functions of the types: what \<open>AddToScheme\<close> of the API group adds to a
  scheme.
\<close>

definition GroupVersion :: "string \<times> string" where
  "GroupVersion = (''redis.example.com'', ''v1alpha1'')"

definition SchemeBuilder :: "string list" where
  "SchemeBuilder = [''Redis'', ''RedisList''] @ [''RedisSentinel'', ''RedisSentinelList''] @ [''RedisCluster'', ''RedisClusterList'']"

text \<open>
  The package-level \<open>init\<close>, where a failure panics. The \<open>init\<close> of \<open>internal/metrics\<close> has run before; it cannot panic,
  since the names it registers are distinct.
\<close>

type_synonym setupEnv = "setupStep list \<Rightarrow> setupStep \<Rightarrow> error option"

definition attempt :: "setupEnv \<Rightarrow> setupStep \<Rightarrow> setupStep list \<Rightarrow> error option \<times> setupStep list" where
  "attempt env s past = (env past s, past @ [s])"

definition package_init :: "setupEnv \<Rightarrow> setupStep list \<Rightarrow> error option \<times> setupStep list" where
  "package_init env past =
     (case attempt env (AddToScheme ''client-go'') past of (Some e, past) \<Rightarrow> (Some e, past) | (None, past) \<Rightarrow>
     (case attempt env (AddToScheme (fst GroupVersion)) past of (Some e, past) \<Rightarrow> (Some e, past) | (None, past) \<Rightarrow>
     (case attempt env (AddToScheme ''monitoring.coreos.com'') past of (Some e, past) \<Rightarrow> (Some e, past) | (None, past) \<Rightarrow>
     (case attempt env (AddToScheme ''apps'') past of (Some e, past) \<Rightarrow> (Some e, past) | (None, past) \<Rightarrow>
     (case attempt env (AddToScheme ''core'') past of (Some e, past) \<Rightarrow> (Some e, past) | (None, past) \<Rightarrow>
     (case attempt env (AddToScheme ''policy'') past of (Some e, past) \<Rightarrow> (Some e, past) | (None, past) \<Rightarrow>
       (None, past)))))))"

definition managerOptions :: "Flags \<Rightarrow> ManagerOptions" where
  "managerOptions f =
     \<lparr>mo_MetricsBindAddress = metricsAddr f, mo_WebhookPort = webhookPort f, mo_HealthProbeBindAddress = probeAddr f,
      mo_LeaderElection = enableLeaderElection f, mo_LeaderElectionID = ''redis-operator.example.com''\<rparr>"

definition main_webhooks :: "setupEnv \<Rightarrow> Flags \<Rightarrow> setupStep list \<Rightarrow> error option \<times> setupStep list" where
  "main_webhooks env f past =
     (if enableWebhooks f
      then
       (case attempt env Redis_SetupWebhookWithManager past of (Some e, past) \<Rightarrow> (Some e, past) | (None, past) \<Rightarrow>
       (case attempt env RedisSentinel_SetupWebhookWithManager past of (Some e, past) \<Rightarrow> (Some e, past) | (None, past) \<Rightarrow>
       (case attempt env RedisCluster_SetupWebhookWithManager past of (Some e, past) \<Rightarrow> (Some e, past) | (None, past) \<Rightarrow>
         (None, past))))
      else (None, past))"

text \<open>
  \<open>main\<close> after the flags, one check per call. \<open>GetConfigOrDie\<close> and each check end the process with code 1;
  \<open>Start\<close> returns without error when the process is asked to stop. The result is the steps attempted and the exit code.
\<close>

definition main_body :: "setupEnv \<Rightarrow> Flags \<Rightarrow> setupStep list \<Rightarrow> setupStep list \<times> int" where
  "main_body env f past =
     (case attempt env GetConfigOrDie past of (Some e, past) \<Rightarrow> (past, 1) | (None, past) \<Rightarrow>
     (case attempt env (NewManager (managerOptions f)) past of (Some e, past) \<Rightarrow> (past, 1) | (None, past) \<Rightarrow>
     (case attempt env redis_SetupWithManager past of (Some e, past) \<Rightarrow> (past, 1) | (None, past) \<Rightarrow>
     (case attempt env sentinel_SetupWithManager past of (Some e, past) \<Rightarrow> (past, 1) | (None, past) \<Rightarrow>
     (case attempt env cluster_SetupWithManager past of (Some e, past) \<Rightarrow> (past, 1) | (None, past) \<Rightarrow>
     (case main_webhooks env f past of (Some e, past) \<Rightarrow> (past, 1) | (None, past) \<Rightarrow>
     (case attempt env (AddHealthzCheck ''healthz'') past of (Some e, past) \<Rightarrow> (past, 1) | (None, past) \<Rightarrow>
     (case attempt env (AddReadyzCheck ''readyz'') past of (Some e, past) \<Rightarrow> (past, 1) | (None, past) \<Rightarrow>
     (case attempt env StartManager past of (Some e, past) \<Rightarrow> (past, 1) | (None, past) \<Rightarrow>
       (past, 0))))))))))"

definition main :: "setupEnv \<Rightarrow> CommandLine \<Rightarrow> setupStep list \<times> int" where
  "main env cl =
     (case package_init env [] of
        (Some e, past) \<Rightarrow> (past, 2)
      | (None, past) \<Rightarrow> main_body env (parseFlags cl) past)"

text \<open>The steps that are attempted when nothing fails.\<close>

definition main_init :: "setupStep list" where
  "main_init = snd (package_init (\<lambda>_ _. None) [])"

definition main_steps :: "Flags \<Rightarrow> setupStep list" where
  "main_steps f = fst (main_body (\<lambda>_ _. None) f [])"

lemmas main_defs = package_init_def main_webhooks_def main_body_def attempt_def

lemma main_init_eq:
  "main_init = [AddToScheme ''client-go'', AddToScheme (fst GroupVersion), AddToScheme ''monitoring.coreos.com'',
     AddToScheme ''apps'', AddToScheme ''core'', AddToScheme ''policy'']"
  by (simp add: main_init_def main_defs)

lemma main_steps_eq:
  "main_steps f =
     [GetConfigOrDie, NewManager (managerOptions f), redis_SetupWithManager, sentinel_SetupWithManager, cluster_SetupWithManager] @
     (if enableWebhooks f
      then [Redis_SetupWebhookWithManager, RedisSentinel_SetupWebhookWithManager, RedisCluster_SetupWebhookWithManager]
      else []) @
     [AddHealthzCheck ''healthz'', AddReadyzCheck ''readyz'', StartManager]"
  by (simp add: main_steps_def main_defs)

section \<open>Until the first failure\<close>

text \<open>What the chain of checks amounts to: the steps of a list in order, up to the first that fails.\<close>

fun untilFailure :: "setupEnv \<Rightarrow> setupStep list \<Rightarrow> setupStep list \<Rightarrow> setupStep list \<times> error option" where
  "untilFailure env past [] = (past, None)"
| "untilFailure env past (s # ss) =
     (case env past s of
        Some e \<Rightarrow> (past @ [s], Some e)
      | None \<Rightarrow> untilFailure env (past @ [s]) ss)"

lemma untilFailure_done:
  "untilFailure env past ss = (past', None) \<Longrightarrow> past' = past @ ss \<and> (\<forall>us s vs. ss = us @ s # vs \<longrightarrow> env (past @ us) s = None)"
proof (induction ss arbitrary: past)
  case (Cons s ss)
  then have s: "env past s = None" and r: "untilFailure env (past @ [s]) ss = (past', None)" by (auto split: option.splits)
  from Cons.IH [OF r] s show ?case by (auto simp: Cons_eq_append_conv)
qed simp

lemma untilFailure_failed:
  "untilFailure env past ss = (past', Some e) \<Longrightarrow> \<exists>us s vs. ss = us @ s # vs \<and> past' = past @ us @ [s] \<and>
     env (past @ us) s = Some e \<and> (\<forall>ws t xs. us = ws @ t # xs \<longrightarrow> env (past @ ws) t = None)"
proof (induction ss arbitrary: past)
  case (Cons s ss)
  show ?case
  proof (cases "env past s")
    case None
    with Cons.prems have "untilFailure env (past @ [s]) ss = (past', Some e)" by simp
    from Cons.IH [OF this] obtain us t vs where u: "ss = us @ t # vs" "past' = (past @ [s]) @ us @ [t]"
      "env ((past @ [s]) @ us) t = Some e" "\<forall>ws t xs. us = ws @ t # xs \<longrightarrow> env ((past @ [s]) @ ws) t = None" by blast
    then show ?thesis using None
      by (intro exI [of _ "s # us"] exI [of _ t] exI [of _ vs]) (auto simp: Cons_eq_append_conv)
  next
    case (Some e')
    then show ?thesis using Cons.prems by (intro exI [of _ "[]"]) auto
  qed
qed simp

lemma untilFailure_append:
  "untilFailure env past (xs @ ys) =
     (case untilFailure env past xs of (p, None) \<Rightarrow> untilFailure env p ys | (p, Some e) \<Rightarrow> (p, Some e))"
  by (induction xs arbitrary: past) (auto split: option.split)

lemma untilFailure_snoc:
  assumes "untilFailure env past xs = (p, r)"
  shows "untilFailure env past (xs @ ys) = (case r of None \<Rightarrow> untilFailure env p ys | Some e \<Rightarrow> (p, Some e))"
  using assms by (simp add: untilFailure_append split: option.split)

lemma package_init_eq: "package_init env past = (case untilFailure env past main_init of (p, r) \<Rightarrow> (r, p))"
  by (simp add: main_init_eq package_init_def attempt_def split: option.split)

lemma main_webhooks_eq:
  "main_webhooks env f past = (case untilFailure env past (if enableWebhooks f
     then [Redis_SetupWebhookWithManager, RedisSentinel_SetupWebhookWithManager, RedisCluster_SetupWebhookWithManager] else [])
   of (p, r) \<Rightarrow> (r, p))"
  by (simp add: main_webhooks_def attempt_def split: option.split)

lemma main_body_eq:
  "main_body env f past = (case untilFailure env past (main_steps f) of (p, None) \<Rightarrow> (p, 0) | (p, Some e) \<Rightarrow> (p, 1))"
  unfolding main_steps_eq main_body_def main_webhooks_eq
  by (simp add: attempt_def untilFailure_append split: option.split prod.split)

text \<open>Both phases as one list of steps; the exit code tells in which phase the last one was.\<close>

lemma main_one_list:
  "main env cl =
     (case untilFailure env [] (main_init @ main_steps (parseFlags cl)) of
        (past, None) \<Rightarrow> (past, 0)
      | (past, Some e) \<Rightarrow> (past, if length past \<le> length main_init then 2 else 1))"
proof -
  obtain p0 r0 where 0: "untilFailure env [] main_init = (p0, r0)" by fastforce
  show ?thesis
  proof (cases r0)
    case (Some e)
    from untilFailure_failed [OF 0 [unfolded Some]] obtain us s vs where m: "main_init = us @ s # vs" and p: "p0 = us @ [s]" by auto
    have "length p0 \<le> length main_init" unfolding m p by simp
    then show ?thesis by (simp add: main_def package_init_eq untilFailure_append 0 Some)
  next
    case None
    then have p0: "p0 = main_init" using untilFailure_done [of env "[]" main_init p0] 0 by simp
    obtain p1 r1 where 1: "untilFailure env main_init (main_steps (parseFlags cl)) = (p1, r1)" by fastforce
    have "length main_init < length p1" if "r1 = Some e" for e
      using untilFailure_failed [OF 1 [unfolded that]] by auto
    then show ?thesis using 0 1 None p0
      by (cases r1) (simp_all add: main_def package_init_eq main_body_eq untilFailure_append not_le)
  qed
qed


definition noFlags :: CommandLine where
  "noFlags = \<lparr>cl_String = (\<lambda>_. None), cl_Bool = (\<lambda>_. None), cl_Int = (\<lambda>_. None)\<rparr>"

text \<open>The steps with no flag given, of which the registration of the readiness probe fails.\<close>

definition stepsWithoutWebhooks :: "setupStep list" where
  "stepsWithoutWebhooks =
     [AddToScheme ''client-go'', AddToScheme ''redis.example.com'', AddToScheme ''monitoring.coreos.com'',
      AddToScheme ''apps'', AddToScheme ''core'', AddToScheme ''policy'', GetConfigOrDie,
      NewManager \<lparr>mo_MetricsBindAddress = '':8080'', mo_WebhookPort = 9443, mo_HealthProbeBindAddress = '':8081'',
        mo_LeaderElection = False, mo_LeaderElectionID = ''redis-operator.example.com''\<rparr>,
      CompleteController \<lparr>cs_For = ''Redis'', cs_Owns = [''StatefulSet'', ''Deployment'', ''Service'', ''ConfigMap'']\<rparr>,
      CompleteController \<lparr>cs_For = ''RedisSentinel'',
        cs_Owns = [''StatefulSet'', ''Deployment'', ''Service'', ''ConfigMap'', ''PodDisruptionBudget'']\<rparr>,
      CompleteController \<lparr>cs_For = ''RedisCluster'', cs_Owns = [''StatefulSet'', ''Service'', ''ConfigMap'', ''PodDisruptionBudget'']\<rparr>,
      AddHealthzCheck ''healthz'', AddReadyzCheck ''readyz'', StartManager]"


end
