(* ===== verification/Watched_Objects.thy ===== *)
theory Watched_Objects
  imports Operator_Setup Run_Safety
begin

text \<open>
  What the setup has to fit. Every object a reconciler writes carries the controller reference of its resource and,
  the service monitor aside, is of a kind whose changes the manager watches for that controller; and the
  requests of all three are among those the cluster role allows.
\<close>

section \<open>Owned and watched\<close>

definition ownedBy :: "Kube \<Rightarrow> ObjectMeta \<Rightarrow> string set \<Rightarrow> event set" where
  "ownedBy k ow K = quiet \<union> {Kube (Apply x) | x. kindOf x \<in> K \<and> (\<exists>m. k_SetControllerReference k ow m = Inr (kMeta x))}"

lemma quiet_ownedBy: "quiet \<subseteq> ownedBy k ow K"
  by (simp add: ownedBy_def)

lemma Apply_ownedBy [simp]:
  "Kube (Apply x) \<in> ownedBy k ow K \<longleftrightarrow> kindOf x \<in> K \<and> (\<exists>m. k_SetControllerReference k ow m = Inr (kMeta x))"
  by (auto simp: ownedBy_def)

lemma Fetch_ownedBy [simp]: "Kube (Fetch x) \<in> ownedBy k ow K"
  by (simp add: ownedBy_def)

lemma createOrUpdate_owned:
  assumes "\<And>ex x. mutate ex = Inr x \<Longrightarrow> kindOf (wrap x) \<in> K \<and> (\<exists>m. k_SetControllerReference k ow m = Inr (kMeta (wrap x)))"
  shows "adds (ownedBy k ow K) tr (snd (createOrUpdate k fetch wrap key mutate tr))"
  using assms by (auto simp: createOrUpdate_def Let_def split: sum.split)

lemma apply_owned:
  "''ConfigMap'' \<in> K \<Longrightarrow> adds (ownedBy k ow K) tr (snd (applyConfigMap k ow cm tr))"
  "''StatefulSet'' \<in> K \<Longrightarrow> adds (ownedBy k ow K) tr (snd (applyStatefulSet k ow st tr))"
  "''Deployment'' \<in> K \<Longrightarrow> adds (ownedBy k ow K) tr (snd (applyDeployment k ow dp tr))"
  "''Service'' \<in> K \<Longrightarrow> adds (ownedBy k ow K) tr (snd (applyService k ow sv tr))"
  "''Service'' \<in> K \<Longrightarrow> adds (ownedBy k ow K) tr (snd (applyClientService k ow sv tr))"
  "''PodDisruptionBudget'' \<in> K \<Longrightarrow> adds (ownedBy k ow K) tr (snd (applyPDB k ow pd tr))"
  "''ServiceMonitor'' \<in> K \<Longrightarrow> adds (ownedBy k ow K) tr (snd (applyServiceMonitor k ow sm tr))"
  unfolding applyConfigMap_def applyStatefulSet_def applyDeployment_def applyService_def applyClientService_def
    applyPDB_def applyServiceMonitor_def
  by (rule createOrUpdate_owned; auto simp: mutate_defs ownedMeta_def Let_def map_sum_def split: sum.splits)+

lemma monitorStep_owned: "''ServiceMonitor'' \<in> K \<Longrightarrow> adds (ownedBy k ow K) tr (monitorStep k ow on sm tr)"
  by (simp add: monitorStep_def apply_owned)

lemma cluster_converge_owned:
  assumes "cluster_converge r rc tr = Some (out, tr')"
    and "{''ConfigMap'', ''StatefulSet'', ''Service'', ''PodDisruptionBudget'', ''ServiceMonitor''} \<subseteq> K"
  shows "adds (ownedBy (rec_Kube r) (c_Meta rc) K) tr tr'"
  by (rule cluster_converge_adds [OF assms(1)])
    (use assms(2) in \<open>auto simp: quiet_ownedBy [THEN subsetD] cluster_steps_eq Let_def apply_owned monitorStep_owned\<close>)

lemma redis_converge_owned:
  assumes "{''ConfigMap'', ''StatefulSet'', ''Deployment'', ''Service'', ''ServiceMonitor''} \<subseteq> K"
  shows "adds (ownedBy (rec_Kube r) (r_Meta obj) K) tr (snd (redis_converge r obj tr))"
  by (rule redis_converge_adds)
    (use assms in \<open>auto simp: quiet_ownedBy [THEN subsetD] redis_steps_eq Let_def apply_owned monitorStep_owned split: if_splits\<close>)

lemma sentinel_converge_owned:
  assumes "{''ConfigMap'', ''StatefulSet'', ''Deployment'', ''Service'', ''PodDisruptionBudget'', ''ServiceMonitor''} \<subseteq> K"
  shows "adds (ownedBy (rec_Kube r) (s_Meta rs) K) tr (snd (sentinel_converge r rs tr))"
  by (rule sentinel_converge_adds)
    (use assms in \<open>auto simp: quiet_ownedBy [THEN subsetD] sentinel_steps_eq Let_def apply_owned monitorStep_owned\<close>)

text \<open>
  The API group of a kind, by the name under which \<open>main\<close> adds it to the scheme, and its resource.
\<close>

definition groupOf :: "string \<Rightarrow> string" where
  "groupOf kind =
     (if kind = ''StatefulSet'' \<or> kind = ''Deployment'' then ''apps''
      else if kind = ''PodDisruptionBudget'' then ''policy''
      else if kind = ''ServiceMonitor'' then ''monitoring.coreos.com''
      else if kind = KindRedis \<or> kind = KindSentinel \<or> kind = KindCluster then fst GroupVersion
      else ''core'')"

fun controllerOf :: "setupStep \<Rightarrow> ControllerSetup" where
  "controllerOf (CompleteController cs) = cs"
| "controllerOf _ = \<lparr>cs_For = [], cs_Owns = []\<rparr>"

definition watchedWrites :: "Kube \<Rightarrow> ObjectMeta \<Rightarrow> setupStep \<Rightarrow> trace \<Rightarrow> trace \<Rightarrow> bool" where
  "watchedWrites k owner setup tr tr' \<longleftrightarrow> (\<exists>es. tr' = tr @ es \<and> (\<forall>x. Kube (Apply x) \<in> set es \<longrightarrow>
     (\<exists>m. k_SetControllerReference k owner m = Inr (kMeta x)) \<and>
     (kindOf x \<in> set (cs_Owns (controllerOf setup)) \<or> kindOf x = ''ServiceMonitor'') \<and>
     AddToScheme (groupOf (kindOf x)) \<in> set main_init))"

lemma owned_watched:
  assumes "adds (ownedBy k ow (insert ''ServiceMonitor'' (set (cs_Owns (controllerOf setup))))) tr tr'"
    and "set (cs_Owns (controllerOf setup)) \<subseteq> {''ConfigMap'', ''StatefulSet'', ''Deployment'', ''Service'', ''PodDisruptionBudget''}"
  shows "watchedWrites k ow setup tr tr'"
proof -
  obtain es where es: "tr' = tr @ es"
    "set es \<subseteq> ownedBy k ow (insert ''ServiceMonitor'' (set (cs_Owns (controllerOf setup))))"
    using assms(1) by (rule addsE)
  have "AddToScheme (groupOf kind) \<in> set main_init"
    if "kind \<in> insert ''ServiceMonitor'' (set (cs_Owns (controllerOf setup)))" for kind
    using that assms(2) by (auto simp: groupOf_def main_init_eq GroupVersion_def KindRedis_def KindSentinel_def KindCluster_def)
  moreover have "kindOf x \<in> insert ''ServiceMonitor'' (set (cs_Owns (controllerOf setup))) \<and>
      (\<exists>m. k_SetControllerReference k ow m = Inr (kMeta x))" if "Kube (Apply x) \<in> set es" for x
    using subsetD [OF es(2) that] by (simp only: Apply_ownedBy)
  ultimately show ?thesis unfolding watchedWrites_def using es(1) by blast
qed

text \<open>
  C21: Changes of what the operator wrote come back to it. Whatever the outcome of a run, every object written
  carries the controller reference of the resource the run is for and, service monitors aside, is of a
  kind that the setup of that controller watches for its owners; and its API group has been added to the
  scheme, without which the client could not send it.
\<close>

theorem written_objects_watched:
  assumes "cluster_converge r rc tr = Some (out, tr')"
  shows "watchedWrites (rec_Kube r) (c_Meta rc) cluster_SetupWithManager tr tr' \<and>
    watchedWrites (rec_Kube r) (r_Meta obj) redis_SetupWithManager t (snd (redis_converge r obj t)) \<and>
    watchedWrites (rec_Kube r) (s_Meta rs) sentinel_SetupWithManager t (snd (sentinel_converge r rs t))"
  by (intro conjI owned_watched cluster_converge_owned [OF assms] redis_converge_owned sentinel_converge_owned)
    (simp_all add: cluster_SetupWithManager_def redis_SetupWithManager_def sentinel_SetupWithManager_def)

theorem written_objects_watched_witness:
  "\<exists>tr'. cluster_converge storeReconciler threeByOne [] = Some ((requeueIn 30, None), tr') \<and>
    watchedWrites storeKube (c_Meta threeByOne) cluster_SetupWithManager [] tr'"
proof -
  obtain tr' where run: "cluster_converge storeReconciler threeByOne [] = Some ((requeueIn 30, None), tr')"
    using store_run by blast
  have "rec_Kube storeReconciler = storeKube" by (simp add: storeReconciler_def)
  with written_objects_watched [OF run] run show ?thesis by auto
qed

section \<open>The cluster role\<close>

text \<open>
  A request as the API server authorises it: group, resource, verb. A rule allows its verbs on its resources
  in its groups.
\<close>

type_synonym request = "string \<times> string \<times> string"
type_synonym rule = "string list \<times> string list \<times> string list"

definition allVerbs :: "string list" where
  "allVerbs = [''create'', ''delete'', ''get'', ''list'', ''patch'', ''update'', ''watch'']"

definition managerRole :: "rule list" where
  "managerRole =
     [([[]], [''configmaps'', ''events'', ''persistentvolumeclaims'', ''pods'', ''secrets'', ''services''], allVerbs),
      ([''apps''], [''deployments'', ''statefulsets''], allVerbs),
      ([''coordination.k8s.io''], [''leases''], allVerbs),
      ([''monitoring.coreos.com''], [''servicemonitors''], allVerbs),
      ([''policy''], [''poddisruptionbudgets''], allVerbs),
      ([''redis.example.com''], [''redis'', ''redisclusters'', ''redissentinels''], allVerbs),
      ([''redis.example.com''], [''redis/finalizers'', ''redisclusters/finalizers'', ''redissentinels/finalizers''], [''update'']),
      ([''redis.example.com''], [''redis/status'', ''redisclusters/status'', ''redissentinels/status''],
       [''get'', ''patch'', ''update''])]"

definition allows :: "rule list \<Rightarrow> request \<Rightarrow> bool" where
  "allows rules q \<longleftrightarrow> (case q of (g, res, verb) \<Rightarrow>
     list_ex (\<lambda>(gs, ress, verbs). g \<in> set gs \<and> res \<in> set ress \<and> verb \<in> set verbs) rules)"

definition resourceOf :: "string \<Rightarrow> string \<times> string" where
  "resourceOf kind =
     (if kind = ''StatefulSet'' then (''apps'', ''statefulsets'') else if kind = ''Deployment'' then (''apps'', ''deployments'')
      else if kind = ''PodDisruptionBudget'' then (''policy'', ''poddisruptionbudgets'')
      else if kind = ''ServiceMonitor'' then (''monitoring.coreos.com'', ''servicemonitors'')
      else if kind = ''Redis'' then (''redis.example.com'', ''redis'')
      else if kind = ''RedisSentinel'' then (''redis.example.com'', ''redissentinels'')
      else if kind = ''RedisCluster'' then (''redis.example.com'', ''redisclusters'')
      else if kind = ''Service'' then ([], ''services'') else ([], ''configmaps''))"

text \<open>
  What a request of the operator asks for. Reads go through the manager's cache, which lists and watches the
  resource; creating an object with a blocking owner reference takes the right to update the finalizers of the
  owner, whichever of the three it is; events are created and, when repeated, patched.
\<close>

definition cachedRead :: "string \<times> string \<Rightarrow> request list" where
  "cachedRead gr = map (\<lambda>verb. (fst gr, snd gr, verb)) [''get'', ''list'', ''watch'']"

fun requests :: "kube_op \<Rightarrow> request list" where
  "requests (GetRedis ns n) = cachedRead (resourceOf ''Redis'')"
| "requests (GetSentinel ns n) = cachedRead (resourceOf ''RedisSentinel'')"
| "requests (GetCluster ns n) = cachedRead (resourceOf ''RedisCluster'')"
| "requests (GetSecret ns n) = cachedRead ([], ''secrets'')"
| "requests (GetPVC ns n) = cachedRead ([], ''persistentvolumeclaims'')"
| "requests (ListPVCs ns sel) = cachedRead ([], ''persistentvolumeclaims'')"
| "requests (DeletePVC ns n) = [([], ''persistentvolumeclaims'', ''delete'')]"
| "requests (ListPods ns sel) = cachedRead ([], ''pods'')"
| "requests (PatchPod ns p) = [([], ''pods'', ''patch'')]"
| "requests (UpdateRedis x) = [(''redis.example.com'', ''redis'', ''update'')]"
| "requests (UpdateSentinel x) = [(''redis.example.com'', ''redissentinels'', ''update'')]"
| "requests (UpdateCluster x) = [(''redis.example.com'', ''redisclusters'', ''update'')]"
| "requests (StatusRedis x) = [(''redis.example.com'', ''redis/status'', ''update'')]"
| "requests (StatusSentinel x) = [(''redis.example.com'', ''redissentinels/status'', ''update'')]"
| "requests (StatusCluster x) = [(''redis.example.com'', ''redisclusters/status'', ''update'')]"
| "requests (PatchCluster x) = [(''redis.example.com'', ''redisclusters'', ''patch'')]"
| "requests (Fetch x) = cachedRead (resourceOf (kindOf x))"
| "requests (Apply x) =
     [(fst (resourceOf (kindOf x)), snd (resourceOf (kindOf x)), ''create''),
      (fst (resourceOf (kindOf x)), snd (resourceOf (kindOf x)), ''update''),
      (''redis.example.com'', ''redis/finalizers'', ''update''),
      (''redis.example.com'', ''redissentinels/finalizers'', ''update''),
      (''redis.example.com'', ''redisclusters/finalizers'', ''update'')]"
| "requests (RecordEvent type reason msg) = [([], ''events'', ''create''), ([], ''events'', ''patch'')]"

text \<open>The manager watches the kinds of its controllers and, if asked to elect a leader, keeps a lease.\<close>

fun setupRequests :: "setupStep \<Rightarrow> request list" where
  "setupRequests (CompleteController cs) = concat (map (\<lambda>kind. cachedRead (resourceOf kind)) (cs_For cs # cs_Owns cs))"
| "setupRequests (NewManager opts) =
     (if mo_LeaderElection opts
      then [(''coordination.k8s.io'', ''leases'', ''get''), (''coordination.k8s.io'', ''leases'', ''create''),
            (''coordination.k8s.io'', ''leases'', ''update''), ([], ''events'', ''create'')] else [])"
| "setupRequests _ = []"

text \<open>The role, group by group.\<close>

lemma allows_group:
  "allows managerRole ([], res, verb) \<longleftrightarrow> res \<in> set [''configmaps'', ''events'', ''persistentvolumeclaims'', ''pods'', ''secrets'', ''services''] \<and>
     verb \<in> set allVerbs"
  "allows managerRole (''apps'', res, verb) \<longleftrightarrow> res \<in> set [''deployments'', ''statefulsets''] \<and> verb \<in> set allVerbs"
  "allows managerRole (''coordination.k8s.io'', res, verb) \<longleftrightarrow> res = ''leases'' \<and> verb \<in> set allVerbs"
  "allows managerRole (''monitoring.coreos.com'', res, verb) \<longleftrightarrow> res = ''servicemonitors'' \<and> verb \<in> set allVerbs"
  "allows managerRole (''policy'', res, verb) \<longleftrightarrow> res = ''poddisruptionbudgets'' \<and> verb \<in> set allVerbs"
  "allows managerRole (''redis.example.com'', res, verb) \<longleftrightarrow>
     res \<in> set [''redis'', ''redisclusters'', ''redissentinels''] \<and> verb \<in> set allVerbs \<or>
     res \<in> set [''redis/finalizers'', ''redisclusters/finalizers'', ''redissentinels/finalizers''] \<and> verb = ''update'' \<or>
     res \<in> set [''redis/status'', ''redisclusters/status'', ''redissentinels/status''] \<and> verb \<in> set [''get'', ''patch'', ''update'']"
  by (simp_all add: allows_def managerRole_def)

lemma allVerbs_mem [simp]:
  "''create'' \<in> set allVerbs" "''delete'' \<in> set allVerbs" "''get'' \<in> set allVerbs" "''list'' \<in> set allVerbs"
  "''patch'' \<in> set allVerbs" "''update'' \<in> set allVerbs" "''watch'' \<in> set allVerbs"
  by (simp_all add: allVerbs_def)

lemma resourceOf_simps [simp]:
  "resourceOf ''ConfigMap'' = ([], ''configmaps'')" "resourceOf ''StatefulSet'' = (''apps'', ''statefulsets'')"
  "resourceOf ''Deployment'' = (''apps'', ''deployments'')" "resourceOf ''Service'' = ([], ''services'')"
  "resourceOf ''PodDisruptionBudget'' = (''policy'', ''poddisruptionbudgets'')"
  "resourceOf ''ServiceMonitor'' = (''monitoring.coreos.com'', ''servicemonitors'')"
  "resourceOf ''Redis'' = (''redis.example.com'', ''redis'')"
  "resourceOf ''RedisSentinel'' = (''redis.example.com'', ''redissentinels'')"
  "resourceOf ''RedisCluster'' = (''redis.example.com'', ''redisclusters'')"
  by (simp_all add: resourceOf_def)

lemmas role_defs = allows_group cachedRead_def

lemma role_allows_object_requests:
  "list_all (allows managerRole) (requests (Fetch x))" "list_all (allows managerRole) (requests (Apply x))"
  by (cases x; simp add: role_defs)+

text \<open>
  C23: The cluster role suffices. Every request to the API server that a run can make, of any reconciler and with any
  outcome, every watch of the manager and the lease of the leader election are allowed by the role the
  repository ships, so that no step can fail for missing rights.
\<close>

theorem role_allows_every_request:
  "list_all (allows managerRole) (requests q) \<and>
   list_all (\<lambda>s. list_all (allows managerRole) (setupRequests s)) (main_steps f)"
proof
  show "list_all (allows managerRole) (requests q)"
  proof (cases q)
    case (Fetch x)
    then show ?thesis using role_allows_object_requests(1) by simp
  next
    case (Apply x)
    then show ?thesis using role_allows_object_requests(2) [of x] by simp
  qed (simp_all add: role_defs)
  show "list_all (\<lambda>s. list_all (allows managerRole) (setupRequests s)) (main_steps f)"
    by (simp add: main_steps_eq redis_SetupWithManager_def sentinel_SetupWithManager_def cluster_SetupWithManager_def
        Redis_SetupWebhookWithManager_def RedisSentinel_SetupWebhookWithManager_def KindRedis_def KindSentinel_def
        KindCluster_def RedisCluster_SetupWebhookWithManager_def role_defs)
qed

end
