(* ===== verification/Cluster_System.thy ===== *)
theory Cluster_System
  imports Run_Safety Webhooks
begin

text \<open>
  Webhook and reconciler together: the life of one \<open>RedisCluster\<close> as the API server stores it. A step is an edit or
  a deletion the admission webhook lets through, or a run of the reconciler on the stored resource. A run is
  one step, since the API server refuses a write that rests on an older version of the resource; but each
  of its writes may be refused for other reasons, so any part of them takes effect.

  Nothing is assumed of the answers a run gets, but that helpers of controller-runtime for finalizers touch the
  finalizers only (\<open>finalizersOnly\<close>) and that the user leaves finalizers, name and deletion to the
  system.
\<close>

section \<open>Writes of a run\<close>

text \<open>
  The effect of a run on the stored resource. A write of the status writes only the status, one of the resource
  everything but the status; the merge patch of the config hash touches the annotations.
\<close>

inductive takes_effect :: "event list \<Rightarrow> RedisCluster \<Rightarrow> RedisCluster \<Rightarrow> bool" where
  no_events: "takes_effect [] rc rc"
| no_effect: "takes_effect es rc rc' \<Longrightarrow> takes_effect (e # es) rc rc'"
| status_written: "takes_effect es (rc\<lparr>c_Status := c_Status x\<rparr>) rc' \<Longrightarrow>
    takes_effect (Kube (StatusCluster x) # es) rc rc'"
| annotated: "takes_effect es (rc\<lparr>c_Meta := (c_Meta rc)\<lparr>om_Annotations := om_Annotations (c_Meta x)\<rparr>\<rparr>) rc' \<Longrightarrow>
    takes_effect (Kube (PatchCluster x) # es) rc rc'"
| updated: "takes_effect es (x\<lparr>c_Status := c_Status rc\<rparr>) rc' \<Longrightarrow> takes_effect (Kube (UpdateCluster x) # es) rc rc'"

inductive_cases no_events_cases [elim!]: "takes_effect [] rc rc'"

definition finalizersOnly :: "Kube \<Rightarrow> bool" where
  "finalizersOnly k \<longleftrightarrow> (\<forall>m f. (\<exists>fs. k_AddFinalizer k m f = m\<lparr>om_Finalizers := fs\<rparr>) \<and>
     (\<exists>fs. k_RemoveFinalizer k m f = m\<lparr>om_Finalizers := fs\<rparr>))"

lemma finalizersOnly_deletion:
  assumes "finalizersOnly k"
  shows "om_DeletionTimestamp (k_RemoveFinalizer k m f) = om_DeletionTimestamp m"
proof -
  from assms obtain fs where "k_RemoveFinalizer k m f = m\<lparr>om_Finalizers := fs\<rparr>" unfolding finalizersOnly_def by blast
  then show ?thesis by simp
qed

text \<open>What a run never changes, and what it leaves alone on a dying resource.\<close>

definition sameResource :: "RedisCluster \<Rightarrow> RedisCluster \<Rightarrow> bool" where
  "sameResource a b \<longleftrightarrow> c_Spec a = c_Spec b \<and> om_Name (c_Meta a) = om_Name (c_Meta b) \<and>
     om_Namespace (c_Meta a) = om_Namespace (c_Meta b) \<and> om_DeletionTimestamp (c_Meta a) = om_DeletionTimestamp (c_Meta b) \<and>
     (om_DeletionTimestamp (c_Meta a) \<noteq> None \<longrightarrow> c_Status a = c_Status b)"

lemma sameResource_refl [simp]: "sameResource a a"
  by (simp add: sameResource_def)

lemma sameResource_trans: "sameResource a b \<Longrightarrow> sameResource b c \<Longrightarrow> sameResource a c"
  by (simp add: sameResource_def)

lemma guarded_effect:
  assumes "takes_effect es rc rc'" and "finalizersOnly k" and "list_all (guarded k (Some (clusterView rc0))) es" and "sameResource rc0 rc"
  shows "sameResource rc0 rc'"
  using assms(1,3,4)
proof (induction rule: takes_effect.induct)
  case (status_written es rc x rc')
  then have "om_DeletionTimestamp (c_Meta rc0) = None" by (simp add: live_def clusterView_def)
  with status_written show ?case by (simp add: sameResource_def)
next
  case (annotated es rc x rc')
  then show ?case by (simp add: sameResource_def)
next
  case (updated es x rc rc')
  have kept: "\<exists>fs. k_AddFinalizer k (c_Meta rc0) FinalizerName = (c_Meta rc0)\<lparr>om_Finalizers := fs\<rparr>"
    "\<exists>fs. k_RemoveFinalizer k (c_Meta rc0) FinalizerName = (c_Meta rc0)\<lparr>om_Finalizers := fs\<rparr>"
    using assms(2) by (simp_all add: finalizersOnly_def)
  from updated kept show ?case by (fastforce simp: sameResource_def finalizerWrite_def clusterView_def split: if_splits)
qed simp_all

section \<open>The life of a cluster\<close>

inductive evolves :: "(string \<Rightarrow> Quantity result) \<Rightarrow> RedisCluster \<Rightarrow> RedisCluster \<Rightarrow> bool" for pq where
  edited: "admitted (RedisCluster_ValidateUpdate pq (RedisCluster_Default new) (ClusterObj old)) \<Longrightarrow>
     c_Status new = c_Status old \<Longrightarrow> om_DeletionTimestamp (c_Meta new) = om_DeletionTimestamp (c_Meta old) \<Longrightarrow>
     evolves pq old (RedisCluster_Default new)"
| deleted: "admitted (RedisCluster_ValidateDelete old) \<Longrightarrow>
     evolves pq old (old\<lparr>c_Meta := (c_Meta old)\<lparr>om_DeletionTimestamp := Some t\<rparr>\<rparr>)"
| reconciled: "finalizersOnly (rec_Kube r) \<Longrightarrow> k_GetCluster (rec_Kube r) (tr @ [ReadClock]) ns name = Inr old \<Longrightarrow>
     cluster_Reconcile r ns name tr = Some (out, tr @ es) \<Longrightarrow> takes_effect es old new \<Longrightarrow> evolves pq old new"

definition born :: "(string \<Rightarrow> Quantity result) \<Rightarrow> RedisCluster \<Rightarrow> bool" where
  "born pq rc \<longleftrightarrow> (\<exists>x. rc = RedisCluster_Default x \<and> admitted (RedisCluster_ValidateCreate pq rc) \<and>
     om_DeletionTimestamp (c_Meta x) = None)"

inductive reachable :: "(string \<Rightarrow> Quantity result) \<Rightarrow> RedisCluster \<Rightarrow> RedisCluster \<Rightarrow> bool" for pq start where
  start: "born pq start \<Longrightarrow> reachable pq start start"
| step: "reachable pq start a \<Longrightarrow> evolves pq a b \<Longrightarrow> reachable pq start b"

text \<open>A run as a step: the whole run is guarded, so it is the same resource afterwards.\<close>

lemma reconciled_same:
  assumes "finalizersOnly (rec_Kube r)" and "k_GetCluster (rec_Kube r) (tr @ [ReadClock]) ns name = Inr old"
    and "cluster_Reconcile r ns name tr = Some (out, tr @ es)" and "takes_effect es old new"
  shows "sameResource old new"
proof (rule guarded_effect [OF assms(4,1)])
  obtain res err where "out = (res, err)" by fastforce
  from cluster_run(1) [OF assms(3) [unfolded this]]
  show "list_all (guarded (rec_Kube r) (Some (clusterView old))) es" by (simp add: assms(2) guardedRun_def)
qed simp

section \<open>The invariant\<close>

text \<open>
  The stored cluster always passes the webhook's checks, its storage is that of its creation or a grown one, and
  a dying cluster is not in the middle of scaling.
\<close>

definition cluster_inv :: "(string \<Rightarrow> Quantity result) \<Rightarrow> RedisCluster \<Rightarrow> RedisCluster \<Rightarrow> bool" where
  "cluster_inv pq start rc \<longleftrightarrow> admitted (RedisCluster_ValidateCreate pq rc) \<and>
     storage_kept pq (c_Storage (c_Spec start)) (c_Storage (c_Spec rc)) \<and>
     (om_DeletionTimestamp (c_Meta rc) \<noteq> None \<longrightarrow> c_Phase (c_Status rc) \<noteq> PhaseScaling)"

lemma create_depends_on_spec:
  "c_Spec a = c_Spec b \<Longrightarrow> RedisCluster_ValidateCreate pq a = RedisCluster_ValidateCreate pq b"
  by (simp add: RedisCluster_ValidateCreate_def validateClusterSpec_def Let_def)

lemma default_keeps:
  "c_Status (RedisCluster_Default x) = c_Status x" "c_Meta (RedisCluster_Default x) = c_Meta x"
  "c_Storage (c_Spec (RedisCluster_Default x)) = c_Storage (c_Spec x)"
  by (simp_all add: RedisCluster_Default_eq)

lemma storage_kept_refl:
  assumes "checkStorageSpec pq st = None"
  shows "storage_kept pq st st"
proof (cases st)
  case (Some s)
  with assms obtain q where "pq (Size s) = Inr q" by (auto simp: webhook_defs split: sum.splits if_splits)
  then show ?thesis by (simp add: Some storage_kept_def)
qed (simp add: storage_kept_def)

lemma born_inv: "born pq rc \<Longrightarrow> cluster_inv pq rc rc"
  by (auto simp: born_def cluster_inv_def cluster_create_admitted_iff default_keeps intro: storage_kept_refl)

lemma evolves_inv:
  assumes "evolves pq a b" and "cluster_inv pq start a"
  shows "cluster_inv pq start b"
  using assms(1)
proof (cases rule: evolves.cases)
  case (edited new)
  from cluster_update_admittedD [OF edited(2)]
  have "admitted (RedisCluster_ValidateCreate pq b)" "c_Phase (c_Status a) \<noteq> PhaseScaling"
    by (simp_all add: edited(1))
  moreover have "storage_kept pq (c_Storage (c_Spec a)) (c_Storage (c_Spec b))"
    using edited(2) unfolding edited(1) by (rule cluster_guard.accepts_keeps)
  ultimately show ?thesis using assms(2) edited(3) unfolding cluster_inv_def
    by (auto simp: edited(1) default_keeps intro: storage_kept_trans)
next
  case (deleted t)
  then show ?thesis using assms(2) create_depends_on_spec [of b a pq]
    by (auto simp: cluster_inv_def RedisCluster_ValidateDelete_def admitted_def split: if_splits)
next
  case (reconciled r tr ns name out es)
  then have "sameResource a b" by (intro reconciled_same)
  then show ?thesis using assms(2) create_depends_on_spec [of b a pq]
    by (auto simp: cluster_inv_def sameResource_def)
qed

lemma reachable_inv: "reachable pq start rc \<Longrightarrow> cluster_inv pq start rc"
  by (induction rule: reachable.induct) (auto intro: born_inv evolves_inv)

lemma evolves_masters:
  assumes "evolves pq a b"
  shows "sint (c_Masters (c_Spec a)) - 1 \<le> sint (c_Masters (c_Spec b))"
  using assms
proof (cases rule: evolves.cases)
  case (edited new)
  then show ?thesis using cluster_update_admittedD(2) [OF edited(2)] by simp
next
  case (reconciled r tr ns name out es)
  then have "sameResource a b" by (intro reconciled_same)
  then show ?thesis by (simp add: sameResource_def)
qed simp

text \<open>A sample life: a cluster of five masters, edited to four and more storage, then deleted.\<close>

definition sampleBorn :: RedisCluster where "sampleBorn = RedisCluster_Default (sampleCluster 5 1 ''1Gi'')"
definition sampleEdited :: RedisCluster where "sampleEdited = RedisCluster_Default (sampleCluster 4 1 ''2Gi'')"
definition sampleDying :: RedisCluster where
  "sampleDying = sampleEdited\<lparr>c_Meta := (c_Meta sampleEdited)\<lparr>om_DeletionTimestamp := Some 7\<rparr>\<rparr>"

lemma sample_reachable: "reachable sampleQuantity sampleBorn sampleDying"
proof -
  have "born sampleQuantity sampleBorn"
    unfolding born_def sampleBorn_def
    by (rule exI, rule conjI, rule refl)
      (simp add: cluster_create_admitted_iff RedisCluster_Default_eq webhook_defs sample_defs admitted_def storageClass_def)
  moreover have "evolves sampleQuantity sampleBorn sampleEdited"
    unfolding sampleEdited_def
    by (rule evolves.edited)
      (simp_all add: sampleBorn_def webhook_defs sample_defs admitted_def storageClass_def phase_defs setDefault_def)
  moreover have "evolves sampleQuantity sampleEdited sampleDying"
    unfolding sampleDying_def
    by (rule evolves.deleted)
      (simp add: sampleEdited_def default_keeps RedisCluster_ValidateDelete_def admitted_def sample_defs phase_defs)
  ultimately show ?thesis by (meson reachable.intros)
qed

lemma sample_finalizers: "finalizersOnly sampleKube"
  by (auto simp: finalizersOnly_def sampleKube_def)

section \<open>Properties\<close>

text \<open>
  C15: Whatever users and operator do to a \<open>RedisCluster\<close>, in any order and with any answers of the API server and
  the Redis servers, the stored resource stays valid: it has at least three masters and passes every check
  made at its creation, its storage has never been added, removed, moved to another class or shrunk
  since the creation, once its deletion is under way it is not in phase Scaling, and the next step takes away
  one master at most.
\<close>

theorem stored_cluster_stays_valid:
  assumes "reachable pq start rc"
  shows "3 \<le> sint (c_Masters (c_Spec rc)) \<and> admitted (RedisCluster_ValidateCreate pq rc) \<and>
    storage_kept pq (c_Storage (c_Spec start)) (c_Storage (c_Spec rc)) \<and>
    (om_DeletionTimestamp (c_Meta rc) \<noteq> None \<longrightarrow> c_Phase (c_Status rc) \<noteq> PhaseScaling) \<and>
    (\<forall>rc'. evolves pq rc rc' \<longrightarrow> sint (c_Masters (c_Spec rc)) - 1 \<le> sint (c_Masters (c_Spec rc')))"
  using reachable_inv [OF assms] by (simp add: cluster_inv_def cluster_create_admitted_iff evolves_masters)

theorem stored_cluster_stays_valid_witness:
  "3 \<le> sint (c_Masters (c_Spec sampleDying)) \<and> admitted (RedisCluster_ValidateCreate sampleQuantity sampleDying) \<and>
    storage_kept sampleQuantity (c_Storage (c_Spec sampleBorn)) (c_Storage (c_Spec sampleDying)) \<and>
    c_Phase (c_Status sampleDying) \<noteq> PhaseScaling"
  using stored_cluster_stays_valid [OF sample_reachable] by (simp add: sampleDying_def)

lemma storage_update_same:
  assumes "checkStorageSpec pq st = None"
  shows "checkStorageUpdate am rm pq st st = None"
  using assms by (auto simp: webhook_defs split: option.splits sum.splits if_splits)

text \<open>
  C19: A deletion that was admitted can be finished. In every reachable state in which the cluster is being
  deleted, the update with which the reconciler takes its finalizer off, and which the webhook sees like any
  other update of the resource, passes defaulting and validation.
\<close>

theorem finalizer_can_be_removed:
  assumes "reachable pq start rc" and "om_DeletionTimestamp (c_Meta rc) \<noteq> None" and "finalizersOnly k"
    and "rc' = rc\<lparr>c_Meta := k_RemoveFinalizer k (c_Meta rc) FinalizerName\<rparr>"
  shows "admitted (RedisCluster_ValidateUpdate pq (RedisCluster_Default rc') (ClusterObj rc)) \<and>
    om_DeletionTimestamp (c_Meta rc') = om_DeletionTimestamp (c_Meta rc)"
proof
  let ?d = "RedisCluster_Default rc'"
  have inv: "admitted (RedisCluster_ValidateCreate pq rc)" "c_Phase (c_Status rc) \<noteq> PhaseScaling"
    using reachable_inv [OF assms(1)] assms(2) by (simp_all add: cluster_inv_def)
  have three: "3 \<le> sint (c_Masters (c_Spec rc))" and st: "checkStorageSpec pq (c_Storage (c_Spec rc)) = None"
    using inv(1) by (simp_all add: cluster_create_admitted_iff)
  have "c_Masters (c_Spec rc) \<noteq> 0" using three by auto
  then have d: "c_Masters (c_Spec ?d) = c_Masters (c_Spec rc)"
    "c_ReplicasPerMaster (c_Spec ?d) = c_ReplicasPerMaster (c_Spec rc)" "c_Storage (c_Spec ?d) = c_Storage (c_Spec rc)"
    by (simp_all add: RedisCluster_Default_eq assms(4))
  have "admitted (RedisCluster_ValidateCreate pq ?d)" using inv(1) by (simp add: cluster_create_admitted_iff d)
  then obtain w where "validateClusterSpec pq ?d = (w, None)"
    by (cases "validateClusterSpec pq ?d") (simp add: admitted_def RedisCluster_ValidateCreate_def)
  then show "admitted (RedisCluster_ValidateUpdate pq ?d (ClusterObj rc))"
    using three inv(2) storage_update_same [OF st]
    by (simp add: RedisCluster_ValidateUpdate_def admitted_def Let_def d)
  show "om_DeletionTimestamp (c_Meta rc') = om_DeletionTimestamp (c_Meta rc)"
    by (simp add: assms(4) finalizersOnly_deletion [OF assms(3)])
qed

theorem finalizer_can_be_removed_witness:
  "admitted (RedisCluster_ValidateUpdate sampleQuantity
      (RedisCluster_Default (sampleDying\<lparr>c_Meta := k_RemoveFinalizer sampleKube (c_Meta sampleDying) FinalizerName\<rparr>))
      (ClusterObj sampleDying)) \<and>
    om_DeletionTimestamp (c_Meta (sampleDying\<lparr>c_Meta := k_RemoveFinalizer sampleKube (c_Meta sampleDying) FinalizerName\<rparr>)) =
      om_DeletionTimestamp (c_Meta sampleDying)"
  by (rule finalizer_can_be_removed [OF sample_reachable _ sample_finalizers refl]) (simp add: sampleDying_def)

end
