(* ===== verification/Spec2Isabelle.thy ===== *)
theory Spec2Isabelle
  imports Resources_Correct Workload_Validity Sentinel_Health Rollout_Correct Deep_Copies Watched_Objects Cluster_System
begin

text \<open>
  A verification library of the Kubernetes operator for Redis, Redis Sentinel and Redis Cluster
  (\<open>src/api\<close>, \<open>src/internal\<close>, \<open>src/cmd\<close>).

  \<^bold>\<open>The program.\<close> Three custom resources describe a standalone Redis, a Redis replicated under
  Sentinel, and a sharded Redis Cluster. Admission webhooks (\<open>api/v1alpha1/*_webhook.go\<close>) default and
  validate them. Three reconcilers (\<open>internal/controller\<close>) are called with the key of a resource; a
  call reads the resource, handles deletion and finalizer, builds the desired Kubernetes objects
  (\<open>internal/resources\<close>), writes them with \<open>CreateOrUpdate\<close>, drives the Redis servers, and writes
  the status. The cluster reconciler forms, scales and repairs the Redis Cluster through the cluster manager
  (\<open>internal/redis/cluster.go\<close>), which sends commands through the client (\<open>client.go\<close>). Everything
  is counted with Prometheus (\<open>internal/metrics\<close>).

  \<^bold>\<open>The model of effects\<close> (theory \<open>Effects\<close>). Whatever the program does to the outside is an event: a Redis
  command, a Kubernetes request, a metric, a reading of the clock, a sleep. Every operation takes the
  list of events so far, the trace, and returns it extended. Every answer, of a Redis server, of the API
  server, of the clock, is a function of the trace, a field of one of the records \<open>RedisClient\<close>, \<open>Kube\<close>
  and \<open>Ctx\<close>; so the same question may be answered differently each time, and nothing is known of an answer
  but what a hypothesis says. The order in which Go visits a map is such an answer too (\<open>map_order\<close>). An error
  is a value of \<open>error\<close> with its wrapped cause, a fallible result is a sum (\<open>Inl\<close> the error). A loop the
  program does not bound is a \<open>partial_function (option)\<close>, and an operation that contains one, or that may
  panic, returns an option with \<open>None\<close> for the run that does not return; there is no fuel. 32-bit
  integers are words, so that products and sums of counts wrap as they do in Go.

  \<^bold>\<open>Theories and code.\<close>
  \<^item> \<open>Prelude\<close>, \<open>Go_Strings\<close>, \<open>Effects\<close>: Go values, the standard library functions on text, effects, and
    the contract of a polling loop (locale \<open>polling\<close>).
  \<^item> \<open>K8s_Types\<close>, \<open>Api_Types\<close>: the Kubernetes objects as far as the operator sets or reads their fields, and
    the custom resources (\<open>*_types.go\<close>).
  \<^item> \<open>Webhooks\<close>: \<open>Default\<close>, \<open>ValidateCreate\<close>, \<open>ValidateUpdate\<close>, \<open>ValidateDelete\<close> of the three kinds. The
    locale \<open>storage_guard\<close> is what an admitted update may do to the storage.
  \<^item> \<open>Labels\<close>, \<open>Config_Maps\<close>, \<open>Workloads\<close>, \<open>Services\<close>: \<open>internal/resources\<close>, one definition per builder; the
    locales \<open>conf_builder\<close> and \<open>workload\<close> are the contracts of a rendered configuration and of a workload.
  \<^item> \<open>Redis_Client\<close>: \<open>client.go\<close>, its interface as a record, the implementation on go-redis, the parsers.
  \<^item> \<open>Cluster_Manager\<close>: \<open>cluster.go\<close>. \<open>Sentinel_Health\<close>: \<open>sentinel.go\<close> and \<open>health.go\<close> with their theorems.
  \<^item> \<open>Metrics_Recorder\<close>: \<open>metrics.go\<close> and \<open>recorder.go\<close>.
  \<^item> \<open>Controller_Base\<close>: what the reconcilers share, among it the mutate functions. \<open>CreateOrUpdate\<close> is library code:
    what it hands over, whether it writes, and with what success, are answers of \<open>Kube\<close> that \<open>createOrUpdate\<close> only
    puts in order. \<open>Redis_Controller\<close>, \<open>Sentinel_Controller\<close>, \<open>Cluster_Controller\<close>: the reconcilers, one definition
    per method, with the loop bodies of a long method named on their own.
  \<^item> \<open>Operator_Main\<close>, \<open>Operator_Setup\<close>: \<open>main.go\<close>, which reconciler is given which client, and the flags, the
    registration of the scheme (\<open>groupversion_info.go\<close>), the \<open>SetupWithManager\<close> functions, and \<open>init\<close> and \<open>main\<close>
    with each check and exit.
  \<^item> \<open>Go_Store\<close>, \<open>Deep_Copies\<close>: \<open>zz_generated.deepcopy.go\<close>. Elsewhere objects are values; here they are
    structs in a store of cells with pointers, maps and slices, so that sharing can be seen. The locale
    \<open>deep_copier\<close> is what a deep copy promises; it is proved of the few forms of code the generator
    writes and from them of every function.

  \<^bold>\<open>What is shown.\<close>
  \<^item> \<open>Cluster_Slots\<close>, \<open>Cluster_Migration\<close>, \<open>Cluster_Formation\<close>: the slot arithmetic partitions the 16384 slots; the
    commands of a slot migration on every path, that draining a slot ends and empties it, how much a donor
    gives away, into which nodes rebalancing moves slots and when into none; what a successful formation has done, that formation and
    waiting return, and when formation with replicas fails.
  \<^item> \<open>Redis_Client\<close>: the parser of \<open>CLUSTER NODES\<close> inverts the printing of a node table.
  \<^item> \<open>Webhooks\<close>: chains of admitted updates never change the storage other than growing it, and
    remove masters one at a time; where the limit on the number of nodes wraps.
  \<^item> \<open>Resources_Correct\<close>, \<open>Workload_Validity\<close>: the rendered configuration with the Sentinel quorum, selectors,
    volumes, consistent workloads, and for which names of a resource the derived names and labels follow the rules Kubernetes
    documents for them.
  \<^item> \<open>Controller_Objects\<close> is the abstract specification of what a run writes: the desired objects in order, which
    fields of an object the operator decides on every write and which only when it is created. Its locale \<open>reconciled_object\<close> is
    the contract of a mutate function, interpreted for all seven; \<open>Controllers_Correct\<close> shows that the three reconcilers
    refine the specification. \<open>Trace_Extension\<close> shows that everything else a run does only adds
    harmless events. \<open>Claim_Deletion\<close>: the three deletion handlers as one procedure, the requests for claims they make, and
    whose claims these find. \<open>Run_Safety\<close>: whole runs of the three reconcilers, the guards of their effects, and their metrics.
  \<^item> \<open>Lifecycle_Correct\<close>, \<open>Rollout_Correct\<close>, \<open>Role_Labels\<close>, \<open>Operator_Main\<close>: reconciler and manager together: the
    addresses are those of the pods, the lifecycle step returns, scaling in, hot reload, rolling failover, the
    phase of a healthy cluster, the role labels and the services that select by them, and what of this the
    wiring of \<open>main\<close> leaves.
  \<^item> \<open>Convergence\<close>: a second run changes no object, up to the defaults the API server fills in.
  \<^item> \<open>Cluster_System\<close>: webhook and reconciler together, as a step relation on the stored cluster resource with
    an invariant of the reachable states, and that a deletion the webhook let through can be finished.
  \<^item> \<open>Operator_Setup\<close>, \<open>Watched_Objects\<close>: nothing is served before everything is registered; the objects
    written are owned, watched and known to the scheme; the cluster role allows every request.

  \<^bold>\<open>Assumptions.\<close> Theorems about returning assume a clock that advances while the program sleeps
  (\<open>fair_clock\<close>) and, where slots are migrated, servers on which a key that was moved has left the
  slot (\<open>drains\<close>, \<open>keysMove\<close>). Maps the API server decodes have distinct keys (\<open>is_gomap\<close>). What a run writes is stated
  of a library that hands over the object of the key asked for and leaves one alone only if it has not changed
  (\<open>createsOrUpdates\<close>), and sets owner references and nothing else, alike each time (\<open>ownsOnly\<close>); convergence assumes
  besides that nobody else changes the parts of an object the operator manages, defaulting aside (\<open>keepsManaged\<close>). That the
  role labels are right after a run, where that is claimed, assumes that its patches are accepted
  (\<open>patchesSucceed\<close>). The life of a
  cluster assumes that the helpers for finalizers touch finalizers only (\<open>finalizersOnly\<close>); the deep copies
  assume those of Kubernetes' own types to be deep (\<open>libraryCopies\<close>). Each theorem with a hypothesis is followed by a
  witness, a concrete input on which the hypotheses hold.

  \<^bold>\<open>Not modelled.\<close> go-redis, controller-runtime (cache, work queue, the merge of a \<open>Patch\<close>), the API server, the
  certificate files of a TLS configuration and \<open>resource.ParseQuantity\<close> are parameters. Of \<open>main.go\<close> the logger is
  left out, and the reading of the command line by package \<open>flag\<close>; of \<open>metrics.go\<close> help texts and buckets. Of the
  manifests under \<open>config\<close> only the cluster role is modelled. Logging is not an event. The
  cancellation of a context is seen where the source looks for it (the waiting loops); that an API call fails
  because of it is one of the errors the API may answer.
\<close>

end
